(* ===== verification/Json.thy ===== *)
theory Json
  imports Mantis_Prelude
begin

text \<open>
  The JSON values the UI exchanges with the control plane, \<open>JSON.stringify\<close>, \<open>JSON.parse\<close> and
  \<open>String(v)\<close>. Parsing is two deterministic automata, a lexer over characters and a stack
  machine over tokens, so that both are total without fuel. A number keeps its literal text; an
  object keeps its members in order, and a lookup finds the last member of that name, as
  \<open>JSON.parse\<close> does. The main fact is that parsing inverts printing.
\<close>

section \<open>Values\<close>

datatype json =
    JNull
  | JBool bool
  | JNum string
  | JStr string
  | JArr "json list"
  | JObj "(string \<times> json) list"

definition jget :: "string \<Rightarrow> (string \<times> json) list \<Rightarrow> json option" where
  "jget k kvs = map_of (rev kvs) k"

fun run :: "('s \<Rightarrow> 'a \<Rightarrow> 's option) \<Rightarrow> 's \<Rightarrow> 'a list \<Rightarrow> 's option" where
  "run f s [] = Some s"
| "run f s (a # as) = (case f s a of None \<Rightarrow> None | Some s' \<Rightarrow> run f s' as)"

section \<open>Numbers\<close>

text \<open>The number grammar: \<open>-?(0|[1-9][0-9]*)(\.[0-9]+)?([eE][+-]?[0-9]+)?\<close>.\<close>

datatype numst = NStart | NMinus | NZero | NInt | NDot | NFrac | NE | NESign | NExp

fun num_step :: "numst \<Rightarrow> char \<Rightarrow> numst option" where
  "num_step NStart c = (if c = CHR ''-'' then Some NMinus else if c = CHR ''0'' then Some NZero
     else if is_digit c then Some NInt else None)"
| "num_step NMinus c = (if c = CHR ''0'' then Some NZero else if is_digit c then Some NInt else None)"
| "num_step NZero c = (if c = CHR ''.'' then Some NDot else if c \<in> {CHR ''e'', CHR ''E''} then Some NE
     else None)"
| "num_step NInt c = (if is_digit c then Some NInt else if c = CHR ''.'' then Some NDot
     else if c \<in> {CHR ''e'', CHR ''E''} then Some NE else None)"
| "num_step NDot c = (if is_digit c then Some NFrac else None)"
| "num_step NFrac c = (if is_digit c then Some NFrac
     else if c \<in> {CHR ''e'', CHR ''E''} then Some NE else None)"
| "num_step NE c = (if is_digit c then Some NExp
     else if c \<in> {CHR ''+'', CHR ''-''} then Some NESign else None)"
| "num_step NESign c = (if is_digit c then Some NExp else None)"
| "num_step NExp c = (if is_digit c then Some NExp else None)"

definition num_ok :: "string \<Rightarrow> bool" where
  "num_ok s = (case run num_step NStart s of
     Some n \<Rightarrow> n \<in> {NZero, NInt, NFrac, NExp} | None \<Rightarrow> False)"

definition num_char :: "char \<Rightarrow> bool" where
  "num_char c \<longleftrightarrow> is_digit c \<or> c \<in> {CHR ''-'', CHR ''+'', CHR ''.'', CHR ''e'', CHR ''E''}"

text \<open>
  \<open>String(n)\<close> of the number a literal denotes: the significant digits and the position of the
  decimal point, printed by the rules of \<open>Number::toString\<close>. Exact for literals of at most 15
  significant digits, which a double represents without changing them.
\<close>

definition drop_zeros_end :: "string \<Rightarrow> string" where
  "drop_zeros_end s = rev (dropWhile (\<lambda>c. c = CHR ''0'') (rev s))"

definition signed_val :: "string \<Rightarrow> int" where
  "signed_val s = (case s of
     [] \<Rightarrow> 0
   | c # t \<Rightarrow> if c = CHR ''-'' then - int (digits_val t)
             else if c = CHR ''+'' then int (digits_val t) else int (digits_val s))"

definition num_digits :: "string \<Rightarrow> string \<times> int" where
  "num_digits s =
    (let mant = takeWhile (\<lambda>c. c \<notin> {CHR ''e'', CHR ''E''}) s;
         ex = signed_val (drop (length mant + 1) s);
         ip = takeWhile (\<lambda>c. c \<noteq> CHR ''.'') mant;
         fp = drop (length ip + 1) mant;
         ds = ip @ fp;
         zs = length (takeWhile (\<lambda>c. c = CHR ''0'') ds)
     in (drop_zeros_end (drop zs ds), int (length ip) - int zs + ex))"

definition print_num :: "string \<Rightarrow> int \<Rightarrow> string" where
  "print_num ds n =
    (let k = int (length ds) in
     if ds = [] then ''0''
     else if k \<le> n \<and> n \<le> 21 then ds @ replicate (nat (n - k)) CHR ''0''
     else if 0 < n \<and> n \<le> 21 then take (nat n) ds @ ''.'' @ drop (nat n) ds
     else if -6 < n \<and> n \<le> 0 then ''0.'' @ replicate (nat (- n)) CHR ''0'' @ ds
     else (let e = (if n - 1 < 0 then ''-'' else ''+'') @ nat_str (nat \<bar>n - 1\<bar>)
           in take 1 ds @ (if k = 1 then [] else ''.'' @ drop 1 ds) @ ''e'' @ e))"

definition num_String :: "string \<Rightarrow> string" where
  "num_String s =
    (let neg = (s \<noteq> [] \<and> hd s = CHR ''-'');
         (ds, n) = num_digits (if neg then tl s else s)
     in (if neg \<and> ds \<noteq> [] then ''-'' else []) @ print_num ds n)"

fun js_String :: "json \<Rightarrow> string" where
  "js_String JNull = ''null''"
| "js_String (JBool b) = (if b then ''true'' else ''false'')"
| "js_String (JNum t) = num_String t"
| "js_String (JStr s) = s"
| "js_String (JArr vs) = js_join '','' (map (\<lambda>v. if v = JNull then [] else js_String v) vs)"
| "js_String (JObj kvs) = ''[object Object]''"

section \<open>Printing\<close>

definition hex_char :: "nat \<Rightarrow> char" where
  "hex_char d = (if d < 10 then char_of (48 + d) else char_of (87 + d))"

definition quote_char :: char where "quote_char = CHR 0x22"
definition bslash :: char where "bslash = CHR 0x5C"

definition escape_char :: "char \<Rightarrow> string" where
  "escape_char c =
    (if c = quote_char then [bslash, quote_char]
     else if c = bslash then [bslash, bslash]
     else if code c = 8 then [bslash, CHR ''b'']
     else if code c = 12 then [bslash, CHR ''f'']
     else if code c = 10 then [bslash, CHR ''n'']
     else if code c = 13 then [bslash, CHR ''r'']
     else if code c = 9 then [bslash, CHR ''t'']
     else if code c < 32 then [bslash, CHR ''u'', CHR ''0'', CHR ''0'',
                               hex_char (code c div 16), hex_char (code c mod 16)]
     else [c])"

definition quote_str :: "string \<Rightarrow> string" where
  "quote_str s = quote_char # concat (map escape_char s) @ [quote_char]"

fun stringify :: "json \<Rightarrow> string" where
  "stringify JNull = ''null''"
| "stringify (JBool b) = (if b then ''true'' else ''false'')"
| "stringify (JNum t) = t"
| "stringify (JStr s) = quote_str s"
| "stringify (JArr vs) = ''['' @ js_join '','' (map stringify vs) @ '']''"
| "stringify (JObj kvs) =
     ''{'' @ js_join '','' (map (\<lambda>(k, v). quote_str k @ '':'' @ stringify v) kvs) @ ''}''"

section \<open>Lexing\<close>

datatype jtok = TLB | TRB | TLC | TRC | TComma | TColon
  | TStr string | TNum string | TWord string

datatype lmode = Idle | InStr string | InEsc string | InHex string nat nat
  | InNum string | InWord string

definition json_space :: "char \<Rightarrow> bool" where
  "json_space c \<longleftrightarrow> code c \<in> {32, 9, 10, 13}"

definition hex_val :: "char \<Rightarrow> nat option" where
  "hex_val c = (if is_digit c then Some (code c - 48)
     else if 97 \<le> code c \<and> code c \<le> 102 then Some (code c - 87)
     else if 65 \<le> code c \<and> code c \<le> 70 then Some (code c - 55) else None)"

text \<open>Appending one UTF-16 unit to a UTF-8 string: a low surrogate completes the pair.\<close>

definition utf8_unit :: "nat \<Rightarrow> string" where
  "utf8_unit u =
    (if u < 128 then [char_of u]
     else if u < 2048 then [char_of (192 + u div 64), char_of (128 + u mod 64)]
     else [char_of (224 + u div 4096), char_of (128 + u div 64 mod 64), char_of (128 + u mod 64)])"

definition utf8_pair :: "nat \<Rightarrow> nat \<Rightarrow> string" where
  "utf8_pair hi lo =
    (let p = 65536 + (hi - 55296) * 1024 + (lo - 56320)
     in [char_of (240 + p div 262144), char_of (128 + p div 4096 mod 64),
         char_of (128 + p div 64 mod 64), char_of (128 + p mod 64)])"

definition push_unit :: "string \<Rightarrow> nat \<Rightarrow> string" where
  "push_unit acc u =
    (let tl3 = map code (drop (length acc - 3) acc) in
     if 56320 \<le> u \<and> u < 57344 \<and> length acc \<ge> 3
        \<and> tl3 ! 0 = 237 \<and> 160 \<le> tl3 ! 1 \<and> tl3 ! 1 < 176
     then take (length acc - 3) acc
            @ utf8_pair ((tl3 ! 0 - 224) * 4096 + (tl3 ! 1 - 128) * 64 + (tl3 ! 2 - 128)) u
     else acc @ utf8_unit u)"

definition unescape :: "char \<Rightarrow> char option" where
  "unescape c =
    (if c = quote_char \<or> c = bslash \<or> c = CHR ''/'' then Some c
     else if c = CHR ''b'' then Some (char_of (8 :: nat))
     else if c = CHR ''f'' then Some (char_of (12 :: nat))
     else if c = CHR ''n'' then Some (char_of (10 :: nat))
     else if c = CHR ''r'' then Some (char_of (13 :: nat))
     else if c = CHR ''t'' then Some (char_of (9 :: nat))
     else None)"

definition idle_step :: "jtok list \<Rightarrow> char \<Rightarrow> (lmode \<times> jtok list) option" where
  "idle_step out c =
    (if json_space c then Some (Idle, out)
     else if c = CHR ''['' then Some (Idle, out @ [TLB])
     else if c = CHR '']'' then Some (Idle, out @ [TRB])
     else if c = CHR ''{'' then Some (Idle, out @ [TLC])
     else if c = CHR ''}'' then Some (Idle, out @ [TRC])
     else if c = CHR '','' then Some (Idle, out @ [TComma])
     else if c = CHR '':'' then Some (Idle, out @ [TColon])
     else if c = quote_char then Some (InStr [], out)
     else if c = CHR ''-'' \<or> is_digit c then Some (InNum [c], out)
     else if is_lower c then Some (InWord [c], out)
     else None)"

fun lex_step :: "lmode \<times> jtok list \<Rightarrow> char \<Rightarrow> (lmode \<times> jtok list) option" where
  "lex_step (Idle, out) c = idle_step out c"
| "lex_step (InStr acc, out) c =
     (if c = quote_char then Some (Idle, out @ [TStr acc])
      else if c = bslash then Some (InEsc acc, out)
      else if code c < 32 then None
      else Some (InStr (acc @ [c]), out))"
| "lex_step (InEsc acc, out) c =
     (if c = CHR ''u'' then Some (InHex acc 0 0, out)
      else map_option (\<lambda>d. (InStr (acc @ [d]), out)) (unescape c))"
| "lex_step (InHex acc n u, out) c =
     (case hex_val c of
        None \<Rightarrow> None
      | Some d \<Rightarrow> if n < 3 then Some (InHex acc (n + 1) (16 * u + d), out)
                 else Some (InStr (push_unit acc (16 * u + d)), out))"
| "lex_step (InNum acc, out) c =
     (if num_char c then Some (InNum (acc @ [c]), out)
      else if num_ok acc then idle_step (out @ [TNum acc]) c else None)"
| "lex_step (InWord acc, out) c =
     (if is_lower c then Some (InWord (acc @ [c]), out)
      else idle_step (out @ [TWord acc]) c)"

fun lex_finish :: "lmode \<times> jtok list \<Rightarrow> jtok list option" where
  "lex_finish (Idle, out) = Some out"
| "lex_finish (InNum acc, out) = (if num_ok acc then Some (out @ [TNum acc]) else None)"
| "lex_finish (InWord acc, out) = Some (out @ [TWord acc])"
| "lex_finish (_, out) = None"

definition lex_from :: "lmode \<times> jtok list \<Rightarrow> string \<Rightarrow> jtok list option" where
  "lex_from st s = Option.bind (run lex_step st s) lex_finish"

section \<open>Parsing\<close>

datatype jframe = FArr "json list" | FObj "(string \<times> json) list" string

datatype jmode = MVal | MArr0 | MObj0 | MKey "(string \<times> json) list"
  | MColon "(string \<times> json) list" string | MDone json

definition val_start :: "jframe list \<Rightarrow> jtok \<Rightarrow> (jmode \<times> jframe list) option" where
  "val_start st t = (case t of
     TStr s \<Rightarrow> Some (MDone (JStr s), st)
   | TNum n \<Rightarrow> Some (MDone (JNum n), st)
   | TWord w \<Rightarrow> (if w = ''null'' then Some (MDone JNull, st)
                else if w = ''true'' then Some (MDone (JBool True), st)
                else if w = ''false'' then Some (MDone (JBool False), st) else None)
   | TLB \<Rightarrow> Some (MArr0, st)
   | TLC \<Rightarrow> Some (MObj0, st)
   | _ \<Rightarrow> None)"

fun done_step :: "json \<Rightarrow> jframe list \<Rightarrow> jtok \<Rightarrow> (jmode \<times> jframe list) option" where
  "done_step v [] t = None"
| "done_step v (FArr vs # st) t =
     (if t = TComma then Some (MVal, FArr (vs @ [v]) # st)
      else if t = TRB then Some (MDone (JArr (vs @ [v])), st) else None)"
| "done_step v (FObj kvs k # st) t =
     (if t = TComma then Some (MKey (kvs @ [(k, v)]), st)
      else if t = TRC then Some (MDone (JObj (kvs @ [(k, v)])), st) else None)"

fun parse_step :: "jmode \<times> jframe list \<Rightarrow> jtok \<Rightarrow> (jmode \<times> jframe list) option" where
  "parse_step (MVal, st) t = val_start st t"
| "parse_step (MArr0, st) t =
     (if t = TRB then Some (MDone (JArr []), st) else val_start (FArr [] # st) t)"
| "parse_step (MObj0, st) t =
     (case t of TRC \<Rightarrow> Some (MDone (JObj []), st) | TStr k \<Rightarrow> Some (MColon [] k, st) | _ \<Rightarrow> None)"
| "parse_step (MKey kvs, st) t = (case t of TStr k \<Rightarrow> Some (MColon kvs k, st) | _ \<Rightarrow> None)"
| "parse_step (MColon kvs k, st) t = (if t = TColon then Some (MVal, FObj kvs k # st) else None)"
| "parse_step (MDone v, st) t = done_step v st t"

definition parse_toks :: "jtok list \<Rightarrow> json option" where
  "parse_toks ts = (case run parse_step (MVal, []) ts of
     Some (MDone v, []) \<Rightarrow> Some v | _ \<Rightarrow> None)"

text \<open>\<open>JSON.parse\<close>: \<^const>\<open>None\<close> where the source gets a \<open>SyntaxError\<close>.\<close>

definition json_parse :: "string \<Rightarrow> json option" where
  "json_parse s = Option.bind (lex_from (Idle, []) s) parse_toks"

section \<open>Parsing inverts printing\<close>

fun sep_concat :: "'a \<Rightarrow> 'a list list \<Rightarrow> 'a list" where
  "sep_concat d [] = []"
| "sep_concat d [x] = x"
| "sep_concat d (x # y # ys) = x @ d # sep_concat d (y # ys)"

fun toks :: "json \<Rightarrow> jtok list" where
  "toks JNull = [TWord ''null'']"
| "toks (JBool b) = [TWord (if b then ''true'' else ''false'')]"
| "toks (JNum t) = [TNum t]"
| "toks (JStr s) = [TStr s]"
| "toks (JArr vs) = TLB # sep_concat TComma (map toks vs) @ [TRB]"
| "toks (JObj kvs) =
     TLC # sep_concat TComma (map (\<lambda>(k, v). TStr k # TColon # toks v) kvs) @ [TRC]"

text \<open>Every number literal in the value is one.\<close>

fun json_ok :: "json \<Rightarrow> bool" where
  "json_ok (JNum t) = num_ok t"
| "json_ok (JArr vs) = list_all json_ok vs"
| "json_ok (JObj kvs) = list_all (\<lambda>(k, v). json_ok v) kvs"
| "json_ok _ = True"

lemma run_append: "run f s (xs @ ys) = Option.bind (run f s xs) (\<lambda>s'. run f s' ys)"
  by (induction xs arbitrary: s) (auto split: option.splits)

subsection \<open>The stack machine\<close>

lemma val_start_toks:
  "\<exists>t ts. toks v = t # ts \<and> t \<noteq> TRB"
  by (cases v) auto

lemma run_parse_arr0:
  assumes "ts \<noteq> []" and "hd ts \<noteq> TRB"
  shows "run parse_step (MArr0, st) ts = run parse_step (MVal, FArr [] # st) ts"
  using assms by (cases ts) auto

definition parses :: "json \<Rightarrow> bool" where
  "parses v \<longleftrightarrow>
     (\<forall>st ts. run parse_step (MVal, st) (toks v @ ts) = run parse_step (MDone v, st) ts)"

lemma run_parse_list:
  assumes "vs \<noteq> []" and "\<forall>v \<in> set vs. parses v"
  shows "run parse_step (MVal, FArr us # st) (sep_concat TComma (map toks vs) @ TRB # ts)
       = run parse_step (MDone (JArr (us @ vs)), st) ts"
  using assms
proof (induction vs arbitrary: us rule: list_nonempty_induct)
  case (cons v vs)
  then show ?case by (cases vs) (simp_all add: parses_def)
qed (simp add: parses_def)

lemma run_parse_members:
  assumes "kvs \<noteq> []" and "\<forall>m \<in> set kvs. parses (snd m)"
  shows "run parse_step (MKey us, st)
           (sep_concat TComma (map (\<lambda>(k, v). TStr k # TColon # toks v) kvs) @ TRC # ts)
       = run parse_step (MDone (JObj (us @ kvs)), st) ts"
  using assms
proof (induction kvs arbitrary: us rule: list_nonempty_induct)
  case (single m)
  then show ?case by (cases m) (simp add: parses_def)
next
  case (cons m kvs)
  then show ?case by (cases m; cases kvs) (simp_all add: parses_def)
qed

lemma sep_concat_head:
  assumes "vs \<noteq> []"
  shows "\<exists>t ts. sep_concat TComma (map toks vs) = t # ts \<and> t \<noteq> TRB"
proof -
  obtain v us where vs: "vs = v # us" using assms by (cases vs) auto
  obtain t ts where "toks v = t # ts" "t \<noteq> TRB" using val_start_toks by blast
  with vs show ?thesis by (cases us) auto
qed

lemma parses_all: "parses v"
proof (induction v)
  case (JArr vs)
  have "run parse_step (MVal, st) (toks (JArr vs) @ ts) = run parse_step (MDone (JArr vs), st) ts"
    for st ts
  proof (cases "vs = []")
    case False
    then obtain t us where t: "sep_concat TComma (map toks vs) = t # us" "t \<noteq> TRB"
      using sep_concat_head by blast
    have "run parse_step (MVal, st) (toks (JArr vs) @ ts)
        = run parse_step (MArr0, st) (sep_concat TComma (map toks vs) @ TRB # ts)"
      by (simp add: val_start_def)
    also have "\<dots> = run parse_step (MVal, FArr [] # st) (sep_concat TComma (map toks vs) @ TRB # ts)"
      using t by (intro run_parse_arr0) auto
    also have "\<dots> = run parse_step (MDone (JArr vs), st) ts"
      using run_parse_list [of vs "[]" st ts] JArr False by simp
    finally show ?thesis .
  qed (simp add: val_start_def)
  then show ?case by (simp add: parses_def)
next
  case (JObj kvs)
  then have ih: "\<forall>m \<in> set kvs. parses (snd m)" by (force simp: snds.simps)
  have "run parse_step (MVal, st) (toks (JObj kvs) @ ts) = run parse_step (MDone (JObj kvs), st) ts"
    for st ts
  proof (cases kvs)
    case (Cons m ms)
    have "run parse_step (MObj0, st)
            (sep_concat TComma (map (\<lambda>(k, v). TStr k # TColon # toks v) kvs) @ TRC # ts)
        = run parse_step (MKey [], st)
            (sep_concat TComma (map (\<lambda>(k, v). TStr k # TColon # toks v) kvs) @ TRC # ts)"
      using Cons by (cases m; cases ms) simp_all
    also have "\<dots> = run parse_step (MDone (JObj kvs), st) ts"
      using run_parse_members [of kvs "[]" st ts] ih Cons by simp
    finally show ?thesis by (simp add: val_start_def)
  qed (simp add: val_start_def)
  then show ?case by (simp add: parses_def)
qed (simp_all add: parses_def val_start_def)

lemma parse_toks_toks [simp]: "parse_toks (toks v) = Some v"
  using parses_all [of v, unfolded parses_def, rule_format, of "[]" "[]"]
  by (simp add: parse_toks_def)

subsection \<open>The lexer\<close>

lemma lex_from_Nil: "lex_from st [] = lex_finish st"
  by (simp add: lex_from_def)

lemma lex_from_Cons:
  "lex_from st (c # s) = (case lex_step st c of None \<Rightarrow> None | Some st' \<Rightarrow> lex_from st' s)"
  by (simp add: lex_from_def split: option.split)

lemma char_neqI: "code c \<noteq> code d \<Longrightarrow> c \<noteq> d"
  by auto

lemma code_quote [simp]: "code quote_char = 34" and code_bslash [simp]: "code bslash = 92"
  by (simp_all add: quote_char_def bslash_def code_def)

lemma hex_val_hex_char: "d < 16 \<Longrightarrow> hex_val (hex_char d) = Some d"
  by (auto simp: hex_val_def hex_char_def is_digit_def)

lemma push_unit_small: "u < 128 \<Longrightarrow> push_unit acc u = acc @ [char_of u]"
  by (simp add: push_unit_def utf8_unit_def)

lemma quote_neq_bslash [simp]: "quote_char \<noteq> bslash" "bslash \<noteq> quote_char"
  by (simp_all add: quote_char_def bslash_def)

lemma lex_control:
  assumes "code c < 32"
  shows "lex_from (InStr acc, out) ([bslash, CHR ''u'', CHR ''0'', CHR ''0'',
           hex_char (code c div 16), hex_char (code c mod 16)] @ s)
       = lex_from (InStr (acc @ [c]), out) s"
proof -
  have "hex_val (CHR ''0'') = Some 0" by (simp add: hex_val_def is_digit_def code_def)
  moreover have "char_of (code c div 16 * 16 + code c mod 16) = c"
    by (simp only: div_mult_mod_eq) (simp add: code_def)
  moreover have "code c div 16 < 16" "code c mod 16 < 16" using assms by auto
  ultimately show ?thesis
    using assms by (simp add: lex_from_Cons hex_val_hex_char push_unit_small mult.commute)
qed

lemma lex_simple_escape:
  assumes "unescape e = Some c" and "e \<noteq> CHR ''u''"
  shows "lex_from (InStr acc, out) (bslash # e # s) = lex_from (InStr (acc @ [c]), out) s"
  using assms by (simp add: lex_from_Cons)

lemma unescape_simps:
  "unescape quote_char = Some quote_char" "unescape bslash = Some bslash"
  "code c = 8 \<Longrightarrow> unescape CHR ''b'' = Some c" "code c = 12 \<Longrightarrow> unescape CHR ''f'' = Some c"
  "code c = 10 \<Longrightarrow> unescape CHR ''n'' = Some c" "code c = 13 \<Longrightarrow> unescape CHR ''r'' = Some c"
  "code c = 9 \<Longrightarrow> unescape CHR ''t'' = Some c"
  by (auto simp: unescape_def quote_char_def bslash_def dest: code_eqD)

lemma quote_u: "quote_char \<noteq> CHR ''u''" "bslash \<noteq> CHR ''u''"
  by (simp_all add: quote_char_def bslash_def)

lemma escape_char_simple:
  "code c = 8 \<Longrightarrow> escape_char c = [bslash, CHR ''b'']" "code c = 12 \<Longrightarrow> escape_char c = [bslash, CHR ''f'']"
  "code c = 10 \<Longrightarrow> escape_char c = [bslash, CHR ''n'']" "code c = 13 \<Longrightarrow> escape_char c = [bslash, CHR ''r'']"
  "code c = 9 \<Longrightarrow> escape_char c = [bslash, CHR ''t'']"
  "escape_char quote_char = [bslash, quote_char]" "escape_char bslash = [bslash, bslash]"
  by (auto simp: escape_char_def)

lemma escape_char_cases:
  obtains (simple) e where "escape_char c = [bslash, e]" and "unescape e = Some c" and "e \<noteq> CHR ''u''"
  | (control) "escape_char c = [bslash, CHR ''u'', CHR ''0'', CHR ''0'',
                               hex_char (code c div 16), hex_char (code c mod 16)]" and "code c < 32"
  | (plain) "escape_char c = [c]" and "c \<noteq> quote_char" and "c \<noteq> bslash" and "\<not> code c < 32"
proof (cases "c = quote_char \<or> c = bslash \<or> code c \<in> {8, 12, 10, 13, 9}")
  case True
  then have "\<exists>e. escape_char c = [bslash, e] \<and> unescape e = Some c \<and> e \<noteq> CHR ''u''"
    by (elim disjE insertE emptyE)
      (simp_all add: escape_char_simple unescape_simps quote_u)
  then show ?thesis using simple by blast
next
  case False
  then show ?thesis using control plain by (cases "code c < 32") (simp_all add: escape_char_def)
qed

lemma lex_escape:
  "lex_from (InStr acc, out) (escape_char c @ s) = lex_from (InStr (acc @ [c]), out) s"
proof (cases c rule: escape_char_cases)
  case (simple e)
  then show ?thesis by (simp add: lex_simple_escape)
next
  case control
  then show ?thesis using lex_control by simp
next
  case plain
  then show ?thesis by (simp add: lex_from_Cons)
qed

lemma lex_str_body:
  "lex_from (InStr acc, out) (concat (map escape_char s) @ rest) = lex_from (InStr (acc @ s), out) rest"
proof (induction s arbitrary: acc)
  case (Cons c s)
  then show ?case using lex_escape [of acc out c "concat (map escape_char s) @ rest"] by simp
qed simp

lemma lex_quote_str:
  "lex_from (Idle, out) (quote_str s @ rest) = lex_from (Idle, out @ [TStr s]) rest"
proof -
  have "idle_step out quote_char = Some (InStr [], out)"
    by (simp add: idle_step_def json_space_def quote_char_def code_def)
  then show ?thesis
    using lex_str_body [of "[]" out s "quote_char # rest"]
    by (simp add: quote_str_def lex_from_Cons)
qed

lemma is_digit_0: "is_digit CHR ''0''"
  by (simp add: is_digit_def code_def)

lemma run_num_chars: "run num_step n t = Some m \<Longrightarrow> \<forall>c \<in> set t. num_char c"
proof (induction t arbitrary: n)
  case (Cons c t)
  then obtain n' where "num_step n c = Some n'" and "run num_step n' t = Some m"
    by (auto split: option.splits)
  then show ?case using Cons.IH is_digit_0
    by (cases n) (auto simp: num_char_def split: if_splits)
qed simp

lemma num_ok_chars: "num_ok t \<Longrightarrow> c \<in> set t \<Longrightarrow> num_char c"
  using run_num_chars by (auto simp: num_ok_def split: option.splits)

lemma num_ok_head:
  assumes "num_ok t"
  obtains c s where "t = c # s" and "c = CHR ''-'' \<or> is_digit c"
  using assms
  by (cases t) (auto simp: num_ok_def is_digit_def code_def split: option.splits if_splits)

lemma lex_num_tail:
  "\<forall>c \<in> set t. num_char c \<Longrightarrow> lex_from (InNum acc, out) (t @ rest) = lex_from (InNum (acc @ t), out) rest"
  by (induction t arbitrary: acc) (auto simp: lex_from_Cons)

text \<open>What follows a value inside a document ends a number or a word.\<close>

definition ends_value :: "string \<Rightarrow> bool" where
  "ends_value rest \<longleftrightarrow> rest = [] \<or> hd rest \<in> {CHR '','', CHR '']'', CHR ''}''}"

lemma ends_value_cases:
  assumes "ends_value rest"
  shows "rest = [] \<or> (\<exists>c s. rest = c # s \<and> \<not> num_char c \<and> \<not> is_lower c)"
  using assms
  by (cases rest) (auto simp: ends_value_def num_char_def is_digit_def is_lower_def code_def)

definition punct :: "char set" where
  "punct = {CHR ''['', CHR '']'', CHR ''{'', CHR ''}'', CHR '','', CHR '':'', CHR 0x22}"

lemma digit_not_punct: "is_digit c \<Longrightarrow> c \<notin> punct \<and> \<not> json_space c"
  by (auto simp: is_digit_def punct_def json_space_def code_def)

lemma lower_not_punct: "is_lower c \<Longrightarrow> c \<notin> punct \<and> \<not> json_space c \<and> \<not> is_digit c \<and> c \<noteq> CHR ''-''"
  by (auto simp: is_lower_def is_digit_def punct_def json_space_def code_def)

lemma idle_step_other:
  "c \<notin> punct \<Longrightarrow> \<not> json_space c \<Longrightarrow> idle_step out c =
     (if c = CHR ''-'' \<or> is_digit c then Some (InNum [c], out)
      else if is_lower c then Some (InWord [c], out) else None)"
  by (simp add: idle_step_def punct_def quote_char_def)

lemma lex_idle_num:
  assumes "c = CHR ''-'' \<or> is_digit c"
  shows "idle_step out c = Some (InNum [c], out)"
proof -
  have "c \<notin> punct \<and> \<not> json_space c"
    using assms digit_not_punct by (auto simp: punct_def json_space_def code_def)
  then show ?thesis using assms by (simp add: idle_step_other)
qed

lemma lex_num:
  assumes "num_ok t" and "ends_value rest"
  shows "lex_from (Idle, out) (t @ rest) = lex_from (Idle, out @ [TNum t]) rest"
proof -
  obtain c s where t: "t = c # s" "c = CHR ''-'' \<or> is_digit c"
    using assms(1) by (rule num_ok_head)
  have "\<forall>d \<in> set s. num_char d" using num_ok_chars assms(1) t(1) by auto
  then have "lex_from (Idle, out) (t @ rest) = lex_from (InNum t, out) rest"
    using t lex_idle_num [OF t(2)] lex_num_tail [of s "[c]"] by (simp add: lex_from_Cons)
  also have "\<dots> = lex_from (Idle, out @ [TNum t]) rest"
    using ends_value_cases [OF assms(2)] assms(1) by (auto simp: lex_from_Cons lex_from_Nil)
  finally show ?thesis .
qed

lemma lex_word_tail:
  "\<forall>c \<in> set t. is_lower c \<Longrightarrow> lex_from (InWord acc, out) (t @ rest) = lex_from (InWord (acc @ t), out) rest"
  by (induction t arbitrary: acc) (auto simp: lex_from_Cons)

lemma lex_idle_word: "is_lower c \<Longrightarrow> idle_step out c = Some (InWord [c], out)"
  using lower_not_punct by (simp add: idle_step_other)

lemma lex_word:
  assumes "w \<noteq> []" and "\<forall>c \<in> set w. is_lower c" and "ends_value rest"
  shows "lex_from (Idle, out) (w @ rest) = lex_from (Idle, out @ [TWord w]) rest"
proof -
  obtain c s where w: "w = c # s" using assms(1) by (cases w) auto
  then have "lex_from (Idle, out) (w @ rest) = lex_from (InWord w, out) rest"
    using lex_idle_word [of c out] lex_word_tail [of s "[c]"] assms(2) by (simp add: lex_from_Cons)
  also have "\<dots> = lex_from (Idle, out @ [TWord w]) rest"
    using ends_value_cases [OF assms(3)] by (auto simp: lex_from_Cons lex_from_Nil)
  finally show ?thesis .
qed

definition lexes :: "json \<Rightarrow> bool" where
  "lexes v \<longleftrightarrow> (\<forall>out rest. ends_value rest \<longrightarrow>
     lex_from (Idle, out) (stringify v @ rest) = lex_from (Idle, out @ toks v) rest)"

lemma idle_punct [simp]:
  "idle_step out (CHR ''['') = Some (Idle, out @ [TLB])"
  "idle_step out (CHR '']'') = Some (Idle, out @ [TRB])"
  "idle_step out (CHR ''{'') = Some (Idle, out @ [TLC])"
  "idle_step out (CHR ''}'') = Some (Idle, out @ [TRC])"
  "idle_step out (CHR '','') = Some (Idle, out @ [TComma])"
  "idle_step out (CHR '':'') = Some (Idle, out @ [TColon])"
  by (simp_all add: idle_step_def json_space_def code_def)

lemma ends_value_punct [simp]:
  "ends_value (CHR '','' # s)" "ends_value (CHR '']'' # s)" "ends_value (CHR ''}'' # s)"
  by (simp_all add: ends_value_def)

lemma lex_elements:
  assumes "\<forall>x \<in> set xs. \<forall>out rest. ends_value rest \<longrightarrow>
      lex_from (Idle, out) (pr x @ rest) = lex_from (Idle, out @ tk x) rest"
    and "ends_value rest"
  shows "lex_from (Idle, out) (js_join '','' (map pr xs) @ rest)
       = lex_from (Idle, out @ sep_concat TComma (map tk xs)) rest"
  using assms
proof (induction xs arbitrary: out)
  case (Cons x xs)
  then show ?case by (cases xs) (simp_all add: lex_from_Cons)
qed simp

lemma lexes_all: "json_ok v \<Longrightarrow> lexes v"
proof (induction v)
  case JNull
  then show ?case using lex_word [of "''null''"]
    by (auto simp: lexes_def is_lower_def code_def)
next
  case (JBool b)
  then show ?case using lex_word [of "''true''"] lex_word [of "''false''"]
    by (auto simp: lexes_def is_lower_def code_def)
next
  case (JNum t)
  then show ?case by (auto simp: lexes_def lex_num)
next
  case (JStr s)
  then show ?case by (simp add: lexes_def lex_quote_str)
next
  case (JArr vs)
  then have "\<forall>v \<in> set vs. \<forall>out rest. ends_value rest \<longrightarrow>
      lex_from (Idle, out) (stringify v @ rest) = lex_from (Idle, out @ toks v) rest"
    by (auto simp: lexes_def list_all_iff)
  from lex_elements [OF this] show ?case
    by (simp add: lexes_def lex_from_Cons)
next
  case (JObj kvs)
  then have ok: "\<forall>m \<in> set kvs. lexes (snd m)"
    by (force simp: list_all_iff snds.simps)
  have "\<forall>m \<in> set kvs. \<forall>out rest. ends_value rest \<longrightarrow>
      lex_from (Idle, out) ((\<lambda>(k, v). quote_str k @ '':'' @ stringify v) m @ rest)
    = lex_from (Idle, out @ (\<lambda>(k, v). TStr k # TColon # toks v) m) rest"
    using ok by (auto simp: lexes_def lex_quote_str lex_from_Cons)
  from lex_elements [OF this] show ?case
    by (simp add: lexes_def lex_from_Cons)
qed

lemma json_parse_stringify: "json_ok v \<Longrightarrow> json_parse (stringify v) = Some v"
  using lexes_all [of v, unfolded lexes_def, rule_format, of "[]" "[]"]
  by (simp add: json_parse_def ends_value_def lex_from_Nil)

lemma num_ok_nat_str [simp]: "num_ok (nat_str n)"
proof (cases "n = 0")
  case False
  then obtain c s where n: "nat_str n = c # s" "is_digit c" "c \<noteq> CHR ''0''"
    using nat_str_head by blast
  have int: "\<forall>c \<in> set s. is_digit c \<Longrightarrow> run num_step NInt s = Some NInt" for s
    by (induction s) auto
  have "\<forall>c \<in> set s. is_digit c" using nat_str_digits [of n] n by simp
  moreover have "c \<noteq> CHR ''-''" using n(2) by (auto simp: is_digit_def code_def)
  ultimately show ?thesis using n int by (simp add: num_ok_def)
qed (simp add: num_ok_def)

section \<open>Parsed documents\<close>

text \<open>A parsed document only has number literals that are numbers.\<close>

lemma run_invariant:
  assumes "run f s xs = Some s'" and "I s" and "\<And>s x s'. I s \<Longrightarrow> f s x = Some s' \<Longrightarrow> I s'"
  shows "I s'"
  using assms(1,2) by (induction xs arbitrary: s) (auto split: option.splits dest: assms(3))

fun tok_ok :: "jtok \<Rightarrow> bool" where
  "tok_ok (TNum t) = num_ok t"
| "tok_ok _ = True"

lemma idle_step_ok: "list_all tok_ok out \<Longrightarrow> idle_step out c = Some (m, out') \<Longrightarrow> list_all tok_ok out'"
  by (auto simp: idle_step_def split: if_splits)

lemma lex_step_ok:
  assumes "list_all tok_ok (snd st)" and "lex_step st c = Some st'"
  shows "list_all tok_ok (snd st')"
  using assms by (cases "(st, c)" rule: lex_step.cases; cases st') (auto dest: idle_step_ok [rotated] split: if_splits option.splits)

lemma lex_ok: "lex_from (Idle, []) s = Some ts \<Longrightarrow> list_all tok_ok ts"
proof -
  assume "lex_from (Idle, []) s = Some ts"
  then obtain st where st: "run lex_step (Idle, []) s = Some st" "lex_finish st = Some ts"
    by (auto simp: lex_from_def bind_eq_Some_conv)
  have "list_all tok_ok (snd st)"
    using run_invariant [OF st(1), of "\<lambda>st. list_all tok_ok (snd st)"] lex_step_ok by simp
  with st(2) show ?thesis by (cases st rule: lex_finish.cases) (auto split: if_splits)
qed

fun frame_ok :: "jframe \<Rightarrow> bool" where
  "frame_ok (FArr vs) = list_all json_ok vs"
| "frame_ok (FObj kvs k) = list_all (\<lambda>(k, v). json_ok v) kvs"

fun mode_ok :: "jmode \<Rightarrow> bool" where
  "mode_ok (MKey kvs) = list_all (\<lambda>(k, v). json_ok v) kvs"
| "mode_ok (MColon kvs k) = list_all (\<lambda>(k, v). json_ok v) kvs"
| "mode_ok (MDone v) = json_ok v"
| "mode_ok _ = True"

lemma val_start_ok: "tok_ok t \<Longrightarrow> list_all frame_ok st \<Longrightarrow> val_start st t = Some (m, st') \<Longrightarrow> mode_ok m \<and> list_all frame_ok st'"
  by (auto simp: val_start_def split: jtok.splits if_splits)

lemma parse_step_ok:
  assumes "mode_ok m" and "list_all frame_ok st" and "tok_ok t" and "parse_step (m, st) t = Some (m', st')"
  shows "mode_ok m' \<and> list_all frame_ok st'"
proof (cases m)
  case (MDone v)
  with assms show ?thesis by (cases "(v, st, t)" rule: done_step.cases) (auto split: if_splits)
qed (use assms in \<open>auto dest!: val_start_ok [rotated 2] split: if_splits jtok.splits\<close>)

lemma run_parse_ok:
  "run parse_step (m, st) ts = Some (m', st') \<Longrightarrow> mode_ok m \<Longrightarrow> list_all frame_ok st \<Longrightarrow> list_all tok_ok ts
   \<Longrightarrow> mode_ok m' \<and> list_all frame_ok st'"
proof (induction ts arbitrary: m st)
  case (Cons t ts)
  then obtain m1 st1 where 1: "parse_step (m, st) t = Some (m1, st1)" and 2: "run parse_step (m1, st1) ts = Some (m', st')"
    by (auto split: option.splits)
  with parse_step_ok [OF Cons.prems(2,3) _ 1] Cons.prems(4) Cons.IH [OF 2] show ?case by simp
qed simp

lemma json_parse_ok:
  assumes "json_parse s = Some v" shows "json_ok v"
proof -
  obtain ts where "lex_from (Idle, []) s = Some ts" "parse_toks ts = Some v"
    using assms by (auto simp: json_parse_def bind_eq_Some_conv)
  moreover from this(2) have "run parse_step (MVal, []) ts = Some (MDone v, [])"
    by (auto simp: parse_toks_def split: option.splits prod.splits jmode.splits list.splits)
  ultimately show ?thesis using run_parse_ok [of MVal "[]" ts "MDone v" "[]"] lex_ok by simp
qed

end
