(* ===== verification/ApiErrors.thy ===== *)
theory ApiErrors
  imports Json
begin

text \<open>
  \<open>apps/ui/src/api/errors.ts\<close>: how a thrown API error becomes the message shown to the user.
  A thrown value is an \<open>Error\<close> with its message or any other value with its \<open>String\<close> text.
  Bodies whose objects redefine \<open>toString\<close> are outside the model of \<open>String(v)\<close>.
\<close>

datatype thrown = ErrorObj string | OtherVal string

fun raw_message :: "thrown \<Rightarrow> string" where
  "raw_message (ErrorObj m) = m"
| "raw_message (OtherVal s) = s"

definition STATUS_PREFIX :: "nat \<Rightarrow> string option" where
  "STATUS_PREFIX n =
    (if n = 400 then Some ''Invalid request''
     else if n = 401 then Some ''Session expired''
     else if n = 403 then Some (''You don'' @ [CHR 0x27] @ ''t have permission to do this'')
     else if n = 404 then Some ''Not found''
     else if n = 409 then Some ''Already exists or conflicts with existing data''
     else if n = 422 then Some ''Invalid input''
     else if n = 429 then Some (''Too many requests '' @ em_dash @ '' try again shortly'')
     else if n = 500 then Some ''Server error''
     else if n = 502 then Some ''Server error''
     else if n = 503 then Some ''Service unavailable''
     else None)"

definition status_prefix :: "nat \<Rightarrow> string" where
  "status_prefix n = nullish (STATUS_PREFIX n) (''Error '' @ nat_str n)"

definition detail_of :: "json \<Rightarrow> json" where
  "detail_of parsed = (case parsed of
     JObj kvs \<Rightarrow> (case jget ''detail'' kvs of Some d \<Rightarrow> d | None \<Rightarrow> parsed)
   | _ \<Rightarrow> parsed)"

definition msg_of :: "json \<Rightarrow> string option" where
  "msg_of d = (case d of JObj kvs \<Rightarrow> map_option js_String (jget ''msg'' kvs) | _ \<Rightarrow> None)"

definition extractDetail :: "string \<Rightarrow> string option" where
  "extractDetail rest = (case json_parse rest of
     None \<Rightarrow> or_null (js_trim rest)
   | Some (JStr s) \<Rightarrow> Some s
   | Some parsed \<Rightarrow>
       (case detail_of parsed of
          JStr s \<Rightarrow> Some s
        | JArr ds \<Rightarrow> (let msgs = List.map_filter msg_of ds
                     in if msgs \<noteq> [] then Some (js_join ''; '' msgs) else None)
        | _ \<Rightarrow> None))"

text \<open>The match of \<open>/^(\d{3}):\s*([\s\S]*)$/\<close>: the three digits and the rest.\<close>

definition match_status :: "string \<Rightarrow> (string \<times> string) option" where
  "match_status raw =
    (if 4 \<le> length raw \<and> list_all is_digit (take 3 raw) \<and> raw ! 3 = CHR '':''
     then Some (take 3 raw, trim_start (drop 4 raw)) else None)"

definition formatError :: "thrown \<Rightarrow> string" where
  "formatError e =
    (let raw = raw_message e in
     case match_status raw of
       None \<Rightarrow> raw
     | Some (statusStr, rest) \<Rightarrow>
         (let prefix = status_prefix (digits_val statusStr) in
          case extractDetail rest of
            None \<Rightarrow> prefix
          | Some detail \<Rightarrow> if detail \<noteq> [] \<and> detail \<noteq> prefix then prefix @ '': '' @ detail else prefix))"

section \<open>Lemmas\<close>

text \<open>How a detail is combined with the prefix of its status.\<close>

definition with_prefix :: "nat \<Rightarrow> string option \<Rightarrow> string" where
  "with_prefix n d = (case d of
     None \<Rightarrow> status_prefix n
   | Some t \<Rightarrow> if t \<noteq> [] \<and> t \<noteq> status_prefix n then status_prefix n @ '': '' @ t else status_prefix n)"

lemma with_prefix_starts: "starts_with (with_prefix n d) (status_prefix n)"
  using starts_with_append [of "status_prefix n" "[]"] by (auto simp: with_prefix_def split: option.split)

lemma length_nat_str_3:
  assumes "100 \<le> n" and "n < 1000"
  shows "length (nat_str n) = 3"
proof -
  have "n div 10 div 10 < 10" "\<not> n div 10 < 10" "\<not> n < 10" using assms by auto
  then have "nat_str n = [digit_char (n div 10 div 10), digit_char (n div 10 mod 10), digit_char (n mod 10)]"
    by (simp add: nat_str.simps)
  then show ?thesis by simp
qed

text \<open>The message \<open>`${status}: ${text}`\<close> that \<open>client.ts\<close> throws.\<close>

definition status_text :: "nat \<Rightarrow> string \<Rightarrow> string" where
  "status_text n t = nat_str n @ '': '' @ t"

lemma match_status_text:
  assumes "100 \<le> n" and "n < 1000"
  shows "match_status (status_text n t) = Some (nat_str n, trim_start t)"
proof -
  have len: "length (nat_str n) = 3" using assms by (rule length_nat_str_3)
  have sp: "is_space (CHR '' '')" by (simp add: is_space_def code_def)
  have "drop 4 (status_text n t) = CHR '' '' # t" "take 3 (status_text n t) = nat_str n"
    "status_text n t ! 3 = CHR '':''"
    using len by (simp_all add: status_text_def nth_append)
  then show ?thesis
    using len nat_str_digits [of n] sp
    by (simp add: match_status_def list_all_iff trim_start_def) (simp add: status_text_def)
qed

lemma formatError_status_text:
  assumes "100 \<le> n" and "n < 1000"
  shows "formatError (ErrorObj (status_text n t)) = with_prefix n (extractDetail (trim_start t))"
  using match_status_text [OF assms]
  by (simp add: formatError_def with_prefix_def Let_def split: option.split)

lemma trim_start_stringify:
  assumes "json_ok v"
  shows "trim_start (stringify v) = stringify v"
proof -
  have "\<not> is_space (hd (stringify v))"
  proof (cases v)
    case (JNum t)
    with assms have "num_ok t" by simp
    then obtain c s where "t = c # s" and "c = CHR ''-'' \<or> is_digit c" by (rule num_ok_head)
    with JNum show ?thesis by (auto simp: digit_not_space) (simp add: is_space_def code_def)
  qed (auto simp: is_space_def code_def quote_str_def quote_char_def)
  then show ?thesis by (simp add: trim_start_def dropWhile_id)
qed

lemma extractDetail_stringify:
  assumes "json_ok v"
  shows "extractDetail (stringify v) =
     (case detail_of v of
        JStr s \<Rightarrow> Some s
      | JArr ds \<Rightarrow> (let msgs = List.map_filter msg_of ds
                   in if msgs \<noteq> [] then Some (js_join ''; '' msgs) else None)
      | _ \<Rightarrow> None)"
  using json_parse_stringify [OF assms]
  by (cases v) (simp_all add: extractDetail_def, simp add: detail_of_def)

lemma formatError_body:
  assumes "100 \<le> n" and "n < 1000" and "json_ok v"
  shows "formatError (ErrorObj (status_text n (stringify v))) = with_prefix n (extractDetail (stringify v))"
  using assms by (simp add: formatError_status_text trim_start_stringify)

lemma extractDetail_plain:
  "json_parse d = None \<Longrightarrow> extractDetail d = or_null (js_trim d)"
  by (simp add: extractDetail_def)

end
