(* ===== verification/ApiClient.thy ===== *)
theory ApiClient
  imports ApiErrors
begin

text \<open>
  \<open>apps/ui/src/api/client.ts\<close>: the API base, the CSRF cookie and header, the middleware of the
  typed client, the raw requests and \<open>unwrap\<close>. The browser is a parameter: \<open>origin\<close> is
  \<open>window.location.origin\<close> (\<^const>\<open>None\<close> outside a browser), \<open>cookie\<close> is \<open>document.cookie\<close>,
  \<open>resolve\<close> is \<open>(base, ref) \<mapsto> new URL(ref, base).toString()\<close>, and a response is what the
  server sent. \<open>Inl\<close> is a thrown value.
\<close>

section \<open>Base URL\<close>

definition sameOriginBase :: "string option \<Rightarrow> string" where
  "sameOriginBase origin = (case origin of None \<Rightarrow> [] | Some w \<Rightarrow> w)"

definition strip_slashes :: "string \<Rightarrow> string" where
  "strip_slashes s = rev (dropWhile (\<lambda>c. c = CHR ''/'') (rev s))"

definition api_suffix :: string where "api_suffix = ''/api/v1''"

definition normalizeApiBase :: "string option \<Rightarrow> string option \<Rightarrow> string" where
  "normalizeApiBase origin value =
    (case value of
       None \<Rightarrow> ''http://localhost:8000''
     | Some v \<Rightarrow>
         if v = [] then sameOriginBase origin
         else (let trimmed = strip_slashes v in
               if ends_with trimmed api_suffix
               then (let b = take (length trimmed - length api_suffix) trimmed
                     in if b = [] then sameOriginBase origin else b)
               else trimmed))"

definition apiUrl :: "(string \<Rightarrow> string \<Rightarrow> string) \<Rightarrow> string option \<Rightarrow> string \<Rightarrow> string \<Rightarrow> string" where
  "apiUrl resolve origin api_base path = resolve (sameOriginBase origin) (api_base @ path)"

section \<open>Cookies\<close>

text \<open>\<open>decodeURIComponent\<close>: \<^const>\<open>None\<close> where it throws \<open>URIError\<close>.\<close>

definition hex_byte :: "string \<Rightarrow> (nat \<times> string) option" where
  "hex_byte s = (case s of
     p # h # l # t \<Rightarrow> (if p = CHR ''%'' then
        (case (hex_val h, hex_val l) of (Some a, Some b) \<Rightarrow> Some (16 * a + b, t) | _ \<Rightarrow> None)
        else None)
   | _ \<Rightarrow> None)"

fun hex_conts :: "nat \<Rightarrow> string \<Rightarrow> (nat list \<times> string) option" where
  "hex_conts 0 s = Some ([], s)"
| "hex_conts (Suc n) s = (case hex_byte s of
     Some (b, t) \<Rightarrow> (if 128 \<le> b \<and> b < 192
        then map_option (\<lambda>(bs, u). (b # bs, u)) (hex_conts n t) else None)
   | None \<Rightarrow> None)"

definition utf8_len :: "nat \<Rightarrow> nat option" where
  "utf8_len b = (if b < 128 then Some 0 else if 194 \<le> b \<and> b < 224 then Some 1
     else if 224 \<le> b \<and> b < 240 then Some 2 else if 240 \<le> b \<and> b < 245 then Some 3 else None)"

definition utf8_second_ok :: "nat \<Rightarrow> nat list \<Rightarrow> bool" where
  "utf8_second_ok b bs = (case bs of [] \<Rightarrow> True | c # _ \<Rightarrow>
     (b = 224 \<longrightarrow> 160 \<le> c) \<and> (b = 237 \<longrightarrow> c < 160) \<and> (b = 240 \<longrightarrow> 144 \<le> c) \<and> (b = 244 \<longrightarrow> c < 144))"

definition hex_group :: "string \<Rightarrow> (nat list \<times> string) option" where
  "hex_group s = (case hex_byte s of
     None \<Rightarrow> None
   | Some (b, t) \<Rightarrow> (case utf8_len b of
       None \<Rightarrow> None
     | Some n \<Rightarrow> (case hex_conts n t of
         Some (bs, u) \<Rightarrow> if utf8_second_ok b bs then Some (b # bs, u) else None
       | None \<Rightarrow> None)))"

lemma hex_byte_length: "hex_byte s = Some (b, t) \<Longrightarrow> length t < length s"
  by (auto simp: hex_byte_def split: list.splits option.splits if_splits)

lemma hex_conts_length: "hex_conts n s = Some (bs, t) \<Longrightarrow> length t \<le> length s"
proof (induction n arbitrary: s bs t)
  case (Suc n)
  then obtain b u bs' where "hex_byte s = Some (b, u)" "hex_conts n u = Some (bs', t)"
    by (auto split: option.splits if_splits)
  with Suc.IH hex_byte_length show ?case by fastforce
qed simp

lemma hex_group_length: "hex_group s = Some (bs, t) \<Longrightarrow> length t < length s"
  by (fastforce simp: hex_group_def split: option.splits if_splits
      dest: hex_byte_length hex_conts_length)

function decodeURIComponent :: "string \<Rightarrow> string option" where
  "decodeURIComponent [] = Some []"
| "decodeURIComponent (c # s) =
    (if c = CHR ''%'' then
       (case hex_group (c # s) of
          None \<Rightarrow> None
        | Some (bs, t) \<Rightarrow> map_option ((@) (map char_of bs)) (decodeURIComponent t))
     else map_option ((#) c) (decodeURIComponent s))"
  by pat_completeness auto
termination
  by (relation "measure length") (auto dest: hex_group_length)

text \<open>The match of \<open>(?:^|; )name=([^;]*)\<close> in the cookie string.\<close>

fun scan_cookie :: "string \<Rightarrow> string \<Rightarrow> string option" where
  "scan_cookie pat [] = None"
| "scan_cookie pat (c # s) =
    (if starts_with (c # s) pat then Some (takeWhile (\<lambda>d. d \<noteq> CHR '';'') (drop (length pat) (c # s)))
     else scan_cookie pat s)"

definition cookie_match :: "string \<Rightarrow> string \<Rightarrow> string option" where
  "cookie_match name cookie =
    (if starts_with cookie (name @ ''='')
     then Some (takeWhile (\<lambda>d. d \<noteq> CHR '';'') (drop (length name + 1) cookie))
     else scan_cookie (''; '' @ name @ ''='') cookie)"

definition uri_error :: thrown where "uri_error = ErrorObj ''URI malformed''"

definition readCookie :: "string \<Rightarrow> string \<Rightarrow> thrown + string option" where
  "readCookie name cookie = (case cookie_match name cookie of
     None \<Rightarrow> Inr None
   | Some v \<Rightarrow> (case decodeURIComponent v of None \<Rightarrow> Inl uri_error | Some d \<Rightarrow> Inr (Some d)))"

definition csrfHeaders :: "string \<Rightarrow> thrown + (string \<times> string) list" where
  "csrfHeaders cookie = (case readCookie ''mantis_csrf'' cookie of
     Inl e \<Rightarrow> Inl e
   | Inr csrf \<Rightarrow> Inr (case csrf of
       None \<Rightarrow> [] | Some t \<Rightarrow> if t = [] then [] else [(''X-Mantis-CSRF-Token'', t)]))"

section \<open>Requests and responses\<close>

record http_request =
  rq_method :: string
  rq_url :: string
  rq_query :: "(string \<times> string) list"
  rq_credentials :: string
  rq_headers :: "(string \<times> string) list"
  rq_body :: "string option"

record http_response =
  rs_status :: nat
  rs_statusText :: string
  rs_text :: "string option"   \<comment> \<open>\<^const>\<open>None\<close>: reading the body fails\<close>

definition resp_ok :: "http_response \<Rightarrow> bool" where
  "resp_ok r \<longleftrightarrow> 200 \<le> rs_status r \<and> rs_status r < 300"

text \<open>True when the session listener is notified.\<close>

definition handleUnauthorized :: "string \<Rightarrow> nat \<Rightarrow> bool" where
  "handleUnauthorized pathname st \<longleftrightarrow> st = 401 \<and> \<not> starts_with pathname ''/login''"

definition is_mutating :: "string \<Rightarrow> bool" where
  "is_mutating m \<longleftrightarrow> m \<noteq> ''GET'' \<and> m \<noteq> ''HEAD''"

text \<open>\<open>Headers.set\<close>: names compare case-insensitively, the new value replaces the old one.\<close>

fun headers_set :: "string \<Rightarrow> string \<Rightarrow> (string \<times> string) list \<Rightarrow> (string \<times> string) list" where
  "headers_set k v [] = [(k, v)]"
| "headers_set k v ((k', v') # hs) =
    (if js_lower k' = js_lower k then (k', v) # hs else (k', v') # headers_set k v hs)"

definition header_get :: "string \<Rightarrow> (string \<times> string) list \<Rightarrow> string option" where
  "header_get k hs = map_of (map (\<lambda>(k', v). (js_lower k', v)) hs) (js_lower k)"

definition authMiddleware_onRequest :: "string \<Rightarrow> http_request \<Rightarrow> thrown + http_request" where
  "authMiddleware_onRequest cookie req =
    (if is_mutating (rq_method req)
     then (case csrfHeaders cookie of
             Inl e \<Rightarrow> Inl e
           | Inr hs \<Rightarrow> Inr (req\<lparr>rq_headers := fold (\<lambda>(k, v). headers_set k v) hs (rq_headers req)\<rparr>))
     else Inr req)"

definition authMiddleware_onResponse :: "string \<Rightarrow> http_response \<Rightarrow> bool \<times> http_response" where
  "authMiddleware_onResponse pathname r = (handleUnauthorized pathname (rs_status r), r)"

definition raw_init :: "string \<Rightarrow> string \<Rightarrow> string \<Rightarrow> (string \<times> string) list \<Rightarrow> json option
    \<Rightarrow> thrown + http_request" where
  "raw_init cookie m u q b =
    (let ct = (if b \<noteq> None then [(''Content-Type'', ''application/json'')] else []);
         mk = (\<lambda>hs. \<lparr>rq_method = m, rq_url = u, rq_query = q, rq_credentials = ''include'',
                     rq_headers = ct @ hs, rq_body = map_option stringify b\<rparr>)
     in if is_mutating m then (case csrfHeaders cookie of Inl e \<Rightarrow> Inl e | Inr hs \<Rightarrow> Inr (mk hs))
        else Inr (mk []))"

definition raw_result :: "(string option \<Rightarrow> thrown) \<Rightarrow> http_response \<Rightarrow> thrown + json option" where
  "raw_result body_error r =
    (if \<not> resp_ok r
     then Inl (ErrorObj (status_text (rs_status r) (nullish (rs_text r) (rs_statusText r))))
     else if rs_status r = 204 then Inr None
     else (case rs_text r of
             None \<Rightarrow> Inl (body_error None)
           | Some t \<Rightarrow> (case json_parse t of None \<Rightarrow> Inl (body_error (Some t)) | Some v \<Rightarrow> Inr (Some v))))"

text \<open>
  One raw request against a server \<open>fetch\<close>: the outcome, and whether the session listener was
  notified. \<open>fetch\<close> is \<^const>\<open>Inl\<close> on a network error; \<open>body_error\<close> is the engine's error for a body
  that cannot be read (\<^const>\<open>None\<close>) or is not JSON.
\<close>

definition rawRequest :: "(http_request \<Rightarrow> thrown + http_response) \<Rightarrow> (string option \<Rightarrow> thrown) \<Rightarrow> string \<Rightarrow> string
    \<Rightarrow> string \<Rightarrow> string \<Rightarrow> (string \<times> string) list \<Rightarrow> json option \<Rightarrow> (thrown + json option) \<times> bool" where
  "rawRequest fetch body_error pathname cookie m u q b =
    (case raw_init cookie m u q b of
       Inl e \<Rightarrow> (Inl e, False)
     | Inr req \<Rightarrow> (case fetch req of
         Inl e \<Rightarrow> (Inl e, False)
       | Inr r \<Rightarrow> (raw_result body_error r, handleUnauthorized pathname (rs_status r))))"

section \<open>The verbs\<close>

text \<open>\<open>url.searchParams.set\<close> on the list of pairs.\<close>

fun sp_set :: "string \<Rightarrow> string \<Rightarrow> (string \<times> string) list \<Rightarrow> (string \<times> string) list" where
  "sp_set k v [] = [(k, v)]"
| "sp_set k v ((k', v') # ps) =
    (if k' = k then (k, v) # filter (\<lambda>(k'', _). k'' \<noteq> k) ps else (k', v') # sp_set k v ps)"

definition raw_params :: "(string \<times> string option) list \<Rightarrow> (string \<times> string) list" where
  "raw_params params =
    fold (\<lambda>(k, v) ps. case v of None \<Rightarrow> ps | Some s \<Rightarrow> sp_set k s ps) params []"

record browser =
  br_resolve :: "string \<Rightarrow> string \<Rightarrow> string"
  br_origin :: "string option"
  br_api_base :: string
  br_pathname :: string
  br_cookie :: string

definition br_url :: "browser \<Rightarrow> string \<Rightarrow> string" where
  "br_url b path = apiUrl (br_resolve b) (br_origin b) (br_api_base b) path"

definition rawGet where
  "rawGet fetch se b path params =
     rawRequest fetch se (br_pathname b) (br_cookie b) ''GET'' (br_url b path) (raw_params params) None"

definition rawPost where
  "rawPost fetch se b path v =
     rawRequest fetch se (br_pathname b) (br_cookie b) ''POST'' (br_url b path) [] (Some v)"

definition rawPatch where
  "rawPatch fetch se b path v =
     rawRequest fetch se (br_pathname b) (br_cookie b) ''PATCH'' (br_url b path) [] (Some v)"

definition rawPut where
  "rawPut fetch se b path v =
     rawRequest fetch se (br_pathname b) (br_cookie b) ''PUT'' (br_url b path) [] (Some v)"

definition rawDelete where
  "rawDelete fetch se b path =
     (let (r, n) = rawRequest fetch se (br_pathname b) (br_cookie b) ''DELETE'' (br_url b path) [] None
      in (map_sum id (\<lambda>_. ()) r, n))"

text \<open>The result object of the typed client: \<^const>\<open>None\<close> is \<open>undefined\<close>.\<close>

record client_result =
  cr_data :: "json option"
  cr_error :: "json option"
  cr_response :: http_response

definition unwrap_detail :: "json \<Rightarrow> string" where
  "unwrap_detail err = (case err of
     JObj kvs \<Rightarrow> (case jget ''detail'' kvs of Some d \<Rightarrow> js_String d | None \<Rightarrow> stringify err)
   | _ \<Rightarrow> stringify err)"

definition unwrap :: "client_result \<Rightarrow> thrown + json option" where
  "unwrap r = (case cr_error r of
     Some err \<Rightarrow> Inl (ErrorObj (status_text (rs_status (cr_response r)) (unwrap_detail err)))
   | None \<Rightarrow> (case cr_data r of
       None \<Rightarrow> if resp_ok (cr_response r) then Inr None
               else Inl (ErrorObj (status_text (rs_status (cr_response r)) ''empty response''))
     | Some d \<Rightarrow> Inr (Some d)))"

section \<open>Lemmas: base URL\<close>

lemma strip_slashes_replicate: "strip_slashes (b @ replicate n CHR ''/'') = strip_slashes b"
  by (induction n arbitrary: b) (simp_all add: strip_slashes_def replicate_app_Cons_same)

lemma strip_slashes_id: "b \<noteq> [] \<Longrightarrow> last b \<noteq> CHR ''/'' \<Longrightarrow> strip_slashes b = b"
  by (simp add: strip_slashes_def dropWhile_id hd_rev)

lemma last_strip_slashes: "strip_slashes v \<noteq> [] \<Longrightarrow> last (strip_slashes v) \<noteq> CHR ''/''"
  unfolding strip_slashes_def by (metis (mono_tags) hd_dropWhile last_rev rev_is_Nil_conv)

lemma ends_with_append [simp]: "ends_with (b @ t) t"
  by (simp add: ends_with_def)

lemma ends_with_iff: "ends_with s t \<longleftrightarrow> (\<exists>b. s = b @ t)"
proof
  assume "ends_with s t"
  then show "\<exists>b. s = b @ t" by (metis append_take_drop_id ends_with_def)
qed (auto simp: ends_with_def)

section \<open>Lemmas: cookies\<close>

definition cookie_pair :: "string \<times> string \<Rightarrow> string" where
  "cookie_pair = (\<lambda>(k, v). k @ ''='' @ v)"

text \<open>How the browser presents the cookie jar as \<open>document.cookie\<close>.\<close>

definition cookie_string :: "(string \<times> string) list \<Rightarrow> string" where
  "cookie_string jar = js_join ''; '' (map cookie_pair jar)"

definition name_ok :: "string \<Rightarrow> bool" where
  "name_ok k \<longleftrightarrow> CHR '';'' \<notin> set k \<and> CHR ''='' \<notin> set k"

definition jar_ok :: "(string \<times> string) list \<Rightarrow> bool" where
  "jar_ok jar \<longleftrightarrow> (\<forall>(k, v) \<in> set jar. name_ok k \<and> CHR '';'' \<notin> set v)"

lemma scan_cookie_skip:
  "CHR '';'' \<notin> set w \<Longrightarrow> scan_cookie (''; '' @ p) (w @ rest) = scan_cookie (''; '' @ p) rest"
  by (induction w) (auto simp: starts_with_def)

fun cookie_tail :: "(string \<times> string) list \<Rightarrow> string" where
  "cookie_tail [] = []"
| "cookie_tail (kv # jar) = ''; '' @ cookie_pair kv @ cookie_tail jar"

lemma cookie_string_Cons: "cookie_string (kv # jar) = cookie_pair kv @ cookie_tail jar"
proof (induction jar arbitrary: kv)
  case (Cons x jar)
  then show ?case by (simp add: cookie_string_def)
qed (simp add: cookie_string_def)

lemma takeWhile_until: "d \<notin> set k \<Longrightarrow> takeWhile (\<lambda>c. c \<noteq> d) (k @ d # r) = k"
  by (induction k) auto

lemma starts_with_name:
  assumes "CHR ''='' \<notin> set k" and "CHR ''='' \<notin> set name"
  shows "starts_with (k @ CHR ''='' # r) (name @ ''='') \<longleftrightarrow> k = name"
proof -
  have "k = name" if "k @ CHR ''='' # r = name @ CHR ''='' # t" for t
    using that assms takeWhile_until [of "CHR ''=''" k r] takeWhile_until [of "CHR ''=''" name t]
    by simp
  moreover have "starts_with (name @ CHR ''='' # r) (name @ ''='')"
    using starts_with_append [of "name @ ''=''" r] by simp
  ultimately show ?thesis by (auto simp: starts_with_iff)
qed

lemma takeWhile_pairs:
  "CHR '';'' \<notin> set v \<Longrightarrow> takeWhile (\<lambda>d. d \<noteq> CHR '';'') (v @ cookie_tail jar) = v"
  by (induction v) (cases jar, auto)

lemma scan_cookie_pairs:
  assumes "jar_ok jar" and "name_ok name"
  shows "scan_cookie (''; '' @ name @ ''='') (cookie_tail jar) = map_of jar name"
  using assms
proof (induction jar)
  case (Cons kv jar)
  obtain k v where kv: "kv = (k, v)" by (cases kv)
  have ok: "CHR '';'' \<notin> set k" "CHR ''='' \<notin> set k" "CHR '';'' \<notin> set v" "CHR ''='' \<notin> set name"
    using Cons.prems kv by (auto simp: jar_ok_def name_ok_def)
  have ih: "scan_cookie (''; '' @ name @ ''='') (cookie_tail jar) = map_of jar name"
    using Cons by (auto simp: jar_ok_def)
  have hit: "starts_with (''; '' @ k @ CHR ''='' # v @ cookie_tail jar) (''; '' @ name @ ''='') \<longleftrightarrow> k = name"
    using starts_with_name [OF ok(2,4), of "v @ cookie_tail jar"] by (simp add: starts_with_def)
  have miss: "scan_cookie (''; '' @ name @ ''='') ((CHR '' '' # k @ CHR ''='' # v) @ cookie_tail jar)
      = map_of jar name"
    using ok by (subst scan_cookie_skip) (auto simp: ih [simplified])
  show ?case
    using hit miss kv takeWhile_pairs [OF ok(3), of jar] by (auto simp: cookie_pair_def)
qed simp

lemma cookie_match_jar:
  assumes "jar_ok jar" and "name_ok name"
  shows "cookie_match name (cookie_string jar) = map_of jar name"
proof (cases jar)
  case Nil
  then show ?thesis by (simp add: cookie_match_def cookie_string_def starts_with_def)
next
  case (Cons kv rest)
  obtain k v where kv: "kv = (k, v)" by (cases kv)
  have ok: "CHR '';'' \<notin> set k" "CHR ''='' \<notin> set k" "CHR '';'' \<notin> set v" "CHR ''='' \<notin> set name"
    and rest: "jar_ok rest"
    using assms Cons kv by (auto simp: jar_ok_def name_ok_def)
  have str: "cookie_string jar = k @ CHR ''='' # v @ cookie_tail rest"
    using Cons kv by (simp add: cookie_string_Cons cookie_pair_def)
  have skip: "scan_cookie (''; '' @ name @ ''='') (k @ CHR ''='' # v @ cookie_tail rest) = map_of rest name"
    using scan_cookie_skip [of "k @ CHR ''='' # v" "name @ ''=''" "cookie_tail rest"]
      ok scan_cookie_pairs [OF rest assms(2)] by simp
  have "map_of jar name = (if k = name then Some v else map_of rest name)"
    using Cons kv by simp
  then show ?thesis
    using starts_with_name [OF ok(2,4), of "v @ cookie_tail rest"] takeWhile_pairs [OF ok(3), of rest] skip
    unfolding cookie_match_def str by simp
qed

lemma decode_plain: "CHR ''%'' \<notin> set v \<Longrightarrow> decodeURIComponent v = Some v"
  by (induction v) auto

lemma readCookie_jar:
  assumes "jar_ok jar" and "name_ok name" and "map_of jar name = Some v" and "CHR ''%'' \<notin> set v"
  shows "readCookie name (cookie_string jar) = Inr (Some v)"
  using assms by (simp add: readCookie_def cookie_match_jar decode_plain)

section \<open>Lemmas: headers\<close>

lemma header_get_set:
  "header_get k (headers_set k' v hs) = (if js_lower k = js_lower k' then Some v else header_get k hs)"
  by (induction hs) (auto simp: header_get_def)

lemma header_get_append: "header_get k (hs @ gs) = (case header_get k hs of None \<Rightarrow> header_get k gs | Some v \<Rightarrow> Some v)"
  by (simp add: header_get_def map_add_def split: option.split)

definition csrf_name :: string where "csrf_name = ''X-Mantis-CSRF-Token''"

lemma csrfHeaders_Inr:
  "readCookie ''mantis_csrf'' cookie = Inr tok \<Longrightarrow>
   csrfHeaders cookie = Inr (if truthy tok then [(csrf_name, the tok)] else [])"
  by (cases tok) (auto simp: csrfHeaders_def csrf_name_def)

lemma lower_content_type: "js_lower ''Content-Type'' \<noteq> js_lower csrf_name"
  unfolding csrf_name_def by code_simp

section \<open>Properties of the client\<close>

lemma raw_result_error:
  assumes "\<not> resp_ok r" and "rs_text r = Some t"
  shows "raw_result be r = Inl (ErrorObj (status_text (rs_status r) t))"
  using assms by (simp add: raw_result_def)

lemma raw_init_ok:
  assumes "readCookie ''mantis_csrf'' cookie = Inr tok"
  shows "\<exists>req. raw_init cookie m u q b = Inr req \<and> rq_method req = m
    \<and> rq_body req = map_option stringify b \<and> rq_credentials req = ''include''
    \<and> header_get csrf_name (rq_headers req) = (if is_mutating m \<and> truthy tok then tok else None)
    \<and> header_get ''Content-Type'' (rq_headers req)
        = (if b = None then None else Some ''application/json'')"
proof -
  have ne: "js_lower ''Content-Type'' \<noteq> js_lower csrf_name" by (rule lower_content_type)
  show ?thesis
    using csrfHeaders_Inr [OF assms] ne ne [symmetric]
    by (cases tok) (auto simp: raw_init_def header_get_def Let_def)
qed

text \<open>The body FastAPI sends for a validation error with the messages \<open>ms\<close>.\<close>

definition validation_item :: "string \<Rightarrow> json" where
  "validation_item m = JObj [(''loc'', JArr [JStr ''body'']), (''msg'', JStr m)]"

definition validation_body :: "string list \<Rightarrow> json" where
  "validation_body ms = JObj [(''detail'', JArr (map validation_item ms))]"

definition error_response :: "nat \<Rightarrow> json \<Rightarrow> http_response" where
  "error_response n v = \<lparr>rs_status = n, rs_statusText = [], rs_text = Some (stringify v)\<rparr>"

lemma json_ok_validation_body: "json_ok (validation_body ms)"
  by (simp add: validation_body_def validation_item_def list_all_iff)

lemma detail_of_validation_body: "detail_of (validation_body ms) = JArr (map validation_item ms)"
  by (simp add: detail_of_def validation_body_def jget_def)

lemma msg_of_validation_item: "msg_of (validation_item m) = Some m"
  by (simp add: msg_of_def validation_item_def jget_def)

lemma map_filter_msgs: "List.map_filter msg_of (map validation_item ms) = ms"
  by (induction ms) (simp_all add: msg_of_validation_item)

text \<open>C18. An error response whose JSON body carries a string \<open>detail\<close> reaches the user as the
  status text followed by exactly that detail, through the raw request, the thrown
  \<open>Error\<close> and \<open>formatError\<close>; an empty detail, or one that repeats the status text, leaves the
  status text alone.\<close>

theorem raw_error_detail_shown:
  assumes "raw_init cookie m u q b = Inr req" and "fetch req = Inr r"
    and "\<not> resp_ok r" and "100 \<le> rs_status r" and "rs_status r < 1000"
    and "rs_text r = Some (stringify (JObj kvs))" and "json_ok (JObj kvs)"
    and "jget ''detail'' kvs = Some (JStr d)"
  shows "\<exists>e. fst (rawRequest fetch be pathname cookie m u q b) = Inl e
    \<and> formatError e = (if d = [] \<or> d = status_prefix (rs_status r) then status_prefix (rs_status r)
                       else status_prefix (rs_status r) @ '': '' @ d)"
proof -
  have "extractDetail (stringify (JObj kvs)) = Some d"
    using extractDetail_stringify [OF assms(7)] assms(8) by (simp add: detail_of_def)
  then show ?thesis
    using assms(1-6) formatError_body [OF assms(4,5,7)]
    by (simp add: rawRequest_def raw_result_error with_prefix_def)
qed

definition wit_fetch :: "nat \<Rightarrow> json \<Rightarrow> http_request \<Rightarrow> thrown + http_response" where
  "wit_fetch n v req = Inr (error_response n v)"

definition wit_body_error :: "string option \<Rightarrow> thrown" where
  "wit_body_error t = OtherVal ''bad body''"

definition wit_req :: http_request where
  "wit_req = \<lparr>rq_method = ''POST'', rq_url = ''u'', rq_query = [], rq_credentials = ''include'',
     rq_headers = [(''Content-Type'', ''application/json''), (csrf_name, ''t'')], rq_body = Some ''null''\<rparr>"

lemma wit_req_init: "raw_init ''mantis_csrf=t'' ''POST'' ''u'' [] (Some JNull) = Inr wit_req"
  by code_simp

theorem raw_error_detail_shown_witness:
  "\<exists>e. fst (rawRequest (wit_fetch 409 (JObj [(''detail'', JStr ''taken'')])) wit_body_error ''/zones''
         ''mantis_csrf=t'' ''POST'' ''u'' [] (Some JNull)) = Inl e
    \<and> formatError e = ''Already exists or conflicts with existing data: taken''"
proof -
  have "status_prefix 409 = ''Already exists or conflicts with existing data''"
    by (simp add: status_prefix_def STATUS_PREFIX_def)
  then show ?thesis
    using raw_error_detail_shown [OF wit_req_init, of "wit_fetch 409 (JObj [(''detail'', JStr ''taken'')])"
      _ "[(''detail'', JStr ''taken'')]" "''taken''" wit_body_error "''/zones''"]
    by (simp add: wit_fetch_def error_response_def resp_ok_def jget_def)
qed

text \<open>A FastAPI validation error (status 422, \<open>detail\<close> a list of objects) received by a raw
  request is shown as the status text and the \<open>msg\<close> fields, in order, joined by \<open>"; "\<close>.\<close>

theorem raw_validation_errors_shown:
  assumes "100 \<le> n" and "n < 1000" and "n < 200 \<or> 300 \<le> n"
    and "ms \<noteq> []" and "\<forall>m \<in> set ms. m \<noteq> []" and "js_join ''; '' ms \<noteq> status_prefix n"
  shows "\<exists>e. raw_result be (error_response n (validation_body ms)) = Inl e
    \<and> formatError e = status_prefix n @ '': '' @ js_join ''; '' ms"
proof -
  have "extractDetail (stringify (validation_body ms)) = Some (js_join ''; '' ms)"
    using extractDetail_stringify [OF json_ok_validation_body] assms(4)
    by (simp add: detail_of_validation_body map_filter_msgs)
  moreover have "js_join ''; '' ms \<noteq> []"
    using assms(4,5) by (cases ms; cases "tl ms") auto
  ultimately have "formatError (ErrorObj (status_text n (stringify (validation_body ms))))
      = status_prefix n @ '': '' @ js_join ''; '' ms"
    using formatError_body [OF assms(1,2) json_ok_validation_body] assms(6)
    by (simp add: with_prefix_def)
  then show ?thesis
    using assms(3) by (auto simp: raw_result_def error_response_def resp_ok_def)
qed

theorem raw_validation_errors_shown_witness:
  "\<exists>e. raw_result wit_body_error (error_response 422 (validation_body [''a'', ''b''])) = Inl e
    \<and> formatError e = ''Invalid input: a; b''"
  using raw_validation_errors_shown [where n = 422 and ms = "[''a'', ''b'']" and be = wit_body_error]
  by (simp add: status_prefix_def STATUS_PREFIX_def)

lemma json_parse_object_text: "json_parse (''[object Object]'' @ s) = None"
proof -
  have "run lex_step (Idle, []) ''[object O'' = None" by code_simp
  then have "run lex_step (Idle, []) (''[object O'' @ ''bject]'' @ s) = None"
    by (simp only: run_append bind.simps)
  then show ?thesis by (simp add: json_parse_def lex_from_def)
qed

lemma String_validation_items:
  "ms \<noteq> [] \<Longrightarrow> \<exists>t. js_String (JArr (map validation_item ms)) = ''[object Object]'' @ t
      \<and> (t = [] \<or> last t = CHR '']'')
      \<and> js_String (JArr (map validation_item ms)) = js_join '','' (replicate (length ms) ''[object Object]'')"
proof (induction ms rule: list_nonempty_induct)
  case (single x)
  then show ?case by (simp add: validation_item_def)
next
  case (cons x xs)
  then show ?case by (cases xs) (auto simp: validation_item_def)
qed

lemma objects_trim:
  assumes "x = ''[object Object]'' @ t" and "t = [] \<or> last t = CHR '']''"
  shows "js_trim x = x" "trim_start x = x" "x \<noteq> []"
proof -
  have "last x = CHR '']''" "hd x = CHR ''[''" using assms by auto
  then show "js_trim x = x" by (intro js_trim_id) (auto simp: is_space_def code_def)
  show "trim_start x = x" using assms by (simp add: trim_start_def is_space_def code_def)
qed (use assms in simp)

text \<open>C22. The typed client loses validation messages: \<open>unwrap\<close> turns the \<open>detail\<close> list into
  text with \<open>String\<close>, so the user sees \<open>[object Object]\<close> once per error whatever the messages
  say, although \<open>extractDetail\<close> is documented to handle the shape \<open>client.ts\<close> throws.\<close>

theorem unwrap_validation_messages_lost:
  assumes "100 \<le> n" and "n < 1000" and "ms \<noteq> []"
    and "cr_error r = Some (validation_body ms)" and "rs_status (cr_response r) = n"
  shows "\<exists>e. unwrap r = Inl e \<and> formatError e
     = status_prefix n @ '': '' @ js_join '','' (replicate (length ms) ''[object Object]'')"
proof -
  let ?x = "js_String (JArr (map validation_item ms))"
  obtain t where t: "?x = ''[object Object]'' @ t" "t = [] \<or> last t = CHR '']''"
    and rep: "?x = js_join '','' (replicate (length ms) ''[object Object]'')"
    using String_validation_items [OF assms(3)] by blast
  have unw: "unwrap r = Inl (ErrorObj (status_text n ?x))"
    using assms(4,5) by (simp add: unwrap_def unwrap_detail_def validation_body_def jget_def)
  have "extractDetail ?x = Some ?x"
    using json_parse_object_text [of t] objects_trim [OF t] t(1) by (simp add: extractDetail_plain)
  moreover have "?x \<noteq> status_prefix n"
    using t(1) by (auto simp: status_prefix_def STATUS_PREFIX_def)
  ultimately have "formatError (ErrorObj (status_text n ?x)) = status_prefix n @ '': '' @ ?x"
    using formatError_status_text [OF assms(1,2), of ?x] objects_trim [OF t]
    by (simp add: with_prefix_def)
  then show ?thesis using unw rep by simp
qed

theorem unwrap_validation_messages_lost_witness:
  "\<exists>e. unwrap \<lparr>cr_data = None, cr_error = Some (validation_body [''field required'']),
      cr_response = error_response 422 JNull\<rparr> = Inl e
    \<and> formatError e = ''Invalid input: [object Object]''"
  using unwrap_validation_messages_lost [where n = 422 and ms = "[''field required'']" and
    r = "\<lparr>cr_data = None, cr_error = Some (validation_body [''field required'']),
      cr_response = error_response 422 JNull\<rparr>"]
  by (simp add: status_prefix_def STATUS_PREFIX_def error_response_def)

text \<open>C19. For a plain-text detail (one that is not itself JSON, with no surrounding blanks) the
  typed client and the raw requests show the user the same message.\<close>

theorem error_paths_agree:
  assumes "100 \<le> n" and "n < 1000" and "n < 200 \<or> 300 \<le> n"
    and "json_parse d = None" and "js_trim d = d"
    and "cr_error r = Some (JObj [(''detail'', JStr d)])" and "rs_status (cr_response r) = n"
  shows "\<exists>e e'. unwrap r = Inl e \<and> raw_result be (error_response n (JObj [(''detail'', JStr d)])) = Inl e'
     \<and> formatError e = formatError e'"
proof -
  let ?b = "JObj [(''detail'', JStr d)]"
  have ok: "json_ok ?b" by simp
  have ts: "trim_start d = d"
    using assms(5) hd_js_trim [of d] by (simp add: trim_start_def dropWhile_id)
  have u: "unwrap r = Inl (ErrorObj (status_text n d))"
    using assms(6,7) by (simp add: unwrap_def unwrap_detail_def jget_def)
  have v: "raw_result be (error_response n ?b) = Inl (ErrorObj (status_text n (stringify ?b)))"
    using assms(3) by (auto simp: raw_result_def error_response_def resp_ok_def)
  have "with_prefix n (extractDetail d) = with_prefix n (Some d)"
    using extractDetail_plain [OF assms(4)] assms(5) by (simp add: with_prefix_def or_null_def)
  moreover have "extractDetail (stringify ?b) = Some d"
    using extractDetail_stringify [OF ok] by (simp add: detail_of_def jget_def)
  ultimately have "formatError (ErrorObj (status_text n d)) = formatError (ErrorObj (status_text n (stringify ?b)))"
    using formatError_status_text [OF assms(1,2), of d] formatError_body [OF assms(1,2) ok] ts by simp
  with u v show ?thesis by blast
qed

theorem error_paths_agree_witness:
  "\<exists>e e'. unwrap \<lparr>cr_data = None, cr_error = Some (JObj [(''detail'', JStr ''zone exists'')]),
        cr_response = error_response 409 JNull\<rparr> = Inl e
     \<and> raw_result wit_body_error (error_response 409 (JObj [(''detail'', JStr ''zone exists'')])) = Inl e'
     \<and> formatError e = formatError e'"
proof -
  have "json_parse ''zone exists'' = None" "js_trim ''zone exists'' = ''zone exists''" by code_simp+
  then show ?thesis
    using error_paths_agree [where n = 409 and d = "''zone exists''" and be = wit_body_error and
      r = "\<lparr>cr_data = None, cr_error = Some (JObj [(''detail'', JStr ''zone exists'')]),
        cr_response = error_response 409 JNull\<rparr>"]
    by (simp add: error_response_def)
qed

text \<open>C21. The double-submit token: for a cookie jar holding \<open>mantis_csrf\<close>, every mutating request,
  raw or through the middleware, carries exactly the cookie's value in \<open>X-Mantis-CSRF-Token\<close>, a
  GET or HEAD carries none, and the middleware leaves every other header alone.\<close>

theorem csrf_token_sent:
  assumes "jar_ok jar" and "map_of jar ''mantis_csrf'' = Some tok" and "CHR ''%'' \<notin> set tok" and "tok \<noteq> []"
    and "header_get csrf_name (rq_headers req) = None"
  shows "\<exists>raw mid. raw_init (cookie_string jar) (rq_method req) u q b = Inr raw
    \<and> authMiddleware_onRequest (cookie_string jar) req = Inr mid
    \<and> header_get csrf_name (rq_headers raw) = (if is_mutating (rq_method req) then Some tok else None)
    \<and> header_get csrf_name (rq_headers mid) = header_get csrf_name (rq_headers raw)
    \<and> (\<forall>k. js_lower k \<noteq> js_lower csrf_name \<longrightarrow> header_get k (rq_headers mid) = header_get k (rq_headers req))"
proof -
  have nm: "name_ok ''mantis_csrf''" by code_simp
  have rc: "readCookie ''mantis_csrf'' (cookie_string jar) = Inr (Some tok)"
    using readCookie_jar [OF assms(1) nm assms(2,3)] .
  obtain raw where raw: "raw_init (cookie_string jar) (rq_method req) u q b = Inr raw"
    "header_get csrf_name (rq_headers raw) = (if is_mutating (rq_method req) then Some tok else None)"
    using raw_init_ok [OF rc, of "rq_method req" u q b] assms(4) by (auto split: if_splits)
  have "csrfHeaders (cookie_string jar) = Inr [(csrf_name, tok)]"
    using csrfHeaders_Inr [OF rc] assms(4) by simp
  then show ?thesis
    using raw assms(5) by (auto simp: authMiddleware_onRequest_def header_get_set)
qed

theorem csrf_token_sent_witness:
  "\<exists>raw mid. raw_init ''lang=en; mantis_csrf=t'' ''POST'' ''u'' [] (Some JNull) = Inr raw
    \<and> authMiddleware_onRequest ''lang=en; mantis_csrf=t'' (wit_req\<lparr>rq_headers := []\<rparr>) = Inr mid
    \<and> header_get csrf_name (rq_headers raw) = Some ''t''
    \<and> header_get csrf_name (rq_headers mid) = Some ''t''"
proof -
  have "jar_ok [(''lang'', ''en''), (''mantis_csrf'', ''t'')]"
    "cookie_string [(''lang'', ''en''), (''mantis_csrf'', ''t'')] = ''lang=en; mantis_csrf=t''"
    "is_mutating ''POST''" by code_simp+
  then show ?thesis
    using csrf_token_sent [where jar = "[(''lang'', ''en''), (''mantis_csrf'', ''t'')]" and tok = "''t''"
      and req = "wit_req\<lparr>rq_headers := []\<rparr>" and u = "''u''" and q = "[]" and b = "Some JNull"]
    by (auto simp: header_get_def wit_req_def)
qed

text \<open>All spellings of a deployment's API URL, with or without \<open>/api/v1\<close> and with any number
  of trailing slashes, normalise to the same base without a trailing slash.\<close>

theorem normalizeApiBase_spellings:
  assumes "b \<noteq> []" and "last b \<noteq> CHR ''/''" and "\<not> ends_with b api_suffix"
  shows "normalizeApiBase origin (Some (b @ replicate n CHR ''/'')) = b
    \<and> normalizeApiBase origin (Some (b @ api_suffix @ replicate n CHR ''/'')) = b"
proof
  show "normalizeApiBase origin (Some (b @ replicate n CHR ''/'')) = b"
    using assms strip_slashes_id [OF assms(1,2)]
    by (simp add: normalizeApiBase_def strip_slashes_replicate)
  have "strip_slashes (b @ api_suffix) = b @ api_suffix"
    by (rule strip_slashes_id) (simp_all add: api_suffix_def)
  then show "normalizeApiBase origin (Some (b @ api_suffix @ replicate n CHR ''/'')) = b"
    using assms strip_slashes_replicate [of "b @ api_suffix" n]
    by (simp add: normalizeApiBase_def)
qed

theorem normalizeApiBase_spellings_witness:
  "normalizeApiBase None (Some ''https://dns.corp//'') = ''https://dns.corp''
   \<and> normalizeApiBase None (Some ''https://dns.corp/api/v1/'') = ''https://dns.corp''"
proof -
  have "\<not> ends_with ''https://dns.corp'' api_suffix" by code_simp
  then show ?thesis
    using normalizeApiBase_spellings [of "''https://dns.corp''" None 2]
      normalizeApiBase_spellings [of "''https://dns.corp''" None 1]
    by (simp add: api_suffix_def numeral_2_eq_2)
qed

end
