(* ===== verification/Auth.thy ===== *)
theory Auth
  imports ApiClient
begin

text \<open>
  Authentication: \<open>auth/sessionEvents.ts\<close> (the session-expiry listener), \<open>auth/AuthContext.tsx\<close>
  (user, loading, login, logout, \<open>hasRole\<close>), \<open>auth/RequireAuth.tsx\<close> (the route guard) and
  \<open>pages/LoginPage.tsx\<close>. The session is a record; every callback the browser, the server or the
  router may fire is one operation on it, and a step relation interleaves them.
\<close>

section \<open>The listener slot (sessionEvents.ts)\<close>

text \<open>A callback is identified by a number, as \<open>listener === cb\<close> compares closures by identity.\<close>

type_synonym slot = "nat option"

definition onSessionExpired :: "nat \<Rightarrow> slot \<Rightarrow> slot" where
  "onSessionExpired cb s = Some cb"

text \<open>The function \<open>onSessionExpired\<close> returns.\<close>

definition unsubscribe :: "nat \<Rightarrow> slot \<Rightarrow> slot" where
  "unsubscribe cb s = (if s = Some cb then None else s)"

text \<open>The callback \<open>notifySessionExpired\<close> runs, if any.\<close>

definition notifySessionExpired :: "slot \<Rightarrow> nat option" where
  "notifySessionExpired s = s"

section \<open>Users and roles (AuthContext.tsx)\<close>

datatype role = Admin | Operator | Viewer

record auth_user =
  au_id :: string
  au_email :: string
  au_role :: role
  au_tenant_id :: "string option"

fun ROLE_RANK :: "role \<Rightarrow> nat" where
  "ROLE_RANK Viewer = 0"
| "ROLE_RANK Operator = 1"
| "ROLE_RANK Admin = 2"

text \<open>Roles are ordered by rank.\<close>

instantiation role :: linorder
begin

definition less_eq_role :: "role \<Rightarrow> role \<Rightarrow> bool" where
  "less_eq_role r s \<longleftrightarrow> ROLE_RANK r \<le> ROLE_RANK s"

definition less_role :: "role \<Rightarrow> role \<Rightarrow> bool" where
  "less_role r s \<longleftrightarrow> ROLE_RANK r < ROLE_RANK s"

instance
proof
  fix r s u :: role
  show "r < s \<longleftrightarrow> r \<le> s \<and> \<not> s \<le> r" "r \<le> r" "r \<le> s \<Longrightarrow> s \<le> u \<Longrightarrow> r \<le> u" "r \<le> s \<or> s \<le> r"
    by (auto simp: less_eq_role_def less_role_def)
  show "r \<le> s \<Longrightarrow> s \<le> r \<Longrightarrow> r = s" by (cases r; cases s) (simp_all add: less_eq_role_def)
qed

end

text \<open>\<open>Math.max()\<close> of no argument is \<open>-Infinity\<close>, which every rank reaches.\<close>

definition hasRole :: "auth_user option \<Rightarrow> role list \<Rightarrow> bool" where
  "hasRole u rs = (case u of
     None \<Rightarrow> False
   | Some x \<Rightarrow> (case map ROLE_RANK rs of
       [] \<Rightarrow> True
     | n # ns \<Rightarrow> fold max ns n \<le> ROLE_RANK (au_role x)))"

section \<open>The session state\<close>

record session =
  se_user :: "auth_user option"
  se_loading :: bool
  se_listener :: slot
  se_provider_cb :: "nat option"   \<comment> \<open>the callback the mounted provider registered\<close>
  se_fresh_cb :: nat
  se_path :: string                \<comment> \<open>\<open>location.pathname\<close>\<close>
  se_nav_from :: "string option"   \<comment> \<open>\<open>location.state.from\<close>\<close>
  se_login_error :: "string option"
  se_submitting :: bool
  se_logins :: "string option list"  \<comment> \<open>logins in flight, with the \<open>from\<close> their closure captured\<close>
  se_logouts :: nat                \<comment> \<open>logout requests in flight\<close>
  se_me_inflight :: nat            \<comment> \<open>\<open>/auth/me\<close> requests in flight\<close>

definition session_initial :: "string \<Rightarrow> session" where
  "session_initial p = \<lparr>se_user = None, se_loading = True, se_listener = None, se_provider_cb = None, se_fresh_cb = 0,
     se_path = p, se_nav_from = None, se_login_error = None, se_submitting = False, se_logins = [], se_logouts = 0,
     se_me_inflight = 0\<rparr>"

text \<open>The two effects of \<open>AuthProvider\<close> on mount, and their cleanup.\<close>

definition mount_provider :: "session \<Rightarrow> session" where
  "mount_provider s = s\<lparr>se_me_inflight := se_me_inflight s + 1,
     se_listener := onSessionExpired (se_fresh_cb s) (se_listener s),
     se_provider_cb := Some (se_fresh_cb s), se_fresh_cb := se_fresh_cb s + 1\<rparr>"

definition unmount_provider :: "session \<Rightarrow> session" where
  "unmount_provider s = (case se_provider_cb s of
     None \<Rightarrow> s
   | Some cb \<Rightarrow> s\<lparr>se_listener := unsubscribe cb (se_listener s), se_provider_cb := None\<rparr>)"

text \<open>Running the registered callback: the provider's is \<open>() => setUser(null)\<close>.\<close>

definition run_listener :: "session \<Rightarrow> session" where
  "run_listener s = (case notifySessionExpired (se_listener s) of
     None \<Rightarrow> s
   | Some cb \<Rightarrow> if se_provider_cb s = Some cb then s\<lparr>se_user := None\<rparr> else s)"

text \<open>Any response of the API, as the client sees it.\<close>

definition api_response :: "nat \<Rightarrow> session \<Rightarrow> session" where
  "api_response st s = (if handleUnauthorized (se_path s) st then run_listener s else s)"

text \<open>\<open>/auth/me\<close>: a response (the error and data of the result), or a network failure.\<close>

definition me_response :: "nat \<Rightarrow> json option \<Rightarrow> auth_user option \<Rightarrow> session \<Rightarrow> session" where
  "me_response st err dat s =
    (let s' = api_response st s
     in s'\<lparr>se_user := (if err \<noteq> None \<or> dat = None then None else dat), se_loading := False,
           se_me_inflight := se_me_inflight s - 1\<rparr>)"

definition me_failure :: "session \<Rightarrow> session" where
  "me_failure s = s\<lparr>se_loading := False, se_me_inflight := se_me_inflight s - 1\<rparr>"

section \<open>Login page and route guard\<close>

definition safeFrom :: "string option \<Rightarrow> string" where
  "safeFrom raw = (case raw of
     None \<Rightarrow> ''/tenants''
   | Some r \<Rightarrow> if r = [] \<or> \<not> starts_with r ''/'' \<or> starts_with r ''//'' then ''/tenants'' else r)"

definition navigate :: "string \<Rightarrow> string option \<Rightarrow> session \<Rightarrow> session" where
  "navigate p from s = s\<lparr>se_path := p, se_nav_from := from\<rparr>"

definition handleSubmit :: "session \<Rightarrow> session" where
  "handleSubmit s = s\<lparr>se_login_error := None, se_submitting := True, se_logins := se_logins s @ [se_nav_from s]\<rparr>"

text \<open>
  The login response. A success sets the se_user and then navigates with the \<open>from\<close> the
  se_submitting closure captured; the two are separate steps because a session_render may come between.
\<close>

definition login_setUser :: "auth_user \<Rightarrow> session \<Rightarrow> session" where
  "login_setUser u s = s\<lparr>se_user := Some u\<rparr>"

definition login_continue :: "session \<Rightarrow> session" where
  "login_continue s = (case se_logins s of
     [] \<Rightarrow> s
   | from # ls \<Rightarrow> (navigate (safeFrom from) None s)\<lparr>se_submitting := False, se_logins := ls\<rparr>)"

definition login_failed :: "thrown \<Rightarrow> session \<Rightarrow> session" where
  "login_failed e s = s\<lparr>se_login_error := Some (raw_message e), se_submitting := False, se_logins := tl (se_logins s)\<rparr>"

text \<open>\<open>logout\<close>: the request, its response, or a network failure (which rejects before \<open>setUser\<close>).\<close>

definition logout_request :: "session \<Rightarrow> session" where
  "logout_request s = s\<lparr>se_logouts := se_logouts s + 1\<rparr>"

definition logout_response :: "nat \<Rightarrow> session \<Rightarrow> session" where
  "logout_response st s = (api_response st s)\<lparr>se_user := None, se_logouts := se_logouts s - 1\<rparr>"

definition logout_failure :: "session \<Rightarrow> session" where
  "logout_failure s = s\<lparr>se_logouts := se_logouts s - 1\<rparr>"

datatype route_view = LoaderView | LoginForm | Outlet | NavigateTo string "string option"

definition RequireAuth :: "session \<Rightarrow> route_view" where
  "RequireAuth s = (if se_loading s then LoaderView
     else if se_user s = None then NavigateTo ''/login'' (Some (se_path s)) else Outlet)"

definition LoginPage :: "session \<Rightarrow> route_view" where
  "LoginPage s = (if \<not> se_loading s \<and> se_user s \<noteq> None then NavigateTo (safeFrom (se_nav_from s)) None else LoginForm)"

definition view_of :: "session \<Rightarrow> route_view" where
  "view_of s = (if se_path s = ''/login'' then LoginPage s else RequireAuth s)"

text \<open>One render: a \<open>Navigate\<close> element navigates.\<close>

definition session_render :: "session \<Rightarrow> session" where
  "session_render s = (case view_of s of NavigateTo p from \<Rightarrow> navigate p from s | _ \<Rightarrow> s)"

section \<open>Interleavings\<close>

inductive session_step :: "session \<Rightarrow> session \<Rightarrow> bool" where
  mount: "se_provider_cb s = None \<Longrightarrow> session_step s (mount_provider s)"
| unmount: "session_step s (unmount_provider s)"
| me: "se_me_inflight s > 0 \<Longrightarrow> session_step s (me_response st err dat s)"
| me_fail: "se_me_inflight s > 0 \<Longrightarrow> session_step s (me_failure s)"
| api: "session_step s (api_response st s)"
| submit: "view_of s = LoginForm \<Longrightarrow> \<not> se_submitting s \<Longrightarrow> se_path s = ''/login'' \<Longrightarrow> session_step s (handleSubmit s)"
| login_user: "se_logins s \<noteq> [] \<Longrightarrow> session_step s (login_setUser u s)"
| login_cont: "se_logins s \<noteq> [] \<Longrightarrow> se_user s \<noteq> None \<Longrightarrow> session_step s (login_continue s)"
| login_fail: "se_logins s \<noteq> [] \<Longrightarrow> session_step s (login_failed e s)"
| logout_req: "session_step s (logout_request s)"
| logout_resp: "se_logouts s > 0 \<Longrightarrow> session_step s (logout_response st s)"
| logout_fail: "se_logouts s > 0 \<Longrightarrow> session_step s (logout_failure s)"
| rendering: "session_step s (session_render s)"
| navigating: "starts_with p ''/'' \<Longrightarrow> p \<noteq> ''/login'' \<Longrightarrow> session_step s (navigate p None s)"

inductive session_reachable :: "session \<Rightarrow> bool" where
  start: "starts_with p ''/'' \<Longrightarrow> session_reachable (session_initial p)"
| more: "session_reachable s \<Longrightarrow> session_step s s' \<Longrightarrow> session_reachable s'"

inductive_cases step_cases: "session_step s s'"

section \<open>The listener interface\<close>

locale listener_slot =
  fixes on :: "'cb \<Rightarrow> 's \<Rightarrow> 's" and off :: "'cb \<Rightarrow> 's \<Rightarrow> 's" and notified :: "'s \<Rightarrow> 'cb option"
  assumes notified_on: "notified (on c s) = Some c"
    and notified_off: "notified (off c s) = (if notified s = Some c then None else notified s)"
begin

lemma remount: "notified (on c' (off c (on c s))) = Some c'"
  by (simp add: notified_on)

lemma stale_cleanup_keeps: "c \<noteq> c' \<Longrightarrow> notified (off c (on c' s)) = Some c'"
  by (simp add: notified_on notified_off)

lemma cleanup_silences: "notified (off c s) \<noteq> Some c"
  by (simp add: notified_off)

end

interpretation ls: listener_slot onSessionExpired unsubscribe notifySessionExpired
  by unfold_locales (auto simp: onSessionExpired_def unsubscribe_def notifySessionExpired_def)

section \<open>Invariant\<close>

text \<open>
  The se_listener is the mounted provider's callback, callbacks are fresh, and every remembered
  \<open>from\<close> is a se_path of the application other than the login page.
\<close>

definition from_ok :: "string option \<Rightarrow> bool" where
  "from_ok f = (case f of None \<Rightarrow> True | Some p \<Rightarrow> starts_with p ''/'' \<and> p \<noteq> ''/login'')"

definition session_ok :: "session \<Rightarrow> bool" where
  "session_ok s \<longleftrightarrow>
     se_listener s = se_provider_cb s
   \<and> (\<forall>cb. se_provider_cb s = Some cb \<longrightarrow> cb < se_fresh_cb s)
   \<and> starts_with (se_path s) ''/'' \<and> from_ok (se_nav_from s) \<and> list_all from_ok (se_logins s)"

lemmas session_ops = mount_provider_def unmount_provider_def me_response_def me_failure_def
  api_response_def run_listener_def handleSubmit_def login_setUser_def login_continue_def
  login_failed_def logout_request_def logout_response_def logout_failure_def navigate_def

lemma safeFrom_slash: "starts_with (safeFrom f) ''/''"
  by (auto simp: safeFrom_def starts_with_def split: option.split)

lemma session_ok_api: "session_ok s \<Longrightarrow> session_ok (api_response st s)"
  by (auto simp: session_ok_def api_response_def run_listener_def split: option.splits)

lemma session_ok_render: "session_ok s \<Longrightarrow> session_ok (session_render s)"
  using safeFrom_slash
  by (auto simp: session_ok_def session_render_def view_of_def LoginPage_def RequireAuth_def navigate_def
      from_ok_def starts_with_def split: route_view.splits if_splits)

lemma session_ok_step: "session_step s s' \<Longrightarrow> session_ok s \<Longrightarrow> session_ok s'"
proof (induction rule: session_step.induct)
  case (me s st err dat)
  then show ?case using session_ok_api [of s st] by (simp add: me_response_def session_ok_def Let_def)
next
  case (login_cont s)
  then show ?case using safeFrom_slash
    by (auto simp: session_ok_def login_continue_def navigate_def from_ok_def split: list.splits)
next
  case (login_fail s e)
  then show ?case by (cases "se_logins s") (auto simp: session_ok_def login_failed_def)
next
  case (logout_resp s st)
  then show ?case using session_ok_api [of s st] by (simp add: logout_response_def session_ok_def)
next
  case (mount s)
  then show ?case by (auto simp: session_ok_def mount_provider_def onSessionExpired_def)
next
  case (unmount s)
  then show ?case by (auto simp: session_ok_def unmount_provider_def unsubscribe_def split: option.splits)
qed (auto simp: session_ok_api session_ok_render, auto simp: session_ok_def session_ops from_ok_def)

lemma session_ok_reachable: "session_reachable s \<Longrightarrow> session_ok s"
proof (induction rule: session_reachable.induct)
  case (start p)
  then show ?case by (simp add: session_ok_def session_initial_def from_ok_def)
qed (rule session_ok_step)

section \<open>Properties of the session\<close>

lemma hasRole_all: "hasRole (Some u) rs \<longleftrightarrow> list_all (\<lambda>r. ROLE_RANK r \<le> ROLE_RANK (au_role u)) rs"
proof (cases rs)
  case (Cons r rs')
  have "fold max ns n \<le> k \<longleftrightarrow> n \<le> k \<and> list_all (\<lambda>m. m \<le> k) ns" for ns and n k :: nat
    by (induction ns arbitrary: n) auto
  with Cons show ?thesis by (simp add: hasRole_def list_all_iff)
qed (simp add: hasRole_def)

lemma run_listener_mounted:
  "session_ok s \<Longrightarrow> se_provider_cb s \<noteq> None \<Longrightarrow> run_listener s = s\<lparr>se_user := None\<rparr>"
  by (auto simp: run_listener_def session_ok_def notifySessionExpired_def)

lemma safeFrom_path:
  "starts_with p ''/'' \<Longrightarrow> \<not> starts_with p ''//'' \<Longrightarrow> safeFrom (Some p) = p"
  by (auto simp: safeFrom_def starts_with_def)

definition expire :: "session \<Rightarrow> session" where
  "expire s = session_render (api_response 401 s)"

lemma expire_mounted:
  assumes "session_ok s" and "se_provider_cb s \<noteq> None" and "\<not> se_loading s"
    and "\<not> starts_with (se_path s) ''/login''"
  shows "expire s = s\<lparr>se_user := None, se_path := ''/login'', se_nav_from := Some (se_path s)\<rparr>"
proof -
  have "se_path s \<noteq> ''/login''" using assms(4) by (auto simp: starts_with_def)
  then show ?thesis
    using assms run_listener_mounted [OF assms(1,2)]
    by (simp add: expire_def api_response_def handleUnauthorized_def session_render_def view_of_def
        RequireAuth_def navigate_def)
qed

text \<open>C15. Session expiry round trip. In every reachable state with the provider mounted, a 401 on a
  page clears the user and the next render shows the login form; signing in from there brings
  the user back to the page they were on, whether or not a render comes between setting the
  user and the navigation.\<close>

theorem session_expiry_round_trip:
  assumes "session_reachable s" and "se_provider_cb s \<noteq> None" and "\<not> se_loading s"
    and "se_logins s = []" and "\<not> starts_with (se_path s) ''/login''" and "\<not> starts_with (se_path s) ''//''"
  shows "se_user (expire s) = None \<and> view_of (expire s) = LoginForm
    \<and> (let s1 = login_setUser u (handleSubmit (expire s))
       in se_path (login_continue s1) = se_path s \<and> view_of (login_continue s1) = Outlet
        \<and> login_continue (session_render s1) = login_continue s1)"
proof -
  have ok: "session_ok s" using assms(1) by (rule session_ok_reachable)
  then have slash: "starts_with (se_path s) ''/''" by (simp add: session_ok_def)
  have ne: "se_path s \<noteq> ''/login''" using assms(5) by (auto simp: starts_with_def)
  note ex = expire_mounted [OF ok assms(2,3,5)]
  note sf = safeFrom_path [OF slash assms(6)]
  show ?thesis
    using assms(3,4) ne sf
    by (simp add: ex view_of_def LoginPage_def RequireAuth_def login_setUser_def handleSubmit_def
        login_continue_def navigate_def session_render_def Let_def)
qed

definition wit_user :: auth_user where
  "wit_user = \<lparr>au_id = ''1'', au_email = ''a@b'', au_role = Operator, au_tenant_id = None\<rparr>"

definition wit_session :: session where
  "wit_session = me_response 200 None (Some wit_user) (mount_provider (session_initial ''/zones''))"

lemma wit_session_reachable: "session_reachable wit_session"
proof -
  have "session_reachable (session_initial ''/zones'')"
    by (rule session_reachable.start) (simp add: starts_with_def)
  then have "session_reachable (mount_provider (session_initial ''/zones''))"
    by (rule session_reachable.more) (rule session_step.mount, simp add: session_initial_def)
  then show ?thesis
    unfolding wit_session_def
    by (rule session_reachable.more) (rule session_step.me, simp add: mount_provider_def)
qed

theorem session_expiry_round_trip_witness:
  "se_user wit_session = Some wit_user \<and> view_of (expire wit_session) = LoginForm
   \<and> se_path (login_continue (login_setUser wit_user (handleSubmit (expire wit_session)))) = ''/zones''"
proof -
  have "se_provider_cb wit_session \<noteq> None" "\<not> se_loading wit_session" "se_logins wit_session = []"
    "se_path wit_session = ''/zones''" "se_user wit_session = Some wit_user"
    by code_simp+
  then show ?thesis
    using session_expiry_round_trip [OF wit_session_reachable, of wit_user]
    by (simp add: starts_with_def Let_def)
qed

text \<open>C32. A login can be undone by the first \<open>/auth/me\<close>: the login form is usable while that request
  is in flight, and its late 401 answer clears the user who has signed in meanwhile.\<close>

theorem late_me_response_drops_login:
  "\<exists>s. session_reachable s \<and> se_user s = Some u \<and> view_of (me_response 401 (Some err) None s) = 
        NavigateTo ''/login'' (Some (se_path s)) \<and> session_step s (me_response 401 (Some err) None s)"
proof -
  let ?s0 = "mount_provider (session_initial ''/login'')"
  let ?s1 = "handleSubmit ?s0"
  let ?s2 = "login_setUser u ?s1"
  let ?s3 = "login_continue ?s2"
  have "session_reachable (session_initial ''/login'')"
    by (rule session_reachable.start) (simp add: starts_with_def)
  then have "session_reachable ?s0"
    by (rule session_reachable.more) (rule session_step.mount, simp add: session_initial_def)
  then have "session_reachable ?s1"
    by (rule session_reachable.more)
      (rule session_step.submit, simp_all add: session_initial_def mount_provider_def view_of_def LoginPage_def)
  then have "session_reachable ?s2"
    by (rule session_reachable.more) (rule session_step.login_user, simp add: handleSubmit_def)
  then have "session_reachable ?s3"
    by (rule session_reachable.more)
      (rule session_step.login_cont, simp_all add: handleSubmit_def login_setUser_def)
  moreover have "se_user ?s3 = Some u" "se_path ?s3 = ''/tenants''" "se_me_inflight ?s3 > 0"
    by (simp_all add: session_initial_def mount_provider_def handleSubmit_def login_setUser_def
        login_continue_def navigate_def safeFrom_def)
  moreover from this have "view_of (me_response 401 (Some err) None ?s3) = NavigateTo ''/login'' (Some (se_path ?s3))"
    by (simp add: me_response_def view_of_def RequireAuth_def api_response_def run_listener_def Let_def
        split: option.split)
  ultimately show ?thesis using session_step.me by blast
qed

end
