(* ===== verification/UrlState.thy ===== *)
theory UrlState
  imports ApiClient
begin

text \<open>
  State outside the React tree: \<open>hooks/useUrlFilters.ts\<close> (filters kept in the URL's search
  parameters) over \<open>URLSearchParams\<close> as a list of pairs, and \<open>hooks/useUnsavedChangesGuard.ts\<close>
  (the module-level flag that blocks in-app navigation).
\<close>

section \<open>URLSearchParams\<close>

type_synonym search_pairs = "(string \<times> string) list"

definition sp_get :: "string \<Rightarrow> search_pairs \<Rightarrow> string option" where
  "sp_get k ps = map_of ps k"

definition sp_delete :: "string \<Rightarrow> search_pairs \<Rightarrow> search_pairs" where
  "sp_delete k ps = filter (\<lambda>(k', _). k' \<noteq> k) ps"

section \<open>useUrlFilters\<close>

definition filter_values :: "(string \<times> string) list \<Rightarrow> search_pairs \<Rightarrow> (string \<times> string) list" where
  "filter_values defaults ps =
     map (\<lambda>(k, d). (k, case sp_get k ps of Some v \<Rightarrow> v | None \<Rightarrow> d)) defaults"

definition set_filter :: "(string \<times> string) list \<Rightarrow> string \<times> string option \<Rightarrow> search_pairs \<Rightarrow> search_pairs" where
  "set_filter defaults kv ps =
    (let (k, v) = kv in
     case v of
       None \<Rightarrow> sp_delete k ps
     | Some x \<Rightarrow> if map_of defaults k = Some x then sp_delete k ps else sp_set k x ps)"

definition setFilters :: "(string \<times> string) list \<Rightarrow> (string \<times> string option) list \<Rightarrow> search_pairs \<Rightarrow> search_pairs" where
  "setFilters defaults patch prev = fold (set_filter defaults) patch prev"

section \<open>Unsaved changes guard\<close>

text \<open>
  \<open>isBlocked\<close> is the whole state. The effect of \<open>useUnsavedChangesGuard(dirty)\<close> sets it, its cleanup
  resets it; React runs the cleanup of the old value before the effect of the new one.
\<close>

definition isNavigationBlocked :: "bool \<Rightarrow> bool" where
  "isNavigationBlocked isBlocked = isBlocked"

definition guard_effect :: "bool \<Rightarrow> bool \<Rightarrow> bool" where
  "guard_effect dirty isBlocked = dirty"

definition guard_cleanup :: "bool \<Rightarrow> bool" where
  "guard_cleanup isBlocked = False"

text \<open>A re-render whose \<open>dirty\<close> changed from \<open>old\<close> to \<open>new\<close>.\<close>

definition guard_rerender :: "bool \<Rightarrow> bool \<Rightarrow> bool \<Rightarrow> bool" where
  "guard_rerender old new isBlocked = (if old = new then isBlocked else guard_effect new (guard_cleanup isBlocked))"

text \<open>True when the handler prevents the unload.\<close>

definition onBeforeUnload :: "bool \<Rightarrow> bool" where
  "onBeforeUnload dirty = dirty"

datatype 'a nav_outcome = Proceeded 'a | ConfirmModal string string 'a

definition confirmNavigation :: "bool \<Rightarrow> 'a \<Rightarrow> 'a nav_outcome" where
  "confirmNavigation isBlocked proceed =
    (if \<not> isBlocked then Proceeded proceed
     else ConfirmModal ''Unsaved changes''
       ''You have unsaved policy changes. Discard them and leave this page?'' proceed)"

section \<open>The search-parameter interface\<close>

locale search_params =
  fixes get :: "string \<Rightarrow> 'p \<Rightarrow> string option"
    and set_param :: "string \<Rightarrow> string \<Rightarrow> 'p \<Rightarrow> 'p"
    and delete :: "string \<Rightarrow> 'p \<Rightarrow> 'p"
  assumes get_set: "get k (set_param k' v p) = (if k = k' then Some v else get k p)"
    and get_delete: "get k (delete k' p) = (if k = k' then None else get k p)"
begin

text \<open>One patch entry: absent or default values are removed.\<close>

lemma get_patch_entry:
  "get k (case v of None \<Rightarrow> delete k' p
          | Some x \<Rightarrow> if d k' = Some x then delete k' p else set_param k' x p)
   = (if k = k' then (if v = d k' then None else v) else get k p)"
  by (auto simp: get_set get_delete split: option.split)

lemma get_patch:
  assumes "distinct (map fst patch)"
  shows "get k (fold (\<lambda>(k', v) p. case v of None \<Rightarrow> delete k' p
            | Some x \<Rightarrow> if d k' = Some x then delete k' p else set_param k' x p) patch p)
       = (case map_of patch k of None \<Rightarrow> get k p | Some v \<Rightarrow> if v = d k then None else v)"
  using assms
proof (induction patch arbitrary: p)
  case (Cons kv patch)
  obtain k' v where kv: "kv = (k', v)" by (cases kv)
  have "k = k' \<Longrightarrow> map_of patch k = None" using Cons.prems kv by (auto simp: map_of_eq_None_iff)
  then show ?case using Cons kv get_patch_entry [where k = k and v = v and k' = k' and p = p and d = d]
    by (auto split: option.split)
qed simp

end

lemma map_of_sp_set: "map_of (sp_set k' v ps) k = (if k = k' then Some v else map_of ps k)"
proof (induction ps)
  case (Cons kv ps)
  have "map_of (filter (\<lambda>(k'', _). k'' \<noteq> k') ps) k = map_of ps k" if "k \<noteq> k'" for ps :: search_pairs
    using that by (induction ps) auto
  with Cons show ?case by (cases kv) auto
qed auto

lemma map_of_sp_delete: "map_of (sp_delete k' ps) k = (if k = k' then None else map_of ps k)"
  by (induction ps) (auto simp: sp_delete_def)

interpretation sp: search_params sp_get sp_set sp_delete
  by unfold_locales (simp_all add: sp_get_def map_of_sp_set map_of_sp_delete)

lemma setFilters_fold:
  "setFilters defaults patch prev =
     fold (\<lambda>(k', v) p. case v of None \<Rightarrow> sp_delete k' p
            | Some x \<Rightarrow> if map_of defaults k' = Some x then sp_delete k' p else sp_set k' x p) patch prev"
proof -
  have "set_filter defaults = (\<lambda>(k', v) p. case v of None \<Rightarrow> sp_delete k' p
      | Some x \<Rightarrow> if map_of defaults k' = Some x then sp_delete k' p else sp_set k' x p)"
    by (auto simp: set_filter_def fun_eq_iff)
  then show ?thesis by (simp add: setFilters_def)
qed

lemma sp_get_setFilters:
  assumes "distinct (map fst patch)"
  shows "sp_get k (setFilters defaults patch prev) =
    (case map_of patch k of None \<Rightarrow> sp_get k prev | Some v \<Rightarrow> if v = map_of defaults k then None else v)"
  unfolding setFilters_fold using assms by (rule sp.get_patch)

lemma map_of_filter_values:
  "map_of (filter_values defaults ps) k =
     (case map_of defaults k of None \<Rightarrow> None | Some d \<Rightarrow> Some (nullish (sp_get k ps) d))"
  by (induction defaults) (auto simp: filter_values_def split: option.split)

section \<open>Properties\<close>

text \<open>C24. URL filters read back what was written: after \<open>setFilters\<close>, each patched filter has its new
  value (its default when the patch clears it), each other filter and every foreign search
  parameter is unchanged, and a filter at its default is absent from the URL.\<close>

theorem url_filters_read_after_write:
  assumes "distinct (map fst patch)" and "\<forall>(k, v) \<in> set patch. map_of defaults k \<noteq> None"
  shows "map_of (filter_values defaults (setFilters defaults patch prev)) k =
      (case map_of patch k of
         None \<Rightarrow> map_of (filter_values defaults prev) k
       | Some None \<Rightarrow> map_of defaults k
       | Some (Some v) \<Rightarrow> Some v)
    \<and> (map_of patch k = None \<longrightarrow> sp_get k (setFilters defaults patch prev) = sp_get k prev)
    \<and> (map_of patch k \<noteq> None \<and> map_of (filter_values defaults (setFilters defaults patch prev)) k = map_of defaults k
        \<longrightarrow> sp_get k (setFilters defaults patch prev) = None)"
proof -
  have "map_of patch k \<noteq> None \<Longrightarrow> map_of defaults k \<noteq> None"
    using assms(2) by (auto dest: map_of_SomeD)
  then show ?thesis
    using sp_get_setFilters [OF assms(1), of k defaults prev]
    by (auto simp: map_of_filter_values split: option.splits if_splits)
qed

theorem url_filters_read_after_write_witness:
  "map_of (filter_values [(''hours'', ''24''), (''offset'', ''0'')]
      (setFilters [(''hours'', ''24''), (''offset'', ''0'')] [(''hours'', Some ''6''), (''offset'', Some ''0'')]
         [(''offset'', ''50''), (''x'', ''y'')])) ''hours'' = Some ''6''"
  using url_filters_read_after_write [where patch = "[(''hours'', Some ''6''), (''offset'', Some ''0'')]"
      and defaults = "[(''hours'', ''24''), (''offset'', ''0'')]" and k = "''hours''"
      and prev = "[(''offset'', ''50''), (''x'', ''y'')]"]
  by simp

end
