(* ===== verification/Shell.thy ===== *)
theory Shell
  imports Auth UrlState
begin

text \<open>
  The application frame: the route table of \<open>App.tsx\<close>, the navigation and sign-out of
  \<open>app/Shell.tsx\<close>, and the error boundary of \<open>app/ErrorBoundary.tsx\<close>. Route matching belongs to the
  router library; the table is data.
\<close>

section \<open>Routes (App.tsx)\<close>

text \<open>A route has an optional path, an element and child routes.\<close>

datatype route = Route "string option" string "route list"

definition App_routes :: "route list" where
  "App_routes =
    [Route (Some ''/login'') ''LoginPage'' [],
     Route None ''RequireAuth''
      [Route None ''Shell''
        [Route (Some ''/'') ''Navigate /dashboard'' [],
         Route (Some ''/dashboard'') ''DashboardPage'' [],
         Route (Some ''/tenants'') ''TenantsPage'' [],
         Route (Some ''/tenants/:tenantId'') ''GroupsPage'' [],
         Route (Some ''/tenants/:tenantId/clients'') ''ClientsPage'' [],
         Route (Some ''/tenants/:tenantId/groups/:groupId'') ''PolicyPage'' [],
         Route (Some ''/feeds'') ''FeedsPage'' [],
         Route (Some ''/zones'') ''ZonesPage'' [],
         Route (Some ''/zones/:zoneId'') ''ZoneDetailPage'' [],
         Route (Some ''/users'') ''UsersPage'' [],
         Route (Some ''/analytics'') ''AnalyticsPage'' [],
         Route (Some ''/query-log'') ''QueryLogPage'' [],
         Route (Some ''/audit'') ''AuditPage'' [],
         Route (Some ''/upstream'') ''UpstreamPage'' [],
         Route (Some ''/dhcp'') ''DhcpPage'' [],
         Route (Some ''/settings'') ''SettingsPage'' [],
         Route (Some ''*'') ''Navigate /tenants'' []]]]"

text \<open>The paths of the table, each with the elements that wrap it, outermost first.\<close>

fun route_paths :: "string list \<Rightarrow> route list \<Rightarrow> (string \<times> string list) list" where
  "route_paths ws [] = []"
| "route_paths ws (Route p e cs # rs) =
     (case p of None \<Rightarrow> [] | Some x \<Rightarrow> [(x, ws @ [e])]) @ route_paths (ws @ [e]) cs @ route_paths ws rs"

section \<open>Navigation (Shell.tsx)\<close>

record nav_item =
  ni_to :: string
  ni_labelKey :: string
  ni_minRole :: "role option"

definition nav :: "string \<Rightarrow> string \<Rightarrow> role option \<Rightarrow> nav_item" where
  "nav t l r = \<lparr>ni_to = t, ni_labelKey = l, ni_minRole = r\<rparr>"

definition NAV_ITEMS :: "nav_item list" where
  "NAV_ITEMS =
    [nav ''/dashboard'' ''nav.dashboard'' None,
     nav ''/tenants'' ''nav.tenants'' None,
     nav ''/feeds'' ''nav.feeds'' None,
     nav ''/zones'' ''nav.dnsZones'' None,
     nav ''/analytics'' ''nav.analytics'' None,
     nav ''/query-log'' ''nav.queryLog'' (Some Operator),
     nav ''/audit'' ''nav.auditLog'' (Some Operator),
     nav ''/users'' ''nav.users'' (Some Admin),
     nav ''/upstream'' ''nav.dnsUpstream'' (Some Operator),
     nav ''/dhcp'' ''nav.dhcp'' (Some Operator),
     nav ''/settings'' ''nav.settings'' None]"

definition visibleNavItems :: "auth_user option \<Rightarrow> nav_item list" where
  "visibleNavItems u =
     filter (\<lambda>i. case ni_minRole i of None \<Rightarrow> True | Some r \<Rightarrow> hasRole u [r]) NAV_ITEMS"

definition nav_active :: "string \<Rightarrow> nav_item \<Rightarrow> bool" where
  "nav_active pathname i = starts_with pathname (ni_to i)"

text \<open>A click on an item: the link navigates by itself unless navigation is blocked.\<close>

definition nav_click :: "bool \<Rightarrow> nav_item \<Rightarrow> (session \<Rightarrow> session) nav_outcome" where
  "nav_click isBlocked i =
    (if \<not> isNavigationBlocked isBlocked then Proceeded (navigate (ni_to i) None)
     else confirmNavigation isBlocked (navigate (ni_to i) None))"

definition signOut_proceed :: "session \<Rightarrow> session" where
  "signOut_proceed s = navigate ''/login'' None (logout_request s)"

definition signOut :: "bool \<Rightarrow> (session \<Rightarrow> session) nav_outcome" where
  "signOut isBlocked = confirmNavigation isBlocked signOut_proceed"

definition avatar_letter :: "auth_user \<Rightarrow> string" where
  "avatar_letter u = js_upper (take 1 (au_email u))"

section \<open>Error boundary\<close>

record boundary =
  eb_error :: "(string \<times> string option) option"  \<comment> \<open>message and stack\<close>
  eb_showDetails :: bool

definition eb_initial :: boundary where
  "eb_initial = \<lparr>eb_error = None, eb_showDetails = False\<rparr>"

definition getDerivedStateFromError :: "string \<times> string option \<Rightarrow> boundary" where
  "getDerivedStateFromError e = \<lparr>eb_error = Some e, eb_showDetails = False\<rparr>"

definition eb_toggle :: "boundary \<Rightarrow> boundary" where
  "eb_toggle b = b\<lparr>eb_showDetails := \<not> eb_showDetails b\<rparr>"

definition eb_retry :: "boundary \<Rightarrow> boundary" where
  "eb_retry b = b\<lparr>eb_error := None\<rparr>"

datatype eb_view = Children | BrokenAlert string "string option" bool

text \<open>What the boundary renders: the children, or the alert with its message, the stack when it is
  shown, and whether the details link is present (an empty stack is falsy).\<close>

definition eb_render :: "boundary \<Rightarrow> eb_view" where
  "eb_render b = (case eb_error b of
     None \<Rightarrow> Children
   | Some (m, stack) \<Rightarrow> BrokenAlert m (if truthy stack \<and> eb_showDetails b then stack else None) (truthy stack))"

section \<open>Properties\<close>

lemma hasRole_single: "hasRole u [r] \<longleftrightarrow> (\<exists>x. u = Some x \<and> ROLE_RANK r \<le> ROLE_RANK (au_role x))"
  by (cases u) (simp add: hasRole_def, simp add: hasRole_all)



text \<open>C31. Every route except \<open>/login\<close> is wrapped in \<open>RequireAuth\<close> and the shell, no path is declared
  twice, and every navigation entry, whatever the user's role, leads to one of the guarded pages.\<close>

theorem routes_guarded:
  "list_all (\<lambda>(p, ws). p = ''/login'' \<or> take 2 ws = [''RequireAuth'', ''Shell'']) (route_paths [] App_routes)
   \<and> distinct (map fst (route_paths [] App_routes))
   \<and> list_all (\<lambda>i. ni_to i \<in> set (map fst (route_paths [] App_routes)) \<and> ni_to i \<noteq> ''/login'')
       (visibleNavItems u)"
proof -
  have "list_all (\<lambda>i. ni_to i \<in> set (map fst (route_paths [] App_routes)) \<and> ni_to i \<noteq> ''/login'') NAV_ITEMS"
    "list_all (\<lambda>(p, ws). p = ''/login'' \<or> take 2 ws = [''RequireAuth'', ''Shell'']) (route_paths [] App_routes)"
    "distinct (map fst (route_paths [] App_routes))"
    by code_simp+
  then show ?thesis by (auto simp: visibleNavItems_def list_all_iff)
qed

text \<open>C29. Signing out. The shell navigates to \<open>/login\<close> before the logout request is answered, so a
  render in between bounces the still signed-in user to \<open>/tenants\<close>; once the answer arrives, whatever
  its status, the user is cleared and the next render shows the login form.\<close>

theorem sign_out_ends_at_login:
  assumes "\<not> se_loading s" and "se_user s \<noteq> None"
  shows "signOut False = Proceeded signOut_proceed
    \<and> se_path (session_render (signOut_proceed s)) = ''/tenants''
    \<and> (let s' = session_render (logout_response st (session_render (signOut_proceed s)))
       in se_user s' = None \<and> se_path s' = ''/login'' \<and> view_of s' = LoginForm)
    \<and> (let s' = logout_response st (signOut_proceed s)
       in se_user s' = None \<and> view_of s' = LoginForm)"
proof -
  have keep: "se_loading (api_response n x) = se_loading x \<and> se_path (api_response n x) = se_path x" for n x
    by (simp add: api_response_def run_listener_def split: option.split)
  show ?thesis
    using assms
    by (simp add: signOut_def confirmNavigation_def signOut_proceed_def session_render_def view_of_def
        LoginPage_def RequireAuth_def navigate_def logout_request_def logout_response_def keep Let_def
        safeFrom_def)
qed

theorem sign_out_ends_at_login_witness:
  "se_path (session_render (signOut_proceed wit_session)) = ''/tenants''
   \<and> view_of (session_render (logout_response 204 (session_render (signOut_proceed wit_session)))) = LoginForm"
proof -
  have "\<not> se_loading wit_session" "se_user wit_session \<noteq> None" by code_simp+
  then show ?thesis using sign_out_ends_at_login [of wit_session 204] by (simp add: Let_def)
qed

end
