(* ===== verification/Hooks.thy ===== *)
theory Hooks
  imports ApiClient
begin

text \<open>
  \<open>apps/ui/src/api/hooks.ts\<close>: one definition per query hook (its key, its request, when it is
  enabled, its refresh policy) and per mutation hook (its request and what it does to the query
  cache on success). The query library is a parameter: it runs an enabled query, stores the
  result under the key and applies the cache operations a mutation emits. A typed request keeps the
  path template and its parameters, which the typed client substitutes; a raw request has its final
  path. Optional arguments are \<^const>\<open>None\<close> for \<open>undefined\<close>.
\<close>

section \<open>Keys, requests and hooks\<close>

datatype key_atom = KStr string | KUndef | KNull | KNum nat | KBool bool

definition kopt :: "string option \<Rightarrow> key_atom" where
  "kopt a = (case a of None \<Rightarrow> KUndef | Some s \<Rightarrow> KStr s)"

definition knum :: "nat option \<Rightarrow> key_atom" where
  "knum a = (case a of None \<Rightarrow> KUndef | Some n \<Rightarrow> KNum n)"

datatype verb = GET | POST | PUT | PATCH | DELETE

datatype api_call =
    Typed verb string "(string \<times> string option) list" "(string \<times> json) list" "json option"
  | RawGet string "(string \<times> string option) list"
  | RawPost string json
  | RawPatch string json
  | RawPut string json
  | RawDelete string

datatype cache_op = Invalidate "key_atom list" | Remove "key_atom list"

datatype duration = Ms nat | Infinity

record query_hook =
  qh_key :: "key_atom list"
  qh_call :: api_call
  qh_result :: "client_result \<Rightarrow> thrown + json option"
  qh_enabled :: bool
  qh_refetchInterval :: "nat option"
  qh_staleTime :: "duration option"

record 'v mutation =
  mu_fn :: "'v \<Rightarrow> api_call"
  mu_onSuccess :: "'v \<Rightarrow> cache_op list"

definition useQuery :: "key_atom list \<Rightarrow> api_call \<Rightarrow> query_hook" where
  "useQuery k c = \<lparr>qh_key = k, qh_call = c, qh_result = unwrap, qh_enabled = True,
     qh_refetchInterval = None, qh_staleTime = None\<rparr>"

text \<open>\<open>if (res.response.status === 404) return null; return unwrap(res);\<close>\<close>

definition null_on_404 :: "client_result \<Rightarrow> thrown + json option" where
  "null_on_404 r = (if rs_status (cr_response r) = 404 then Inr (Some JNull) else unwrap r)"

text \<open>\<open>...(v ? { k: v } : {})\<close>\<close>

definition when_truthy :: "string \<Rightarrow> string option \<Rightarrow> (string \<times> string option) list" where
  "when_truthy k v = (if truthy v then [(k, v)] else [])"

definition when_nonzero :: "string \<Rightarrow> nat option \<Rightarrow> (string \<times> string option) list" where
  "when_nonzero k v = (case v of None \<Rightarrow> [] | Some n \<Rightarrow> if n = 0 then [] else [(k, Some (nat_str n))])"

section \<open>Data types of the raw endpoints\<close>

record category =
  cat_id :: string
  cat_label :: string
  cat_description :: string
  cat_group :: string
  cat_color :: string
  cat_icon :: string
  cat_default_action :: string
  cat_has_bundled_feed :: bool

record audit_log_entry =
  al_id :: string
  al_occurred_at :: string
  al_actor :: string
  al_action :: string
  al_resource_type :: string
  al_resource_id :: string
  al_detail :: string
  al_tenant_id :: "string option"

record query_log_entry =
  ql_id :: string
  ql_occurred_at :: string
  ql_group_id :: string
  ql_group_name :: "string option"
  ql_tenant_id :: "string option"
  ql_client_ip :: "string option"
  ql_client_name :: "string option"
  ql_qname :: string
  ql_qtype :: "string option"
  ql_decision :: string
  ql_matched_rule :: "string option"
  ql_matched_category :: "string option"
  ql_matched_feed_id :: "string option"
  ql_response_code :: "string option"
  ql_cache_hit :: "bool option"
  ql_latency_us :: "int option"

record upstream_resolver =
  ur_id :: string
  ur_name :: string
  ur_protocol :: string
  ur_address :: string
  ur_port :: int
  ur_tls_hostname :: "string option"
  ur_tls_pin_sha256 :: "string list"
  ur_doh_path :: string
  ur_dnssec_validation :: string
  ur_timeout_ms :: int
  ur_max_retries :: int
  ur_tags :: "string list"
  ur_enabled :: bool
  ur_created_at :: string
  ur_updated_at :: string

record upstream_pool_member =
  um_id :: string
  um_pool_id :: string
  um_resolver_id :: string
  um_weight :: int
  um_priority :: int

record upstream_pool =
  up_id :: string
  up_name :: string
  up_strategy :: string
  up_health_check_interval_s :: int
  up_health_check_timeout_ms :: int
  up_health_check_query :: string
  up_health_check_type :: string
  up_unhealthy_threshold :: int
  up_healthy_threshold :: int
  up_min_healthy_members :: int
  up_fallback_pool_id :: "string option"
  up_members :: "upstream_pool_member list"
  up_created_at :: string
  up_updated_at :: string

record upstream_route =
  rt_id :: string
  rt_name :: string
  rt_tenant_id :: "string option"
  rt_group_id :: "string option"
  rt_match_type :: string
  rt_match_value :: "string option"
  rt_pool_id :: string
  rt_nxdomain_ttl_override :: "int option"
  rt_require_dnssec :: "bool option"
  rt_priority :: int
  rt_enabled :: bool
  rt_created_at :: string
  rt_updated_at :: string

record upstream_tenant_policy =
  tp_tenant_id :: string
  tp_require_encrypted :: bool
  tp_dnssec_validation :: string
  tp_min_ttl_s :: int
  tp_max_ttl_s :: int
  tp_negative_ttl_s :: int

record probe_result =
  pr_ok :: bool
  pr_latency_ms :: "int option"
  pr_response_code :: "string option"
  pr_dnssec_ad :: bool
  pr_tls_subject :: "string option"
  pr_error :: "string option"

record dhcp_scope =
  ds_id :: string
  ds_tenant_id :: string
  ds_name :: string
  ds_description :: "string option"
  ds_subnet :: string
  ds_range_start :: string
  ds_range_end :: string
  ds_router_ip :: "string option"
  ds_dns_servers :: "string list"
  ds_ntp_server :: "string option"
  ds_domain_name :: "string option"
  ds_interface :: "string option"
  ds_vlan_id :: "int option"
  ds_lease_time_s :: int
  ds_max_lease_time_s :: int
  ds_renew_time_s :: "int option"
  ds_rebind_time_s :: "int option"
  ds_ddns_enabled :: bool
  ds_ddns_zone_id :: "string option"
  ds_ddns_ttl_s :: int
  ds_pxe_next_server :: "string option"
  ds_pxe_boot_filename :: "string option"
  ds_pxe_uefi_boot_filename :: "string option"
  ds_enabled :: bool
  ds_created_at :: string
  ds_updated_at :: string

record dhcp_reservation =
  dr_id :: string
  dr_scope_id :: string
  dr_tenant_id :: string
  dr_mac_address :: string
  dr_ip_address :: string
  dr_hostname :: "string option"
  dr_description :: "string option"
  dr_client_id :: "string option"
  dr_next_server :: "string option"
  dr_boot_filename :: "string option"
  dr_uefi_boot_filename :: "string option"
  dr_enabled :: bool
  dr_created_at :: string
  dr_updated_at :: string

record dhcp_lease =
  dl_ip_address :: string
  dl_mac_address :: string
  dl_hostname :: "string option"
  dl_scope_id :: string
  dl_expires_at :: string
  dl_state :: int

record dhcp_subnet_stat =
  st_scope_id :: string
  st_scope_name :: string
  st_subnet :: string
  st_total_addresses :: int
  st_assigned_addresses :: int
  st_declined_addresses :: int

record daemon_heartbeat =
  hb_instance_id :: string
  hb_family :: string
  hb_hostname :: "string option"
  hb_started_at :: string
  hb_last_seen_at :: string
  hb_stale :: bool

record dhcp_scope6 =
  ds6_id :: string
  ds6_tenant_id :: string
  ds6_name :: string
  ds6_description :: "string option"
  ds6_subnet :: string
  ds6_pool_start :: string
  ds6_pool_end :: string
  ds6_pd_prefix :: "string option"
  ds6_pd_prefix_len :: "int option"
  ds6_dns_servers :: "string list"
  ds6_domain_name :: "string option"
  ds6_interface :: "string option"
  ds6_preferred_lifetime_s :: int
  ds6_valid_lifetime_s :: int
  ds6_renew_time_s :: "int option"
  ds6_rebind_time_s :: "int option"
  ds6_ddns_enabled :: bool
  ds6_ddns_zone_id :: "string option"
  ds6_ddns_ttl_s :: int
  ds6_enabled :: bool
  ds6_created_at :: string
  ds6_updated_at :: string

record dhcp_reservation6 =
  dr6_id :: string
  dr6_scope_id :: string
  dr6_tenant_id :: string
  dr6_duid :: string
  dr6_ip_address :: string
  dr6_hostname :: "string option"
  dr6_description :: "string option"
  dr6_enabled :: bool
  dr6_created_at :: string
  dr6_updated_at :: string

record dhcp_lease6 =
  dl6_ip_address :: string
  dl6_duid :: string
  dl6_hostname :: "string option"
  dl6_scope_id :: string
  dl6_expires_at :: string
  dl6_state :: int
  dl6_lease_type :: int

section \<open>The hooks\<close>

subsection \<open>Users\<close>

definition useUsers :: query_hook where
  "useUsers = useQuery [KStr ''users'']
     (Typed GET ''/api/v1/users'' [] [] None)"

definition useCreateUser :: "json mutation" where
  "useCreateUser = \<lparr>mu_fn = (\<lambda>b. Typed POST ''/api/v1/users'' [] [] (Some b)),
     mu_onSuccess = (\<lambda>_. [Invalidate [KStr ''users'']])\<rparr>"

definition useUpdateUser :: "(string \<times> json) mutation" where
  "useUpdateUser = \<lparr>mu_fn = (\<lambda>(i, b). Typed PATCH ''/api/v1/users/{user_id}'' [(''user_id'', Some i)] [] (Some b)),
     mu_onSuccess = (\<lambda>_. [Invalidate [KStr ''users'']])\<rparr>"

definition useDeleteUser :: "string mutation" where
  "useDeleteUser = \<lparr>mu_fn = (\<lambda>i. Typed DELETE ''/api/v1/users/{user_id}'' [(''user_id'', Some i)] [] None),
     mu_onSuccess = (\<lambda>_. [Invalidate [KStr ''users'']])\<rparr>"

subsection \<open>Auth\<close>

definition useChangePassword :: "json mutation" where
  "useChangePassword = \<lparr>mu_fn = (\<lambda>b. Typed POST ''/api/v1/auth/change-password'' [] [] (Some b)),
     mu_onSuccess = (\<lambda>_. [])\<rparr>"

subsection \<open>Tenants\<close>

definition useTenants :: query_hook where
  "useTenants = useQuery [KStr ''tenants'']
     (Typed GET ''/api/v1/tenants'' [] [] None)"

definition useCreateTenant :: "json mutation" where
  "useCreateTenant = \<lparr>mu_fn = (\<lambda>b. Typed POST ''/api/v1/tenants'' [] [] (Some b)),
     mu_onSuccess = (\<lambda>_. [Invalidate [KStr ''tenants'']])\<rparr>"

definition useDeleteTenant :: "string mutation" where
  "useDeleteTenant = \<lparr>mu_fn = (\<lambda>i. Typed DELETE ''/api/v1/tenants/{tenant_id}'' [(''tenant_id'', Some i)] [] None),
     mu_onSuccess = (\<lambda>_. [Invalidate [KStr ''tenants'']])\<rparr>"

subsection \<open>Groups\<close>

definition useGroups :: "string option \<Rightarrow> query_hook" where
  "useGroups t = (useQuery [KStr ''groups'', kopt t]
     (Typed GET ''/api/v1/tenants/{tenant_id}/groups'' [(''tenant_id'', t)] [] None))\<lparr>qh_enabled := truthy t\<rparr>"

definition useCreateGroup :: "string option \<Rightarrow> json mutation" where
  "useCreateGroup t = \<lparr>mu_fn = (\<lambda>b. Typed POST ''/api/v1/tenants/{tenant_id}/groups'' [(''tenant_id'', t)] [] (Some b)),
     mu_onSuccess = (\<lambda>_. [Invalidate [KStr ''groups'', kopt t]])\<rparr>"

definition useSetGroupSubnet :: "string option \<Rightarrow> (string \<times> json) mutation" where
  "useSetGroupSubnet t = \<lparr>mu_fn = (\<lambda>(g, b). Typed PUT ''/api/v1/groups/{group_id}/subnet'' [(''group_id'', Some g)] [] (Some b)),
     mu_onSuccess = (\<lambda>_. [Invalidate [KStr ''groups'', kopt t]])\<rparr>"

definition useRenameGroup :: "string option \<Rightarrow> (string \<times> json) mutation" where
  "useRenameGroup t = \<lparr>mu_fn = (\<lambda>(g, b). Typed PUT ''/api/v1/groups/{group_id}'' [(''group_id'', Some g)] [] (Some b)),
     mu_onSuccess = (\<lambda>_. [Invalidate [KStr ''groups'', kopt t]])\<rparr>"

definition useDeleteGroup :: "string option \<Rightarrow> string mutation" where
  "useDeleteGroup t = \<lparr>mu_fn = (\<lambda>g. Typed DELETE ''/api/v1/groups/{group_id}'' [(''group_id'', Some g)] [] None),
     mu_onSuccess = (\<lambda>_. [Invalidate [KStr ''groups'', kopt t]])\<rparr>"

subsection \<open>Policy and block page\<close>

definition usePolicy :: "string option \<Rightarrow> query_hook" where
  "usePolicy g = (useQuery [KStr ''policy'', kopt g]
     (Typed GET ''/api/v1/groups/{group_id}/policy'' [(''group_id'', g)] [] None))\<lparr>qh_result := null_on_404, qh_enabled := truthy g\<rparr>"

definition useUpsertPolicy :: "string option \<Rightarrow> json mutation" where
  "useUpsertPolicy g = \<lparr>mu_fn = (\<lambda>b. Typed PUT ''/api/v1/groups/{group_id}/policy'' [(''group_id'', g)] [] (Some b)),
     mu_onSuccess = (\<lambda>_. [Invalidate [KStr ''policy'', kopt g]])\<rparr>"

definition useCompileBundle :: "string mutation" where
  "useCompileBundle = \<lparr>mu_fn = (\<lambda>g. Typed POST ''/api/v1/groups/{group_id}/bundle'' [(''group_id'', Some g)] [] None),
     mu_onSuccess = (\<lambda>_. [])\<rparr>"

definition useBlockPageTemplate :: "string option \<Rightarrow> query_hook" where
  "useBlockPageTemplate g = (useQuery [KStr ''block-page-template'', kopt g]
     (Typed GET ''/api/v1/groups/{group_id}/block-page-template'' [(''group_id'', g)] [] None))\<lparr>qh_result := null_on_404, qh_enabled := truthy g\<rparr>"

definition useUpsertBlockPageTemplate :: "string option \<Rightarrow> json mutation" where
  "useUpsertBlockPageTemplate g = \<lparr>mu_fn = (\<lambda>b. Typed PUT ''/api/v1/groups/{group_id}/block-page-template'' [(''group_id'', g)] [] (Some b)),
     mu_onSuccess = (\<lambda>_. [Invalidate [KStr ''block-page-template'', kopt g]])\<rparr>"

definition useTopDomains :: "string option \<Rightarrow> query_hook" where
  "useTopDomains g = (useQuery [KStr ''top-domains'', kopt g]
     (Typed GET ''/api/v1/groups/{group_id}/top-domains'' [(''group_id'', g)] [] None))\<lparr>qh_enabled := truthy g\<rparr>"

subsection \<open>Categories and feeds\<close>

definition useCategories :: query_hook where
  "useCategories = (useQuery [KStr ''categories'']
     (RawGet ''/api/v1/categories'' []))\<lparr>qh_staleTime := Some Infinity\<rparr>"

definition useFeeds :: query_hook where
  "useFeeds = useQuery [KStr ''feeds'']
     (Typed GET ''/api/v1/feeds'' [] [] None)"

definition useCreateFeed :: "json mutation" where
  "useCreateFeed = \<lparr>mu_fn = (\<lambda>b. Typed POST ''/api/v1/feeds'' [] [] (Some b)),
     mu_onSuccess = (\<lambda>_. [Invalidate [KStr ''feeds'']])\<rparr>"

definition useUpdateFeed :: "(string \<times> json) mutation" where
  "useUpdateFeed = \<lparr>mu_fn = (\<lambda>(i, b). Typed PATCH ''/api/v1/feeds/{feed_id}'' [(''feed_id'', Some i)] [] (Some b)),
     mu_onSuccess = (\<lambda>_. [Invalidate [KStr ''feeds'']])\<rparr>"

definition useDeleteFeed :: "string mutation" where
  "useDeleteFeed = \<lparr>mu_fn = (\<lambda>i. Typed DELETE ''/api/v1/feeds/{feed_id}'' [(''feed_id'', Some i)] [] None),
     mu_onSuccess = (\<lambda>_. [Invalidate [KStr ''feeds'']])\<rparr>"

definition useIngestFeedNow :: "string mutation" where
  "useIngestFeedNow = \<lparr>mu_fn = (\<lambda>i. Typed POST ''/api/v1/feeds/{feed_id}/ingest'' [(''feed_id'', Some i)] [] None),
     mu_onSuccess = (\<lambda>_. [Invalidate [KStr ''feeds'']])\<rparr>"

subsection \<open>Analytics and logs\<close>

definition useAnalyticsSummary :: "nat \<Rightarrow> query_hook" where
  "useAnalyticsSummary h = (useQuery [KStr ''analytics-summary'', KNum h]
     (Typed GET ''/api/v1/analytics/summary'' [] [(''hours'', JNum (nat_str h))] None))\<lparr>qh_refetchInterval := Some 15000\<rparr>"

definition useAnalyticsTimeseries :: "nat \<Rightarrow> query_hook" where
  "useAnalyticsTimeseries h = (useQuery [KStr ''analytics-timeseries'', KNum h]
     (Typed GET ''/api/v1/analytics/timeseries'' [] [(''hours'', JNum (nat_str h))] None))\<lparr>qh_refetchInterval := Some 15000\<rparr>"

definition useAnalyticsByGroup :: "nat \<Rightarrow> query_hook" where
  "useAnalyticsByGroup h = (useQuery [KStr ''analytics-by-group'', KNum h]
     (Typed GET ''/api/v1/analytics/by-group'' [] [(''hours'', JNum (nat_str h))] None))\<lparr>qh_refetchInterval := Some 15000\<rparr>"

definition AUDIT_PAGE_SIZE :: nat where "AUDIT_PAGE_SIZE = 50"

definition useAuditLog :: "string option \<Rightarrow> nat \<Rightarrow> query_hook" where
  "useAuditLog rt off = (useQuery [KStr ''audit-log'', kopt rt, KNum off]
     (RawGet ''/api/v1/audit-log'' ([(''limit'', Some (nat_str AUDIT_PAGE_SIZE)), (''offset'', Some (nat_str off))]
        @ when_truthy ''resource_type'' rt)))\<lparr>qh_refetchInterval := Some 15000\<rparr>"

definition QUERY_LOG_PAGE_SIZE :: nat where "QUERY_LOG_PAGE_SIZE = 50"

record query_log_params =
  qp_offset :: "nat option"
  qp_decision :: "string option"
  qp_group_id :: "string option"
  qp_qname :: "string option"
  qp_client_ip :: "string option"
  qp_qtype :: "string option"
  qp_matched_category :: "string option"
  qp_hours :: "nat option"

definition useQueryLog :: "query_log_params \<Rightarrow> query_hook" where
  "useQueryLog p = (useQuery [KStr ''query-log'', KNum (nullish (qp_offset p) 0), kopt (qp_decision p), kopt (qp_group_id p), kopt (qp_qname p), kopt (qp_client_ip p), kopt (qp_qtype p), kopt (qp_matched_category p), knum (qp_hours p)]
     (RawGet ''/api/v1/query-log''
       ([(''limit'', Some (nat_str QUERY_LOG_PAGE_SIZE)), (''offset'', Some (nat_str (nullish (qp_offset p) 0)))]
        @ when_truthy ''decision'' (qp_decision p) @ when_truthy ''group_id'' (qp_group_id p)
        @ when_truthy ''qname'' (qp_qname p) @ when_truthy ''client_ip'' (qp_client_ip p)
        @ when_truthy ''qtype'' (qp_qtype p) @ when_truthy ''matched_category'' (qp_matched_category p)
        @ when_nonzero ''hours'' (qp_hours p))))\<lparr>qh_refetchInterval := Some 30000\<rparr>"

subsection \<open>SIEM syslog\<close>

definition useSiemSyslogSinks :: query_hook where
  "useSiemSyslogSinks = (useQuery [KStr ''siem-syslog'']
     (Typed GET ''/api/v1/siem/syslog'' [] [] None))\<lparr>qh_refetchInterval := Some 15000\<rparr>"

definition useCreateSiemSyslogSink :: "json mutation" where
  "useCreateSiemSyslogSink = \<lparr>mu_fn = (\<lambda>b. Typed POST ''/api/v1/siem/syslog'' [] [] (Some b)),
     mu_onSuccess = (\<lambda>_. [Invalidate [KStr ''siem-syslog'']])\<rparr>"

definition useUpdateSiemSyslogSink :: "(string \<times> json) mutation" where
  "useUpdateSiemSyslogSink = \<lparr>mu_fn = (\<lambda>(i, b). Typed PATCH ''/api/v1/siem/syslog/{syslog_id}'' [(''syslog_id'', Some i)] [] (Some b)),
     mu_onSuccess = (\<lambda>_. [Invalidate [KStr ''siem-syslog'']])\<rparr>"

definition useDeleteSiemSyslogSink :: "string mutation" where
  "useDeleteSiemSyslogSink = \<lparr>mu_fn = (\<lambda>i. Typed DELETE ''/api/v1/siem/syslog/{syslog_id}'' [(''syslog_id'', Some i)] [] None),
     mu_onSuccess = (\<lambda>_. [Invalidate [KStr ''siem-syslog'']])\<rparr>"

definition useTestSiemSyslogSink :: "string mutation" where
  "useTestSiemSyslogSink = \<lparr>mu_fn = (\<lambda>i. Typed POST ''/api/v1/siem/syslog/{syslog_id}/test'' [(''syslog_id'', Some i)] [] None),
     mu_onSuccess = (\<lambda>_. [])\<rparr>"

subsection \<open>Client registry\<close>

definition useClients :: "string option \<Rightarrow> bool \<Rightarrow> query_hook" where
  "useClients t un = (useQuery [KStr ''clients'', kopt t, KBool un]
     (Typed GET ''/api/v1/tenants/{tenant_id}/clients'' [(''tenant_id'', t)] [(''unregistered_only'', JBool un)] None))\<lparr>qh_enabled := truthy t, qh_refetchInterval := Some 15000\<rparr>"

definition useRegisterClient :: "string option \<Rightarrow> (string \<times> json) mutation" where
  "useRegisterClient t = \<lparr>mu_fn = (\<lambda>(ip, b). Typed PUT ''/api/v1/tenants/{tenant_id}/clients/{ip}'' [(''tenant_id'', t), (''ip'', Some ip)] [] (Some b)),
     mu_onSuccess = (\<lambda>_. [Invalidate [KStr ''clients'', kopt t]])\<rparr>"

definition useDeleteClient :: "string option \<Rightarrow> string mutation" where
  "useDeleteClient t = \<lparr>mu_fn = (\<lambda>ip. Typed DELETE ''/api/v1/tenants/{tenant_id}/clients/{ip}'' [(''tenant_id'', t), (''ip'', Some ip)] [] None),
     mu_onSuccess = (\<lambda>_. [Invalidate [KStr ''clients'', kopt t]])\<rparr>"

subsection \<open>DNS zones and records\<close>

definition useZones :: query_hook where
  "useZones = useQuery [KStr ''dns-zones'']
     (Typed GET ''/api/v1/dns-zones'' [] [] None)"

definition useZone :: "string \<Rightarrow> query_hook" where
  "useZone z = (useQuery [KStr ''dns-zones'', KStr z]
     (Typed GET ''/api/v1/dns-zones/{zone_id}'' [(''zone_id'', Some z)] [] None))\<lparr>qh_enabled := (z \<noteq> [])\<rparr>"

definition useCreateZone :: "json mutation" where
  "useCreateZone = \<lparr>mu_fn = (\<lambda>b. Typed POST ''/api/v1/dns-zones'' [] [] (Some b)),
     mu_onSuccess = (\<lambda>_. [Invalidate [KStr ''dns-zones'']])\<rparr>"

definition useUpdateZone :: "(string \<times> json) mutation" where
  "useUpdateZone = \<lparr>mu_fn = (\<lambda>(z, b). Typed PATCH ''/api/v1/dns-zones/{zone_id}'' [(''zone_id'', Some z)] [] (Some b)),
     mu_onSuccess = (\<lambda>(z, b). [Invalidate [KStr ''dns-zones''], Invalidate [KStr ''dns-zones'', KStr z]])\<rparr>"

definition useDeleteZone :: "string mutation" where
  "useDeleteZone = \<lparr>mu_fn = (\<lambda>z. Typed DELETE ''/api/v1/dns-zones/{zone_id}'' [(''zone_id'', Some z)] [] None),
     mu_onSuccess = (\<lambda>z. [Invalidate [KStr ''dns-zones''], Remove [KStr ''dns-records'', KStr z]])\<rparr>"

definition useRecords :: "string \<Rightarrow> query_hook" where
  "useRecords z = (useQuery [KStr ''dns-records'', KStr z]
     (Typed GET ''/api/v1/dns-zones/{zone_id}/records'' [(''zone_id'', Some z)] [] None))\<lparr>qh_enabled := (z \<noteq> [])\<rparr>"

definition useCreateRecord :: "string \<Rightarrow> json mutation" where
  "useCreateRecord z = \<lparr>mu_fn = (\<lambda>b. Typed POST ''/api/v1/dns-zones/{zone_id}/records'' [(''zone_id'', Some z)] [] (Some b)),
     mu_onSuccess = (\<lambda>_. [Invalidate [KStr ''dns-records'', KStr z], Invalidate [KStr ''dns-zones''], Invalidate [KStr ''dns-zones'', KStr z]])\<rparr>"

definition useUpdateRecord :: "string \<Rightarrow> (string \<times> json) mutation" where
  "useUpdateRecord z = \<lparr>mu_fn = (\<lambda>(r, b). Typed PATCH ''/api/v1/dns-zones/{zone_id}/records/{record_id}'' [(''zone_id'', Some z), (''record_id'', Some r)] [] (Some b)),
     mu_onSuccess = (\<lambda>_. [Invalidate [KStr ''dns-records'', KStr z]])\<rparr>"

definition useDeleteRecord :: "string \<Rightarrow> string mutation" where
  "useDeleteRecord z = \<lparr>mu_fn = (\<lambda>r. Typed DELETE ''/api/v1/dns-zones/{zone_id}/records/{record_id}'' [(''zone_id'', Some z), (''record_id'', Some r)] [] None),
     mu_onSuccess = (\<lambda>_. [Invalidate [KStr ''dns-records'', KStr z], Invalidate [KStr ''dns-zones''], Invalidate [KStr ''dns-zones'', KStr z]])\<rparr>"

definition useTestPolicy :: "string option \<Rightarrow> string mutation" where
  "useTestPolicy g = \<lparr>mu_fn = (\<lambda>d. RawPost (''/api/v1/groups/'' @ tmpl_opt g @ ''/policy/test'') (JObj [(''domain'', JStr d)])),
     mu_onSuccess = (\<lambda>_. [])\<rparr>"

subsection \<open>Upstream\<close>

definition useUpstreamResolvers :: query_hook where
  "useUpstreamResolvers = useQuery [KStr ''upstream-resolvers'']
     (RawGet ''/api/v1/upstream/resolvers'' [])"

definition useCreateUpstreamResolver :: "json mutation" where
  "useCreateUpstreamResolver = \<lparr>mu_fn = (\<lambda>b. RawPost ''/api/v1/upstream/resolvers'' b),
     mu_onSuccess = (\<lambda>_. [Invalidate [KStr ''upstream-resolvers'']])\<rparr>"

definition useUpdateUpstreamResolver :: "(string \<times> json) mutation" where
  "useUpdateUpstreamResolver = \<lparr>mu_fn = (\<lambda>(i, b). RawPatch (''/api/v1/upstream/resolvers/'' @ i) b),
     mu_onSuccess = (\<lambda>_. [Invalidate [KStr ''upstream-resolvers'']])\<rparr>"

definition useDeleteUpstreamResolver :: "string mutation" where
  "useDeleteUpstreamResolver = \<lparr>mu_fn = (\<lambda>i. RawDelete (''/api/v1/upstream/resolvers/'' @ i)),
     mu_onSuccess = (\<lambda>_. [Invalidate [KStr ''upstream-resolvers'']])\<rparr>"

definition useProbeUpstreamResolver :: "string mutation" where
  "useProbeUpstreamResolver = \<lparr>mu_fn = (\<lambda>i. RawPost (''/api/v1/upstream/resolvers/'' @ i @ ''/probe'') (JObj [])),
     mu_onSuccess = (\<lambda>_. [])\<rparr>"

definition useUpstreamPools :: query_hook where
  "useUpstreamPools = useQuery [KStr ''upstream-pools'']
     (RawGet ''/api/v1/upstream/pools'' [])"

definition useCreateUpstreamPool :: "json mutation" where
  "useCreateUpstreamPool = \<lparr>mu_fn = (\<lambda>b. RawPost ''/api/v1/upstream/pools'' b),
     mu_onSuccess = (\<lambda>_. [Invalidate [KStr ''upstream-pools'']])\<rparr>"

definition useUpdateUpstreamPool :: "(string \<times> json) mutation" where
  "useUpdateUpstreamPool = \<lparr>mu_fn = (\<lambda>(i, b). RawPatch (''/api/v1/upstream/pools/'' @ i) b),
     mu_onSuccess = (\<lambda>_. [Invalidate [KStr ''upstream-pools'']])\<rparr>"

definition useDeleteUpstreamPool :: "string mutation" where
  "useDeleteUpstreamPool = \<lparr>mu_fn = (\<lambda>i. RawDelete (''/api/v1/upstream/pools/'' @ i)),
     mu_onSuccess = (\<lambda>_. [Invalidate [KStr ''upstream-pools'']])\<rparr>"

definition useUpsertPoolMember :: "(string \<times> string \<times> int \<times> int) mutation" where
  "useUpsertPoolMember = \<lparr>mu_fn = (\<lambda>(p, r, w, pr). RawPut (''/api/v1/upstream/pools/'' @ p @ ''/members/'' @ r)
       (JObj [(''resolver_id'', JStr r), (''weight'', JNum (int_str w)), (''priority'', JNum (int_str pr))])),
     mu_onSuccess = (\<lambda>_. [Invalidate [KStr ''upstream-pools'']])\<rparr>"

definition useRemovePoolMember :: "(string \<times> string) mutation" where
  "useRemovePoolMember = \<lparr>mu_fn = (\<lambda>(p, r). RawDelete (''/api/v1/upstream/pools/'' @ p @ ''/members/'' @ r)),
     mu_onSuccess = (\<lambda>_. [Invalidate [KStr ''upstream-pools'']])\<rparr>"

definition useUpstreamRoutes :: "string option \<Rightarrow> query_hook" where
  "useUpstreamRoutes t = (useQuery [KStr ''upstream-routes'', kopt t]
     (RawGet (''/api/v1/tenants/'' @ tmpl_opt t @ ''/upstream/routes'') []))\<lparr>qh_enabled := truthy t\<rparr>"

definition useCreateUpstreamRoute :: "string option \<Rightarrow> json mutation" where
  "useCreateUpstreamRoute t = \<lparr>mu_fn = (\<lambda>b. RawPost (''/api/v1/tenants/'' @ tmpl_opt t @ ''/upstream/routes'') b),
     mu_onSuccess = (\<lambda>_. [Invalidate [KStr ''upstream-routes'', kopt t]])\<rparr>"

definition useUpdateUpstreamRoute :: "string option \<Rightarrow> (string \<times> json) mutation" where
  "useUpdateUpstreamRoute t = \<lparr>mu_fn = (\<lambda>(i, b). RawPatch (''/api/v1/tenants/'' @ tmpl_opt t @ ''/upstream/routes/'' @ i) b),
     mu_onSuccess = (\<lambda>_. [Invalidate [KStr ''upstream-routes'', kopt t]])\<rparr>"

definition useDeleteUpstreamRoute :: "string option \<Rightarrow> string mutation" where
  "useDeleteUpstreamRoute t = \<lparr>mu_fn = (\<lambda>i. RawDelete (''/api/v1/tenants/'' @ tmpl_opt t @ ''/upstream/routes/'' @ i)),
     mu_onSuccess = (\<lambda>_. [Invalidate [KStr ''upstream-routes'', kopt t]])\<rparr>"

definition useUpstreamTenantPolicy :: "string option \<Rightarrow> query_hook" where
  "useUpstreamTenantPolicy t = (useQuery [KStr ''upstream-policy'', kopt t]
     (RawGet (''/api/v1/tenants/'' @ tmpl_opt t @ ''/upstream/policy'') []))\<lparr>qh_enabled := truthy t\<rparr>"

definition useUpsertUpstreamTenantPolicy :: "string option \<Rightarrow> json mutation" where
  "useUpsertUpstreamTenantPolicy t = \<lparr>mu_fn = (\<lambda>b. RawPut (''/api/v1/tenants/'' @ tmpl_opt t @ ''/upstream/policy'') b),
     mu_onSuccess = (\<lambda>_. [Invalidate [KStr ''upstream-policy'', kopt t]])\<rparr>"

subsection \<open>DHCP\<close>

definition useDhcpScopes :: "string option \<Rightarrow> query_hook" where
  "useDhcpScopes t = useQuery [KStr ''dhcp-scopes'', kopt t]
     (RawGet ''/api/v1/dhcp/scopes'' (when_truthy ''tenant_id'' t))"

definition useCreateDhcpScope :: "json mutation" where
  "useCreateDhcpScope = \<lparr>mu_fn = (\<lambda>b. RawPost ''/api/v1/dhcp/scopes'' b),
     mu_onSuccess = (\<lambda>_. [Invalidate [KStr ''dhcp-scopes'']])\<rparr>"

definition useUpdateDhcpScope :: "(string \<times> json) mutation" where
  "useUpdateDhcpScope = \<lparr>mu_fn = (\<lambda>(i, b). RawPatch (''/api/v1/dhcp/scopes/'' @ i) b),
     mu_onSuccess = (\<lambda>_. [Invalidate [KStr ''dhcp-scopes'']])\<rparr>"

definition useDeleteDhcpScope :: "string mutation" where
  "useDeleteDhcpScope = \<lparr>mu_fn = (\<lambda>i. RawDelete (''/api/v1/dhcp/scopes/'' @ i)),
     mu_onSuccess = (\<lambda>_. [Invalidate [KStr ''dhcp-scopes'']])\<rparr>"

definition useDhcpReservations :: "string option \<Rightarrow> query_hook" where
  "useDhcpReservations sc = (useQuery [KStr ''dhcp-reservations'', kopt sc]
     (RawGet (''/api/v1/dhcp/scopes/'' @ tmpl_opt sc @ ''/reservations'') []))\<lparr>qh_enabled := truthy sc\<rparr>"

definition useCreateDhcpReservation :: "string option \<Rightarrow> json mutation" where
  "useCreateDhcpReservation sc = \<lparr>mu_fn = (\<lambda>b. RawPost (''/api/v1/dhcp/scopes/'' @ tmpl_opt sc @ ''/reservations'') b),
     mu_onSuccess = (\<lambda>_. [Invalidate [KStr ''dhcp-reservations'', kopt sc]])\<rparr>"

definition useUpdateDhcpReservation :: "string option \<Rightarrow> (string \<times> json) mutation" where
  "useUpdateDhcpReservation sc = \<lparr>mu_fn = (\<lambda>(i, b). RawPatch (''/api/v1/dhcp/scopes/'' @ tmpl_opt sc @ ''/reservations/'' @ i) b),
     mu_onSuccess = (\<lambda>_. [Invalidate [KStr ''dhcp-reservations'', kopt sc]])\<rparr>"

definition useDeleteDhcpReservation :: "string option \<Rightarrow> string mutation" where
  "useDeleteDhcpReservation sc = \<lparr>mu_fn = (\<lambda>i. RawDelete (''/api/v1/dhcp/scopes/'' @ tmpl_opt sc @ ''/reservations/'' @ i)),
     mu_onSuccess = (\<lambda>_. [Invalidate [KStr ''dhcp-reservations'', kopt sc]])\<rparr>"

definition useDhcpLeases :: "string option \<Rightarrow> query_hook" where
  "useDhcpLeases sc = (useQuery [KStr ''dhcp-leases'', kopt sc]
     (RawGet ''/api/v1/dhcp/leases'' (when_truthy ''scope_id'' sc)))\<lparr>qh_refetchInterval := Some 30000\<rparr>"

definition useDhcpStats :: query_hook where
  "useDhcpStats = (useQuery [KStr ''dhcp-stats'']
     (RawGet ''/api/v1/dhcp/stats'' []))\<lparr>qh_refetchInterval := Some 60000\<rparr>"

definition useDhcpInterfaces :: query_hook where
  "useDhcpInterfaces = (useQuery [KStr ''dhcp-interfaces'']
     (RawGet ''/api/v1/dhcp/interfaces'' []))\<lparr>qh_staleTime := Some (Ms 60000)\<rparr>"

definition useDhcpHealth :: query_hook where
  "useDhcpHealth = (useQuery [KStr ''dhcp-health'']
     (RawGet ''/api/v1/dhcp/health'' []))\<lparr>qh_refetchInterval := Some 15000\<rparr>"

subsection \<open>DHCPv6\<close>

definition useDhcpScopes6 :: "string option \<Rightarrow> query_hook" where
  "useDhcpScopes6 t = useQuery [KStr ''dhcp6-scopes'', kopt t]
     (RawGet ''/api/v1/dhcp6/scopes'' (when_truthy ''tenant_id'' t))"

definition useCreateDhcpScope6 :: "json mutation" where
  "useCreateDhcpScope6 = \<lparr>mu_fn = (\<lambda>b. RawPost ''/api/v1/dhcp6/scopes'' b),
     mu_onSuccess = (\<lambda>_. [Invalidate [KStr ''dhcp6-scopes'']])\<rparr>"

definition useUpdateDhcpScope6 :: "(string \<times> json) mutation" where
  "useUpdateDhcpScope6 = \<lparr>mu_fn = (\<lambda>(i, b). RawPatch (''/api/v1/dhcp6/scopes/'' @ i) b),
     mu_onSuccess = (\<lambda>_. [Invalidate [KStr ''dhcp6-scopes'']])\<rparr>"

definition useDeleteDhcpScope6 :: "string mutation" where
  "useDeleteDhcpScope6 = \<lparr>mu_fn = (\<lambda>i. RawDelete (''/api/v1/dhcp6/scopes/'' @ i)),
     mu_onSuccess = (\<lambda>_. [Invalidate [KStr ''dhcp6-scopes'']])\<rparr>"

definition useDhcpReservations6 :: "string option \<Rightarrow> query_hook" where
  "useDhcpReservations6 sc = (useQuery [KStr ''dhcp6-reservations'', kopt sc]
     (RawGet (''/api/v1/dhcp6/scopes/'' @ tmpl_opt sc @ ''/reservations'') []))\<lparr>qh_enabled := truthy sc\<rparr>"

definition useCreateDhcpReservation6 :: "string option \<Rightarrow> json mutation" where
  "useCreateDhcpReservation6 sc = \<lparr>mu_fn = (\<lambda>b. RawPost (''/api/v1/dhcp6/scopes/'' @ tmpl_opt sc @ ''/reservations'') b),
     mu_onSuccess = (\<lambda>_. [Invalidate [KStr ''dhcp6-reservations'', kopt sc]])\<rparr>"

definition useUpdateDhcpReservation6 :: "string option \<Rightarrow> (string \<times> json) mutation" where
  "useUpdateDhcpReservation6 sc = \<lparr>mu_fn = (\<lambda>(i, b). RawPatch (''/api/v1/dhcp6/scopes/'' @ tmpl_opt sc @ ''/reservations/'' @ i) b),
     mu_onSuccess = (\<lambda>_. [Invalidate [KStr ''dhcp6-reservations'', kopt sc]])\<rparr>"

definition useDeleteDhcpReservation6 :: "string option \<Rightarrow> string mutation" where
  "useDeleteDhcpReservation6 sc = \<lparr>mu_fn = (\<lambda>i. RawDelete (''/api/v1/dhcp6/scopes/'' @ tmpl_opt sc @ ''/reservations/'' @ i)),
     mu_onSuccess = (\<lambda>_. [Invalidate [KStr ''dhcp6-reservations'', kopt sc]])\<rparr>"

definition useDhcpLeases6 :: "string option \<Rightarrow> query_hook" where
  "useDhcpLeases6 sc = (useQuery [KStr ''dhcp6-leases'', kopt sc]
     (RawGet ''/api/v1/dhcp6/leases'' (when_truthy ''scope_id'' sc)))\<lparr>qh_refetchInterval := Some 30000\<rparr>"

section \<open>Lemmas and properties\<close>

text \<open>
  The query library marks a cached query stale when an emitted operation's key matches it.
  \<open>matches\<close> is the library's key comparison, documented to accept every key the given one is a
  prefix of.
\<close>

fun op_key :: "cache_op \<Rightarrow> key_atom list" where
  "op_key (Invalidate k) = k"
| "op_key (Remove k) = k"

definition refreshed :: "(key_atom list \<Rightarrow> key_atom list \<Rightarrow> bool) \<Rightarrow> cache_op list \<Rightarrow> key_atom list \<Rightarrow> bool" where
  "refreshed matches ops k = list_ex (\<lambda>p. matches (op_key p) k) ops"

lemma refreshedI:
  assumes "\<And>p k. prefix p k \<Longrightarrow> matches p k" and "list_ex (\<lambda>p. prefix (op_key p) k) ops"
  shows "refreshed matches ops k"
  using assms by (auto simp: refreshed_def list_ex_iff)

lemmas query_defs = useQuery_def useUsers_def useTenants_def useGroups_def usePolicy_def
  useBlockPageTemplate_def useTopDomains_def useCategories_def useFeeds_def useAnalyticsSummary_def
  useAnalyticsTimeseries_def useAnalyticsByGroup_def useAuditLog_def useQueryLog_def
  useSiemSyslogSinks_def useClients_def useZones_def useZone_def useRecords_def
  useUpstreamResolvers_def useUpstreamPools_def useUpstreamRoutes_def useUpstreamTenantPolicy_def
  useDhcpScopes_def useDhcpReservations_def useDhcpLeases_def useDhcpStats_def useDhcpInterfaces_def
  useDhcpHealth_def useDhcpScopes6_def useDhcpReservations6_def useDhcpLeases6_def

lemmas mutation_defs = useCreateUser_def useUpdateUser_def useDeleteUser_def useCreateTenant_def
  useDeleteTenant_def useCreateGroup_def useSetGroupSubnet_def useRenameGroup_def useDeleteGroup_def
  useUpsertPolicy_def useUpsertBlockPageTemplate_def useCreateFeed_def useUpdateFeed_def
  useDeleteFeed_def useIngestFeedNow_def useCreateSiemSyslogSink_def useUpdateSiemSyslogSink_def
  useDeleteSiemSyslogSink_def useRegisterClient_def useDeleteClient_def useCreateZone_def
  useUpdateZone_def useDeleteZone_def useCreateRecord_def useUpdateRecord_def useDeleteRecord_def
  useCreateUpstreamResolver_def useUpdateUpstreamResolver_def useDeleteUpstreamResolver_def
  useCreateUpstreamPool_def useUpdateUpstreamPool_def useDeleteUpstreamPool_def
  useUpsertPoolMember_def useRemovePoolMember_def useCreateUpstreamRoute_def
  useUpdateUpstreamRoute_def useDeleteUpstreamRoute_def useUpsertUpstreamTenantPolicy_def
  useCreateDhcpScope_def useUpdateDhcpScope_def useDeleteDhcpScope_def useCreateDhcpReservation_def
  useUpdateDhcpReservation_def useDeleteDhcpReservation_def useCreateDhcpScope6_def
  useUpdateDhcpScope6_def useDeleteDhcpScope6_def useCreateDhcpReservation6_def
  useUpdateDhcpReservation6_def useDeleteDhcpReservation6_def

text \<open>What each mutation of a collection emits, and the key of the query that shows it.\<close>

definition refresh_table :: "string option \<Rightarrow> string \<Rightarrow> json \<Rightarrow> bool \<Rightarrow> (cache_op list \<times> key_atom list) list" where
  "refresh_table t z b un = 
    [(mu_onSuccess useCreateUser b, qh_key useUsers),
     (mu_onSuccess useUpdateUser (z, b), qh_key useUsers),
     (mu_onSuccess useDeleteUser z, qh_key useUsers),
     (mu_onSuccess useCreateTenant b, qh_key useTenants),
     (mu_onSuccess useDeleteTenant z, qh_key useTenants),
     (mu_onSuccess (useCreateGroup t) b, qh_key (useGroups t)),
     (mu_onSuccess (useSetGroupSubnet t) (z, b), qh_key (useGroups t)),
     (mu_onSuccess (useRenameGroup t) (z, b), qh_key (useGroups t)),
     (mu_onSuccess (useDeleteGroup t) z, qh_key (useGroups t)),
     (mu_onSuccess (useUpsertPolicy t) b, qh_key (usePolicy t)),
     (mu_onSuccess (useUpsertBlockPageTemplate t) b, qh_key (useBlockPageTemplate t)),
     (mu_onSuccess useCreateFeed b, qh_key useFeeds),
     (mu_onSuccess useUpdateFeed (z, b), qh_key useFeeds),
     (mu_onSuccess useDeleteFeed z, qh_key useFeeds),
     (mu_onSuccess useIngestFeedNow z, qh_key useFeeds),
     (mu_onSuccess useCreateSiemSyslogSink b, qh_key useSiemSyslogSinks),
     (mu_onSuccess useUpdateSiemSyslogSink (z, b), qh_key useSiemSyslogSinks),
     (mu_onSuccess useDeleteSiemSyslogSink z, qh_key useSiemSyslogSinks),
     (mu_onSuccess (useRegisterClient t) (z, b), qh_key (useClients t un)),
     (mu_onSuccess (useDeleteClient t) z, qh_key (useClients t un)),
     (mu_onSuccess useCreateZone b, qh_key useZones),
     (mu_onSuccess useUpdateZone (z, b), qh_key useZones),
     (mu_onSuccess useUpdateZone (z, b), qh_key (useZone z)),
     (mu_onSuccess useDeleteZone z, qh_key useZones),
     (mu_onSuccess useDeleteZone z, qh_key (useRecords z)),
     (mu_onSuccess (useCreateRecord z) b, qh_key (useRecords z)),
     (mu_onSuccess (useCreateRecord z) b, qh_key useZones),
     (mu_onSuccess (useUpdateRecord z) (z, b), qh_key (useRecords z)),
     (mu_onSuccess (useDeleteRecord z) z, qh_key (useRecords z)),
     (mu_onSuccess (useDeleteRecord z) z, qh_key useZones)]"

definition refresh_table_net :: "string option \<Rightarrow> string \<Rightarrow> json \<Rightarrow> (cache_op list \<times> key_atom list) list" where
  "refresh_table_net t z b =
    [(mu_onSuccess useCreateUpstreamResolver b, qh_key useUpstreamResolvers),
     (mu_onSuccess useUpdateUpstreamResolver (z, b), qh_key useUpstreamResolvers),
     (mu_onSuccess useDeleteUpstreamResolver z, qh_key useUpstreamResolvers),
     (mu_onSuccess useCreateUpstreamPool b, qh_key useUpstreamPools),
     (mu_onSuccess useUpdateUpstreamPool (z, b), qh_key useUpstreamPools),
     (mu_onSuccess useDeleteUpstreamPool z, qh_key useUpstreamPools),
     (mu_onSuccess useUpsertPoolMember (z, z, 1, 0), qh_key useUpstreamPools),
     (mu_onSuccess useRemovePoolMember (z, z), qh_key useUpstreamPools),
     (mu_onSuccess (useCreateUpstreamRoute t) b, qh_key (useUpstreamRoutes t)),
     (mu_onSuccess (useUpdateUpstreamRoute t) (z, b), qh_key (useUpstreamRoutes t)),
     (mu_onSuccess (useDeleteUpstreamRoute t) z, qh_key (useUpstreamRoutes t)),
     (mu_onSuccess (useUpsertUpstreamTenantPolicy t) b, qh_key (useUpstreamTenantPolicy t)),
     (mu_onSuccess useCreateDhcpScope b, qh_key (useDhcpScopes t)),
     (mu_onSuccess useUpdateDhcpScope (z, b), qh_key (useDhcpScopes t)),
     (mu_onSuccess useDeleteDhcpScope z, qh_key (useDhcpScopes t)),
     (mu_onSuccess (useCreateDhcpReservation t) b, qh_key (useDhcpReservations t)),
     (mu_onSuccess (useUpdateDhcpReservation t) (z, b), qh_key (useDhcpReservations t)),
     (mu_onSuccess (useDeleteDhcpReservation t) z, qh_key (useDhcpReservations t)),
     (mu_onSuccess useCreateDhcpScope6 b, qh_key (useDhcpScopes6 t)),
     (mu_onSuccess useUpdateDhcpScope6 (z, b), qh_key (useDhcpScopes6 t)),
     (mu_onSuccess useDeleteDhcpScope6 z, qh_key (useDhcpScopes6 t)),
     (mu_onSuccess (useCreateDhcpReservation6 t) b, qh_key (useDhcpReservations6 t)),
     (mu_onSuccess (useUpdateDhcpReservation6 t) (z, b), qh_key (useDhcpReservations6 t)),
     (mu_onSuccess (useDeleteDhcpReservation6 t) z, qh_key (useDhcpReservations6 t))]"



text \<open>A query scoped to a tenant, group, scope or zone runs exactly when that identifier is a
  non-empty string, so the \<open>undefined\<close> of a missing route parameter never reaches the server.\<close>

theorem scoped_queries_need_their_id:
  "list_all (\<lambda>h. \<forall>t. qh_enabled (h t) = truthy t)
     [useGroups, usePolicy, useBlockPageTemplate, useTopDomains, \<lambda>t. useClients t True,
      \<lambda>t. useClients t False, useUpstreamRoutes, useUpstreamTenantPolicy, useDhcpReservations,
      useDhcpReservations6]
   \<and> list_all (\<lambda>h. \<forall>z. qh_enabled (h z) = (z \<noteq> [])) [useZone, useRecords]"
  by (simp add: query_defs)

end
