(* ===== verification/Effects.thy ===== *)
theory Effects
  imports Hooks
begin

text \<open>
  What the page handlers do outside their own state, as commands in the order the code issues them: a
  notification, a request sent by a mutation, a cache operation, a form reset, closing a modal, opening a
  confirmation (title, text, label of the confirm button, and the commands that button issues), a navigation, and a file
  download (name and content). A handler returns its new
  state and its commands; the callbacks of a mutation are handlers of their own, run when the server
  has answered.
\<close>

datatype cmd =
    Notify string string
  | NotifyTitled string string string
  | Send api_call
  | Cache cache_op
  | FormReset
  | OnClose
  | Goto string
  | Download string string
  | OpenConfirm string string string "cmd list"

text \<open>\<open>onError: (e) => notifications.show({ message: formatError(e), color: "red" })\<close>\<close>

definition notify_error :: "thrown \<Rightarrow> cmd" where
  "notify_error e = Notify (formatError e) ''red''"

text \<open>\<open>hook.mutate(v, { onSuccess, onError })\<close>: the request now; on success the hook's cache operations, then the
  caller's commands.\<close>

definition mutate :: "'v mutation \<Rightarrow> 'v \<Rightarrow> cmd" where
  "mutate mu v = Send (mu_fn mu v)"

definition settled_ok :: "'v mutation \<Rightarrow> 'v \<Rightarrow> cmd list \<Rightarrow> cmd list" where
  "settled_ok mu v cs = map Cache (mu_onSuccess mu v) @ cs"

text \<open>The requests among some commands, and whether any is a red notification.\<close>

fun sends :: "cmd list \<Rightarrow> api_call list" where
  "sends [] = []"
| "sends (Send c # cs) = c # sends cs"
| "sends (_ # cs) = sends cs"

lemma sends_append [simp]: "sends (xs @ ys) = sends xs @ sends ys"
proof (induction xs)
  case (Cons c xs)
  then show ?case by (cases c) auto
qed simp

lemma sends_map_Cache [simp]: "sends (map Cache ops) = []"
  by (induction ops) auto

text \<open>The requests some commands issue, those behind a confirmation included.\<close>

fun requests_of :: "cmd \<Rightarrow> api_call list" where
  "requests_of (Send c) = [c]"
| "requests_of (OpenConfirm _ _ _ cs) = concat (map requests_of cs)"
| "requests_of _ = []"

definition requests :: "cmd list \<Rightarrow> api_call list" where
  "requests cs = concat (map requests_of cs)"

lemma requests_simps [simp]:
  "requests [] = []" "requests (c # cs) = requests_of c @ requests cs" "requests (cs @ cs') = requests cs @ requests cs'"
  by (auto simp: requests_def)

lemma requests_map_Cache [simp]: "requests (map Cache ops) = []"
  by (induction ops) auto

lemma requests_notify_error [simp]: "requests_of (notify_error e) = []"
  by (simp add: notify_error_def)

lemma requests_settled_ok [simp]: "requests (settled_ok mu v cs) = requests cs"
  by (simp add: settled_ok_def)

text \<open>Those that change something on the server: every request but a \<open>GET\<close>.\<close>

fun is_write :: "api_call \<Rightarrow> bool" where
  "is_write (Typed v _ _ _ _) = (v \<noteq> GET)"
| "is_write (RawGet _ _) = False"
| "is_write _ = True"

definition writes :: "cmd list \<Rightarrow> api_call list" where
  "writes cs = filter is_write (requests cs)"

lemma writes_simps [simp]:
  "writes [] = []" "writes (c # cs) = filter is_write (requests_of c) @ writes cs" "writes (cs @ cs') = writes cs @ writes cs'"
  by (simp_all add: writes_def)

section \<open>Form helpers shared by the pages\<close>

text \<open>A validator returns \<^const>\<open>None\<close> (\<open>null\<close>) or a message; a form submits when every validator accepts.\<close>

type_synonym field_errors = "(string \<times> string option) list"

definition form_valid :: "field_errors \<Rightarrow> bool" where
  "form_valid errs = list_all (\<lambda>(_, e). e = None) errs"

text \<open>JSON of optional values: \<open>null\<close>, and members that are dropped when \<open>undefined\<close>.\<close>

definition jopt :: "string option \<Rightarrow> json" where
  "jopt v = (case v of None \<Rightarrow> JNull | Some s \<Rightarrow> JStr s)"

definition jint :: "int \<Rightarrow> json" where
  "jint n = JNum (int_str n)"

definition joptint :: "int option \<Rightarrow> json" where
  "joptint v = (case v of None \<Rightarrow> JNull | Some n \<Rightarrow> jint n)"

definition jstrs :: "string list \<Rightarrow> json" where
  "jstrs xs = JArr (map JStr xs)"

definition defined :: "string \<Rightarrow> json option \<Rightarrow> (string \<times> json) list" where
  "defined k v = (case v of None \<Rightarrow> [] | Some j \<Rightarrow> [(k, j)])"

text \<open>A member of a request body.\<close>

definition body_field :: "string \<Rightarrow> json \<Rightarrow> json option" where
  "body_field k j = (case j of JObj kvs \<Rightarrow> jget k kvs | _ \<Rightarrow> None)"

text \<open>The value of a number input: a number, or the empty string when it is blank.\<close>

datatype num_input = Num int | Blank

fun jnum :: "num_input \<Rightarrow> json" where
  "jnum (Num n) = jint n"
| "jnum Blank = JStr []"

text \<open>A value in double quotes inside a message.\<close>

definition quoted :: "string \<Rightarrow> string" where
  "quoted x = [CHR 0x22] @ x @ [CHR 0x22]"

text \<open>\<open>`${n} thing${n === 1 ? "" : "s"}`\<close>\<close>

definition plural :: "nat \<Rightarrow> string \<Rightarrow> string" where
  "plural n w = nat_str n @ '' '' @ w @ (if n = 1 then [] else ''s'')"

text \<open>A \<open>Set\<close> of strings, in insertion order.\<close>

definition set_add :: "string \<Rightarrow> string list \<Rightarrow> string list" where
  "set_add x xs = (if x \<in> set xs then xs else xs @ [x])"

definition set_delete :: "string \<Rightarrow> string list \<Rightarrow> string list" where
  "set_delete x xs = filter (\<lambda>y. y \<noteq> x) xs"

lemma set_set_add [simp]: "set (set_add x xs) = insert x (set xs)"
  by (auto simp: set_add_def)

lemma set_set_delete [simp]: "set (set_delete x xs) = set xs - {x}"
  by (auto simp: set_delete_def)

lemma distinct_set_add [simp]: "distinct (set_add x xs) = distinct xs"
  by (auto simp: set_add_def)

lemma distinct_set_delete [simp]: "distinct xs \<Longrightarrow> distinct (set_delete x xs)"
  by (auto simp: set_delete_def)

text \<open>The cache operations of the hook for the fulfilled ones of several \<open>mutateAsync\<close> calls.\<close>

definition settled_all :: "'v mutation \<Rightarrow> ('v \<times> bool) list \<Rightarrow> cmd list" where
  "settled_all mu rs = concat (map (\<lambda>(v, ok). if ok then settled_ok mu v [] else []) rs)"

lemma requests_settled_all [simp]: "requests (settled_all mu rs) = []"
  by (induction rs) (auto simp: settled_all_def)

text \<open>The summary of \<open>Promise.allSettled\<close>: how many outcomes were fulfilled and how many rejected.\<close>

definition settled_counts :: "bool list \<Rightarrow> nat \<times> nat" where
  "settled_counts rs = (let ok = length (filter id rs) in (ok, length rs - ok))"

end
