(* ===== verification/JsSort.thy ===== *)
theory JsSort
  imports Mantis_Prelude
begin

text \<open>
  \<open>Array.prototype.sort\<close>, which is stable, with the comparator interface every comparison function of the
  sources has to meet, the default order of \<open>sort()\<close>, and grouping into a \<open>Map\<close>.
  \<open>localeCompare\<close> is a parameter \<open>lc\<close> of the pages that use it, with \<open>comparator lc\<close> as hypothesis.
\<close>

section \<open>Sorting\<close>

fun js_insert :: "('a \<Rightarrow> 'a \<Rightarrow> int) \<Rightarrow> 'a \<Rightarrow> 'a list \<Rightarrow> 'a list" where
  "js_insert cmp x [] = [x]"
| "js_insert cmp x (y # ys) = (if cmp x y \<le> 0 then x # y # ys else y # js_insert cmp x ys)"

definition js_sort :: "('a \<Rightarrow> 'a \<Rightarrow> int) \<Rightarrow> 'a list \<Rightarrow> 'a list" where
  "js_sort cmp xs = foldr (js_insert cmp) xs []"

text \<open>The order of \<open>sort()\<close> without a comparator: by code.\<close>

fun str_cmp :: "string \<Rightarrow> string \<Rightarrow> int" where
  "str_cmp [] [] = 0"
| "str_cmp [] (_ # _) = -1"
| "str_cmp (_ # _) [] = 1"
| "str_cmp (a # s) (b # t) = (if code a < code b then -1 else if code b < code a then 1 else str_cmp s t)"

text \<open>\<open>(a, b) => f(a).localeCompare(f(b))\<close> and \<open>(a, b) => f(b) - f(a)\<close>\<close>

definition by_key :: "(string \<Rightarrow> string \<Rightarrow> int) \<Rightarrow> ('a \<Rightarrow> string) \<Rightarrow> 'a \<Rightarrow> 'a \<Rightarrow> int" where
  "by_key lc f a b = lc (f a) (f b)"

definition descending :: "('a \<Rightarrow> int) \<Rightarrow> 'a \<Rightarrow> 'a \<Rightarrow> int" where
  "descending f a b = f b - f a"

section \<open>Grouping\<close>

text \<open>\<open>m.get(k) ?? []\<close>, push, \<open>m.set(k, list)\<close>: keys stay in order of first insertion.\<close>

fun map_push :: "'k \<Rightarrow> 'a \<Rightarrow> ('k \<times> 'a list) list \<Rightarrow> ('k \<times> 'a list) list" where
  "map_push k x [] = [(k, [x])]"
| "map_push k x ((k', xs) # m) = (if k' = k then (k', xs @ [x]) # m else (k', xs) # map_push k x m)"

definition group_by :: "('a \<Rightarrow> 'k) \<Rightarrow> 'a list \<Rightarrow> ('k \<times> 'a list) list" where
  "group_by f xs = fold (\<lambda>x. map_push (f x) x) xs []"

section \<open>The comparator interface\<close>

locale comparator =
  fixes cmp :: "'a \<Rightarrow> 'a \<Rightarrow> int"
  assumes cmp_refl: "cmp a a = 0"
    and cmp_sym: "cmp a b < 0 \<longleftrightarrow> 0 < cmp b a"
    and cmp_trans: "cmp a b \<le> 0 \<Longrightarrow> cmp b c \<le> 0 \<Longrightarrow> cmp a c \<le> 0"
begin

lemma cmp_total: "cmp a b \<le> 0 \<or> cmp b a \<le> 0"
  using cmp_sym [of b a] by linarith

lemma mset_insert: "mset (js_insert cmp x xs) = add_mset x (mset xs)"
  by (induction xs) auto

lemma mset_sort: "mset (js_sort cmp xs) = mset xs"
  by (induction xs) (auto simp: js_sort_def mset_insert)

lemma set_sort: "set (js_sort cmp xs) = set xs"
  by (metis mset_sort set_mset_mset)

lemma sorted_insert:
  "sorted_wrt (\<lambda>a b. cmp a b \<le> 0) xs \<Longrightarrow> sorted_wrt (\<lambda>a b. cmp a b \<le> 0) (js_insert cmp x xs)"
proof (induction xs)
  case (Cons y ys)
  have set: "set (js_insert cmp x ys) = insert x (set ys)"
    by (metis mset_insert set_mset_add_mset_insert set_mset_mset)
  show ?case
  proof (cases "cmp x y \<le> 0")
    case True
    then show ?thesis using Cons.prems cmp_trans by fastforce
  next
    case False
    then have "cmp y x \<le> 0" using cmp_total by blast
    with False Cons set show ?thesis by auto
  qed
qed simp

lemma sorted_sort: "sorted_wrt (\<lambda>a b. cmp a b \<le> 0) (js_sort cmp xs)"
  by (induction xs) (auto simp: js_sort_def sorted_insert)

lemma sorted_unique:
  assumes "sorted_wrt (\<lambda>a b. cmp a b \<le> 0) xs" and "sorted_wrt (\<lambda>a b. cmp a b \<le> 0) ys"
    and "mset xs = mset ys" and "\<And>a b. a \<in> set xs \<Longrightarrow> b \<in> set xs \<Longrightarrow> cmp a b = 0 \<Longrightarrow> a = b"
  shows "xs = ys"
  using assms
proof (induction xs arbitrary: ys)
  case (Cons x xs)
  then obtain y ys' where ys: "ys = y # ys'" by (cases ys) auto
  have sets: "set (x # xs) = set ys" using Cons.prems(3) by (metis set_mset_mset)
  have "x = y"
  proof (rule ccontr)
    assume "x \<noteq> y"
    then have "x \<in> set ys'" "y \<in> set xs" using sets ys by auto
    then have "cmp y x \<le> 0" "cmp x y \<le> 0" using Cons.prems(1,2) ys by auto
    then have "cmp x y = 0" using cmp_sym [of x y] by linarith
    then show False using Cons.prems(4) \<open>y \<in> set xs\<close> \<open>x \<noteq> y\<close> by auto
  qed
  then show ?case using Cons ys by auto
qed simp

lemma sort_unique:
  assumes "mset xs = mset ys" and "\<And>a b. a \<in> set xs \<Longrightarrow> b \<in> set xs \<Longrightarrow> cmp a b = 0 \<Longrightarrow> a = b"
  shows "js_sort cmp xs = js_sort cmp ys"
  by (rule sorted_unique) (auto simp: sorted_sort mset_sort set_sort assms)

lemma insert_filter_eq:
  assumes "sorted_wrt (\<lambda>a b. cmp a b \<le> 0) xs"
  shows "filter (\<lambda>a. cmp a c = 0) (js_insert cmp x xs)
       = (if cmp x c = 0 then x # filter (\<lambda>a. cmp a c = 0) xs else filter (\<lambda>a. cmp a c = 0) xs)"
  using assms
proof (induction xs)
  case (Cons y ys)
  have "cmp y c \<noteq> 0" if "\<not> cmp x y \<le> 0" "cmp x c = 0"
  proof
    assume "cmp y c = 0"
    then have "cmp c y \<le> 0" using cmp_sym [of y c] cmp_sym [of c y] by linarith
    with that cmp_trans [of x c y] show False by linarith
  qed
  with Cons show ?case by auto
qed simp

text \<open>Elements that compare equal keep their order.\<close>

lemma sort_stable: "filter (\<lambda>a. cmp a c = 0) (js_sort cmp xs) = filter (\<lambda>a. cmp a c = 0) xs"
  by (induction xs) (auto simp: js_sort_def insert_filter_eq sorted_sort [unfolded js_sort_def])

end

lemma comparator_by_key: "comparator lc \<Longrightarrow> comparator (by_key lc f)"
  unfolding comparator_def by_key_def by blast

lemma comparator_descending: "comparator (descending f)"
  by unfold_locales (auto simp: descending_def)

lemma str_cmp_eq_0 [simp]: "str_cmp s t = 0 \<longleftrightarrow> s = t"
proof (induction s t rule: str_cmp.induct)
  case (4 a s b t)
  have "\<not> code a < code b \<Longrightarrow> \<not> code b < code a \<Longrightarrow> a = b" by (simp flip: code_inject)
  with 4 show ?case by auto
qed auto

lemma str_cmp_sym: "str_cmp s t < 0 \<longleftrightarrow> 0 < str_cmp t s"
  by (induction s t rule: str_cmp.induct) auto

lemma str_cmp_trans: "str_cmp s t \<le> 0 \<Longrightarrow> str_cmp t u \<le> 0 \<Longrightarrow> str_cmp s u \<le> 0"
proof (induction s arbitrary: t u)
  case Nil
  then show ?case by (cases u) simp_all
next
  case (Cons a s)
  then obtain b t' where t: "t = b # t'" by (cases t) auto
  with Cons.prems obtain c u' where u: "u = c # u'" by (cases u) auto
  have ab: "code a < code b \<or> (code a = code b \<and> str_cmp s t' \<le> 0)"
    using Cons.prems(1) t by (simp split: if_splits)
  have bc: "code b < code c \<or> (code b = code c \<and> str_cmp t' u' \<le> 0)"
    using Cons.prems(2) t u by (simp split: if_splits)
  have "code a < code c \<or> (code a = code c \<and> str_cmp s u' \<le> 0)"
    using ab bc Cons.IH [of t' u'] by fastforce
  then show ?case using u by auto
qed

interpretation sc: comparator str_cmp
  by unfold_locales (simp, rule str_cmp_sym, rule str_cmp_trans)

section \<open>Lemmas on grouping\<close>

lemma map_of_map_push:
  "map_of (map_push k x m) k' =
     (if k' = k then Some ((case map_of m k of None \<Rightarrow> [] | Some xs \<Rightarrow> xs) @ [x]) else map_of m k')"
  by (induction m) auto

lemma keys_map_push: "map fst (map_push k x m) = map fst m @ (if k \<in> fst ` set m then [] else [k])"
  by (induction m) (auto simp: image_iff, force+)

lemma group_by_snoc: "group_by f (xs @ [x]) = map_push (f x) x (group_by f xs)"
  by (simp add: group_by_def)

lemma map_of_group_by:
  "map_of (group_by f xs) k = (if k \<in> f ` set xs then Some (filter (\<lambda>x. f x = k) xs) else None)"
proof (induction xs rule: rev_induct)
  case Nil
  then show ?case by (simp add: group_by_def)
next
  case (snoc x xs)
  have "k \<notin> f ` set xs \<Longrightarrow> filter (\<lambda>x. f x = k) xs = []" by (auto simp: filter_empty_conv)
  with snoc show ?case by (auto simp: group_by_snoc map_of_map_push)
qed

lemma distinct_group_by: "distinct (map fst (group_by f xs))"
proof (induction xs rule: rev_induct)
  case (snoc x xs)
  then show ?case by (auto simp: group_by_snoc keys_map_push simp flip: set_map)
qed (simp add: group_by_def)

lemma keys_group_by: "fst ` set (group_by f xs) = f ` set xs"
proof -
  have "k \<in> fst ` set (group_by f xs) \<longleftrightarrow> map_of (group_by f xs) k \<noteq> None" for k
    by (metis map_of_eq_None_iff)
  then have "k \<in> fst ` set (group_by f xs) \<longleftrightarrow> k \<in> f ` set xs" for k
    by (simp add: map_of_group_by)
  then show ?thesis by blast
qed

text \<open>Splitting a list by a key over distinct keys that cover it loses and duplicates nothing.\<close>

lemma mset_concat_filter:
  assumes "distinct ks" and "f ` set xs \<subseteq> set ks"
  shows "mset (concat (map (\<lambda>k. filter (\<lambda>x. f x = k) xs) ks)) = mset xs"
  using assms
proof (induction ks arbitrary: xs)
  case (Cons k ks)
  have "filter (\<lambda>x. f x = k') (filter (\<lambda>x. f x \<noteq> k) xs) = filter (\<lambda>x. f x = k') xs" if "k' \<in> set ks" for k'
    using that Cons.prems(1) by (auto intro: filter_cong)
  then have "map (\<lambda>k'. filter (\<lambda>x. f x = k') xs) ks = map (\<lambda>k'. filter (\<lambda>x. f x = k') (filter (\<lambda>x. f x \<noteq> k) xs)) ks"
    by simp
  moreover have "mset (concat (map (\<lambda>k'. filter (\<lambda>x. f x = k') (filter (\<lambda>x. f x \<noteq> k) xs)) ks)) = mset (filter (\<lambda>x. f x \<noteq> k) xs)"
    by (rule Cons.IH) (use Cons.prems in auto)
  moreover have "mset (filter (\<lambda>x. f x = k) xs) + mset (filter (\<lambda>x. f x \<noteq> k) xs) = mset xs"
    by (induction xs) auto
  ultimately show ?case by (simp only: list.map concat.simps mset_append)
qed simp

lemma sum_list_counts:
  assumes "distinct ks" and "f ` set xs \<subseteq> set ks"
  shows "sum_list (map (\<lambda>k. length (filter (\<lambda>x. f x = k) xs)) ks) = length xs"
proof -
  have "length (concat (map (\<lambda>k. filter (\<lambda>x. f x = k) xs) ks)) = length xs"
    using mset_concat_filter [OF assms] by (rule mset_eq_length)
  then show ?thesis by (simp add: length_concat comp_def)
qed

end
