(* ===== verification/PolicyEditor.thy ===== *)
theory PolicyEditor
  imports Effects JsSort UrlState
begin

text \<open>
  \<open>pages/PolicyPage.tsx\<close> and \<open>pages/DuplicatePolicyModal.tsx\<close>: the editor of a group's policy. Its state is the
  record of the page's \<open>useState\<close> cells, the baseline reference, the policy id its loading effect last ran
  for, and the snapshots captured by saves still in flight. Toggles and overrides are printed with their
  members in the order the client and the API schema both use.
\<close>

section \<open>Data\<close>

record toggle =
  tg_category_id :: string
  tg_action :: string

record override =
  ov_domain :: string
  ov_kind :: "string option"  \<comment> \<open>\<open>null\<close> after the select was cleared\<close>

record policy_out =
  po_id :: string
  po_group_id :: string
  po_on_load_failure :: string
  po_category_toggles :: "toggle list"
  po_overrides :: "override list"

definition CATEGORY_ACTION_OPTIONS :: "(string \<times> string) list" where
  "CATEGORY_ACTION_OPTIONS = [(''off'', ''Off''), (''ACTION_BLOCK'', ''Block''),
     (''ACTION_LOG_ONLY'', ''Log only''), (''ACTION_ALLOW'', ''Allow'')]"

definition GROUP_ORDER :: "string list" where
  "GROUP_ORDER = [''security'', ''content'', ''distraction'', ''privacy'', ''network'']"

section \<open>The domain pattern\<close>

text \<open>\<open>[a-z0-9]([a-z0-9-]{0,61}[a-z0-9])?\<close> and \<open>DOMAIN_RE\<close>, case-insensitive.\<close>

definition label_ok :: "string \<Rightarrow> bool" where
  "label_ok l \<longleftrightarrow> l \<noteq> [] \<and> length l \<le> 63 \<and> is_alnum (hd l) \<and> is_alnum (last l)
     \<and> list_all (\<lambda>c. is_alnum c \<or> c = CHR ''-'') l"

definition DOMAIN_RE :: "string \<Rightarrow> bool" where
  "DOMAIN_RE v = (let ls = js_split CHR ''.'' v in 2 \<le> length ls \<and> list_all label_ok ls)"

section \<open>The override form\<close>

definition override_validate :: "string \<Rightarrow> string option" where
  "override_validate v = (if DOMAIN_RE (js_trim v) then None
     else Some ''Enter a valid domain, e.g. ads.example.com'')"

text \<open>Submitting: the override handed to \<open>onAdd\<close>, if the form is valid.\<close>

definition AddOverrideForm_submit :: "string \<Rightarrow> string option \<Rightarrow> override option" where
  "AddOverrideForm_submit domain kind =
    (if override_validate domain = None
     then Some \<lparr>ov_domain = js_lower (js_trim domain), ov_kind = kind\<rparr> else None)"

section \<open>Snapshots\<close>

definition toggle_json :: "toggle \<Rightarrow> json" where
  "toggle_json t = JObj [(''category_id'', JStr (tg_category_id t)), (''action'', JStr (tg_action t))]"

definition override_json :: "override \<Rightarrow> json" where
  "override_json t = JObj [(''domain'', JStr (ov_domain t)), (''kind'', jopt (ov_kind t))]"

definition policy_json :: "(string \<Rightarrow> string \<Rightarrow> int) \<Rightarrow> toggle list \<Rightarrow> override list \<Rightarrow> string \<Rightarrow> json" where
  "policy_json lc ts os failure =
     JObj [(''toggles'', JArr (map toggle_json (js_sort (by_key lc tg_category_id) ts))),
           (''overrides'', JArr (map override_json (js_sort (by_key lc ov_domain) os))),
           (''failure'', JStr failure)]"

definition normalizePolicyState :: "(string \<Rightarrow> string \<Rightarrow> int) \<Rightarrow> toggle list \<Rightarrow> override list \<Rightarrow> string \<Rightarrow> string" where
  "normalizePolicyState lc ts os failure = stringify (policy_json lc ts os failure)"

section \<open>Editor state\<close>

record policy_editor =
  pe_groupId :: "string option"
  pe_categoryToggles :: "toggle list"
  pe_overrides :: "override list"
  pe_onLoadFailure :: string
  pe_baseline :: string
  pe_effect_id :: "string option option"  \<comment> \<open>the \<open>policy?.id\<close> of the last effect run, if it has run\<close>
  pe_saving :: "(toggle list \<times> override list \<times> string) list"
  pe_testDomain :: string
  pe_duplicateOpened :: bool

definition pe_initial :: "string option \<Rightarrow> policy_editor" where
  "pe_initial g = \<lparr>pe_groupId = g, pe_categoryToggles = [], pe_overrides = [],
     pe_onLoadFailure = ''FAIL_OPEN'', pe_baseline = [], pe_effect_id = None, pe_saving = [],
     pe_testDomain = [], pe_duplicateOpened = False\<rparr>"

text \<open>The loading effect, keyed on \<open>policy?.id\<close>; \<^const>\<open>None\<close> is no policy (\<open>undefined\<close> or \<open>null\<close>).\<close>

definition pe_load :: "(string \<Rightarrow> string \<Rightarrow> int) \<Rightarrow> policy_out option \<Rightarrow> policy_editor \<Rightarrow> policy_editor" where
  "pe_load lc p s =
    (let ts = (case p of None \<Rightarrow> [] | Some x \<Rightarrow> po_category_toggles x);
         os = (case p of None \<Rightarrow> [] | Some x \<Rightarrow> po_overrides x);
         f = (case p of None \<Rightarrow> ''FAIL_OPEN'' | Some x \<Rightarrow> po_on_load_failure x)
     in s\<lparr>pe_categoryToggles := ts, pe_overrides := os, pe_onLoadFailure := f,
          pe_baseline := normalizePolicyState lc ts os f, pe_effect_id := Some (map_option po_id p)\<rparr>)"

definition pe_policy_data :: "(string \<Rightarrow> string \<Rightarrow> int) \<Rightarrow> policy_out option \<Rightarrow> policy_editor \<Rightarrow> policy_editor" where
  "pe_policy_data lc p s = (if pe_effect_id s = Some (map_option po_id p) then s else pe_load lc p s)"

definition pe_snapshot :: "(string \<Rightarrow> string \<Rightarrow> int) \<Rightarrow> policy_editor \<Rightarrow> string" where
  "pe_snapshot lc s = normalizePolicyState lc (pe_categoryToggles s) (pe_overrides s) (pe_onLoadFailure s)"

definition isDirty :: "(string \<Rightarrow> string \<Rightarrow> int) \<Rightarrow> policy_editor \<Rightarrow> bool" where
  "isDirty lc s \<longleftrightarrow> pe_snapshot lc s \<noteq> pe_baseline s"

section \<open>Editing\<close>

definition setCategoryAction :: "string \<Rightarrow> string \<Rightarrow> policy_editor \<Rightarrow> policy_editor" where
  "setCategoryAction cid action s =
    (let rest = filter (\<lambda>c. tg_category_id c \<noteq> cid) (pe_categoryToggles s)
     in s\<lparr>pe_categoryToggles := (if action = ''off'' then rest
          else rest @ [\<lparr>tg_category_id = cid, tg_action = action\<rparr>])\<rparr>)"

text \<open>The action a category's row shows.\<close>

definition category_action :: "policy_editor \<Rightarrow> string \<Rightarrow> string" where
  "category_action s cid = (case find (\<lambda>c. tg_category_id c = cid) (pe_categoryToggles s) of
     None \<Rightarrow> ''off'' | Some c \<Rightarrow> tg_action c)"

text \<open>\<open>onChange={(v) => v && onChange(v)}\<close> of the row's select.\<close>

definition CategoryRow_onChange :: "string \<Rightarrow> string option \<Rightarrow> policy_editor \<Rightarrow> policy_editor" where
  "CategoryRow_onChange cid v s = (if truthy v then setCategoryAction cid (the v) s else s)"

definition addOverride :: "override \<Rightarrow> policy_editor \<Rightarrow> policy_editor" where
  "addOverride o1 s = s\<lparr>pe_overrides := filter (\<lambda>x. ov_domain x \<noteq> ov_domain o1) (pe_overrides s) @ [o1]\<rparr>"

definition removeOverride :: "string \<Rightarrow> policy_editor \<Rightarrow> policy_editor" where
  "removeOverride d s = s\<lparr>pe_overrides := filter (\<lambda>x. ov_domain x \<noteq> d) (pe_overrides s)\<rparr>"

definition setOnLoadFailure :: "string option \<Rightarrow> policy_editor \<Rightarrow> policy_editor" where
  "setOnLoadFailure v s = (if truthy v then s\<lparr>pe_onLoadFailure := the v\<rparr> else s)"

definition applyDuplicatedPolicy :: "policy_out \<Rightarrow> policy_editor \<Rightarrow> policy_editor \<times> cmd list" where
  "applyDuplicatedPolicy src s =
    (s\<lparr>pe_categoryToggles := po_category_toggles src, pe_overrides := po_overrides src,
       pe_onLoadFailure := po_on_load_failure src\<rparr>,
     [Notify (''Policy loaded '' @ em_dash @ '' review and click Save policy'') ''blue''])"

section \<open>Saving, compiling, testing\<close>

text \<open>The request body of a save: the toggles and overrides in editor order.\<close>

definition save_body :: "toggle list \<times> override list \<times> string \<Rightarrow> json" where
  "save_body c = (let (ts, os, f) = c in
     JObj [(''on_load_failure'', JStr f), (''category_toggles'', JArr (map toggle_json ts)),
       (''overrides'', JArr (map override_json os))])"

definition pe_content :: "policy_editor \<Rightarrow> toggle list \<times> override list \<times> string" where
  "pe_content s = (pe_categoryToggles s, pe_overrides s, pe_onLoadFailure s)"

definition pe_save :: "policy_editor \<Rightarrow> policy_editor \<times> cmd list" where
  "pe_save s =
    (if \<not> truthy (pe_groupId s) then (s, [])
     else (s\<lparr>pe_saving := pe_saving s @ [pe_content s]\<rparr>,
           [mutate (useUpsertPolicy (pe_groupId s)) (save_body (pe_content s))]))"

definition pe_save_success :: "(string \<Rightarrow> string \<Rightarrow> int) \<Rightarrow> policy_editor \<Rightarrow> policy_editor \<times> cmd list" where
  "pe_save_success lc s = (case pe_saving s of
     [] \<Rightarrow> (s, [])
   | (ts, os, f) # rest \<Rightarrow>
       (s\<lparr>pe_baseline := normalizePolicyState lc ts os f, pe_saving := rest\<rparr>,
        settled_ok (useUpsertPolicy (pe_groupId s)) (save_body (ts, os, f)) [Notify ''Policy saved'' ''green'']))"

definition pe_save_error :: "thrown \<Rightarrow> policy_editor \<Rightarrow> policy_editor \<times> cmd list" where
  "pe_save_error e s = (s\<lparr>pe_saving := tl (pe_saving s)\<rparr>, [notify_error e])"

definition pe_compile :: "policy_editor \<Rightarrow> cmd list" where
  "pe_compile s = (if \<not> truthy (pe_groupId s) then [] else [mutate useCompileBundle (the (pe_groupId s))])"

definition pe_compile_success :: "cmd list" where
  "pe_compile_success = [Notify ''Bundle compiled and published'' ''green'']"

text \<open>The two buttons: saving needs changes, compiling needs none.\<close>

definition save_enabled :: "(string \<Rightarrow> string \<Rightarrow> int) \<Rightarrow> policy_editor \<Rightarrow> bool" where
  "save_enabled lc s \<longleftrightarrow> isDirty lc s \<and> pe_saving s = []"

definition compile_enabled :: "(string \<Rightarrow> string \<Rightarrow> int) \<Rightarrow> bool \<Rightarrow> policy_editor \<Rightarrow> bool" where
  "compile_enabled lc pending s \<longleftrightarrow> \<not> isDirty lc s \<and> \<not> pending"

definition strip_dot :: "string \<Rightarrow> string" where
  "strip_dot s = (if s \<noteq> [] \<and> last s = CHR ''.'' then butlast s else s)"

definition pe_test :: "policy_editor \<Rightarrow> cmd list" where
  "pe_test s = (let d = strip_dot (js_lower (js_trim (pe_testDomain s))) in
     if d = [] then [] else [mutate (useTestPolicy (pe_groupId s)) d])"

section \<open>Category groups\<close>

definition categoriesByGroup :: "category list option \<Rightarrow> (string \<times> category list) list" where
  "categoriesByGroup cs = group_by cat_group (case cs of None \<Rightarrow> [] | Some xs \<Rightarrow> xs)"

text \<open>The sections of the page: a heading per known group that has categories.\<close>

definition category_sections :: "category list option \<Rightarrow> (string \<times> category list) list" where
  "category_sections cs = (let m = categoriesByGroup cs in
     map (\<lambda>g. (g, the (map_of m g))) (filter (\<lambda>g. map_of m g \<noteq> None) GROUP_ORDER))"

section \<open>Duplicating a policy\<close>

record duplicate_modal =
  dm_tenantId :: "string option"
  dm_groupId :: "string option"

definition dm_groupOptions :: "string option \<Rightarrow> (string \<times> string) list \<Rightarrow> (string \<times> string) list" where
  "dm_groupOptions exclude groups = filter (\<lambda>(i, n). Some i \<noteq> exclude) groups"

definition dm_reset :: "duplicate_modal \<Rightarrow> duplicate_modal" where
  "dm_reset m = \<lparr>dm_tenantId = None, dm_groupId = None\<rparr>"

definition dm_setTenant :: "string option \<Rightarrow> duplicate_modal \<Rightarrow> duplicate_modal" where
  "dm_setTenant v m = m\<lparr>dm_tenantId := v, dm_groupId := None\<rparr>"

definition dm_setGroup :: "string option \<Rightarrow> duplicate_modal \<Rightarrow> duplicate_modal" where
  "dm_setGroup v m = m\<lparr>dm_groupId := v\<rparr>"

definition dm_close :: "duplicate_modal \<Rightarrow> duplicate_modal \<times> cmd list" where
  "dm_close m = (dm_reset m, [OnClose])"

text \<open>Confirming hands the source policy, if it is loaded, to the editor, then resets and closes.\<close>

definition dm_confirm :: "policy_out option \<Rightarrow> duplicate_modal \<Rightarrow> policy_editor
    \<Rightarrow> duplicate_modal \<times> policy_editor \<times> cmd list" where
  "dm_confirm src m s = (case src of
     None \<Rightarrow> (m, s, [])
   | Some p \<Rightarrow> (let (s', cs) = applyDuplicatedPolicy p s
                in (dm_reset m, s'\<lparr>pe_duplicateOpened := False\<rparr>, cs @ [OnClose])))"

section \<open>Lemmas: snapshots\<close>

lemma stringify_inject:
  assumes "json_ok v" and "json_ok w"
  shows "stringify v = stringify w \<longleftrightarrow> v = w"
  using json_parse_stringify [OF assms(1)] json_parse_stringify [OF assms(2)] by (metis option.inject)

lemma json_ok_policy: "json_ok (policy_json lc ts os f)"
  by (simp add: jopt_def policy_json_def list_all_iff toggle_json_def override_json_def split: option.split)

lemma toggle_json_inject [simp]: "toggle_json a = toggle_json b \<longleftrightarrow> a = b"
  by (auto simp: toggle_json_def)

lemma jopt_inject [simp]: "jopt a = jopt b \<longleftrightarrow> a = b"
  by (cases a; cases b) (simp_all add: jopt_def)

lemma json_ok_jopt [simp]: "json_ok (jopt a)"
  by (cases a) (simp_all add: jopt_def)

lemma override_json_inject [simp]: "override_json a = override_json b \<longleftrightarrow> a = b"
  by (auto simp: override_json_def)

lemma map_inj_eq: "(\<And>a b. f a = f b \<longleftrightarrow> a = b) \<Longrightarrow> map f xs = map f ys \<longleftrightarrow> xs = ys"
  by (rule inj_map_eq_map) (auto simp: inj_def)

lemma sort_eq_iff:
  assumes "comparator lc" and "\<And>a b. lc a b = 0 \<Longrightarrow> a = b" and "distinct (map f xs)"
  shows "js_sort (by_key lc f) xs = js_sort (by_key lc f) ys \<longleftrightarrow> mset xs = mset ys"
proof
  note cmp = comparator_by_key [OF assms(1), of f]
  {
    assume "js_sort (by_key lc f) xs = js_sort (by_key lc f) ys"
    then show "mset xs = mset ys" using comparator.mset_sort [OF cmp] by metis
  next
    assume "mset xs = mset ys"
    then show "js_sort (by_key lc f) xs = js_sort (by_key lc f) ys"
    proof (rule comparator.sort_unique [OF cmp])
      fix a b assume "a \<in> set xs" "b \<in> set xs" "by_key lc f a b = 0"
      then show "a = b" using assms(2,3) by (auto simp: by_key_def distinct_map dest: inj_onD)
    qed
  }
qed

lemma snapshot_eq_iff:
  assumes "comparator lc" and "\<And>a b. lc a b = 0 \<Longrightarrow> a = b"
    and "distinct (map tg_category_id ts)" and "distinct (map ov_domain os)"
  shows "normalizePolicyState lc ts os f = normalizePolicyState lc ts' os' f'
    \<longleftrightarrow> mset ts = mset ts' \<and> mset os = mset os' \<and> f = f'"
proof -
  have "normalizePolicyState lc ts os f = normalizePolicyState lc ts' os' f'
      \<longleftrightarrow> policy_json lc ts os f = policy_json lc ts' os' f'"
    by (simp add: normalizePolicyState_def stringify_inject json_ok_policy)
  also have "\<dots> \<longleftrightarrow> js_sort (by_key lc tg_category_id) ts = js_sort (by_key lc tg_category_id) ts'
      \<and> js_sort (by_key lc ov_domain) os = js_sort (by_key lc ov_domain) os' \<and> f = f'"
    by (simp add: policy_json_def map_inj_eq)
  also have "\<dots> \<longleftrightarrow> mset ts = mset ts' \<and> mset os = mset os' \<and> f = f'"
    using sort_eq_iff [OF assms(1,2,3)] sort_eq_iff [OF assms(1,2,4)] by simp
  finally show ?thesis .
qed

section \<open>The editor invariant\<close>

definition content_ok :: "toggle list \<times> override list \<times> string \<Rightarrow> bool" where
  "content_ok c = (let (ts, os, f) = c in distinct (map tg_category_id ts) \<and> distinct (map ov_domain os))"

definition same_content :: "toggle list \<times> override list \<times> string \<Rightarrow> toggle list \<times> override list \<times> string \<Rightarrow> bool" where
  "same_content c d = (let (ts, os, f) = c; (ts', os', f') = d in mset ts = mset ts' \<and> mset os = mset os' \<and> f = f')"

definition policy_content :: "policy_out option \<Rightarrow> toggle list \<times> override list \<times> string" where
  "policy_content p = (case p of None \<Rightarrow> ([], [], ''FAIL_OPEN'')
     | Some x \<Rightarrow> (po_category_toggles x, po_overrides x, po_on_load_failure x))"

text \<open>
  Everything that can happen to the editor: new policy data, edits, a duplicated policy, saves and their
  outcomes. Loaded policies name each category and each domain once, as every policy this editor saves does.
\<close>

inductive pe_step :: "(string \<Rightarrow> string \<Rightarrow> int) \<Rightarrow> policy_editor \<Rightarrow> policy_editor \<Rightarrow> bool" for lc where
  data: "content_ok (policy_content p) \<Longrightarrow> pe_step lc s (pe_policy_data lc p s)"
| toggle: "pe_step lc s (CategoryRow_onChange cid v s)"
| add: "AddOverrideForm_submit d k = Some o1 \<Longrightarrow> pe_step lc s (addOverride o1 s)"
| remove: "pe_step lc s (removeOverride d s)"
| failure: "pe_step lc s (setOnLoadFailure v s)"
| duplicate: "content_ok (policy_content (Some p)) \<Longrightarrow> pe_step lc s (fst (applyDuplicatedPolicy p s))"
| save: "save_enabled lc s \<Longrightarrow> pe_step lc s (fst (pe_save s))"
| saved: "pe_saving s \<noteq> [] \<Longrightarrow> pe_step lc s (fst (pe_save_success lc s))"
| failed: "pe_saving s \<noteq> [] \<Longrightarrow> pe_step lc s (fst (pe_save_error e s))"

inductive pe_reachable :: "(string \<Rightarrow> string \<Rightarrow> int) \<Rightarrow> policy_editor \<Rightarrow> bool" for lc where
  start: "content_ok (policy_content p) \<Longrightarrow> pe_reachable lc (pe_load lc p (pe_initial g))"
| more: "pe_reachable lc s \<Longrightarrow> pe_step lc s s' \<Longrightarrow> pe_reachable lc s'"

inductive_cases pe_step_cases: "pe_step lc s s'"

text \<open>
  The content has no duplicate, at most one save is in flight and its content has none either, and the
  baseline is the snapshot of some duplicate-free content.
\<close>

definition pe_ok :: "(string \<Rightarrow> string \<Rightarrow> int) \<Rightarrow> policy_editor \<Rightarrow> bool" where
  "pe_ok lc s \<longleftrightarrow> content_ok (pe_content s) \<and> list_all content_ok (pe_saving s) \<and> length (pe_saving s) \<le> 1
     \<and> (\<exists>ts os f. content_ok (ts, os, f) \<and> pe_baseline s = normalizePolicyState lc ts os f)"

lemma pe_load_ok: "content_ok (policy_content p) \<Longrightarrow> list_all content_ok (pe_saving s) \<Longrightarrow> length (pe_saving s) \<le> 1
    \<Longrightarrow> pe_ok lc (pe_load lc p s)"
  by (auto simp: pe_ok_def pe_load_def pe_content_def policy_content_def Let_def split: option.splits)

lemma pe_step_ok: "pe_step lc s s' \<Longrightarrow> pe_ok lc s \<Longrightarrow> pe_ok lc s'"
proof (induction rule: pe_step.induct)
  case (data p s)
  then show ?case using pe_load_ok [of p s lc] by (auto simp: pe_policy_data_def pe_ok_def)
next
  case (toggle s cid v)
  then show ?case
    by (auto simp: pe_ok_def pe_content_def content_ok_def CategoryRow_onChange_def setCategoryAction_def
        Let_def distinct_map_filter)
next
  case (add d k o1 s)
  then show ?case
    by (auto simp: pe_ok_def pe_content_def content_ok_def addOverride_def distinct_map_filter)
next
  case (saved s)
  then obtain ts os f rest where "pe_saving s = (ts, os, f) # rest" by (cases "pe_saving s") auto
  with saved show ?case by (auto simp: pe_ok_def pe_content_def pe_save_success_def)
next
  case (failed s e)
  then show ?case by (cases "pe_saving s") (auto simp: pe_ok_def pe_content_def pe_save_error_def)
next
  case (remove s d)
  then show ?case by (auto simp: pe_ok_def pe_content_def content_ok_def removeOverride_def distinct_map_filter)
next
  case (failure s v)
  then show ?case by (auto simp: pe_ok_def pe_content_def content_ok_def setOnLoadFailure_def)
next
  case (duplicate p s)
  then show ?case by (auto simp: pe_ok_def pe_content_def applyDuplicatedPolicy_def policy_content_def)
next
  case (save s)
  then show ?case by (auto simp: pe_ok_def pe_content_def pe_save_def save_enabled_def)
qed

lemma pe_reachable_ok: "pe_reachable lc s \<Longrightarrow> pe_ok lc s"
proof (induction rule: pe_reachable.induct)
  case (start p g)
  then show ?case by (intro pe_load_ok) (simp_all add: pe_initial_def)
qed (rule pe_step_ok)

section \<open>Lemmas: lower case and domains\<close>

lemma is_alnum_lower [simp]: "is_alnum (lower_char c) = is_alnum c"
  by (auto simp: is_alnum_def is_digit_def is_upper_def is_lower_def code_lower_char)

lemma lower_char_eq_iff: "\<not> is_alnum d \<Longrightarrow> lower_char c = d \<longleftrightarrow> c = d"
  by (auto simp: is_alnum_def is_upper_def is_lower_def code_lower_char lower_char_def)

lemma split_lower:
  "\<not> is_alnum d \<Longrightarrow> js_split d (js_lower s) = map js_lower (js_split d s)"
  by (induction s) (auto simp: js_lower_def lower_char_eq_iff split: list.split)

lemma label_ok_lower [simp]: "label_ok (js_lower l) = label_ok l"
proof -
  have dash: "lower_char c = CHR ''-'' \<longleftrightarrow> c = CHR ''-''" for c
    by (rule lower_char_eq_iff) (simp add: is_alnum_def is_digit_def is_upper_def is_lower_def code_def)
  show ?thesis
    by (cases "l = []") (auto simp: label_ok_def js_lower_def list_all_iff hd_map last_map dash)
qed

lemma DOMAIN_RE_lower [simp]: "DOMAIN_RE (js_lower v) = DOMAIN_RE v"
proof -
  have "\<not> is_alnum CHR ''.''" by (simp add: is_alnum_def is_digit_def is_upper_def is_lower_def code_def)
  then show ?thesis by (simp add: DOMAIN_RE_def split_lower list_all_iff Let_def)
qed

lemma find_filter_neq:
  "k \<noteq> k' \<Longrightarrow> find (\<lambda>c. f c = k) (filter (\<lambda>c. f c \<noteq> k') xs) = find (\<lambda>c. f c = k) xs"
  by (induction xs) auto

lemma find_filter_eq: "find (\<lambda>c. f c = k) (filter (\<lambda>c. f c \<noteq> k) xs) = None"
  by (auto simp: find_None_iff)

lemma find_append: "find P (xs @ ys) = (case find P xs of None \<Rightarrow> find P ys | Some x \<Rightarrow> Some x)"
  by (induction xs) auto

section \<open>Properties\<close>


definition wit_policy :: policy_out where
  "wit_policy = \<lparr>po_id = ''p1'', po_group_id = ''g1'', po_on_load_failure = ''FAIL_OPEN'',
     po_category_toggles = [\<lparr>tg_category_id = ''malware'', tg_action = ''ACTION_BLOCK''\<rparr>], po_overrides = []\<rparr>"

definition wit_editor :: policy_editor where
  "wit_editor = pe_load str_cmp (Some wit_policy) (pe_initial (Some ''g1''))"

lemma wit_editor_reachable: "pe_reachable str_cmp wit_editor"
  unfolding wit_editor_def
  by (rule pe_reachable.start) (simp add: wit_policy_def policy_content_def content_ok_def)

lemma wit_editor_edit: "pe_reachable str_cmp (CategoryRow_onChange ''ads'' (Some ''ACTION_BLOCK'') wit_editor)"
  using wit_editor_reachable by (rule pe_reachable.more) (rule pe_step.toggle)



definition wit_edited :: policy_editor where
  "wit_edited = CategoryRow_onChange ''ads'' (Some ''ACTION_BLOCK'') wit_editor"


text \<open>Setting a category's action: its row then shows exactly that action, every other row keeps its own,
  and no category is ever listed twice.\<close>

theorem setCategoryAction_lookup:
  assumes "distinct (map tg_category_id (pe_categoryToggles s))"
  shows "category_action (setCategoryAction cid action s) c = (if c = cid then action else category_action s c)
    \<and> distinct (map tg_category_id (pe_categoryToggles (setCategoryAction cid action s)))"
  using assms
  by (auto simp: setCategoryAction_def category_action_def Let_def find_append find_filter_neq find_filter_eq
      distinct_map_filter split: option.splits)

theorem setCategoryAction_lookup_witness:
  "category_action (setCategoryAction ''malware'' ''off'' wit_editor) ''malware'' = ''off''
   \<and> category_action (setCategoryAction ''ads'' ''off'' wit_editor) ''malware'' = ''ACTION_BLOCK''"
proof -
  have "distinct (map tg_category_id (pe_categoryToggles wit_editor))" "category_action wit_editor ''malware'' = ''ACTION_BLOCK''"
    by code_simp+
  then show ?thesis using setCategoryAction_lookup [of wit_editor] by simp
qed

text \<open>Overrides: a submitted override is a valid lower-case domain whatever the case and surrounding blanks of
  the input; adding it leaves exactly one entry for that domain, the new one, and every other entry
  as it was; removing the domain afterwards leaves none.\<close>

theorem override_added_once:
  assumes "AddOverrideForm_submit d k = Some o1"
  shows "DOMAIN_RE (ov_domain o1) \<and> js_lower (ov_domain o1) = ov_domain o1 \<and> ov_kind o1 = k
    \<and> filter (\<lambda>x. ov_domain x = ov_domain o1) (pe_overrides (addOverride o1 s)) = [o1]
    \<and> filter (\<lambda>x. ov_domain x \<noteq> ov_domain o1) (pe_overrides (addOverride o1 s))
        = filter (\<lambda>x. ov_domain x \<noteq> ov_domain o1) (pe_overrides s)
    \<and> pe_overrides (removeOverride (ov_domain o1) (addOverride o1 s))
        = pe_overrides (removeOverride (ov_domain o1) s)"
  using assms
  by (auto simp: AddOverrideForm_submit_def override_validate_def addOverride_def removeOverride_def
      filter_empty_conv split: if_splits)

theorem override_added_once_witness:
  "AddOverrideForm_submit '' Ads.Example.COM '' (Some ''deny'') = Some \<lparr>ov_domain = ''ads.example.com'', ov_kind = Some ''deny''\<rparr>
   \<and> filter (\<lambda>x. ov_domain x = ''ads.example.com'')
       (pe_overrides (addOverride \<lparr>ov_domain = ''ads.example.com'', ov_kind = Some ''deny''\<rparr> wit_editor))
      = [\<lparr>ov_domain = ''ads.example.com'', ov_kind = Some ''deny''\<rparr>]"
proof -
  have eq: "AddOverrideForm_submit '' Ads.Example.COM '' (Some ''deny'') = Some \<lparr>ov_domain = ''ads.example.com'', ov_kind = Some ''deny''\<rparr>"
    by code_simp
  then show ?thesis using override_added_once [OF eq, of wit_editor] by simp
qed



text \<open>The category sections show every category of a known group exactly once and in catalogue order, each
  under the heading of its own group, and no heading is empty.\<close>

theorem category_sections_partition:
  "mset (concat (map snd (category_sections (Some cs)))) = mset (filter (\<lambda>c. cat_group c \<in> set GROUP_ORDER) cs)
   \<and> list_all (\<lambda>(g, xs). xs \<noteq> [] \<and> xs = filter (\<lambda>c. cat_group c = g) cs) (category_sections (Some cs))"
proof -
  have sec: "category_sections (Some cs) = map (\<lambda>g. (g, filter (\<lambda>c. cat_group c = g) cs))
      (filter (\<lambda>g. g \<in> cat_group ` set cs) GROUP_ORDER)"
    by (auto simp: category_sections_def categoriesByGroup_def map_of_group_by Let_def)
  have part: "mset (concat (map (\<lambda>g. filter (\<lambda>c. cat_group c = g) cs) (filter (\<lambda>g. g \<in> cat_group ` set cs) gs)))
      = mset (filter (\<lambda>c. cat_group c \<in> set gs) cs)" if "distinct gs" for gs
    using that
  proof (induction gs)
    case (Cons g gs)
    have split: "mset (filter (\<lambda>c. cat_group c = g \<or> cat_group c \<in> set gs) cs)
        = mset (filter (\<lambda>c. cat_group c = g) cs) + mset (filter (\<lambda>c. cat_group c \<in> set gs) cs)"
      using Cons.prems by (induction cs) auto
    have "g \<notin> cat_group ` set cs \<Longrightarrow> filter (\<lambda>c. cat_group c = g) cs = []" by (auto simp: filter_empty_conv)
    with Cons split show ?case by auto
  qed simp
  have "distinct GROUP_ORDER" by code_simp
  from part [OF this] show ?thesis by (auto simp: sec list_all_iff comp_def filter_empty_conv)
qed

end
