(* ===== verification/Formatting.thy ===== *)
theory Formatting
  imports Mantis_Prelude
begin

text \<open>
  \<open>format.ts\<close>, the formatters of \<open>pages/dhcp/helpers.ts\<close> and \<open>fmtUs\<close> of the latency widget, over
  the parts of the standard library they use: \<open>Date\<close> on ISO 8601 strings, \<open>Math.round\<close> of a quotient of
  integers, and \<open>toFixed\<close> of a double quotient. The clock \<open>now\<close> is in milliseconds and \<open>tz\<close> is the
  browser's offset from UTC in minutes; both are arguments. An invalid date is \<^const>\<open>None\<close>, and its
  arithmetic is \<open>NaN\<close>.
\<close>

section \<open>Date parsing\<close>

definition is_leap :: "int \<Rightarrow> bool" where
  "is_leap y \<longleftrightarrow> y mod 4 = 0 \<and> (y mod 100 \<noteq> 0 \<or> y mod 400 = 0)"

definition month_days :: "int \<Rightarrow> int \<Rightarrow> int" where
  "month_days y m = (if m = 2 then (if is_leap y then 29 else 28) else if m \<in> {4, 6, 9, 11} then 30 else 31)"

text \<open>Days since 1970-01-01 of a proleptic Gregorian date.\<close>

definition civil_days :: "int \<Rightarrow> int \<Rightarrow> int \<Rightarrow> int" where
  "civil_days y m d =
    (let y' = (if m \<le> 2 then y - 1 else y); era = y' div 400; yoe = y' - era * 400;
         doy = (153 * (m + (if m > 2 then -3 else 9)) + 2) div 5 + d - 1;
         doe = yoe * 365 + yoe div 4 - yoe div 100 + doy
     in era * 146097 + doe - 719468)"

definition num_field :: "nat \<Rightarrow> nat \<Rightarrow> string \<Rightarrow> int option" where
  "num_field i n s = (let t = take n (drop i s) in
     if length t = n \<and> list_all is_digit t then Some (int (digits_val t)) else None)"

definition char_at :: "nat \<Rightarrow> char \<Rightarrow> string \<Rightarrow> bool" where
  "char_at i c s \<longleftrightarrow> i < length s \<and> s ! i = c"

definition parse_date :: "string \<Rightarrow> int option" where
  "parse_date s = (case (num_field 0 4 s, num_field 5 2 s, num_field 8 2 s) of
     (Some y, Some m, Some d) \<Rightarrow>
       if length s = 10 \<and> char_at 4 CHR ''-'' s \<and> char_at 7 CHR ''-'' s
          \<and> 1 \<le> m \<and> m \<le> 12 \<and> 1 \<le> d \<and> d \<le> month_days y m
       then Some (civil_days y m d * 86400000) else None
   | _ \<Rightarrow> None)"

text \<open>Milliseconds of a fraction: its first three digits.\<close>

definition frac_ms :: "string \<Rightarrow> int option" where
  "frac_ms t = (if t \<noteq> [] \<and> list_all is_digit t
     then Some (int (digits_val (take 3 (t @ ''00'')))) else None)"

definition parse_time :: "string \<Rightarrow> int option" where
  "parse_time s = (case (num_field 0 2 s, num_field 3 2 s) of
     (Some h, Some mi) \<Rightarrow>
       if char_at 2 CHR '':'' s \<and> h < 24 \<and> mi < 60 then
         (if length s = 5 then Some (h * 3600000 + mi * 60000)
          else (case num_field 6 2 s of
             None \<Rightarrow> None
           | Some sec \<Rightarrow>
               if char_at 5 CHR '':'' s \<and> sec < 60 then
                 (if length s = 8 then Some (h * 3600000 + mi * 60000 + sec * 1000)
                  else if char_at 8 CHR ''.'' s
                       then map_option (\<lambda>ms. h * 3600000 + mi * 60000 + sec * 1000 + ms) (frac_ms (drop 9 s))
                       else None)
               else None))
       else None
   | _ \<Rightarrow> None)"

datatype zone_suffix = Utc | Offset int | NoZone

text \<open>The zone designator at the end of a string: \<open>Z\<close>, \<open>+hh:mm\<close> or \<open>+hhmm\<close>.\<close>

definition offset_of :: "string \<Rightarrow> int option" where
  "offset_of t = (case t of
     [] \<Rightarrow> None
   | c # r \<Rightarrow> (if c \<in> {CHR ''+'', CHR ''-''} then
       (let hm = (if char_at 2 CHR '':'' r then take 2 r @ drop 3 r else r) in
        case (num_field 0 2 hm, num_field 2 2 hm) of
          (Some h, Some m) \<Rightarrow> if length hm = 4 then Some ((if c = CHR ''-'' then -1 else 1) * (h * 60 + m)) else None
        | _ \<Rightarrow> None) else None))"

definition split_zone :: "string \<Rightarrow> string \<times> zone_suffix" where
  "split_zone s =
    (if s \<noteq> [] \<and> last s \<in> {CHR ''Z'', CHR ''z''} then (butlast s, Utc)
     else (case offset_of (drop (length s - 6) s) of
       Some n \<Rightarrow> (take (length s - 6) s, Offset n)
     | None \<Rightarrow> (case offset_of (drop (length s - 5) s) of
         Some n \<Rightarrow> (take (length s - 5) s, Offset n)
       | None \<Rightarrow> (s, NoZone))))"

text \<open>\<open>new Date(iso).getTime()\<close>: a date without time is UTC, a date-time without zone is local.\<close>

definition Date_parse :: "int \<Rightarrow> string \<Rightarrow> int option" where
  "Date_parse tz s =
    (if length s = 10 then parse_date s
     else (let (b, z) = split_zone s in
       if char_at 10 CHR ''T'' b then
         (case (parse_date (take 10 b), parse_time (drop 11 b)) of
            (Some d, Some t) \<Rightarrow> Some (d + t - (case z of Utc \<Rightarrow> 0 | Offset n \<Rightarrow> n * 60000 | NoZone \<Rightarrow> tz * 60000))
          | _ \<Rightarrow> None)
       else None))"

section \<open>Rounding and decimals\<close>

text \<open>\<open>Math.round(x / k)\<close> of integers: halves go up.\<close>

definition round_div :: "int \<Rightarrow> int \<Rightarrow> int" where
  "round_div x k = (2 * x + k) div (2 * k)"

text \<open>
  A positive double below \<open>2 ^ 53\<close> is \<open>(m, s)\<close>, standing for \<open>m / 2 ^ s\<close>. \<open>dbl_div a b\<close> is the double
  nearest to \<open>a / b\<close>, ties to even, as the division operator gives it.
\<close>

function dbl_shift :: "nat \<Rightarrow> nat \<Rightarrow> nat \<Rightarrow> nat" where
  "dbl_shift a b s = (if a = 0 \<or> 2 ^ 52 * b \<le> a then s else dbl_shift (2 * a) b (s + 1))"
  by pat_completeness auto
termination by (relation "measure (\<lambda>(a, b, s). 2 ^ 52 * b - a)") auto

declare dbl_shift.simps [simp del]

definition round_even :: "nat \<Rightarrow> nat \<Rightarrow> nat" where
  "round_even n d = (let q = n div d; r = n mod d in
     if 2 * r < d then q else if 2 * r > d then q + 1 else if even q then q else q + 1)"

definition dbl_div :: "nat \<Rightarrow> nat \<Rightarrow> nat \<times> nat" where
  "dbl_div a b = (let s = dbl_shift a b 0 in (round_even (a * 2 ^ s) b, s))"

text \<open>\<open>x.toFixed(f)\<close>: the integer nearest to \<open>x * 10 ^ f\<close>, the larger one on a tie.\<close>

definition fixed_units :: "nat \<Rightarrow> nat \<times> nat \<Rightarrow> nat" where
  "fixed_units f x = (let (m, s) = x in (2 * m * 10 ^ f + 2 ^ s) div (2 * 2 ^ s))"

definition pad_zeros :: "nat \<Rightarrow> string \<Rightarrow> string" where
  "pad_zeros f t = replicate (f - length t) CHR ''0'' @ t"

definition print_fixed :: "nat \<Rightarrow> nat \<Rightarrow> string" where
  "print_fixed f n = (if f = 0 then nat_str n
     else nat_str (n div 10 ^ f) @ ''.'' @ pad_zeros f (nat_str (n mod 10 ^ f)))"

definition toFixed :: "nat \<Rightarrow> nat \<times> nat \<Rightarrow> string" where
  "toFixed f x = print_fixed f (fixed_units f x)"

text \<open>\<open>x * 100\<close>\<close>

definition times100 :: "nat \<times> nat \<Rightarrow> nat \<times> nat" where
  "times100 x = dbl_div (fst x * 100) (2 ^ snd x)"

section \<open>format.ts\<close>

text \<open>\<open>/[zZ]|[+-]\d{2}:?\d{2}$/.test(iso)\<close>\<close>

definition hasTz :: "string \<Rightarrow> bool" where
  "hasTz ts \<longleftrightarrow> list_ex (\<lambda>c. c = CHR ''z'' \<or> c = CHR ''Z'') ts
     \<or> offset_of (drop (length ts - 6) ts) \<noteq> None \<or> offset_of (drop (length ts - 5) ts) \<noteq> None"

definition toDate :: "int \<Rightarrow> string \<Rightarrow> int option" where
  "toDate tz ts = Date_parse tz (if hasTz ts then ts else ts @ ''Z'')"

definition ago :: "int \<Rightarrow> string" where
  "ago seconds =
    (if seconds < 60 then ''Just now''
     else if seconds < 3600 then int_str (seconds div 60) @ ''m ago''
     else if seconds < 86400 then int_str (seconds div 3600) @ ''h ago''
     else int_str (seconds div 86400) @ ''d ago'')"

definition formatRelativeTime :: "int \<Rightarrow> int \<Rightarrow> string option \<Rightarrow> string" where
  "formatRelativeTime tz now ts =
    (if \<not> truthy ts then ''Never''
     else (case toDate tz (the ts) of
       None \<Rightarrow> ''NaNd ago''
     | Some t \<Rightarrow> ago (max 0 ((now - t) div 1000))))"

definition formatDuration :: "int \<Rightarrow> string" where
  "formatDuration seconds =
    (if seconds < 3600 then int_str (round_div seconds 60) @ ''m''
     else if seconds < 86400 then int_str (round_div seconds 3600) @ ''h''
     else int_str (round_div seconds 86400) @ ''d'')"

definition formatLatency :: "nat option \<Rightarrow> string" where
  "formatLatency us = (case us of
     None \<Rightarrow> em_dash
   | Some n \<Rightarrow> if n < 1000 then nat_str n @ micro_sign @ ''s'' else toFixed 1 (dbl_div n 1000) @ ''ms'')"

section \<open>dhcp/helpers.ts\<close>

definition LEASE_STATE :: "int \<Rightarrow> (string \<times> string) option" where
  "LEASE_STATE n = (if n = 0 then Some (''Active'', ''green'')
     else if n = 1 then Some (''Declined'', ''red'')
     else if n = 2 then Some (''Expired'', ''gray'') else None)"

definition fmtExpire :: "int \<Rightarrow> int \<Rightarrow> string option \<Rightarrow> string" where
  "fmtExpire tz now ts =
    (if \<not> truthy ts then em_dash
     else (case Date_parse tz (the ts) of
       None \<Rightarrow> ''NaNd''
     | Some t \<Rightarrow>
         (let diff = round_div (t - now) 1000 in
          if diff < 0 then ''expired''
          else if diff < 3600 then int_str (round_div diff 60) @ ''m''
          else if diff < 86400 then int_str (round_div diff 3600) @ ''h''
          else int_str (round_div diff 86400) @ ''d'')))"

definition fmtDuration :: "int \<Rightarrow> string" where
  "fmtDuration seconds =
    (if seconds < 60 then int_str seconds @ ''s''
     else if seconds < 3600 then int_str (round_div seconds 60) @ ''m''
     else if seconds < 86400 then int_str (round_div seconds 3600) @ ''h''
     else int_str (round_div seconds 86400) @ ''d'')"

fun chunk2 :: "string \<Rightarrow> string list" where
  "chunk2 (a # b # s) = [a, b] # chunk2 s"
| "chunk2 _ = []"

definition hex_lower :: "char \<Rightarrow> bool" where
  "hex_lower c \<longleftrightarrow> is_digit c \<or> (97 \<le> code c \<and> code c \<le> 102)"

definition mac_hex :: "string \<Rightarrow> string" where
  "mac_hex raw = js_lower (filter (\<lambda>c. c \<noteq> CHR '':'' \<and> c \<noteq> CHR ''-'') raw)"

definition normalizeMac :: "string \<Rightarrow> string option" where
  "normalizeMac raw =
    (let hex = mac_hex raw in
     if length hex = 12 \<and> list_all hex_lower hex then Some (js_join '':'' (chunk2 hex)) else None)"

section \<open>LatencyWidget.tsx\<close>

definition fmtUs :: "nat option \<Rightarrow> string" where
  "fmtUs us = (case us of
     None \<Rightarrow> em_dash
   | Some n \<Rightarrow> if n \<ge> 1000 then toFixed 1 (dbl_div n 1000) @ '' ms'' else nat_str n @ '' '' @ micro_sign @ ''s'')"

section \<open>Lemmas\<close>

lemma Date_parse_Z: "Date_parse tz (s @ ''Z'') = Date_parse tz' (s @ ''Z'')"
  by (simp add: Date_parse_def split_zone_def split: option.split)

lemma hasTz_Z: "hasTz (s @ ''Z'')"
  by (simp add: hasTz_def)

lemma dbl_shift_lower:
  assumes "0 < a"
  shows "\<exists>k. dbl_shift a b s = s + k \<and> 2 ^ 52 * b \<le> a * 2 ^ k"
  using assms
proof (induction a b s rule: dbl_shift.induct)
  case (1 a b s)
  show ?case
  proof (cases "2 ^ 52 * b \<le> a")
    case True
    then have "dbl_shift a b s = s + 0" by (subst dbl_shift.simps) simp
    with True show ?thesis by (metis mult.right_neutral power_0)
  next
    case False
    with 1 obtain k where "dbl_shift (2 * a) b (s + 1) = s + 1 + k" "2 ^ 52 * b \<le> 2 * a * 2 ^ k"
      by auto
    with False 1(2) have "dbl_shift a b s = s + Suc k \<and> 2 ^ 52 * b \<le> a * 2 ^ Suc k"
      by (subst dbl_shift.simps) simp
    then show ?thesis by blast
  qed
qed

lemma round_even_error:
  assumes "0 < d"
  shows "2 * (round_even n d * d) \<le> 2 * n + d" and "2 * n \<le> 2 * (round_even n d * d) + d"
proof -
  define q r where "q = n div d" and "r = n mod d"
  have n: "n = q * d + r" and r: "r < d" using assms by (simp_all add: q_def r_def)
  have re: "round_even n d = (if 2 * r < d then q else if 2 * r > d then q + 1 else if even q then q else q + 1)"
    by (simp add: round_even_def q_def r_def Let_def)
  show "2 * (round_even n d * d) \<le> 2 * n + d" "2 * n \<le> 2 * (round_even n d * d) + d"
    unfolding re using n r by (auto simp: algebra_simps)
qed

lemma toFixed_units_error:
  fixes n m S N :: int
  assumes m1: "2 * (m * 1000) \<le> 2 * (n * S) + 1000" and m2: "2 * (n * S) \<le> 2 * (m * 1000) + 1000"
    and N1: "2 * S * N \<le> 20 * m + S" and N2: "20 * m + S < 2 * S * (N + 1)"
    and S: "1000 < S"
  shows "100 * N \<le> n + 50" and "n \<le> 100 * N + 50"
proof -
  have "S * (200 * N - 2 * n - 100) \<le> 1000"
    using m1 N1 by (simp add: algebra_simps)
  moreover have "2 * S \<le> S * (200 * N - 2 * n - 100)" if "n + 51 \<le> 100 * N"
    using that S mult_left_mono [of 2 "200 * N - 2 * n - 100" S] by simp
  ultimately show "100 * N \<le> n + 50" using S by linarith
  have "S * (2 * n - 200 * N - 100) < 1000"
    using m2 N2 by (simp add: algebra_simps)
  moreover have "2 * S \<le> S * (2 * n - 200 * N - 100)" if "100 * N + 51 \<le> n"
    using that S mult_left_mono [of 2 "2 * n - 200 * N - 100" S] by simp
  ultimately show "n \<le> 100 * N + 50" using S by linarith
qed

lemma latency_units:
  assumes "0 < n" and "n < 2 ^ 40"
  shows "\<bar>int (100 * fixed_units 1 (dbl_div n 1000)) - int n\<bar> \<le> 50"
proof -
  obtain s where s: "dbl_shift n 1000 0 = s" "2 ^ 52 * 1000 \<le> n * 2 ^ s"
    using dbl_shift_lower [OF assms(1), of 1000 0] by auto
  define m where "m = round_even (n * 2 ^ s) 1000"
  define N where "N = fixed_units 1 (dbl_div n 1000)"
  have N: "N = (20 * m + 2 ^ s) div (2 * 2 ^ s)"
    unfolding N_def using s(1) by (simp add: fixed_units_def dbl_div_def Let_def m_def)
  have S: "(1000 :: nat) < 2 ^ s"
  proof (rule ccontr)
    assume "\<not> (1000 :: nat) < 2 ^ s"
    then have "n * 2 ^ s \<le> n * 1000" by simp
    with s(2) have "(2 :: nat) ^ 52 * 1000 \<le> n * 1000" by linarith
    with assms(2) show False by simp
  qed
  have m: "2 * (m * 1000) \<le> 2 * (n * 2 ^ s) + 1000" "2 * (n * 2 ^ s) \<le> 2 * (m * 1000) + 1000"
    using round_even_error [of 1000 "n * 2 ^ s"] by (simp_all add: m_def)
  define x where "x = 20 * m + 2 ^ s"
  have "x = 2 * 2 ^ s * N + x mod (2 * 2 ^ s)" "x mod (2 * 2 ^ s) < 2 * 2 ^ s"
    by (simp_all add: N x_def [symmetric])
  then have "2 * 2 ^ s * N \<le> x" "x < 2 * 2 ^ s * N + 2 * 2 ^ s" by linarith+
  then have D: "2 * 2 ^ s * N \<le> 20 * m + 2 ^ s" "20 * m + 2 ^ s < 2 * 2 ^ s * (N + 1)"
    by (simp_all add: x_def algebra_simps)
  define S where "S = (2 :: nat) ^ s"
  have "int (2 * (m * 1000)) \<le> int (2 * (n * S) + 1000)" "int (2 * (n * S)) \<le> int (2 * (m * 1000) + 1000)"
    "int (2 * S * N) \<le> int (20 * m + S)" "int (20 * m + S) < int (2 * S * (N + 1))" "1000 < int S"
    using m D S unfolding S_def [symmetric] by linarith+
  then have "100 * int N \<le> int n + 50" "int n \<le> 100 * int N + 50"
    using toFixed_units_error [of "int m" "int n" "int S" "int N"] by (simp_all add: algebra_simps)
  then show ?thesis unfolding N_def [symmetric] by simp
qed

lemma round_div_error:
  assumes "0 < k"
  shows "\<bar>2 * (round_div x k * k) - 2 * x\<bar> \<le> k"
proof -
  have "2 * k * round_div x k = 2 * x + k - (2 * x + k) mod (2 * k)"
    by (simp add: round_div_def minus_mod_eq_mult_div)
  moreover have "0 \<le> (2 * x + k) mod (2 * k)" "(2 * x + k) mod (2 * k) < 2 * k" using assms by simp_all
  ultimately show ?thesis by (simp add: algebra_simps)
qed

section \<open>Properties\<close>

text \<open>Backend timestamps without a zone are read as UTC: the relative time shown does not depend on
  the browser's zone and equals that of the same timestamp with a trailing \<open>Z\<close>.\<close>

theorem relative_time_naive_is_utc:
  assumes "\<not> hasTz ts" and "ts \<noteq> []"
  shows "formatRelativeTime tz now (Some ts) = formatRelativeTime tz' now (Some (ts @ ''Z''))"
  using assms Date_parse_Z [of tz ts tz']
  by (simp add: formatRelativeTime_def toDate_def hasTz_Z)

theorem relative_time_naive_is_utc_witness:
  "\<not> hasTz ''2026-01-01T11:00:00'' \<and> formatRelativeTime 120 1767272400000 (Some ''2026-01-01T11:00:00'')
     = formatRelativeTime (- 300) 1767272400000 (Some (''2026-01-01T11:00:00'' @ ''Z''))"
proof -
  have "\<not> hasTz ''2026-01-01T11:00:00''" by code_simp
  then show ?thesis using relative_time_naive_is_utc by blast
qed

text \<open>A lease expiry without a zone is read as local time, unlike every other timestamp: for a
  browser two hours east of UTC a lease that runs for another hour is shown as expired, while the
  same instant written with \<open>Z\<close> shows one hour.\<close>

theorem lease_expiry_naive_is_local:
  "Date_parse 0 ''2026-01-01T11:00:00Z'' = Some 1767265200000
   \<and> fmtExpire 120 1767265200000 (Some ''2026-01-01T12:00:00Z'') = ''1h''
   \<and> fmtExpire 120 1767265200000 (Some ''2026-01-01T12:00:00'') = ''expired''"
  by code_simp

text \<open>Displayed durations: the zone, feed and lease formatters print the same text from one minute
  on, and the printed count of minutes, hours or days is within half a unit of the true duration.\<close>

theorem durations_within_half_a_unit:
  assumes "60 \<le> secs"
  shows "fmtDuration secs = formatDuration secs
    \<and> (\<exists>(k :: int) u t. formatDuration secs = int_str k @ t \<and> (u, t) \<in> {(60, ''m''), (3600, ''h''), (86400, ''d'')}
         \<and> \<bar>2 * (k * u) - 2 * secs\<bar> \<le> u)"
proof -
  have "\<exists>(k :: int) u t. formatDuration secs = int_str k @ t \<and> (u, t) \<in> {(60, ''m''), (3600, ''h''), (86400, ''d'')}
         \<and> \<bar>2 * (k * u) - 2 * secs\<bar> \<le> u"
  proof -
    consider "secs < 3600" | "3600 \<le> secs" "secs < 86400" | "86400 \<le> secs" by linarith
    then show ?thesis
    proof cases
      case 1
      then show ?thesis using round_div_error [of 60 secs]
        by (intro exI [of _ "round_div secs 60"] exI [of _ 60] exI [of _ "''m''"]) (simp add: formatDuration_def)
    next
      case 2
      then show ?thesis using round_div_error [of 3600 secs]
        by (intro exI [of _ "round_div secs 3600"] exI [of _ 3600] exI [of _ "''h''"]) (simp add: formatDuration_def)
    next
      case 3
      then show ?thesis using round_div_error [of 86400 secs]
        by (intro exI [of _ "round_div secs 86400"] exI [of _ 86400] exI [of _ "''d''"]) (simp add: formatDuration_def)
    qed
  qed
  then show ?thesis using assms by (simp add: fmtDuration_def formatDuration_def)
qed

theorem durations_within_half_a_unit_witness:
  "fmtDuration 3599 = formatDuration 3599 \<and> formatDuration 3599 = ''60m''"
proof -
  have "formatDuration 3599 = ''60m''" by code_simp
  then show ?thesis using durations_within_half_a_unit [of 3599] by simp
qed



lemma twelve:
  assumes "length h = 12"
  obtains a b c d e f g i j k l m where "h = [a, b, c, d, e, f, g, i, j, k, l, m]"
  using assms by (auto simp: numeral_eq_Suc length_Suc_conv)

definition hex_any :: "char \<Rightarrow> bool" where
  "hex_any c \<longleftrightarrow> hex_lower (lower_char c)"

lemma js_lower_join_chunk: "js_lower (js_join '':'' (chunk2 (js_lower h))) = js_join '':'' (chunk2 (js_lower h))"
proof -
  have "js_lower (js_join '':'' ws) = js_join '':'' (map js_lower ws)" for ws
    by (induction "'':''" ws rule: js_join.induct)
      (simp_all add: js_lower_def lower_char_def is_upper_def code_def)
  moreover have "map js_lower (chunk2 (js_lower t)) = chunk2 (js_lower t)" for t
    by (induction t rule: chunk2.induct) (simp_all add: js_lower_def)
  ultimately show ?thesis by simp
qed

lemma hex_any_not_sep: "hex_any c \<Longrightarrow> c \<noteq> CHR '':'' \<and> c \<noteq> CHR ''-''"
  by (auto simp: hex_any_def hex_lower_def lower_char_def is_digit_def is_upper_def code_def)

lemma hex_lower_any: "hex_lower c \<Longrightarrow> hex_any c"
  by (auto simp: hex_any_def hex_lower_def lower_char_def is_digit_def is_upper_def)

lemma mac_notations:
  assumes "length h = 12" and "list_all hex_any h"
  shows "normalizeMac h = Some (js_join '':'' (chunk2 (js_lower h)))"
    and "normalizeMac (js_join '':'' (chunk2 h)) = Some (js_join '':'' (chunk2 (js_lower h)))"
    and "normalizeMac (js_join ''-'' (chunk2 h)) = Some (js_join '':'' (chunk2 (js_lower h)))"
    and "length (js_join '':'' (chunk2 h)) = 17"
proof -
  obtain a b c d e f g i j k l m where h: "h = [a, b, c, d, e, f, g, i, j, k, l, m]"
    using assms(1) by (rule twelve)
  have sep: "list_all (\<lambda>c. c \<noteq> CHR '':'' \<and> c \<noteq> CHR ''-'') [a, b, c, d, e, f, g, i, j, k, l, m]"
    using assms(2) hex_any_not_sep unfolding h [symmetric] by (auto simp: list_all_iff)
  have ok: "filter (\<lambda>c. c \<noteq> CHR '':'' \<and> c \<noteq> CHR ''-'') h = h"
    using assms(2) hex_any_not_sep by (auto simp: filter_id_conv list_all_iff)
  have "list_all hex_lower (js_lower h)"
    using assms(2) by (auto simp: list_all_iff js_lower_def hex_any_def)
  then have *: "normalizeMac raw = Some (js_join '':'' (chunk2 (js_lower h)))"
    if "filter (\<lambda>c. c \<noteq> CHR '':'' \<and> c \<noteq> CHR ''-'') raw = h" for raw
    using that assms(1) by (simp add: normalizeMac_def mac_hex_def)
  show "normalizeMac h = Some (js_join '':'' (chunk2 (js_lower h)))"
    using ok by (rule *)
  show "normalizeMac (js_join '':'' (chunk2 h)) = Some (js_join '':'' (chunk2 (js_lower h)))"
    by (rule *) (use sep in \<open>simp add: h\<close>)
  show "normalizeMac (js_join ''-'' (chunk2 h)) = Some (js_join '':'' (chunk2 (js_lower h)))"
    by (rule *) (use sep in \<open>simp add: h\<close>)
  show "length (js_join '':'' (chunk2 h)) = 17" by (simp add: h)
qed

text \<open>C28. MAC addresses: the bare, colon and dash notations of twelve hex digits, in any case, normalise to
  the same lower-case colon form of 17 characters, and normalising again changes nothing.\<close>

theorem normalizeMac_canonical:
  assumes "length h = 12" and "list_all hex_any h"
  shows "\<exists>m. normalizeMac h = Some m \<and> normalizeMac (js_join '':'' (chunk2 h)) = Some m
    \<and> normalizeMac (js_join ''-'' (chunk2 h)) = Some m \<and> normalizeMac m = Some m
    \<and> length m = 17 \<and> js_lower m = m"
proof -
  let ?l = "js_lower h"
  have l: "length ?l = 12" "list_all hex_any ?l"
    using assms by (auto simp: js_lower_def list_all_iff hex_any_def)
  have "js_lower (js_join '':'' (chunk2 ?l)) = js_join '':'' (chunk2 ?l)"
    using js_lower_join_chunk by blast
  then show ?thesis using mac_notations [OF assms] mac_notations [OF l] by simp
qed

theorem normalizeMac_canonical_witness:
  "normalizeMac ''AA-bb-0C-1d-2e-3F'' = Some ''aa:bb:0c:1d:2e:3f''
   \<and> (\<exists>m. normalizeMac ''AAbb0C1d2e3F'' = Some m \<and> normalizeMac m = Some m)"
proof -
  have "normalizeMac ''AA-bb-0C-1d-2e-3F'' = Some ''aa:bb:0c:1d:2e:3f''" "list_all hex_any ''AAbb0C1d2e3F''"
    by code_simp+
  then show ?thesis using normalizeMac_canonical [of "''AAbb0C1d2e3F''"] by auto
qed

end
