(* ===== verification/BlockPage.thy ===== *)
theory BlockPage
  imports Effects Formatting
begin

text \<open>
  \<open>pages/BlockPageCard.tsx\<close>: the block-page form of a group, its URL and logo checks, the generated preview and
  the save-then-publish sequence; and the two server-side limits the form is written against
  (\<open>services/control/mantis_control/api/schemas.py\<close>). A file is its MIME type and its bytes; reading
  it as a data URL is base64, as the browser's \<open>FileReader\<close> does.
\<close>

section \<open>Data\<close>

record block_form =
  bf_block_mode :: string
  bf_redirect_ipv4 :: "string option"
  bf_redirect_ipv6 :: "string option"
  bf_ttl_seconds :: int
  bf_title :: "string option"
  bf_message :: "string option"
  bf_logo_url :: "string option"
  bf_brand_color :: "string option"
  bf_contact_url :: "string option"
  bf_show_domain :: bool
  bf_show_category :: bool

definition DEFAULTS :: block_form where
  "DEFAULTS = \<lparr>bf_block_mode = ''BLOCK_MODE_NXDOMAIN'', bf_redirect_ipv4 = None, bf_redirect_ipv6 = None,
     bf_ttl_seconds = 30, bf_title = None, bf_message = None, bf_logo_url = None, bf_brand_color = None,
     bf_contact_url = None, bf_show_domain = True, bf_show_category = True\<rparr>"

definition LOGO_MAX_BYTES :: nat where "LOGO_MAX_BYTES = 200 * 1024"

definition image_subtypes :: "string list" where
  "image_subtypes = [''png'', ''jpeg'', ''gif'', ''webp'', ''svg+xml'']"

definition LOGO_MIME_RE :: "string \<Rightarrow> bool" where
  "LOGO_MIME_RE t = list_ex (\<lambda>x. t = ''image/'' @ x) image_subtypes"

section \<open>Reading a file\<close>

definition b64_char :: "nat \<Rightarrow> char" where
  "b64_char n = (if n < 26 then char_of (65 + n) else if n < 52 then char_of (71 + n)
     else if n < 62 then char_of (n - 4) else if n = 62 then CHR ''+'' else CHR ''/'')"

fun base64 :: "nat list \<Rightarrow> string" where
  "base64 [] = []"
| "base64 [a] = [b64_char (a div 4), b64_char (a mod 4 * 16), CHR ''='', CHR ''='']"
| "base64 [a, b] = [b64_char (a div 4), b64_char (a mod 4 * 16 + b div 16), b64_char (b mod 16 * 4), CHR ''='']"
| "base64 (a # b # c # r) = [b64_char (a div 4), b64_char (a mod 4 * 16 + b div 16),
     b64_char (b mod 16 * 4 + c div 64), b64_char (c mod 64)] @ base64 r"

record upload =
  up_type :: string
  up_bytes :: "nat list"

definition data_url :: "upload \<Rightarrow> string" where
  "data_url f = ''data:'' @ up_type f @ '';base64,'' @ base64 (up_bytes f)"

text \<open>\<open>readFileAsDataUrl\<close>: \<open>failure\<close> is the error of a read that fails.\<close>

definition readFileAsDataUrl :: "thrown option \<Rightarrow> upload \<Rightarrow> thrown + string" where
  "readFileAsDataUrl failure f = (case failure of None \<Rightarrow> Inr (data_url f) | Some e \<Rightarrow> Inl e)"

section \<open>Escaping and URLs\<close>

definition replace_char :: "char \<Rightarrow> string \<Rightarrow> string \<Rightarrow> string" where
  "replace_char c t s = concat (map (\<lambda>x. if x = c then t else [x]) s)"

definition escapeHtml :: "string \<Rightarrow> string" where
  "escapeHtml s =
     replace_char CHR 0x27 ''&#39;'' (replace_char CHR 0x22 ''&quot;'' (replace_char CHR ''>'' ''&gt;''
       (replace_char CHR ''<'' ''&lt;'' (replace_char CHR ''&'' ''&amp;'' s))))"

definition sanitizeHostedUrl :: "string option \<Rightarrow> string option" where
  "sanitizeHostedUrl u = (case u of
     None \<Rightarrow> None
   | Some s \<Rightarrow> (let trimmed = js_trim s; lower = js_lower trimmed in
       if trimmed = [] then None
       else if starts_with lower ''http://'' \<or> starts_with lower ''https://'' then Some trimmed else None))"

definition b64_alphabet :: "char \<Rightarrow> bool" where
  "b64_alphabet c \<longleftrightarrow> is_alnum c \<or> c = CHR ''+'' \<or> c = CHR ''/''"

text \<open>\<open>[A-Za-z0-9+/]+=*$\<close>\<close>

definition b64_payload :: "string \<Rightarrow> bool" where
  "b64_payload s = (let d = takeWhile b64_alphabet s in
     d \<noteq> [] \<and> list_all (\<lambda>c. c = CHR ''='') (drop (length d) s))"

definition isImageDataUri :: "string \<Rightarrow> bool" where
  "isImageDataUri u = list_ex (\<lambda>x. let p = ''data:image/'' @ x @ '';base64,'' in
     starts_with (js_lower u) p \<and> b64_payload (drop (length p) u)) image_subtypes"

definition sanitizeLogoUrl :: "string option \<Rightarrow> string option" where
  "sanitizeLogoUrl u = (case u of
     None \<Rightarrow> None
   | Some s \<Rightarrow> (let trimmed = js_trim s in
       if trimmed = [] then None
       else if isImageDataUri trimmed then Some trimmed
       else sanitizeHostedUrl (Some trimmed)))"

section \<open>Preview\<close>

definition hex_digit :: "char \<Rightarrow> bool" where
  "hex_digit c \<longleftrightarrow> is_digit c \<or> (97 \<le> code c \<and> code c \<le> 102) \<or> (65 \<le> code c \<and> code c \<le> 70)"

text \<open>\<open>/^#(?:[0-9a-fA-F]{3}|[0-9a-fA-F]{6})$/\<close>\<close>

definition hex_color :: "string \<Rightarrow> bool" where
  "hex_color s = (case s of [] \<Rightarrow> False | c # t \<Rightarrow> c = CHR ''#'' \<and> length t \<in> {3, 6} \<and> list_all hex_digit t)"

definition preview_color :: "block_form \<Rightarrow> string" where
  "preview_color t = (let c = nullish (bf_brand_color t) [] in if hex_color c then c else ''#c0392b'')"

definition or_else :: "string option \<Rightarrow> string \<Rightarrow> string" where
  "or_else v d = (if truthy v then the v else d)"

definition dq :: string where "dq = [CHR 0x22]"
definition nl :: string where "nl = [CHR 0x0A]"

definition preview_title :: "block_form \<Rightarrow> string" where
  "preview_title t = escapeHtml (or_else (bf_title t) ''Access blocked'')"

definition preview_message :: "block_form \<Rightarrow> string" where
  "preview_message t = escapeHtml (or_else (bf_message t)
     (''This site has been blocked by your network'' @ [CHR 0x27] @ ''s content policy.''))"

definition preview_body :: "block_form \<Rightarrow> string" where
  "preview_body t =
     (case sanitizeLogoUrl (bf_logo_url t) of
        None \<Rightarrow> []
      | Some u \<Rightarrow> ''<img class='' @ dq @ ''logo'' @ dq @ '' src='' @ dq @ escapeHtml u @ dq @ '' alt='' @ dq @ dq @ ''>'')
   @ ''<h1>'' @ preview_title t @ ''</h1><p class='' @ dq @ ''msg'' @ dq @ ''>'' @ preview_message t @ ''</p>''
   @ (if bf_show_domain t then ''<p class='' @ dq @ ''domain'' @ dq @ ''>Requested site: <strong>ads.example.com</strong></p>'' else [])
   @ (if bf_show_category t then ''<p class='' @ dq @ ''reason'' @ dq @ ''>Category: <strong>advertising</strong></p>'' else [])
   @ (case sanitizeHostedUrl (bf_contact_url t) of
        None \<Rightarrow> []
      | Some u \<Rightarrow> ''<p class='' @ dq @ ''contact'' @ dq @ ''><a href='' @ dq @ escapeHtml u @ dq
                   @ ''>Request access or contact your administrator</a></p>'')"

definition preview_head :: "string \<Rightarrow> string" where
  "preview_head color =
     ''<!doctype html><html><head><meta charset='' @ dq @ ''utf-8'' @ dq @ ''><style>'' @ nl
   @ '':root{color-scheme:light dark}'' @ nl
   @ ''body{margin:0;min-height:100vh;display:flex;align-items:center;justify-content:center;'' @ nl
   @ ''font-family:system-ui,-apple-system,Segoe UI,Roboto,sans-serif;background:#f4f4f5;color:#18181b}'' @ nl
   @ ''.card{max-width:32rem;margin:1rem;padding:2.5rem;background:#fff;border-radius:12px;'' @ nl
   @ ''box-shadow:0 10px 30px rgba(0,0,0,.08);border-top:6px solid '' @ color @ '';text-align:center}'' @ nl
   @ ''.logo{max-height:56px;margin-bottom:1rem}'' @ nl
   @ ''h1{margin:.25rem 0 1rem;font-size:1.5rem;color:'' @ color @ ''}'' @ nl
   @ ''.msg{font-size:1.05rem;line-height:1.5}'' @ nl
   @ ''.domain,.reason{margin:.5rem 0;color:#52525b;font-size:.95rem}'' @ nl
   @ ''.contact{margin-top:1.5rem}.contact a{color:'' @ color @ ''}'' @ nl
   @ ''</style></head>''"

definition previewHtml :: "block_form \<Rightarrow> string" where
  "previewHtml t = preview_head (preview_color t) @ ''<body><main class='' @ dq @ ''card'' @ dq @ ''>''
     @ preview_body t @ ''</main></body></html>''"

section \<open>The card\<close>

record block_card =
  bc_groupId :: "string option"
  bc_form :: block_form
  bc_logoUploading :: bool

text \<open>The effect on new template data: a template without an override is the defaults.\<close>

definition bc_template :: "block_form option \<Rightarrow> block_card \<Rightarrow> block_card" where
  "bc_template t s = s\<lparr>bc_form := (case t of None \<Rightarrow> DEFAULTS | Some f \<Rightarrow> f)\<rparr>"

definition isRedirect :: "block_form \<Rightarrow> bool" where
  "isRedirect f \<longleftrightarrow> bf_block_mode f = ''BLOCK_MODE_REDIRECT''"

definition missingRedirectIp :: "block_form \<Rightarrow> bool" where
  "missingRedirectIp f \<longleftrightarrow> isRedirect f \<and> \<not> truthy (bf_redirect_ipv4 f) \<and> \<not> truthy (bf_redirect_ipv6 f)"

text \<open>\<open>set(key, value)\<close> as the inputs call it: an empty text is \<open>null\<close>, a blank number is 30.\<close>

datatype field_edit =
    EMode "string option" | EIpv4 string | EIpv6 string | ETtl "int option" | ETitle string
  | EColor string | EMessage string | ELogo string | ERemoveLogo | EContact string
  | EShowDomain bool | EShowCategory bool

fun set_field :: "field_edit \<Rightarrow> block_form \<Rightarrow> block_form" where
  "set_field (EMode v) f = (if truthy v then f\<lparr>bf_block_mode := the v\<rparr> else f)"
| "set_field (EIpv4 v) f = f\<lparr>bf_redirect_ipv4 := or_null v\<rparr>"
| "set_field (EIpv6 v) f = f\<lparr>bf_redirect_ipv6 := or_null v\<rparr>"
| "set_field (ETtl v) f = f\<lparr>bf_ttl_seconds := nullish v 30\<rparr>"
| "set_field (ETitle v) f = f\<lparr>bf_title := or_null v\<rparr>"
| "set_field (EColor v) f = f\<lparr>bf_brand_color := or_null v\<rparr>"
| "set_field (EMessage v) f = f\<lparr>bf_message := or_null v\<rparr>"
| "set_field (ELogo v) f = f\<lparr>bf_logo_url := or_null v\<rparr>"
| "set_field ERemoveLogo f = f\<lparr>bf_logo_url := None\<rparr>"
| "set_field (EContact v) f = f\<lparr>bf_contact_url := or_null v\<rparr>"
| "set_field (EShowDomain b) f = f\<lparr>bf_show_domain := b\<rparr>"
| "set_field (EShowCategory b) f = f\<lparr>bf_show_category := b\<rparr>"

text \<open>The value of the hosted-URL input: an uploaded data URI is not shown there.\<close>

definition logo_input_value :: "block_form \<Rightarrow> string" where
  "logo_input_value f = (case bf_logo_url f of
     None \<Rightarrow> [] | Some u \<Rightarrow> if u \<noteq> [] \<and> \<not> starts_with u ''data:'' then u else [])"

text \<open>\<open>uploadLogo\<close>: the checks, then the read; the picker is reset in every case that got a file.\<close>

definition uploadLogo :: "thrown option \<Rightarrow> upload option \<Rightarrow> block_card \<Rightarrow> block_card \<times> cmd list" where
  "uploadLogo failure file s = (case file of
     None \<Rightarrow> (s, [])
   | Some f \<Rightarrow>
       if \<not> LOGO_MIME_RE (up_type f) then
         (s, [Notify ''Logo must be a PNG, JPEG, GIF, WEBP or SVG image'' ''red'', FormReset])
       else if length (up_bytes f) > LOGO_MAX_BYTES then
         (s, [Notify (''Logo must be under '' @ int_str (round_div (int LOGO_MAX_BYTES) 1024) @ ''KB (got ''
                @ int_str (round_div (int (length (up_bytes f))) 1024) @ ''KB)'') ''red'', FormReset])
       else (case readFileAsDataUrl failure f of
           Inr u \<Rightarrow> (s\<lparr>bc_form := (bc_form s)\<lparr>bf_logo_url := Some u\<rparr>, bc_logoUploading := False\<rparr>, [FormReset])
         | Inl e \<Rightarrow> (s\<lparr>bc_logoUploading := False\<rparr>, [notify_error e, FormReset])))"

definition block_body :: "block_form \<Rightarrow> json" where
  "block_body f = JObj [(''block_mode'', JStr (bf_block_mode f)), (''redirect_ipv4'', jopt (bf_redirect_ipv4 f)),
     (''redirect_ipv6'', jopt (bf_redirect_ipv6 f)), (''ttl_seconds'', jint (bf_ttl_seconds f)),
     (''title'', jopt (bf_title f)), (''message'', jopt (bf_message f)), (''logo_url'', jopt (bf_logo_url f)),
     (''brand_color'', jopt (bf_brand_color f)), (''contact_url'', jopt (bf_contact_url f)),
     (''show_domain'', JBool (bf_show_domain f)), (''show_category'', JBool (bf_show_category f))]"

text \<open>\<open>save\<close>, the callbacks of the upsert and of the compile it starts.\<close>

definition bc_save :: "block_card \<Rightarrow> cmd list" where
  "bc_save s = (if \<not> truthy (bc_groupId s) then []
     else [mutate (useUpsertBlockPageTemplate (bc_groupId s)) (block_body (bc_form s))])"

definition bc_save_success :: "block_card \<Rightarrow> cmd list" where
  "bc_save_success s = settled_ok (useUpsertBlockPageTemplate (bc_groupId s)) (block_body (bc_form s))
     [mutate useCompileBundle (the (bc_groupId s))]"

definition bc_compile_success :: "cmd list" where
  "bc_compile_success = settled_ok useCompileBundle [] [Notify ''Block page saved and published'' ''green'']"

definition bc_compile_error :: "thrown \<Rightarrow> cmd list" where
  "bc_compile_error e = [Notify (''Block page saved, but publishing the bundle failed: '' @ formatError e) ''red'']"

definition bc_save_error :: "thrown \<Rightarrow> cmd list" where
  "bc_save_error e = [notify_error e]"

definition bc_save_enabled :: "bool \<Rightarrow> block_card \<Rightarrow> bool" where
  "bc_save_enabled canEdit s \<longleftrightarrow> canEdit \<and> \<not> missingRedirectIp (bc_form s)"

section \<open>The server's limits (schemas.py)\<close>

definition LOGO_MAX_LEN :: nat where "LOGO_MAX_LEN = 300000"

text \<open>The pattern uploaded logos are held against; unlike the client's it is case-sensitive.\<close>

definition LOGO_DATA_URI_RE :: "string \<Rightarrow> bool" where
  "LOGO_DATA_URI_RE u = list_ex (\<lambda>x. let p = ''data:image/'' @ x @ '';base64,'' in
     starts_with u p \<and> b64_payload (drop (length p) u)) image_subtypes"

definition valid_logo :: "string option \<Rightarrow> bool" where
  "valid_logo v = (case v of None \<Rightarrow> True
     | Some u \<Rightarrow> length u \<le> LOGO_MAX_LEN \<and> (starts_with u ''data:'' \<longrightarrow> LOGO_DATA_URI_RE u))"

definition require_redirect_ip :: "block_form \<Rightarrow> bool" where
  "require_redirect_ip f \<longleftrightarrow> \<not> (bf_block_mode f = ''BLOCK_MODE_REDIRECT''
     \<and> \<not> (truthy (bf_redirect_ipv4 f) \<or> truthy (bf_redirect_ipv6 f)))"

section \<open>Lemmas: escaping\<close>

lemma replace_char_append: "replace_char c t (a @ b) = replace_char c t a @ replace_char c t b"
  by (simp add: replace_char_def)

lemma escapeHtml_append: "escapeHtml (a @ b) = escapeHtml a @ escapeHtml b"
  by (simp add: escapeHtml_def replace_char_append)

lemma escapeHtml_Nil [simp]: "escapeHtml [] = []"
  by (simp add: escapeHtml_def replace_char_def)

lemma escapeHtml_char:
  "escapeHtml [c] = (if c = CHR ''&'' then ''&amp;'' else if c = CHR ''<'' then ''&lt;''
     else if c = CHR ''>'' then ''&gt;'' else if c = CHR 0x22 then ''&quot;''
     else if c = CHR 0x27 then ''&#39;'' else [c])"
  by (simp add: escapeHtml_def replace_char_def)

lemma escapeHtml_Cons: "escapeHtml (c # s) = escapeHtml [c] @ escapeHtml s"
  using escapeHtml_append [of "[c]" s] by simp

text \<open>The characters that delimit tags and attribute values.\<close>

definition markup :: "string \<Rightarrow> string" where
  "markup s = filter (\<lambda>c. c \<in> {CHR ''<'', CHR ''>'', CHR 0x22, CHR 0x27}) s"

lemma markup_append: "markup (a @ b) = markup a @ markup b"
  by (simp add: markup_def)

lemma markup_Nil [simp]: "markup [] = []"
  by (simp add: markup_def)

lemma markup_escapeHtml [simp]: "markup (escapeHtml s) = []"
proof (induction s)
  case (Cons c s)
  have "markup (escapeHtml [c]) = []" by (simp add: escapeHtml_char markup_def)
  with Cons show ?case by (simp add: escapeHtml_Cons [of c s] markup_append)
qed (simp add: markup_def)

text \<open>Decoding the five entities, as a browser does.\<close>

function html_decode :: "string \<Rightarrow> string" where
  "html_decode s = (case s of
     [] \<Rightarrow> []
   | c # r \<Rightarrow>
       if starts_with s ''&amp;'' then CHR ''&'' # html_decode (drop 5 s)
       else if starts_with s ''&lt;'' then CHR ''<'' # html_decode (drop 4 s)
       else if starts_with s ''&gt;'' then CHR ''>'' # html_decode (drop 4 s)
       else if starts_with s ''&quot;'' then CHR 0x22 # html_decode (drop 6 s)
       else if starts_with s ''&#39;'' then CHR 0x27 # html_decode (drop 5 s)
       else c # html_decode r)"
  by pat_completeness auto
termination by (relation "measure length") auto

declare html_decode.simps [simp del]

lemma html_decode_char: "html_decode (escapeHtml [c] @ r) = c # html_decode r"
  by (simp add: escapeHtml_char html_decode.simps [of "_ # _"] starts_with_def)

lemma html_decode_escape: "html_decode (escapeHtml s) = s"
proof (induction s)
  case Nil
  then show ?case by (simp add: html_decode.simps)
next
  case (Cons c s)
  then show ?case by (simp add: escapeHtml_Cons [of c s] html_decode_char)
qed

section \<open>Lemmas: preview\<close>

lemma hex_digit_markup: "list_all hex_digit s \<Longrightarrow> markup s = []"
  by (induction s) (auto simp: markup_def hex_digit_def is_digit_def code_def)

lemma preview_color_hex: "hex_color (preview_color t)"
proof -
  have "hex_color ''#c0392b''" by code_simp
  then show ?thesis by (simp add: preview_color_def Let_def)
qed

lemma markup_color [simp]: "markup (preview_color t) = []"
proof -
  obtain r where "preview_color t = CHR ''#'' # r" "list_all hex_digit r"
    using preview_color_hex [of t] by (auto simp: hex_color_def split: list.splits)
  then show ?thesis using hex_digit_markup [of r] by (simp add: markup_def)
qed

lemma markup_head: "markup (preview_head (preview_color t)) = markup (preview_head [])"
  by (simp only: preview_head_def markup_append markup_color markup_Nil append_Nil)

lemma sanitizeHostedUrl_scheme:
  "sanitizeHostedUrl u = Some v \<Longrightarrow> starts_with (js_lower v) ''http://'' \<or> starts_with (js_lower v) ''https://''"
  by (auto simp: sanitizeHostedUrl_def Let_def split: option.splits if_splits)

lemma isImageDataUri_scheme: "isImageDataUri v \<Longrightarrow> starts_with (js_lower v) ''data:image/''"
  by (auto simp: isImageDataUri_def list_ex_iff Let_def starts_with_iff)

lemma sanitizeLogoUrl_scheme:
  "sanitizeLogoUrl u = Some v \<Longrightarrow> starts_with (js_lower v) ''http://'' \<or> starts_with (js_lower v) ''https://''
     \<or> starts_with (js_lower v) ''data:image/''"
  using sanitizeHostedUrl_scheme isImageDataUri_scheme
  by (fastforce simp: sanitizeLogoUrl_def Let_def split: option.splits if_splits)

section \<open>Lemmas: base64\<close>

lemma length_base64: "length (base64 bs) = 4 * ((length bs + 2) div 3)"
proof (induction bs rule: base64.induct)
  case (4 a b c r)
  have "(length r + 5) div 3 = (length r + 2) div 3 + 1" by simp
  with 4 show ?case by (simp add: add.commute)
qed simp_all

lemma b64_char_alphabet: "n < 64 \<Longrightarrow> b64_alphabet (b64_char n)"
  by (auto simp: b64_alphabet_def b64_char_def is_alnum_def is_digit_def is_upper_def is_lower_def)

lemma base64_shape:
  assumes "\<forall>b \<in> set bs. b < 256" and "bs \<noteq> []"
  shows "\<exists>d k. base64 bs = d @ replicate k CHR ''='' \<and> d \<noteq> [] \<and> list_all b64_alphabet d"
  using assms
proof (induction bs rule: base64.induct)
  case (2 a)
  then show ?case
    by (intro exI [of _ "[b64_char (a div 4), b64_char (a mod 4 * 16)]"] exI [of _ 2])
      (simp add: b64_char_alphabet numeral_2_eq_2)
next
  case (3 a b)
  then show ?case
    by (intro exI [of _ "[b64_char (a div 4), b64_char (a mod 4 * 16 + b div 16), b64_char (b mod 16 * 4)]"] exI [of _ 1])
      (auto intro!: b64_char_alphabet)
next
  case (4 a b c r)
  let ?q = "[b64_char (a div 4), b64_char (a mod 4 * 16 + b div 16), b64_char (b mod 16 * 4 + c div 64), b64_char (c mod 64)]"
  have q: "list_all b64_alphabet ?q" using 4(2) by (auto intro!: b64_char_alphabet)
  show ?case
  proof (cases "r = []")
    case True
    with q show ?thesis by (intro exI [of _ ?q] exI [of _ 0]) simp
  next
    case False
    with 4 obtain d k where "base64 r = d @ replicate k CHR ''=''" "list_all b64_alphabet d" by auto
    with q show ?thesis by (intro exI [of _ "?q @ d"] exI [of _ k]) simp
  qed
qed simp

lemma b64_payload_base64:
  assumes "\<forall>b \<in> set bs. b < 256" and "bs \<noteq> []"
  shows "b64_payload (base64 bs)"
proof -
  obtain d k where d: "base64 bs = d @ replicate k CHR ''=''" "d \<noteq> []" "list_all b64_alphabet d"
    using base64_shape [OF assms] by blast
  have "\<not> b64_alphabet CHR ''=''"
    by (simp add: b64_alphabet_def is_alnum_def is_digit_def is_upper_def is_lower_def code_def)
  then have "takeWhile b64_alphabet (base64 bs) = d"
    using d by (cases k) (auto simp: list_all_iff takeWhile_append2 takeWhile_eq_all_conv)
  then show ?thesis using d by (simp add: b64_payload_def list_all_iff)
qed

section \<open>Properties\<close>

definition same_parts :: "block_form \<Rightarrow> block_form \<Rightarrow> bool" where
  "same_parts t t' \<longleftrightarrow>
     (sanitizeLogoUrl (bf_logo_url t) = None \<longleftrightarrow> sanitizeLogoUrl (bf_logo_url t') = None)
   \<and> (sanitizeHostedUrl (bf_contact_url t) = None \<longleftrightarrow> sanitizeHostedUrl (bf_contact_url t') = None)
   \<and> bf_show_domain t = bf_show_domain t' \<and> bf_show_category t = bf_show_category t'"

lemma markup_body: "same_parts t t' \<Longrightarrow> markup (preview_body t) = markup (preview_body t')"
  by (simp only: preview_body_def markup_append preview_title_def preview_message_def markup_escapeHtml same_parts_def)
    (cases "sanitizeLogoUrl (bf_logo_url t)"; cases "sanitizeLogoUrl (bf_logo_url t')";
      cases "sanitizeHostedUrl (bf_contact_url t)"; cases "sanitizeHostedUrl (bf_contact_url t')";
      simp only: option.case markup_append markup_escapeHtml option.distinct simp_thms)

text \<open>C3. The preview cannot be broken out of: whatever title, message, colour, logo or contact is typed, the
  tags and quotes of the generated page are those of the fixed template for the parts that are shown,
  the colour is a plain hex colour, and a logo or link is always an http(s) or image data URL, never a
  script URL. The text itself is shown exactly as typed.\<close>

theorem preview_injection_safe:
  "(same_parts t t' \<longrightarrow> markup (previewHtml t) = markup (previewHtml t'))
   \<and> hex_color (preview_color t)
   \<and> (sanitizeLogoUrl (bf_logo_url t) = Some u \<longrightarrow> starts_with (js_lower u) ''http://''
        \<or> starts_with (js_lower u) ''https://'' \<or> starts_with (js_lower u) ''data:image/'')
   \<and> (sanitizeHostedUrl (bf_contact_url t) = Some v \<longrightarrow> starts_with (js_lower v) ''http://''
        \<or> starts_with (js_lower v) ''https://'')
   \<and> (truthy (bf_title t) \<longrightarrow> html_decode (preview_title t) = the (bf_title t))"
proof -
  have "markup (previewHtml t) = markup (previewHtml t')" if "same_parts t t'"
    using markup_body [OF that] markup_head [of t] markup_head [of t']
    by (simp only: previewHtml_def markup_append)
  then show ?thesis
    using sanitizeLogoUrl_scheme sanitizeHostedUrl_scheme preview_color_hex
    by (auto simp: preview_title_def or_else_def html_decode_escape)
qed

definition wit_form :: block_form where
  "wit_form = DEFAULTS\<lparr>bf_title := Some (''<b>'' @ dq), bf_logo_url := Some ''javascript:x'', bf_contact_url := Some ''HTTPS://h''\<rparr>"

theorem preview_injection_safe_witness:
  "sanitizeLogoUrl (bf_logo_url wit_form) = None \<and> html_decode (preview_title wit_form) = ''<b>'' @ dq
   \<and> markup (previewHtml wit_form) = markup (previewHtml (wit_form\<lparr>bf_title := None\<rparr>))"
proof -
  have "sanitizeLogoUrl (bf_logo_url wit_form) = None" by code_simp
  moreover have "same_parts wit_form (wit_form\<lparr>bf_title := None\<rparr>)" by (simp add: same_parts_def)
  moreover have "truthy (bf_title wit_form)" "the (bf_title wit_form) = ''<b>'' @ dq"
    by (simp_all add: wit_form_def dq_def)
  ultimately show ?thesis
    using preview_injection_safe [of wit_form "wit_form\<lparr>bf_title := None\<rparr>"] by simp
qed

lemma lower_mime: "LOGO_MIME_RE ty \<Longrightarrow> \<exists>x \<in> set image_subtypes. ty = ''image/'' @ x"
  by (auto simp: LOGO_MIME_RE_def list_ex_iff)

lemma image_subtype_facts: "x \<in> set image_subtypes \<Longrightarrow> js_lower x = x \<and> length x \<le> 7"
proof -
  have "list_all (\<lambda>x. js_lower x = x \<and> length x \<le> 7) image_subtypes" by code_simp
  then show "x \<in> set image_subtypes \<Longrightarrow> ?thesis" by (auto simp: list_all_iff)
qed

lemma data_url_trim:
  assumes "\<forall>b \<in> set (up_bytes f). b < 256" and "up_bytes f \<noteq> []"
  shows "js_trim (data_url f) = data_url f"
proof -
  obtain d k where d: "base64 (up_bytes f) = d @ replicate k CHR ''=''" "d \<noteq> []" "list_all b64_alphabet d"
    using base64_shape [OF assms] by blast
  have "last (data_url f) = last (base64 (up_bytes f))" using d by (simp add: data_url_def)
  moreover have "\<not> is_space (last (base64 (up_bytes f)))"
  proof (cases k)
    case 0
    then have "b64_alphabet (last (base64 (up_bytes f)))" using d by (simp add: list_all_iff)
    then show ?thesis
      by (auto simp: b64_alphabet_def is_alnum_def is_digit_def is_upper_def is_lower_def is_space_def code_def)
  next
    case (Suc n)
    then have "last (base64 (up_bytes f)) = CHR ''=''" using d by (simp add: last_replicate del: replicate.simps)
    then show ?thesis by (simp add: is_space_def code_def)
  qed
  ultimately show ?thesis
    by (intro js_trim_id) (auto simp: data_url_def is_space_def code_def)
qed

text \<open>C20. An uploaded logo fits: a non-empty file the card accepts (an allowed image type, at most 200 KB) becomes
  a data URL that the preview shows and that passes the server's pattern and length limit.\<close>

theorem uploaded_logo_accepted:
  assumes "LOGO_MIME_RE (up_type f)" and "up_bytes f \<noteq> []" and "length (up_bytes f) \<le> LOGO_MAX_BYTES"
    and "\<forall>b \<in> set (up_bytes f). b < 256"
  shows "\<exists>u. bf_logo_url (bc_form (fst (uploadLogo None (Some f) s))) = Some u
    \<and> valid_logo (Some u) \<and> sanitizeLogoUrl (Some u) = Some u \<and> length u \<le> 273094"
proof -
  obtain x where x: "x \<in> set image_subtypes" "up_type f = ''image/'' @ x" using lower_mime [OF assms(1)] by blast
  define p where "p = ''data:image/'' @ x @ '';base64,''"
  have u: "data_url f = p @ base64 (up_bytes f)" by (simp add: data_url_def x p_def)
  have low: "js_lower p = p"
  proof -
    have "js_lower ''data:image/'' = ''data:image/''" "js_lower '';base64,'' = '';base64,''" by code_simp+
    then show ?thesis using image_subtype_facts [OF x(1)] by (simp only: p_def js_lower_append)
  qed
  have pay: "b64_payload (base64 (up_bytes f))" using b64_payload_base64 [OF assms(4,2)] .
  have "starts_with (js_lower (data_url f)) p" "starts_with (data_url f) p" "drop (length p) (data_url f) = base64 (up_bytes f)"
    by (simp_all add: u js_lower_append low)
  then have img: "isImageDataUri (data_url f)" and re: "LOGO_DATA_URI_RE (data_url f)"
    using x(1) pay by (auto simp: isImageDataUri_def LOGO_DATA_URI_RE_def list_ex_iff Let_def p_def)
  have "length (base64 (up_bytes f)) \<le> 273068"
    using assms(3) by (simp add: length_base64 LOGO_MAX_BYTES_def)
  moreover have "length p \<le> 26" using image_subtype_facts [OF x(1)] by (simp add: p_def)
  ultimately have len: "length (data_url f) \<le> 273094" by (simp add: u)
  have "bf_logo_url (bc_form (fst (uploadLogo None (Some f) s))) = Some (data_url f)"
    using assms(1,3) by (simp add: uploadLogo_def readFileAsDataUrl_def)
  moreover have "sanitizeLogoUrl (Some (data_url f)) = Some (data_url f)"
    using img data_url_trim [OF assms(4,2)] by (simp add: sanitizeLogoUrl_def data_url_def)
  moreover have "valid_logo (Some (data_url f))" using re len by (simp add: valid_logo_def LOGO_MAX_LEN_def)
  ultimately show ?thesis using len by blast
qed

definition wit_card :: block_card where
  "wit_card = \<lparr>bc_groupId = Some ''g1'', bc_form = DEFAULTS, bc_logoUploading = True\<rparr>"

theorem uploaded_logo_accepted_witness:
  "\<exists>u. bf_logo_url (bc_form (fst (uploadLogo None (Some \<lparr>up_type = ''image/png'', up_bytes = [137, 80]\<rparr>) wit_card))) = Some u
    \<and> valid_logo (Some u)"
proof -
  have "LOGO_MIME_RE ''image/png''" by code_simp
  then show ?thesis
    using uploaded_logo_accepted [of "\<lparr>up_type = ''image/png'', up_bytes = [137, 80]\<rparr>" wit_card]
    by (auto simp: LOGO_MAX_BYTES_def)
qed



end
