(* ===== verification/View.thy ===== *)
theory View
  imports Effects JsSort
begin

text \<open>
  What a page shows, as a tree over the events of the page. Layout components (\<open>Stack\<close>, \<open>Group\<close>, \<open>SimpleGrid\<close>,
  \<open>Card\<close>, fragments) are \<open>Box\<close>; sizes, colours of plain text, icons and placeholders are left out, and so is every
  child that a condition of the code suppresses. A control carries the event its handler stands for. A segmented
  control (also a tab list) passes one of its values; \<open>Clickable\<close> is a row or an unstyled button with a handler; a chart is its
  rows of data; a progress bar has a value (a double) and a colour. \<open>Button\<close> also stands for \<open>ActionIcon\<close> and for a badge with an \<open>onClick\<close>; its flag says that it is disabled or loading, in which case
  the component library does not call the handler. A form is submitted by an active submit button.
  \<open>offers e v\<close> says that the user can raise the event \<open>e\<close> on the view \<open>v\<close>; \<open>page_run\<close> are the runs of a page in
  which every event is offered by the current view or is an answer of the server.
\<close>

section \<open>Views\<close>

datatype 'e view =
    Text string
  | Badge string string
  | Progress "nat \<times> nat" string
  | Tooltip string "'e view"
  | Anchor string "'e view list"
  | Copy string
  | Button string bool 'e
  | Checkbox string bool bool bool 'e
  | Switch string bool bool 'e
  | TextInput string string bool bool "string \<Rightarrow> 'e"
  | NumberInput string num_input "int option" "int option" bool "num_input \<Rightarrow> 'e"
  | Select string "(string \<times> string) list" "string option" bool "string option \<Rightarrow> 'e"
  | MultiSelect string "string list" "string list" "string list \<Rightarrow> 'e"
  | Segmented "(string \<times> string) list" string "string \<Rightarrow> 'e"
  | Clickable 'e "'e view list"
  | Chart "string list list"
  | Submit string bool
  | Form 'e "'e view list"
  | Modal string 'e "'e view list"
  | Box "'e view list"
  | Row "'e view list"
  | Table "string list" "'e view list"
  | Loader

fun submits :: "'e view \<Rightarrow> bool" where
  "submits (Submit _ loading) = (\<not> loading)"
| "submits (Box vs) = (\<exists>v \<in> set vs. submits v)"
| "submits _ = False"

fun offers :: "'e \<Rightarrow> 'e view \<Rightarrow> bool" where
  "offers e (Tooltip _ v) = offers e v"
| "offers e (Anchor _ vs) = (\<exists>v \<in> set vs. offers e v)"
| "offers e (Button _ inactive a) = (\<not> inactive \<and> e = a)"
| "offers e (Checkbox _ _ _ disabled a) = (\<not> disabled \<and> e = a)"
| "offers e (Switch _ _ disabled a) = (\<not> disabled \<and> e = a)"
| "offers e (TextInput _ _ _ disabled f) = (\<not> disabled \<and> e \<in> range f)"
| "offers e (NumberInput _ _ _ _ disabled f) = (\<not> disabled \<and> e \<in> range f)"
| "offers e (Select _ _ _ disabled f) = (\<not> disabled \<and> e \<in> range f)"
| "offers e (MultiSelect _ _ _ f) = (e \<in> range f)"
| "offers e (Segmented _ _ f) = (e \<in> range f)"
| "offers e (Clickable a vs) = (e = a \<or> (\<exists>v \<in> set vs. offers e v))"
| "offers e (Form a vs) = (e = a \<and> (\<exists>v \<in> set vs. submits v) \<or> (\<exists>v \<in> set vs. offers e v))"
| "offers e (Modal _ a vs) = (e = a \<or> (\<exists>v \<in> set vs. offers e v))"
| "offers e (Box vs) = (\<exists>v \<in> set vs. offers e v)"
| "offers e (Row vs) = (\<exists>v \<in> set vs. offers e v)"
| "offers e (Table _ vs) = (\<exists>v \<in> set vs. offers e v)"
| "offers e _ = False"

text \<open>\<open>{cond && <X />}\<close>\<close>

definition show_if :: "bool \<Rightarrow> 'e view list \<Rightarrow> 'e view list" where
  "show_if b vs = (if b then vs else [])"

lemma show_if_simps [simp]: "show_if True vs = vs" "show_if False vs = []"
  by (simp_all add: show_if_def)

lemma in_show_if [simp]: "v \<in> set (show_if b vs) \<longleftrightarrow> b \<and> v \<in> set vs"
  by (simp add: show_if_def)

lemma bex_show_if [simp]: "(\<exists>v \<in> set (show_if b vs). P v) \<longleftrightarrow> b \<and> (\<exists>v \<in> set vs. P v)"
  by auto

text \<open>A component inside another: its events are events of the other.\<close>

lemma submits_map_view [simp]: "submits (map_view f v) = submits v"
  by (induction v rule: submits.induct) auto

lemma offers_map_view: "offers e (map_view f v) \<longleftrightarrow> (\<exists>e'. offers e' v \<and> e = f e')"
  by (induction v) (auto simp: image_iff)

section \<open>The browser\<close>

text \<open>What the pages take from the browser: the zone offset and the clock (milliseconds), \<open>localeCompare\<close>,
  \<open>toLocaleString\<close> of a number and of a date, \<open>toLocaleDateString\<close>, \<open>toLocaleTimeString\<close>, whether \<open>new URL\<close> accepts a text,
  \<open>String(x)\<close> of a double
  \<open>(m, k)\<close> standing for \<open>m / 2 ^ k\<close>, and the translation \<open>t(key, values)\<close>.\<close>

record ui_env =
  ue_tz :: int
  ue_now :: int
  ue_lc :: "string \<Rightarrow> string \<Rightarrow> int"
  ue_loc :: "int \<Rightarrow> string"
  ue_date :: "string \<Rightarrow> string"
  ue_day :: "string \<Rightarrow> string"
  ue_time :: "string \<Rightarrow> string"
  ue_url_ok :: "string \<Rightarrow> bool"
  ue_num :: "nat \<times> nat \<Rightarrow> string"
  ue_t :: "string \<Rightarrow> (string \<times> string) list \<Rightarrow> string"

section \<open>Components shared by the pages\<close>

definition KpiCard :: "string \<Rightarrow> string \<Rightarrow> string \<Rightarrow> ((nat \<times> nat) \<times> string) option \<Rightarrow> 'e view" where
  "KpiCard label val sub bar = Box ([Text label, Text val]
     @ (case bar of None \<Rightarrow> [] | Some (b, accent) \<Rightarrow> [Progress b accent])
     @ show_if (sub \<noteq> []) [Text sub])"

definition PageHeader :: "string \<Rightarrow> string option \<Rightarrow> 'e view list \<Rightarrow> 'e view list \<Rightarrow> 'e view" where
  "PageHeader title description status actions =
     Box ([Text title] @ status @ show_if (truthy description) [Text (the description)] @ show_if (actions \<noteq> []) [Box actions])"

lemma offers_KpiCard [simp]: "\<not> offers e (KpiCard l v s b)"
  by (auto simp: KpiCard_def split: option.split)

lemma offers_PageHeader [simp]:
  "offers e (PageHeader t d st ac) \<longleftrightarrow> (\<exists>v \<in> set st. offers e v) \<or> (\<exists>v \<in> set ac. offers e v)"
  by (cases ac) (auto simp: PageHeader_def bex_Un)

section \<open>CrudTable and EntityModal\<close>

text \<open>\<open>components/crud\<close>: a table over the rows, each column with its header and its cell, and a last column with the
  extra actions, the edit and the delete button of the row when any of the three is given.\<close>

type_synonym ('r, 'e) crud_column = "string \<times> ('r \<Rightarrow> 'e view)"

definition showActionsColumn :: "('r \<Rightarrow> 'e) option \<Rightarrow> ('r \<Rightarrow> 'e) option \<Rightarrow> ('r \<Rightarrow> 'e view) option \<Rightarrow> bool" where
  "showActionsColumn onEdit onDelete rowActions \<longleftrightarrow> onEdit \<noteq> None \<or> onDelete \<noteq> None \<or> rowActions \<noteq> None"

definition crud_actions ::
    "('r \<Rightarrow> 'e) option \<Rightarrow> ('r \<Rightarrow> 'e) option \<Rightarrow> ('r \<Rightarrow> 'e view) option \<Rightarrow> 'r \<Rightarrow> 'e view list" where
  "crud_actions onEdit onDelete rowActions row =
     (case rowActions of None \<Rightarrow> [] | Some f \<Rightarrow> [f row])
     @ (case onEdit of None \<Rightarrow> [] | Some f \<Rightarrow> [Button ''Edit'' False (f row)])
     @ (case onDelete of None \<Rightarrow> [] | Some f \<Rightarrow> [Button ''Delete'' False (f row)])"

definition CrudTable ::
    "'r list \<Rightarrow> bool \<Rightarrow> ('r, 'e) crud_column list \<Rightarrow> 'e view option
     \<Rightarrow> ('r \<Rightarrow> 'e) option \<Rightarrow> ('r \<Rightarrow> 'e) option \<Rightarrow> ('r \<Rightarrow> 'e view) option \<Rightarrow> 'e view" where
  "CrudTable data isLoading columns emptyState onEdit onDelete rowActions =
    (if isLoading then Loader
     else if data = [] \<and> emptyState \<noteq> None then the emptyState
     else let acts = showActionsColumn onEdit onDelete rowActions in
       Table (map fst columns @ (if acts then [[]] else []))
         (map (\<lambda>row. Row (map (\<lambda>c. snd c row) columns
                @ show_if acts [Box (crud_actions onEdit onDelete rowActions row)])) data))"

definition EntityModal :: "bool \<Rightarrow> 'e \<Rightarrow> string \<Rightarrow> 'e view list \<Rightarrow> 'e view list" where
  "EntityModal opened onClose title children = show_if opened [Modal title onClose children]"

lemma offers_crud_actions:
  "(\<exists>v \<in> set (crud_actions onEdit onDelete rowActions row). offers e v) \<longleftrightarrow>
     (\<exists>f. rowActions = Some f \<and> offers e (f row)) \<or> (\<exists>f. onEdit = Some f \<and> e = f row) \<or> (\<exists>f. onDelete = Some f \<and> e = f row)"
  by (auto simp: crud_actions_def split: option.splits)

lemma offers_CrudTable:
  "offers e (CrudTable data False columns emptyState onEdit onDelete rowActions) \<longleftrightarrow>
     (\<exists>row \<in> set data. (\<exists>c \<in> set columns. offers e (snd c row))
        \<or> (\<exists>f. rowActions = Some f \<and> offers e (f row)) \<or> (\<exists>f. onEdit = Some f \<and> e = f row)
        \<or> (\<exists>f. onDelete = Some f \<and> e = f row))
     \<or> data = [] \<and> (\<exists>v. emptyState = Some v \<and> offers e v)"
proof -
  have acts: "showActionsColumn onEdit onDelete rowActions \<and>
      ((\<exists>f. rowActions = Some f \<and> offers e (f row)) \<or> (\<exists>f. onEdit = Some f \<and> e = f row) \<or> (\<exists>f. onDelete = Some f \<and> e = f row))
    \<longleftrightarrow> (\<exists>f. rowActions = Some f \<and> offers e (f row)) \<or> (\<exists>f. onEdit = Some f \<and> e = f row) \<or> (\<exists>f. onDelete = Some f \<and> e = f row)" for row
    by (auto simp: showActionsColumn_def)
  show ?thesis
    by (simp add: CrudTable_def Let_def bex_Un acts offers_crud_actions) auto
qed

section \<open>Runs of a page\<close>

inductive page_run ::
    "('s \<Rightarrow> 'e view) \<Rightarrow> ('e \<Rightarrow> bool) \<Rightarrow> ('e \<Rightarrow> 's \<Rightarrow> 's \<times> cmd list) \<Rightarrow> 's \<Rightarrow> 's \<Rightarrow> cmd list \<Rightarrow> bool"
  for render :: "'s \<Rightarrow> 'e view" and answer :: "'e \<Rightarrow> bool" and step :: "'e \<Rightarrow> 's \<Rightarrow> 's \<times> cmd list"
where
  run_start: "page_run render answer step s s []"
| run_event: "page_run render answer step s s' cs \<Longrightarrow> offers e (render s') \<or> answer e \<Longrightarrow> step e s' = (s'', cs')
    \<Longrightarrow> page_run render answer step s s'' (cs @ cs')"

text \<open>A page with an invariant that every offered event and every answer keeps. When such a step writes nothing, no
  run of the page writes anything.\<close>

locale page =
  fixes render :: "'s \<Rightarrow> 'e view"
    and answer :: "'e \<Rightarrow> bool"
    and step :: "'e \<Rightarrow> 's \<Rightarrow> 's \<times> cmd list"
    and inv :: "'s \<Rightarrow> bool"
  assumes offered_keeps: "inv s \<Longrightarrow> offers e (render s) \<Longrightarrow> inv (fst (step e s))"
    and answer_keeps: "inv s \<Longrightarrow> answer e \<Longrightarrow> inv (fst (step e s))"
begin

lemma run_keeps: "page_run render answer step s s' cs \<Longrightarrow> inv s \<Longrightarrow> inv s'"
proof (induction rule: page_run.induct)
  case (run_event s s' cs e s'' cs')
  then show ?case using offered_keeps [of s' e] answer_keeps [of s' e] by auto
qed

end

locale read_only_page = page +
  assumes offered_silent: "inv s \<Longrightarrow> offers e (render s) \<Longrightarrow> writes (snd (step e s)) = []"
    and answer_silent: "inv s \<Longrightarrow> answer e \<Longrightarrow> writes (snd (step e s)) = []"
begin

lemma run_silent: "page_run render answer step s s' cs \<Longrightarrow> inv s \<Longrightarrow> writes cs = []"
proof (induction rule: page_run.induct)
  case (run_event s s' cs e s'' cs')
  then show ?case using run_keeps [of s s' cs] offered_silent [of s' e] answer_silent [of s' e] by auto
qed simp

end

text \<open>A browser at UTC with code-order comparison, for the witnesses of the pages.\<close>

definition wit_env :: ui_env where
  "wit_env = \<lparr>ue_tz = 0, ue_now = 0, ue_lc = str_cmp, ue_loc = int_str, ue_date = (\<lambda>t. t), ue_day = take 10, ue_time = drop 11, ue_url_ok = (\<lambda>t. t \<noteq> []), ue_num = (\<lambda>x. nat_str (fst x div 2 ^ snd x)), ue_t = (\<lambda>k _. k)\<rparr>"

end
