(* ===== verification/Schema.thy ===== *)
theory Schema
  imports Hooks
begin

text \<open>
  The response types of \<open>api/schema.ts\<close> (generated from the server's OpenAPI description) that the pages read, field by
  field. An optional or nullable field is an \<open>option\<close>.
\<close>

record feed =
  fd_id :: string
  fd_category_id :: string
  fd_url :: string
  fd_format :: string
  fd_interval_seconds :: int
  fd_license :: string
  fd_provider :: string
  fd_from_catalog :: bool
  fd_enabled :: bool
  fd_last_domain_count :: "int option"
  fd_last_version :: "string option"
  fd_last_fetched_at :: "string option"

record ingest_result =
  ir_status :: string
  ir_domain_count :: int
  ir_reason :: string

record client_out =
  cl_id :: string
  cl_tenant_id :: string
  cl_group_id :: "string option"
  cl_ip :: string
  cl_hostname :: "string option"
  cl_owner :: "string option"
  cl_device_type :: "string option"
  cl_tags :: "string list"
  cl_last_seen :: string
  cl_registered_at :: "string option"
  cl_registered_by :: "string option"

record group_out =
  gr_id :: string
  gr_tenant_id :: string
  gr_name :: string
  gr_vpn_subnet :: "string option"
  gr_created_at :: string

record dns_record =
  dn_id :: string
  dn_zone_id :: string
  dn_name :: string
  dn_record_type :: string
  dn_data :: string
  dn_ttl :: "int option"
  dn_priority :: "int option"
  dn_enabled :: bool
  dn_created_at :: string
  dn_updated_at :: string

record tenant =
  tn_id :: string
  tn_name :: string
  tn_created_at :: string

record user_out =
  us_id :: string
  us_email :: string
  us_role :: string
  us_tenant_id :: "string option"

record zone =
  zn_id :: string
  zn_tenant_id :: "string option"
  zn_name :: string
  zn_zone_type :: string
  zn_description :: string
  zn_enabled :: bool
  zn_ttl_default :: int
  zn_forwarder :: "string option"
  zn_record_count :: int
  zn_created_at :: string
  zn_updated_at :: string

text \<open>\<open>tenants.map((t) => ({ value: t.id, label: t.name }))\<close>\<close>

definition tenantOptions :: "tenant list \<Rightarrow> (string \<times> string) list" where
  "tenantOptions ts = map (\<lambda>t. (tn_id t, tn_name t)) ts"

end
