(* ===== verification/Feeds.thy ===== *)
theory Feeds
  imports View Schema UrlState Formatting Auth
begin

text \<open>
  \<open>pages/FeedsPage.tsx\<close>: the threat-intelligence feeds. The add, bulk-add and edit forms, the derived statistics,
  the category chips, the filtered and grouped rows, selection and the bulk operations. \<open>lc\<close> is
  \<open>localeCompare\<close>, \<open>loc\<close> is \<open>toLocaleString\<close>, \<open>url_ok\<close> tells whether \<open>new URL\<close> accepts a text. A bulk
  operation is a handler that sends its requests and one that receives the list of their outcomes.
\<close>

section \<open>Feeds\<close>

definition upper_first :: "string \<Rightarrow> string" where
  "upper_first s = js_upper (take 1 s) @ drop 1 s"

definition categoryLabel :: "string \<Rightarrow> (string \<rightharpoonup> category) \<Rightarrow> string" where
  "categoryLabel i byId = (case byId i of Some c \<Rightarrow> cat_label c | None \<Rightarrow> upper_first i)"

definition categoryColor :: "string \<Rightarrow> (string \<rightharpoonup> category) \<Rightarrow> string" where
  "categoryColor i byId = (case byId i of Some c \<Rightarrow> cat_color c | None \<Rightarrow> ''gray'')"

text \<open>\<open>ageH > (interval_seconds / 3600) * 2\<close> compares milliseconds with twice the interval; an invalid date compares
  false.\<close>

definition feedStatus :: "int \<Rightarrow> int \<Rightarrow> feed \<Rightarrow> string \<times> string" where
  "feedStatus tz now f =
    (if \<not> fd_enabled f then (''Disabled'', ''gray'')
     else (case fd_last_domain_count f of
       None \<Rightarrow> (''Pending'', ''yellow'')
     | Some n \<Rightarrow>
         if n = 0 then (''Empty'', ''orange'')
         else if truthy (fd_last_fetched_at f)
              \<and> (case Date_parse tz (the (fd_last_fetched_at f)) of
                   None \<Rightarrow> False | Some t \<Rightarrow> now - t > fd_interval_seconds f * 2000)
              then (''Stale'', ''orange'')
         else (''Active'', ''green'')))"

definition fmtDomains :: "(int \<Rightarrow> string) \<Rightarrow> int option \<Rightarrow> string" where
  "fmtDomains loc n = (case n of None \<Rightarrow> em_dash | Some k \<Rightarrow> loc k)"

section \<open>Adding a feed\<close>

record feed_form =
  ff_id :: string
  ff_category_id :: string
  ff_url :: string
  ff_format :: "string option"
  ff_interval_seconds :: num_input
  ff_provider :: string
  ff_license :: string

definition AddFeed_initial :: feed_form where
  "AddFeed_initial = \<lparr>ff_id = [], ff_category_id = [], ff_url = [], ff_format = Some ''domain-list'',
     ff_interval_seconds = Num 86400, ff_provider = [], ff_license = []\<rparr>"

definition AddFeed_validate :: "(string \<Rightarrow> bool) \<Rightarrow> feed_form \<Rightarrow> field_errors" where
  "AddFeed_validate url_ok v =
    [(''id'', if length (js_trim (ff_id v)) < 2 then Some (''Required '' @ em_dash @ '' must be unique'') else None),
     (''category_id'', if length (js_trim (ff_category_id v)) < 2 then Some ''Required'' else None),
     (''url'', if url_ok (ff_url v) then None else Some ''Must be a valid URL'')]"

definition feed_body :: "feed_form \<Rightarrow> json" where
  "feed_body v = JObj [(''id'', JStr (ff_id v)), (''category_id'', JStr (ff_category_id v)), (''url'', JStr (ff_url v)),
     (''format'', jopt (ff_format v)), (''interval_seconds'', jnum (ff_interval_seconds v)),
     (''provider'', JStr (ff_provider v)), (''license'', JStr (ff_license v)), (''enabled'', JBool True)]"

section \<open>Bulk adding\<close>

definition newline :: char where "newline = CHR 0x0A"

definition parse_line :: "string \<Rightarrow> string \<times> string" where
  "parse_line line =
    (case map js_trim (js_split CHR '','' line) of
       [] \<Rightarrow> ([], []) | [a] \<Rightarrow> (a, []) | a # b # _ \<Rightarrow> (a, b))"

definition parseBulkLines :: "string \<Rightarrow> (string \<times> string) list" where
  "parseBulkLines text =
     map parse_line (filter (\<lambda>l. l \<noteq> []) (map js_trim (js_split newline text)))"

record bulk_form =
  bk_category_id :: string
  bk_format :: "string option"
  bk_interval_seconds :: num_input
  bk_provider :: string
  bk_license :: string
  bk_lines :: string

definition bulk_lines_validate :: "string \<Rightarrow> string option" where
  "bulk_lines_validate v =
    (let entries = parseBulkLines v; invalid = filter (\<lambda>(i, u). i = [] \<or> u = []) entries in
     if entries = [] then Some ''Enter at least one feed''
     else if invalid \<noteq> [] then Some (nat_str (length invalid) @ '' line(s) missing '' @ [CHR 0x22] @ ''id,url''
            @ [CHR 0x22] @ '' '' @ em_dash @ '' one feed per line'')
     else None)"

definition BulkAdd_validate :: "bulk_form \<Rightarrow> field_errors" where
  "BulkAdd_validate v =
    [(''category_id'', if length (js_trim (bk_category_id v)) < 2 then Some ''Required'' else None),
     (''lines'', bulk_lines_validate (bk_lines v))]"

definition bulk_entry :: "bulk_form \<Rightarrow> string \<times> string \<Rightarrow> feed_form" where
  "bulk_entry v e = \<lparr>ff_id = fst e, ff_category_id = bk_category_id v, ff_url = snd e, ff_format = bk_format v,
     ff_interval_seconds = bk_interval_seconds v, ff_provider = bk_provider v, ff_license = bk_license v\<rparr>"

definition bulk_color :: "nat \<Rightarrow> string" where
  "bulk_color failed = (if failed \<noteq> 0 then ''yellow'' else ''green'')"

definition bulk_added_message :: "bool list \<Rightarrow> cmd" where
  "bulk_added_message rs =
    (let (ok, failed) = settled_counts rs in
     Notify (plural ok ''feed'' @ '' added''
         @ (if failed \<noteq> 0 then '', '' @ nat_str failed @ '' failed (duplicate ID or bad URL?)'' else [])) (bulk_color failed))"

definition BulkAdd_initial :: bulk_form where
  "BulkAdd_initial = \<lparr>bk_category_id = [], bk_format = Some ''domain-list'', bk_interval_seconds = Num 86400, bk_provider = [],
     bk_license = [], bk_lines = []\<rparr>"

section \<open>Editing a feed\<close>

text \<open>The modal is keyed on the feed's id, so its form starts from the feed it is opened for.\<close>

definition EditFeed_initial :: "feed option \<Rightarrow> feed_form" where
  "EditFeed_initial f = (case f of
     None \<Rightarrow> AddFeed_initial
   | Some x \<Rightarrow> \<lparr>ff_id = fd_id x, ff_category_id = fd_category_id x, ff_url = fd_url x, ff_format = Some (fd_format x),
       ff_interval_seconds = Num (fd_interval_seconds x), ff_provider = fd_provider x, ff_license = fd_license x\<rparr>)"

definition edit_feed_body :: "feed_form \<Rightarrow> json" where
  "edit_feed_body v = JObj [(''url'', JStr (ff_url v)), (''category_id'', JStr (ff_category_id v)),
     (''format'', jopt (ff_format v)), (''interval_seconds'', jnum (ff_interval_seconds v)),
     (''provider'', JStr (ff_provider v)), (''license'', JStr (ff_license v))]"

section \<open>Derived data\<close>

definition totalDomains :: "feed list \<Rightarrow> int" where
  "totalDomains feeds = foldl (\<lambda>s f. s + nullish (fd_last_domain_count f) 0) 0 feeds"

definition activeFeeds :: "feed list \<Rightarrow> feed list" where
  "activeFeeds feeds = filter (\<lambda>f. fd_enabled f \<and> nullish (fd_last_domain_count f) 0 > 0) feeds"

definition catalogFeeds :: "feed list \<Rightarrow> feed list" where
  "catalogFeeds feeds = filter fd_from_catalog feeds"

definition feed_categories :: "feed list \<Rightarrow> string list" where
  "feed_categories feeds = js_sort str_cmp (js_unique (map fd_category_id feeds))"

text \<open>Registry order for the categories of the registry, then the others in code order.\<close>

definition orderedIds :: "string list \<Rightarrow> string list \<Rightarrow> string list" where
  "orderedIds registryIds present =
     filter (\<lambda>i. i \<in> set present) registryIds
     @ js_sort str_cmp (filter (\<lambda>i. i \<notin> set registryIds) present)"

definition categoryChips :: "category list \<Rightarrow> feed list \<Rightarrow> (string \<times> nat) list" where
  "categoryChips registry feeds =
     map (\<lambda>i. (i, length (filter (\<lambda>f. fd_category_id f = i) feeds)))
       (orderedIds (map cat_id registry) (js_unique (map fd_category_id feeds)))"

record feed_filters =
  flt_search :: string
  flt_category :: string
  flt_status :: string

definition feed_matches :: "feed_filters \<Rightarrow> feed \<Rightarrow> bool" where
  "feed_matches flt f =
    ((flt_search flt = [] \<or>
       (let q = js_lower (flt_search flt) in
        js_includes (fd_id f) q \<or> js_includes (js_lower (fd_provider f)) q \<or> js_includes (js_lower (fd_url f)) q))
     \<and> (flt_category flt = [] \<or> fd_category_id f = flt_category flt)
     \<and> \<not> (flt_status flt = ''active'' \<and> \<not> fd_enabled f)
     \<and> \<not> (flt_status flt = ''disabled'' \<and> fd_enabled f))"

definition sorted_feeds :: "(string \<Rightarrow> string \<Rightarrow> int) \<Rightarrow> feed list \<Rightarrow> feed list" where
  "sorted_feeds lc feeds = js_sort (by_key lc fd_id) feeds"

definition visible_feeds :: "(string \<Rightarrow> string \<Rightarrow> int) \<Rightarrow> feed_filters \<Rightarrow> feed list \<Rightarrow> feed list" where
  "visible_feeds lc flt feeds = filter (feed_matches flt) (sorted_feeds lc feeds)"

definition groupedRows :: "category list \<Rightarrow> feed list \<Rightarrow> (string \<times> feed list) list" where
  "groupedRows registry visible =
    (let byCategory = group_by fd_category_id visible
     in map (\<lambda>i. (i, the (map_of byCategory i))) (orderedIds (map cat_id registry) (map fst byCategory)))"

definition categoryById :: "category list \<Rightarrow> string \<rightharpoonup> category" where
  "categoryById registry = map_of (rev (map (\<lambda>c. (cat_id c, c)) registry))"

definition CATEGORY_GROUP_LABEL :: "string \<rightharpoonup> string" where
  "CATEGORY_GROUP_LABEL = map_of [(''security'', ''Security''), (''content'', ''Content''), (''distraction'', ''Distraction''),
     (''privacy'', ''Privacy''), (''network'', ''Network'')]"

section \<open>Page state and events\<close>

text \<open>The query results (\<open>fp_feeds\<close>, \<open>fp_categories\<close>, \<open>fp_isLoading\<close>), the search parameters of the URL, and the state
  of the page and of its three modals. The edit modal is keyed on the feed's id, so its form is set whenever the feed
  changes. Answers carry what the closures of the request captured: the submitted values, or the feed.\<close>

record feeds_page =
  fp_feeds :: "feed list"
  fp_categories :: "category list"
  fp_isLoading :: bool
  fp_params :: search_pairs
  fp_addOpened :: bool
  fp_addForm :: feed_form
  fp_adding :: bool
  fp_bulkAddOpened :: bool
  fp_bulkForm :: bulk_form
  fp_submitting :: bool
  fp_editFeed :: "feed option"
  fp_editForm :: feed_form
  fp_updating :: bool
  fp_syncingId :: "string option"
  fp_syncingIds :: "string list"
  fp_selected :: "string list"

datatype feeds_event =
    SetFeedFilters "(string \<times> string option) list"
  | OpenAdd | CloseAdd | EditAdd "feed_form \<Rightarrow> feed_form" | SubmitAdd | AddAnswer feed_form "thrown option"
  | OpenBulkAdd | CloseBulkAdd | EditBulk "bulk_form \<Rightarrow> bulk_form" | SubmitBulk | BulkAddAnswer "(feed_form \<times> bool) list"
  | SetEditFeed feed | CloseEdit | EditEdit "feed_form \<Rightarrow> feed_form" | SubmitEdit | EditAnswer feed feed_form "thrown option"
  | ToggleEnabled feed | ToggleAnswer feed "thrown option"
  | Ingest feed | IngestAnswer feed "thrown + ingest_result"
  | ConfirmDelete feed | DeleteAnswer feed "thrown option"
  | ToggleSelected string | SetGroupSelected "string list" bool | ClearSelected
  | BulkSetEnabled bool | BulkSetEnabledAnswer bool "(string \<times> bool) list"
  | BulkSync | BulkSyncAnswer "(string \<times> bool) list"
  | BulkDelete | BulkDeleteAnswer "(string \<times> bool) list"
  | FeedsData "feed list" | CategoriesData "category list"

fun feeds_answer :: "feeds_event \<Rightarrow> bool" where
  "feeds_answer (AddAnswer _ _) = True"
| "feeds_answer (BulkAddAnswer _) = True"
| "feeds_answer (EditAnswer _ _ _) = True"
| "feeds_answer (ToggleAnswer _ _) = True"
| "feeds_answer (IngestAnswer _ _) = True"
| "feeds_answer (DeleteAnswer _ _) = True"
| "feeds_answer (BulkSetEnabledAnswer _ _) = True"
| "feeds_answer (BulkSyncAnswer _) = True"
| "feeds_answer (BulkDeleteAnswer _) = True"
| "feeds_answer (FeedsData _) = True"
| "feeds_answer (CategoriesData _) = True"
| "feeds_answer _ = False"

definition FEED_FILTERS :: "(string \<times> string) list" where
  "FEED_FILTERS = [(''search'', []), (''category'', []), (''status'', ''all'')]"

definition feed_filters_of :: "search_pairs \<Rightarrow> feed_filters" where
  "feed_filters_of ps = (let v = (\<lambda>k. nullish (map_of (filter_values FEED_FILTERS ps) k) []) in
     \<lparr>flt_search = v ''search'', flt_category = v ''category'', flt_status = v ''status''\<rparr>)"

definition feeds_initial :: "search_pairs \<Rightarrow> feeds_page" where
  "feeds_initial ps = \<lparr>fp_feeds = [], fp_categories = [], fp_isLoading = True, fp_params = ps, fp_addOpened = False,
     fp_addForm = AddFeed_initial, fp_adding = False, fp_bulkAddOpened = False, fp_bulkForm = BulkAdd_initial,
     fp_submitting = False, fp_editFeed = None, fp_editForm = EditFeed_initial None, fp_updating = False,
     fp_syncingId = None, fp_syncingIds = [], fp_selected = []\<rparr>"

definition feeds_canWrite :: "auth_user option \<Rightarrow> bool" where
  "feeds_canWrite u = hasRole u [Admin]"

section \<open>Handlers\<close>

definition AddFeed_handleClose :: "feeds_page \<Rightarrow> feeds_page" where
  "AddFeed_handleClose s = s\<lparr>fp_addForm := AddFeed_initial, fp_addOpened := False\<rparr>"

definition AddFeed_submit :: "(string \<Rightarrow> bool) \<Rightarrow> feeds_page \<Rightarrow> feeds_page \<times> cmd list" where
  "AddFeed_submit url_ok s =
    (let values = fp_addForm s in
     if form_valid (AddFeed_validate url_ok values)
     then (s\<lparr>fp_adding := True\<rparr>, [mutate useCreateFeed (feed_body values)]) else (s, []))"

definition AddFeed_answer :: "feed_form \<Rightarrow> thrown option \<Rightarrow> feeds_page \<Rightarrow> feeds_page \<times> cmd list" where
  "AddFeed_answer values r s = (let s' = s\<lparr>fp_adding := False\<rparr> in
     case r of
       None \<Rightarrow> (AddFeed_handleClose s', settled_ok useCreateFeed (feed_body values)
                 [Notify (''Feed '' @ quoted (ff_id values) @ '' added'') ''green''])
     | Some e \<Rightarrow> (s', [notify_error e]))"

definition BulkAdd_handleClose :: "feeds_page \<Rightarrow> feeds_page" where
  "BulkAdd_handleClose s = s\<lparr>fp_bulkForm := BulkAdd_initial, fp_bulkAddOpened := False\<rparr>"

definition BulkAdd_submit :: "feeds_page \<Rightarrow> feeds_page \<times> cmd list" where
  "BulkAdd_submit s =
    (let values = fp_bulkForm s in
     if form_valid (BulkAdd_validate values)
     then (s\<lparr>fp_submitting := True\<rparr>,
           map (\<lambda>e. mutate useCreateFeed (feed_body (bulk_entry values e))) (parseBulkLines (bk_lines values)))
     else (s, []))"

definition BulkAdd_settled :: "(feed_form \<times> bool) list \<Rightarrow> feeds_page \<Rightarrow> feeds_page \<times> cmd list" where
  "BulkAdd_settled rs s = (let s' = s\<lparr>fp_submitting := False\<rparr>; oks = map snd rs in
     (if snd (settled_counts oks) = 0 then BulkAdd_handleClose s' else s',
      settled_all useCreateFeed (map (apfst feed_body) rs) @ [bulk_added_message oks]))"

definition setEditFeed :: "feed option \<Rightarrow> feeds_page \<Rightarrow> feeds_page" where
  "setEditFeed f s = (if map_option fd_id f = map_option fd_id (fp_editFeed s) then s\<lparr>fp_editFeed := f\<rparr>
     else s\<lparr>fp_editFeed := f, fp_editForm := EditFeed_initial f, fp_updating := False\<rparr>)"

definition EditFeed_handleClose :: "feeds_page \<Rightarrow> feeds_page" where
  "EditFeed_handleClose s = setEditFeed None (s\<lparr>fp_editForm := EditFeed_initial (fp_editFeed s)\<rparr>)"

definition EditFeed_submit :: "feeds_page \<Rightarrow> feeds_page \<times> cmd list" where
  "EditFeed_submit s = (case fp_editFeed s of
     None \<Rightarrow> (s, [])
   | Some f \<Rightarrow> (s\<lparr>fp_updating := True\<rparr>, [mutate useUpdateFeed (fd_id f, edit_feed_body (fp_editForm s))]))"

definition EditFeed_answer :: "feed \<Rightarrow> feed_form \<Rightarrow> thrown option \<Rightarrow> feeds_page \<Rightarrow> feeds_page \<times> cmd list" where
  "EditFeed_answer f values r s = (let s' = s\<lparr>fp_updating := False\<rparr> in
     case r of
       None \<Rightarrow> (EditFeed_handleClose s', settled_ok useUpdateFeed (fd_id f, edit_feed_body values)
                 [Notify (''Feed '' @ quoted (fd_id f) @ '' updated'') ''green''])
     | Some e \<Rightarrow> (s', [notify_error e]))"

definition toggle_body :: "bool \<Rightarrow> json" where
  "toggle_body b = JObj [(''enabled'', JBool b)]"

definition toggleEnabled :: "feed \<Rightarrow> cmd list" where
  "toggleEnabled f = [mutate useUpdateFeed (fd_id f, toggle_body (\<not> fd_enabled f))]"

definition toggle_answer :: "feed \<Rightarrow> thrown option \<Rightarrow> cmd list" where
  "toggle_answer f r = (case r of
     None \<Rightarrow> settled_ok useUpdateFeed (fd_id f, toggle_body (\<not> fd_enabled f)) []
   | Some e \<Rightarrow> [notify_error e])"

definition ingest :: "feed \<Rightarrow> feeds_page \<Rightarrow> feeds_page \<times> cmd list" where
  "ingest f s = (s\<lparr>fp_syncingId := Some (fd_id f)\<rparr>, [mutate useIngestFeedNow (fd_id f)])"

definition ingest_message :: "(int \<Rightarrow> string) \<Rightarrow> feed \<Rightarrow> ingest_result \<Rightarrow> cmd" where
  "ingest_message loc f r =
     Notify (fd_id f @ '': '' @ ir_status r @ '' '' @ mid_dot @ '' '' @ fmtDomains loc (Some (ir_domain_count r)) @ '' domains''
         @ (if ir_reason r \<noteq> [] then '' '' @ em_dash @ '' '' @ ir_reason r else []))
       (if ir_status r = ''rejected'' \<or> ir_status r = ''error'' then ''yellow'' else ''green'')"

definition ingest_answer :: "(int \<Rightarrow> string) \<Rightarrow> feed \<Rightarrow> thrown + ingest_result \<Rightarrow> feeds_page \<Rightarrow> feeds_page \<times> cmd list" where
  "ingest_answer loc f r s = (s\<lparr>fp_syncingId := None\<rparr>, (case r of
      Inr x \<Rightarrow> settled_ok useIngestFeedNow (fd_id f) [ingest_message loc f x]
    | Inl e \<Rightarrow> [notify_error e]))"

definition feeds_confirmDelete :: "feed \<Rightarrow> cmd list" where
  "feeds_confirmDelete f = [OpenConfirm ''Delete feed''
     (''Delete '' @ fd_id f @ ''? This stops auto-updates.''
       @ (if fd_from_catalog f then '' The feed will reappear on next control-plane restart since it is catalog-seeded.'' else []))
     ''Delete'' [mutate useDeleteFeed (fd_id f)]]"

definition feeds_delete_answer :: "feed \<Rightarrow> thrown option \<Rightarrow> cmd list" where
  "feeds_delete_answer f r = (case r of
     None \<Rightarrow> settled_ok useDeleteFeed (fd_id f) [Notify (''Feed '' @ quoted (fd_id f) @ '' deleted'') ''green'']
   | Some e \<Rightarrow> [notify_error e])"

definition toggleSelected :: "string \<Rightarrow> feeds_page \<Rightarrow> feeds_page" where
  "toggleSelected i s = s\<lparr>fp_selected := (if i \<in> set (fp_selected s) then set_delete i (fp_selected s)
     else set_add i (fp_selected s))\<rparr>"

definition setGroupSelected :: "string list \<Rightarrow> bool \<Rightarrow> feeds_page \<Rightarrow> feeds_page" where
  "setGroupSelected ids sel s =
     s\<lparr>fp_selected := fold (\<lambda>i. if sel then set_add i else set_delete i) ids (fp_selected s)\<rparr>"

definition bulk_message :: "string \<Rightarrow> bool list \<Rightarrow> cmd" where
  "bulk_message verb rs = (let (ok, failed) = settled_counts rs in
     Notify (plural ok ''feed'' @ '' '' @ verb @ (if failed \<noteq> 0 then '', '' @ nat_str failed @ '' failed'' else []))
       (bulk_color failed))"

definition bulkSetEnabled :: "bool \<Rightarrow> feeds_page \<Rightarrow> cmd list" where
  "bulkSetEnabled enabled s = map (\<lambda>i. mutate useUpdateFeed (i, toggle_body enabled)) (fp_selected s)"

definition bulkSetEnabled_settled :: "bool \<Rightarrow> (string \<times> bool) list \<Rightarrow> feeds_page \<Rightarrow> feeds_page \<times> cmd list" where
  "bulkSetEnabled_settled enabled rs s =
     (s\<lparr>fp_selected := []\<rparr>, settled_all useUpdateFeed (map (apfst (\<lambda>i. (i, toggle_body enabled))) rs)
        @ [bulk_message (if enabled then ''enabled'' else ''disabled'') (map snd rs)])"

definition bulk_sync_ids :: "feeds_page \<Rightarrow> string list" where
  "bulk_sync_ids s = filter (\<lambda>i. case find (\<lambda>f. fd_id f = i) (fp_feeds s) of None \<Rightarrow> False | Some f \<Rightarrow> fd_enabled f)
     (fp_selected s)"

definition bulkSync :: "feeds_page \<Rightarrow> feeds_page \<times> cmd list" where
  "bulkSync s = (let ids = bulk_sync_ids s in
     if ids = [] then (s, [Notify ''No enabled feeds selected'' ''yellow''])
     else (s\<lparr>fp_syncingIds := ids\<rparr>, map (mutate useIngestFeedNow) ids))"

definition bulkSync_settled :: "(string \<times> bool) list \<Rightarrow> feeds_page \<Rightarrow> feeds_page \<times> cmd list" where
  "bulkSync_settled rs s =
     (s\<lparr>fp_syncingIds := []\<rparr>, settled_all useIngestFeedNow rs @ [bulk_message ''synced'' (map snd rs)])"

definition bulkDelete :: "feeds_page \<Rightarrow> cmd list" where
  "bulkDelete s = (let ids = fp_selected s in [OpenConfirm ''Delete feeds''
     (''Delete '' @ plural (length ids) ''feed''
        @ ''? This stops auto-updates for each. Catalog-seeded feeds reappear on next control-plane restart.'')
     (''Delete '' @ nat_str (length ids)) (map (mutate useDeleteFeed) ids)])"

definition bulkDelete_settled :: "(string \<times> bool) list \<Rightarrow> feeds_page \<Rightarrow> feeds_page \<times> cmd list" where
  "bulkDelete_settled rs s =
     (s\<lparr>fp_selected := []\<rparr>, settled_all useDeleteFeed rs @ [bulk_message ''deleted'' (map snd rs)])"

fun feeds_step :: "ui_env \<Rightarrow> feeds_event \<Rightarrow> feeds_page \<Rightarrow> feeds_page \<times> cmd list" where
  "feeds_step w (SetFeedFilters patch) s = (s\<lparr>fp_params := setFilters FEED_FILTERS patch (fp_params s)\<rparr>, [])"
| "feeds_step w OpenAdd s = (s\<lparr>fp_addOpened := True\<rparr>, [])"
| "feeds_step w CloseAdd s = (AddFeed_handleClose s, [])"
| "feeds_step w (EditAdd f) s = (s\<lparr>fp_addForm := f (fp_addForm s)\<rparr>, [])"
| "feeds_step w SubmitAdd s = AddFeed_submit (ue_url_ok w) s"
| "feeds_step w (AddAnswer v r) s = AddFeed_answer v r s"
| "feeds_step w OpenBulkAdd s = (s\<lparr>fp_bulkAddOpened := True\<rparr>, [])"
| "feeds_step w CloseBulkAdd s = (BulkAdd_handleClose s, [])"
| "feeds_step w (EditBulk f) s = (s\<lparr>fp_bulkForm := f (fp_bulkForm s)\<rparr>, [])"
| "feeds_step w SubmitBulk s = BulkAdd_submit s"
| "feeds_step w (BulkAddAnswer rs) s = BulkAdd_settled rs s"
| "feeds_step w (SetEditFeed f) s = (setEditFeed (Some f) s, [])"
| "feeds_step w CloseEdit s = (EditFeed_handleClose s, [])"
| "feeds_step w (EditEdit f) s = (s\<lparr>fp_editForm := f (fp_editForm s)\<rparr>, [])"
| "feeds_step w SubmitEdit s = EditFeed_submit s"
| "feeds_step w (EditAnswer f v r) s = EditFeed_answer f v r s"
| "feeds_step w (ToggleEnabled f) s = (s, toggleEnabled f)"
| "feeds_step w (ToggleAnswer f r) s = (s, toggle_answer f r)"
| "feeds_step w (Ingest f) s = ingest f s"
| "feeds_step w (IngestAnswer f r) s = ingest_answer (ue_loc w) f r s"
| "feeds_step w (ConfirmDelete f) s = (s, feeds_confirmDelete f)"
| "feeds_step w (DeleteAnswer f r) s = (s, feeds_delete_answer f r)"
| "feeds_step w (ToggleSelected i) s = (toggleSelected i s, [])"
| "feeds_step w (SetGroupSelected is b) s = (setGroupSelected is b s, [])"
| "feeds_step w ClearSelected s = (s\<lparr>fp_selected := []\<rparr>, [])"
| "feeds_step w (BulkSetEnabled b) s = (s, bulkSetEnabled b s)"
| "feeds_step w (BulkSetEnabledAnswer b rs) s = bulkSetEnabled_settled b rs s"
| "feeds_step w BulkSync s = bulkSync s"
| "feeds_step w (BulkSyncAnswer rs) s = bulkSync_settled rs s"
| "feeds_step w BulkDelete s = (s, bulkDelete s)"
| "feeds_step w (BulkDeleteAnswer rs) s = bulkDelete_settled rs s"
| "feeds_step w (FeedsData fs) s = (s\<lparr>fp_feeds := fs, fp_isLoading := False\<rparr>, [])"
| "feeds_step w (CategoriesData cs) s = (s\<lparr>fp_categories := cs\<rparr>, [])"

section \<open>Rendering\<close>

definition FORMAT_OPTIONS :: "(string \<times> string) list" where
  "FORMAT_OPTIONS = [(''hostfile'', ''hostfile  (0.0.0.0 domain lines)''),
     (''domain-list'', ''domain-list  (plain domain lines)'')]"

text \<open>A select passes \<open>null\<close> when its selected option is clicked again, so the format of a form is optional.\<close>

definition AddFeedModal :: "feeds_page \<Rightarrow> feeds_event view list" where
  "AddFeedModal s = (let v = fp_addForm s in show_if (fp_addOpened s)
    [Modal ''Add custom feed'' CloseAdd [Form SubmitAdd
      [TextInput ''Feed ID'' (ff_id v) True False (\<lambda>x. EditAdd (ff_id_update (\<lambda>_. x))),
       TextInput ''Category'' (ff_category_id v) True False (\<lambda>x. EditAdd (ff_category_id_update (\<lambda>_. x))),
       TextInput ''Source URL'' (ff_url v) True False (\<lambda>x. EditAdd (ff_url_update (\<lambda>_. x))),
       Select ''Format'' FORMAT_OPTIONS (ff_format v) False (\<lambda>x. EditAdd (ff_format_update (\<lambda>_. x))),
       NumberInput ''Refresh interval (seconds)'' (ff_interval_seconds v) (Some 60) None False
         (\<lambda>x. EditAdd (ff_interval_seconds_update (\<lambda>_. x))),
       TextInput ''Provider'' (ff_provider v) False False (\<lambda>x. EditAdd (ff_provider_update (\<lambda>_. x))),
       TextInput ''License'' (ff_license v) False False (\<lambda>x. EditAdd (ff_license_update (\<lambda>_. x))),
       Button ''Cancel'' False CloseAdd, Submit ''Add feed'' (fp_adding s)]]])"

definition BulkAddFeedModal :: "feeds_page \<Rightarrow> feeds_event view list" where
  "BulkAddFeedModal s = (let v = fp_bulkForm s in show_if (fp_bulkAddOpened s)
    [Modal ''Bulk add feeds'' CloseBulkAdd [Form SubmitBulk
      [Text ''One feed per line, as id,url. Category, format, and schedule below apply to every line.'',
       TextInput [] (bk_lines v) True False (\<lambda>x. EditBulk (bk_lines_update (\<lambda>_. x))),
       TextInput ''Category'' (bk_category_id v) True False (\<lambda>x. EditBulk (bk_category_id_update (\<lambda>_. x))),
       Select ''Format'' FORMAT_OPTIONS (bk_format v) False (\<lambda>x. EditBulk (bk_format_update (\<lambda>_. x))),
       NumberInput ''Refresh interval (seconds)'' (bk_interval_seconds v) (Some 60) None False
         (\<lambda>x. EditBulk (bk_interval_seconds_update (\<lambda>_. x))),
       TextInput ''Provider'' (bk_provider v) False False (\<lambda>x. EditBulk (bk_provider_update (\<lambda>_. x))),
       TextInput ''License'' (bk_license v) False False (\<lambda>x. EditBulk (bk_license_update (\<lambda>_. x))),
       Button ''Cancel'' False CloseBulkAdd, Submit ''Add feeds'' (fp_submitting s)]]])"

definition EditFeedModal :: "feeds_page \<Rightarrow> feeds_event view list" where
  "EditFeedModal s = (case fp_editFeed s of
     None \<Rightarrow> []
   | Some f \<Rightarrow> (let v = fp_editForm s in
      [Modal (''Edit feed: '' @ fd_id f) CloseEdit
        (show_if (fd_from_catalog f)
          [Text (''Catalog feed '' @ em_dash @ '' URL and format are read-only. You can adjust schedule, category override, and metadata.'')]
         @ [Form SubmitEdit
          [TextInput ''Source URL'' (ff_url v) False (fd_from_catalog f) (\<lambda>x. EditEdit (ff_url_update (\<lambda>_. x))),
           TextInput ''Category'' (ff_category_id v) False False (\<lambda>x. EditEdit (ff_category_id_update (\<lambda>_. x))),
           Select ''Format'' FORMAT_OPTIONS (ff_format v) (fd_from_catalog f)
             (\<lambda>x. EditEdit (ff_format_update (\<lambda>_. x))),
           NumberInput ''Refresh interval (seconds)'' (ff_interval_seconds v) (Some 60) None False
             (\<lambda>x. EditEdit (ff_interval_seconds_update (\<lambda>_. x))),
           TextInput ''Provider'' (ff_provider v) False False (\<lambda>x. EditEdit (ff_provider_update (\<lambda>_. x))),
           TextInput ''License'' (ff_license v) False False (\<lambda>x. EditEdit (ff_license_update (\<lambda>_. x))),
           Button ''Cancel'' False CloseEdit, Submit ''Save changes'' (fp_updating s)]])]))"

definition feed_kpis :: "(int \<Rightarrow> string) \<Rightarrow> feed list \<Rightarrow> feeds_event view list" where
  "feed_kpis loc feeds =
    (let n = length feeds; c = length (catalogFeeds feeds); a = length (activeFeeds feeds); cs = feed_categories feeds in
     [KpiCard ''Total feeds'' (nat_str n) (nat_str c @ '' catalog '' @ mid_dot @ '' '' @ nat_str (n - c) @ '' custom'') None,
      KpiCard ''Active'' (nat_str a) (nat_str (n - a) @ '' inactive'') None,
      KpiCard ''Total domains'' (loc (totalDomains feeds)) ''across all enabled feeds'' None,
      KpiCard ''Categories'' (nat_str (length cs))
        (js_join '', '' (take 3 cs) @ (if length cs > 3 then '' '' @ ellipsis else [])) None])"

definition feed_filter_bar :: "feed_filters \<Rightarrow> feeds_event view" where
  "feed_filter_bar flt = Box
    [TextInput [] (flt_search flt) False False (\<lambda>x. SetFeedFilters [(''search'', Some x)]),
     Select [] [(''all'', ''All statuses''), (''active'', ''Active only''), (''disabled'', ''Disabled only'')]
       (Some (flt_status flt)) False (\<lambda>v. SetFeedFilters [(''status'', Some (nullish v ''all''))])]"

definition chip_click :: "string \<Rightarrow> feed_filters \<Rightarrow> feeds_event" where
  "chip_click i flt = SetFeedFilters [(''category'', Some (if flt_category flt = i then [] else i))]"

definition category_chip_bar :: "feed_filters \<Rightarrow> category list \<Rightarrow> feed list \<Rightarrow> feeds_event view" where
  "category_chip_bar flt registry feeds = Box
    (Button (''All ('' @ nat_str (length feeds) @ '')'') False (SetFeedFilters [(''category'', Some [])])
     # map (\<lambda>(i, n). Button (categoryLabel i (categoryById registry) @ '' ('' @ nat_str n @ '')'') False (chip_click i flt))
         (categoryChips registry feeds))"

definition bulk_bar :: "feeds_page \<Rightarrow> feeds_event view list" where
  "bulk_bar s = show_if (fp_selected s \<noteq> [])
    [Text (plural (length (fp_selected s)) ''feed'' @ '' selected''),
     Button ''Sync now'' (fp_syncingIds s \<noteq> []) BulkSync,
     Button ''Enable'' False (BulkSetEnabled True),
     Button ''Disable'' False (BulkSetEnabled False),
     Button ''Delete'' False BulkDelete,
     Button ''Clear'' False ClearSelected]"

text \<open>The header checkbox over the visible feeds and the one of a category. \<open>every\<close> and \<open>some\<close> over the ids.\<close>

definition all_selected :: "feeds_page \<Rightarrow> string list \<Rightarrow> bool" where
  "all_selected s ids = list_all (\<lambda>i. i \<in> set (fp_selected s)) ids"

definition some_selected :: "feeds_page \<Rightarrow> string list \<Rightarrow> bool" where
  "some_selected s ids = list_ex (\<lambda>i. i \<in> set (fp_selected s)) ids"

definition header_checkbox :: "feeds_page \<Rightarrow> string list \<Rightarrow> feeds_event view" where
  "header_checkbox s ids = Checkbox [] (ids \<noteq> [] \<and> all_selected s ids) (some_selected s ids \<and> \<not> all_selected s ids) False
     (SetGroupSelected ids (\<not> all_selected s ids))"

definition category_checkbox :: "feeds_page \<Rightarrow> string list \<Rightarrow> feeds_event view" where
  "category_checkbox s ids = (let catAllSelected = ids \<noteq> [] \<and> all_selected s ids in
     Checkbox [] catAllSelected (some_selected s ids \<and> \<not> catAllSelected) False (SetGroupSelected ids (\<not> catAllSelected)))"

definition category_row :: "ui_env \<Rightarrow> bool \<Rightarrow> feeds_page \<Rightarrow> string \<Rightarrow> feed list \<Rightarrow> feeds_event view" where
  "category_row w canWrite s catId catFeeds = (let byId = categoryById (fp_categories s) in Row
    (show_if canWrite [category_checkbox s (map fd_id catFeeds)]
     @ [Badge (categoryColor catId byId) [], Text (categoryLabel catId byId)]
     @ (case byId catId of None \<Rightarrow> [] | Some c \<Rightarrow> [Text (nullish (CATEGORY_GROUP_LABEL (cat_group c)) (cat_group c))])
     @ [Badge ''gray'' (plural (length catFeeds) ''feed''), Text (ue_loc w (totalDomains catFeeds) @ '' domains'')]))"

definition sync_spinning :: "feeds_page \<Rightarrow> string \<Rightarrow> bool" where
  "sync_spinning s i \<longleftrightarrow> fp_syncingId s = Some i \<or> i \<in> set (fp_syncingIds s)"

definition feed_row :: "ui_env \<Rightarrow> bool \<Rightarrow> feeds_page \<Rightarrow> feed \<Rightarrow> feeds_event view" where
  "feed_row w canWrite s f = (let st = feedStatus (ue_tz w) (ue_now w) f; fetched = fd_last_fetched_at f in Row
    (show_if canWrite [Checkbox [] (fd_id f \<in> set (fp_selected s)) False False (ToggleSelected (fd_id f))]
     @ [Box ([Tooltip (fst st) (Badge (snd st) []), Text (fd_id f), Copy (fd_url f), Anchor (fd_url f) [], Badge ''gray'' (fd_format f)]
          @ show_if (fd_from_catalog f) [Badge ''blue'' ''catalog'']
          @ show_if (fd_provider f \<noteq> []) [Text (fd_provider f)]
          @ [Text (mid_dot @ '' '' @ formatDuration (fd_interval_seconds f))]),
        Text (fmtDomains (ue_loc w) (fd_last_domain_count f)),
        Tooltip (if truthy fetched then ue_date w (the fetched) else ''Never synced'')
          (Text (formatRelativeTime (ue_tz w) (ue_now w) fetched)),
        Switch [] (fd_enabled f) (\<not> canWrite) (ToggleEnabled f),
        Box (show_if canWrite
          [Tooltip ''Sync now'' (Button [] (sync_spinning s (fd_id f) \<or> \<not> fd_enabled f) (Ingest f)),
           Tooltip ''Edit'' (Button [] False (SetEditFeed f)),
           Tooltip ''Delete'' (Button [] False (ConfirmDelete f))])]))"

definition feeds_table :: "ui_env \<Rightarrow> bool \<Rightarrow> feeds_page \<Rightarrow> feed list \<Rightarrow> feeds_event view" where
  "feeds_table w canWrite s visible = Table
    ((if canWrite then [[]] else []) @ [''Feed'', ''Domains'', ''Last sync'', ''On'', []])
    (show_if canWrite [header_checkbox s (map fd_id visible)]
     @ show_if (visible = []) [Row [Text ''No feeds match the current filters'']]
     @ concat (map (\<lambda>(i, fs). category_row w canWrite s i fs # map (feed_row w canWrite s) fs)
         (groupedRows (fp_categories s) visible)))"

definition FeedsPage :: "ui_env \<Rightarrow> auth_user option \<Rightarrow> feeds_page \<Rightarrow> feeds_event view" where
  "FeedsPage w u s =
    (if fp_isLoading s then Loader
     else let canWrite = feeds_canWrite u; flt = feed_filters_of (fp_params s); feeds = fp_feeds s;
              visible = visible_feeds (ue_lc w) flt feeds in Box
      ([Text ''Threat Intelligence Feeds'',
        Text (''Manage blocklist feeds. Changes take effect immediately '' @ em_dash @ '' no restart required.'')]
       @ show_if canWrite [Button ''Bulk add'' False OpenBulkAdd, Button ''Add feed'' False OpenAdd]
       @ feed_kpis (ue_loc w) feeds
       @ [feed_filter_bar flt, category_chip_bar flt (fp_categories s) feeds]
       @ show_if canWrite (bulk_bar s)
       @ [feeds_table w canWrite s visible]
       @ show_if (visible \<noteq> []) [Text (nat_str (length visible) @ '' of '' @ nat_str (length feeds) @ '' feeds'')]
       @ AddFeedModal s @ BulkAddFeedModal s @ EditFeedModal s))"

section \<open>Read-only users\<close>

definition feeds_idle :: "feeds_page \<Rightarrow> bool" where
  "feeds_idle s \<longleftrightarrow> \<not> fp_addOpened s \<and> \<not> fp_bulkAddOpened s \<and> fp_editFeed s = None"

lemma modals_closed: "feeds_idle s \<Longrightarrow> AddFeedModal s @ BulkAddFeedModal s @ EditFeedModal s = []"
  by (simp add: feeds_idle_def AddFeedModal_def BulkAddFeedModal_def EditFeedModal_def Let_def)

lemma offers_category_row [simp]: "\<not> offers e (category_row w False s i fs)"
  by (auto simp: category_row_def Let_def split: option.splits)

lemma offers_feed_row [simp]: "\<not> offers e (feed_row w False s f)"
  by (auto simp: feed_row_def Let_def)

lemma offers_feeds_table [simp]: "\<not> offers e (feeds_table w False s visible)"
  by (auto simp: feeds_table_def)

lemma read_only_offers_filters:
  assumes "\<not> feeds_canWrite u" and "feeds_idle s" and "offers e (FeedsPage w u s)"
  shows "\<exists>patch. e = SetFeedFilters patch"
  using assms by (auto simp: FeedsPage_def modals_closed Let_def feed_kpis_def feed_filter_bar_def category_chip_bar_def chip_click_def
    split: if_splits)

lemma feeds_answer_idle: "feeds_idle s \<Longrightarrow> feeds_answer e \<Longrightarrow> feeds_idle (fst (feeds_step w e s))"
  by (cases e) (auto simp: feeds_idle_def AddFeed_answer_def AddFeed_handleClose_def BulkAdd_settled_def BulkAdd_handleClose_def
      EditFeed_answer_def EditFeed_handleClose_def setEditFeed_def ingest_answer_def bulkSetEnabled_settled_def
      bulkSync_settled_def bulkDelete_settled_def Let_def split: option.splits)

lemma requests_messages [simp]:
  "requests_of (bulk_message v rs) = []" "requests_of (bulk_added_message rs) = []" "requests_of (ingest_message l f r) = []"
  by (simp_all add: bulk_message_def bulk_added_message_def ingest_message_def Let_def split: prod.split)

lemma feeds_answer_silent: "feeds_answer e \<Longrightarrow> requests (snd (feeds_step w e s)) = []"
  by (cases e) (auto simp: AddFeed_answer_def BulkAdd_settled_def EditFeed_answer_def toggle_answer_def ingest_answer_def
      feeds_delete_answer_def bulkSetEnabled_settled_def bulkSync_settled_def bulkDelete_settled_def Let_def
      split: option.splits sum.splits)

interpretation fro: read_only_page "FeedsPage w u" feeds_answer "feeds_step w" "\<lambda>s. \<not> feeds_canWrite u \<and> feeds_idle s" for w u
proof unfold_locales
  fix s e assume i: "\<not> feeds_canWrite u \<and> feeds_idle s"
  { assume "offers e (FeedsPage w u s)"
    then obtain patch where "e = SetFeedFilters patch" using i read_only_offers_filters by blast
    then show "\<not> feeds_canWrite u \<and> feeds_idle (fst (feeds_step w e s))" and "writes (snd (feeds_step w e s)) = []"
      using i by (simp_all add: feeds_idle_def) }
  { assume "feeds_answer e"
    then show "\<not> feeds_canWrite u \<and> feeds_idle (fst (feeds_step w e s))" and "writes (snd (feeds_step w e s)) = []"
      using i feeds_answer_idle feeds_answer_silent by (auto simp: writes_def) }
qed

section \<open>Grouping and counting\<close>

lemma set_orderedIds: "set (orderedIds regs present) = set present"
  by (auto simp: orderedIds_def sc.set_sort)

lemma distinct_orderedIds: "distinct regs \<Longrightarrow> distinct present \<Longrightarrow> distinct (orderedIds regs present)"
proof -
  assume d: "distinct regs" "distinct present"
  have "distinct (js_sort str_cmp xs) = distinct xs" for xs :: "string list"
    by (metis sc.mset_sort mset_eq_imp_distinct_iff)
  then show ?thesis using d by (auto simp: orderedIds_def sc.set_sort)
qed

lemma groupedRows_filter:
  "groupedRows registry visible =
     map (\<lambda>i. (i, filter (\<lambda>f. fd_category_id f = i) visible))
       (orderedIds (map cat_id registry) (map fst (group_by fd_category_id visible)))"
proof -
  have "i \<in> fd_category_id ` set visible" if "i \<in> set (orderedIds (map cat_id registry) (map fst (group_by fd_category_id visible)))" for i
    using that keys_group_by [of fd_category_id visible] by (auto simp: set_orderedIds)
  then show ?thesis by (simp add: groupedRows_def Let_def map_of_group_by)
qed

lemma groupedRows_keys:
  assumes "distinct (map cat_id registry)"
  shows "distinct (map fst (groupedRows registry visible))"
    and "fst ` set (groupedRows registry visible) = fd_category_id ` set visible"
  using distinct_orderedIds [OF assms distinct_group_by, of fd_category_id visible] keys_group_by [of fd_category_id visible]
  by (simp_all add: groupedRows_filter comp_def image_image set_orderedIds)

lemma mset_visible: "comparator lc \<Longrightarrow> mset (visible_feeds lc flt feeds) = mset (filter (feed_matches flt) feeds)"
  by (simp add: visible_feeds_def sorted_feeds_def comparator.mset_sort [OF comparator_by_key])

lemma sorted_visible: "comparator lc \<Longrightarrow> sorted_wrt (\<lambda>a b. lc (fd_id a) (fd_id b) \<le> 0) (visible_feeds lc flt feeds)"
  using comparator.sorted_sort [OF comparator_by_key, of lc fd_id feeds]
  by (simp add: visible_feeds_def sorted_feeds_def sorted_wrt_filter by_key_def)

section \<open>Selection\<close>

text \<open>The selection as a set: what each event does to it.\<close>

fun sel_spec :: "feeds_event \<Rightarrow> string set \<Rightarrow> string set" where
  "sel_spec (ToggleSelected i) A = (if i \<in> A then A - {i} else insert i A)"
| "sel_spec (SetGroupSelected is b) A = (if b then A \<union> set is else A - set is)"
| "sel_spec ClearSelected A = {}"
| "sel_spec (BulkSetEnabledAnswer _ _) A = {}"
| "sel_spec (BulkDeleteAnswer _) A = {}"
| "sel_spec _ A = A"

lemma set_fold_set_add: "set (fold set_add is A) = set A \<union> set is"
  by (induction "is" arbitrary: A) auto

lemma set_fold_set_delete: "set (fold set_delete is A) = set A - set is"
  by (induction "is" arbitrary: A) auto

lemma distinct_fold_set: "distinct A \<Longrightarrow> distinct (fold (\<lambda>i. if b then set_add i else set_delete i) is A)"
  by (induction "is" arbitrary: A) auto

lemmas feeds_handlers = AddFeed_submit_def AddFeed_answer_def AddFeed_handleClose_def BulkAdd_submit_def BulkAdd_settled_def
  BulkAdd_handleClose_def setEditFeed_def EditFeed_handleClose_def EditFeed_submit_def EditFeed_answer_def ingest_def
  ingest_answer_def toggleSelected_def setGroupSelected_def bulkSetEnabled_settled_def bulkSync_def bulkSync_settled_def
  bulkDelete_settled_def

lemma selected_after_step: "set (fp_selected (fst (feeds_step w e s))) = sel_spec e (set (fp_selected s))"
  by (cases e) (auto simp: feeds_handlers Let_def set_fold_set_add set_fold_set_delete split: option.splits)

lemma distinct_after_step: "distinct (fp_selected s) \<Longrightarrow> distinct (fp_selected (fst (feeds_step w e s)))"
  by (cases e) (auto simp: feeds_handlers Let_def distinct_fold_set split: option.splits)

interpretation fsel: page "FeedsPage w u" feeds_answer "feeds_step w" "\<lambda>s. distinct (fp_selected s)" for w u
  by unfold_locales (simp_all add: distinct_after_step)

lemma requests_map_mutate: "requests (map (\<lambda>v. mutate mu (h v)) vs) = map (\<lambda>v. mu_fn mu (h v)) vs"
  by (induction vs) (auto simp: mutate_def)

lemma requests_bulkDelete: "requests (bulkDelete s) = map (mu_fn useDeleteFeed) (fp_selected s)"
  using requests_map_mutate [of useDeleteFeed "\<lambda>v. v"] by (simp add: bulkDelete_def Let_def requests_def)

lemma requests_bulkSetEnabled:
  "requests (bulkSetEnabled b s) = map (\<lambda>i. mu_fn useUpdateFeed (i, toggle_body b)) (fp_selected s)"
  by (simp add: bulkSetEnabled_def requests_map_mutate)

lemma requests_bulkSync: "requests (snd (bulkSync s)) = map (mu_fn useIngestFeedNow) (bulk_sync_ids s)"
  using requests_map_mutate [of useIngestFeedNow "\<lambda>v. v" "bulk_sync_ids s"] by (simp add: bulkSync_def Let_def)

section \<open>Bulk lines\<close>

definition bulk_line :: "string \<times> string \<Rightarrow> string" where
  "bulk_line e = fst e @ CHR '','' # snd e"

definition clean_field :: "string \<Rightarrow> bool" where
  "clean_field x \<longleftrightarrow> x \<noteq> [] \<and> js_trim x = x \<and> CHR '','' \<notin> set x \<and> newline \<notin> set x"

lemma clean_ends: "clean_field x \<Longrightarrow> \<not> is_space (hd x) \<and> \<not> is_space (last x)"
  using hd_js_trim [of x] last_js_trim [of x] by (auto simp: clean_field_def)

lemma parse_bulk_line: "clean_field (fst e) \<Longrightarrow> clean_field (snd e) \<Longrightarrow> parse_line (bulk_line e) = e"
  by (cases e) (simp add: parse_line_def bulk_line_def clean_field_def js_split_append_sep js_split_no_sep)

lemma trim_bulk_line: "clean_field (fst e) \<Longrightarrow> clean_field (snd e) \<Longrightarrow> js_trim (bulk_line e) = bulk_line e"
  using clean_ends [of "fst e"] clean_ends [of "snd e"]
  by (intro js_trim_id) (auto simp: bulk_line_def clean_field_def)

lemma parse_bulk_lines:
  assumes "entries \<noteq> []" and "\<forall>e \<in> set entries. clean_field (fst e) \<and> clean_field (snd e)"
  shows "parseBulkLines (js_join [newline] (map bulk_line entries)) = entries"
proof -
  have no_nl: "\<forall>l \<in> set (map bulk_line entries). newline \<notin> set l"
    using assms(2) by (auto simp: bulk_line_def clean_field_def newline_def)
  have "js_split newline (js_join [newline] (map bulk_line entries)) = map bulk_line entries"
    using js_split_join [OF _ no_nl] assms(1) by simp
  moreover have "map js_trim (map bulk_line entries) = map bulk_line entries"
    using assms(2) by (simp add: trim_bulk_line)
  moreover have "filter (\<lambda>l. l \<noteq> []) (map bulk_line entries) = map bulk_line entries"
    by (auto simp: filter_id_conv bulk_line_def)
  moreover have "map parse_line (map bulk_line entries) = entries"
    using assms(2) by (simp add: parse_bulk_line map_idI)
  ultimately show ?thesis by (simp only: parseBulkLines_def)
qed

text \<open>A URL with a comma is cut there, and the line is still accepted.\<close>

lemma bulk_url_cut_at_comma:
  assumes "clean_field i" and "clean_field u"
  shows "parse_line (i @ CHR '','' # u @ CHR '','' # rest) = (i, u)"
  using assms by (cases "js_split CHR '','' rest") (auto simp: parse_line_def clean_field_def js_split_append_sep)

text \<open>A search for the exact id of a feed misses it when the id has a capital letter that neither provider nor URL matches.\<close>

lemma search_misses_capital_id:
  assumes "c \<in> set (fd_id f)" and "is_upper c" and "flt_search flt = fd_id f"
    and "\<not> js_includes (js_lower (fd_provider f)) (js_lower (fd_id f))" and "\<not> js_includes (js_lower (fd_url f)) (js_lower (fd_id f))"
  shows "\<not> feed_matches flt f"
proof -
  have "js_lower (fd_id f) \<noteq> fd_id f"
    using assms(1,2) by (metis imageE is_upper_lower_char js_lower_def set_map)
  moreover have "a = [] \<and> b = []" if "fd_id f = a @ js_lower (fd_id f) @ b" for a b
    using arg_cong [OF that, of length] by simp
  ultimately have "\<not> js_includes (fd_id f) (js_lower (fd_id f))"
    unfolding js_includes_iff by (metis append_Nil append_Nil2)
  then show ?thesis using assms by (auto simp: feed_matches_def Let_def)
qed

text \<open>Every visible feed can be selected by a user who may write.\<close>

lemma offers_toggle:
  assumes "\<not> fp_isLoading s" and "feeds_canWrite u"
    and f: "f \<in> set (visible_feeds (ue_lc w) (feed_filters_of (fp_params s)) (fp_feeds s))"
  shows "offers (ToggleSelected (fd_id f)) (FeedsPage w u s)"
proof -
  let ?v = "visible_feeds (ue_lc w) (feed_filters_of (fp_params s)) (fp_feeds s)"
  let ?fs = "filter (\<lambda>g. fd_category_id g = fd_category_id f) ?v"
  have row: "(fd_category_id f, ?fs) \<in> set (groupedRows (fp_categories s) ?v)"
    using f keys_group_by [of fd_category_id ?v] by (auto simp: groupedRows_filter set_orderedIds)
  have "offers (ToggleSelected (fd_id f)) (feed_row w True s f)"
    by (simp add: feed_row_def Let_def)
  then have "offers (ToggleSelected (fd_id f)) (feeds_table w True s ?v)"
    using row f unfolding feeds_table_def by fastforce
  then show ?thesis using assms(1,2) by (simp add: FeedsPage_def Let_def bex_Un)
qed

section \<open>Properties\<close>

text \<open>C16. The table shows exactly the feeds that match the filters, each once, under the heading of its own category and in
  the order of its id; no heading is repeated or empty; and the chip counts add up to the number of feeds.\<close>

theorem feed_rows_partition_visible:
  assumes "comparator lc" and "distinct (map cat_id registry)"
  shows "mset (concat (map snd (groupedRows registry (visible_feeds lc flt feeds)))) = mset (filter (feed_matches flt) feeds)
    \<and> distinct (map fst (groupedRows registry (visible_feeds lc flt feeds)))
    \<and> list_all (\<lambda>(i, fs). fs \<noteq> [] \<and> list_all (\<lambda>f. fd_category_id f = i) fs \<and> sorted_wrt (\<lambda>a b. lc (fd_id a) (fd_id b) \<le> 0) fs)
        (groupedRows registry (visible_feeds lc flt feeds))
    \<and> sum_list (map snd (categoryChips registry feeds)) = length feeds"
proof (intro conjI)
  let ?v = "visible_feeds lc flt feeds"
  let ?ids = "orderedIds (map cat_id registry) (map fst (group_by fd_category_id ?v))"
  have ids: "distinct ?ids" "set ?ids = fd_category_id ` set ?v"
    using groupedRows_keys [OF assms(2), of ?v] by (simp_all add: groupedRows_filter comp_def image_image)
  show "mset (concat (map snd (groupedRows registry ?v))) = mset (filter (feed_matches flt) feeds)"
    using mset_concat_filter [OF ids(1), of fd_category_id ?v] ids(2) mset_visible [OF assms(1)]
    by (simp add: groupedRows_filter comp_def)
  show "distinct (map fst (groupedRows registry ?v))"
    using groupedRows_keys(1) [OF assms(2)] .
  show "list_all (\<lambda>(i, fs). fs \<noteq> [] \<and> list_all (\<lambda>f. fd_category_id f = i) fs \<and> sorted_wrt (\<lambda>a b. lc (fd_id a) (fd_id b) \<le> 0) fs)
      (groupedRows registry ?v)"
    using ids(2) sorted_visible [OF assms(1), of flt feeds]
    by (auto simp: groupedRows_filter list_all_iff filter_empty_conv intro: sorted_wrt_filter)
  show "sum_list (map snd (categoryChips registry feeds)) = length feeds"
    using sum_list_counts [OF distinct_orderedIds [OF assms(2) distinct_js_unique], of fd_category_id feeds "map fd_category_id feeds"]
    by (simp add: categoryChips_def comp_def set_orderedIds)
qed

definition wit_feed :: "string \<Rightarrow> string \<Rightarrow> bool \<Rightarrow> feed" where
  "wit_feed i c en = \<lparr>fd_id = i, fd_category_id = c, fd_url = ''https://f.example/'' @ i, fd_format = ''hostfile'',
     fd_interval_seconds = 86400, fd_license = [], fd_provider = [], fd_from_catalog = False, fd_enabled = en,
     fd_last_domain_count = Some 5, fd_last_version = None, fd_last_fetched_at = None\<rparr>"

theorem feed_rows_partition_visible_witness:
  "mset (concat (map snd (groupedRows [] (visible_feeds str_cmp \<lparr>flt_search = [], flt_category = [], flt_status = ''active''\<rparr>
      [wit_feed ''b'' ''ads'' True, wit_feed ''a'' ''malware'' True, wit_feed ''c'' ''ads'' False]))))
   = {#wit_feed ''b'' ''ads'' True, wit_feed ''a'' ''malware'' True#}"
  using feed_rows_partition_visible [OF sc.comparator_axioms, of "[]" "\<lparr>flt_search = [], flt_category = [], flt_status = ''active''\<rparr>"
      "[wit_feed ''b'' ''ads'' True, wit_feed ''a'' ''malware'' True, wit_feed ''c'' ''ads'' False]"]
  by (simp add: feed_matches_def wit_feed_def)

text \<open>C7. The selection behaves as a set under every event (a row toggles its id, a header or category checkbox adds or removes
  all its ids, filters and refetches change nothing, a settled enable, disable or delete empties it), and in every state
  the page can reach, the bulk actions send one request per selected feed and none for any other, syncing only the
  selected feeds that are known and enabled.\<close>

theorem selection_is_a_set:
  "set (fp_selected (fst (feeds_step w e s))) = sel_spec e (set (fp_selected s))
   \<and> (page_run (FeedsPage w u) feeds_answer (feeds_step w) (feeds_initial ps) s cs \<longrightarrow>
       distinct (fp_selected s)
       \<and> requests (bulkDelete s) = map (mu_fn useDeleteFeed) (fp_selected s)
       \<and> requests (bulkSetEnabled b s) = map (\<lambda>i. mu_fn useUpdateFeed (i, toggle_body b)) (fp_selected s)
       \<and> requests (snd (bulkSync s)) = map (mu_fn useIngestFeedNow) (bulk_sync_ids s)
       \<and> distinct (bulk_sync_ids s) \<and> set (bulk_sync_ids s) \<subseteq> set (fp_selected s) \<inter> fd_id ` {f \<in> set (fp_feeds s). fd_enabled f})"
proof -
  have "i \<in> fd_id ` {f \<in> set (fp_feeds s). fd_enabled f}" if "i \<in> set (bulk_sync_ids s)" for i
    using that by (auto simp: bulk_sync_ids_def find_Some_iff image_iff split: option.splits) (metis nth_mem)
  moreover have "set (bulk_sync_ids s) \<subseteq> set (fp_selected s)" by (auto simp: bulk_sync_ids_def)
  moreover have "distinct (fp_selected s) \<and> distinct (bulk_sync_ids s)"
    if "page_run (FeedsPage w u) feeds_answer (feeds_step w) (feeds_initial ps) s cs"
    using fsel.run_keeps [OF that] by (simp add: feeds_initial_def bulk_sync_ids_def)
  ultimately show ?thesis
    by (auto simp: selected_after_step requests_bulkDelete requests_bulkSetEnabled requests_bulkSync)
qed

definition wit_feeds :: "feed list" where
  "wit_feeds = [wit_feed ''b'' ''ads'' True, wit_feed ''a'' ''malware'' True, wit_feed ''c'' ''ads'' False]"

definition wit_admin :: auth_user where
  "wit_admin = wit_user\<lparr>au_role := Admin\<rparr>"

definition wit_selected :: feeds_page where
  "wit_selected = (feeds_initial [])\<lparr>fp_feeds := wit_feeds, fp_isLoading := False, fp_selected := [''c'']\<rparr>"

lemma wit_visible: "wit_feed ''c'' ''ads'' False \<in> set (visible_feeds str_cmp (feed_filters_of []) wit_feeds)"
  by (simp add: visible_feeds_def sorted_feeds_def comparator.set_sort [OF comparator_by_key [OF sc.comparator_axioms]]
      feed_matches_def feed_filters_of_def FEED_FILTERS_def filter_values_def sp_get_def wit_feeds_def Let_def wit_feed_def)

lemma wit_selected_run:
  "page_run (FeedsPage wit_env (Some wit_admin)) feeds_answer (feeds_step wit_env) (feeds_initial []) wit_selected []"
proof -
  let ?s = "(feeds_initial [])\<lparr>fp_feeds := wit_feeds, fp_isLoading := False\<rparr>"
  have run: "page_run (FeedsPage wit_env (Some wit_admin)) feeds_answer (feeds_step wit_env) (feeds_initial []) ?s ([] @ [])"
    by (rule page_run.run_event [OF page_run.run_start, where e = "FeedsData wit_feeds"]) simp_all
  have off: "offers (ToggleSelected ''c'') (FeedsPage wit_env (Some wit_admin) ?s)"
    using offers_toggle [of ?s "Some wit_admin" "wit_feed ''c'' ''ads'' False" wit_env] wit_visible
    by (simp add: feeds_initial_def feeds_canWrite_def hasRole_def wit_admin_def wit_env_def, simp add: wit_feed_def)
  have stp: "feeds_step wit_env (ToggleSelected ''c'') ?s = (wit_selected, [])"
    by (simp add: toggleSelected_def set_add_def wit_selected_def feeds_initial_def)
  show ?thesis using page_run.run_event [OF run disjI1 [OF off] stp] by simp
qed

theorem selection_is_a_set_witness:
  "requests (bulkDelete wit_selected) = [mu_fn useDeleteFeed ''c''] \<and> requests (snd (bulkSync wit_selected)) = []"
  using selection_is_a_set [where s = wit_selected and w = wit_env and u = "Some wit_admin" and ps = "[]" and cs = "[]"] wit_selected_run
  by (simp add: wit_selected_def feeds_initial_def bulk_sync_ids_def wit_feeds_def wit_feed_def)

text \<open>C17. Bulk adding reads back what was typed: lines \<open>id,url\<close> built from fields without commas, line breaks or outer spaces
  parse to exactly those pairs, and submitting the form creates one feed per line, in order, with the shared settings.\<close>

theorem bulk_add_round_trip:
  assumes "entries \<noteq> []" and "\<forall>e \<in> set entries. clean_field (fst e) \<and> clean_field (snd e)"
    and "bk_lines (fp_bulkForm s) = js_join [newline] (map bulk_line entries)" and "2 \<le> length (js_trim (bk_category_id (fp_bulkForm s)))"
  shows "parseBulkLines (bk_lines (fp_bulkForm s)) = entries
    \<and> requests (snd (BulkAdd_submit s)) = map (\<lambda>e. mu_fn useCreateFeed (feed_body (bulk_entry (fp_bulkForm s) e))) entries"
proof -
  have p: "parseBulkLines (bk_lines (fp_bulkForm s)) = entries"
    using parse_bulk_lines [OF assms(1,2)] assms(3) by simp
  have "filter (\<lambda>(i, u). i = [] \<or> u = []) entries = []"
    using assms(2) by (auto simp: filter_empty_conv clean_field_def)
  then have "form_valid (BulkAdd_validate (fp_bulkForm s))"
    using p assms(1,4) by (simp add: form_valid_def BulkAdd_validate_def bulk_lines_validate_def Let_def)
  then show ?thesis
    using p requests_map_mutate [of useCreateFeed "\<lambda>e. feed_body (bulk_entry (fp_bulkForm s) e)" entries]
    by (simp add: BulkAdd_submit_def Let_def)
qed

definition wit_bulk :: feeds_page where
  "wit_bulk = (feeds_initial [])\<lparr>fp_bulkForm := BulkAdd_initial\<lparr>bk_category_id := ''ads'',
     bk_lines := ''l1,http://x/1'' @ [newline] @ ''l2,http://x/2''\<rparr>\<rparr>"

theorem bulk_add_round_trip_witness:
  "parseBulkLines (bk_lines (fp_bulkForm wit_bulk)) = [(''l1'', ''http://x/1''), (''l2'', ''http://x/2'')]"
proof -
  have clean: "clean_field ''l1'' \<and> clean_field ''l2'' \<and> clean_field ''http://x/1'' \<and> clean_field ''http://x/2''
      \<and> 2 \<le> length (js_trim ''ads'')" by code_simp
  show ?thesis
    using bulk_add_round_trip [of "[(''l1'', ''http://x/1''), (''l2'', ''http://x/2'')]" wit_bulk] clean
    by (simp add: wit_bulk_def bulk_line_def)
qed

end
