(* ===== verification/Zones.thy ===== *)
theory Zones
  imports View Schema UrlState Formatting Auth
begin

text \<open>
  \<open>pages/ZonesPage.tsx\<close> and \<open>pages/ZoneDetailPage.tsx\<close>: the list of DNS zones with its add and edit modals, and one zone
  with its records and its settings. A form hook keeps the initial values of its first render: the edit modal of the
  list is mounted once, with no zone, and is not keyed, so opening a zone does not load its values; the record modal and
  the settings form are mounted for the record or zone they show.
\<close>

section \<open>Zone helpers\<close>

definition ZONE_TYPE_META :: "string \<rightharpoonup> string \<times> string \<times> string" where
  "ZONE_TYPE_META = map_of
    [(''local'', (''blue'', ''Local'', ''Authoritative '' @ em_dash @ '' answers queries from records defined here'')),
     (''forward'', (''violet'', ''Forward'', ''Forwards queries for this zone to a specific upstream resolver'')),
     (''passthrough'', (''teal'', ''Passthrough'', ''Exempts this zone from policy filtering''))]"

definition typeMeta :: "string \<Rightarrow> string \<times> string \<times> string" where
  "typeMeta t = nullish (ZONE_TYPE_META t) (''gray'', t, [])"

definition zoneStatus :: "zone \<Rightarrow> string \<times> string" where
  "zoneStatus z = (if \<not> zn_enabled z then (''gray'', ''Disabled'') else (''green'', ''Active''))"

definition ZONE_TYPE_OPTIONS :: "(string \<times> string) list" where
  "ZONE_TYPE_OPTIONS = [(''local'', ''Local '' @ em_dash @ '' authoritative zone with records''),
     (''forward'', ''Forward '' @ em_dash @ '' relay queries to upstream resolver''),
     (''passthrough'', ''Passthrough '' @ em_dash @ '' exempt from filtering'')]"

section \<open>The forms\<close>

record zone_form =
  zf_tenant_id :: "string option"
  zf_name :: string
  zf_zone_type :: "string option"
  zf_description :: string
  zf_enabled :: bool
  zf_ttl_default :: num_input
  zf_forwarder :: string

definition AddZone_initial :: zone_form where
  "AddZone_initial = \<lparr>zf_tenant_id = Some [], zf_name = [], zf_zone_type = Some ''local'', zf_description = [], zf_enabled = True,
     zf_ttl_default = Num 300, zf_forwarder = []\<rparr>"

definition AddZone_validate :: "zone_form \<Rightarrow> field_errors" where
  "AddZone_validate v =
    [(''tenant_id'', if \<not> truthy (zf_tenant_id v) then Some ''Tenant is required'' else None),
     (''name'', if length (js_trim (zf_name v)) < 1 then Some ''Zone name is required'' else None),
     (''zone_type'', if \<not> truthy (zf_zone_type v) then Some ''Zone type is required'' else None),
     (''forwarder'', if zf_zone_type v = Some ''forward'' \<and> js_trim (zf_forwarder v) = []
                     then Some ''Forwarder IP is required for forward zones'' else None)]"

definition zone_create_body :: "zone_form \<Rightarrow> json" where
  "zone_create_body v = JObj [(''tenant_id'', jopt (zf_tenant_id v)), (''name'', JStr (zf_name v)), (''zone_type'', jopt (zf_zone_type v)),
     (''description'', JStr (zf_description v)), (''enabled'', JBool (zf_enabled v)), (''ttl_default'', jnum (zf_ttl_default v)),
     (''forwarder'', if zf_zone_type v = Some ''forward'' then JStr (zf_forwarder v) else JNull)]"

text \<open>The edit modal and the settings tab edit the same fields and send the same body.\<close>

record zone_edit =
  ze_zone_type :: "string option"
  ze_description :: string
  ze_enabled :: bool
  ze_ttl_default :: num_input
  ze_forwarder :: string

definition EditZone_initial :: "zone option \<Rightarrow> zone_edit" where
  "EditZone_initial z = (case z of
     None \<Rightarrow> \<lparr>ze_zone_type = Some ''local'', ze_description = [], ze_enabled = True, ze_ttl_default = Num 300, ze_forwarder = []\<rparr>
   | Some x \<Rightarrow> \<lparr>ze_zone_type = Some (zn_zone_type x), ze_description = zn_description x, ze_enabled = zn_enabled x,
       ze_ttl_default = Num (zn_ttl_default x), ze_forwarder = nullish (zn_forwarder x) []\<rparr>)"

definition SettingsTab_initial :: "zone \<Rightarrow> zone_edit" where
  "SettingsTab_initial z = \<lparr>ze_zone_type = Some (zn_zone_type z), ze_description = zn_description z, ze_enabled = zn_enabled z,
       ze_ttl_default = Num (zn_ttl_default z), ze_forwarder = nullish (zn_forwarder z) []\<rparr>"

definition zone_update_body :: "zone_edit \<Rightarrow> json" where
  "zone_update_body v = JObj [(''zone_type'', jopt (ze_zone_type v)), (''description'', JStr (ze_description v)),
     (''enabled'', JBool (ze_enabled v)), (''ttl_default'', jnum (ze_ttl_default v)),
     (''forwarder'', if ze_zone_type v = Some ''forward'' then jopt (or_null (ze_forwarder v)) else JNull)]"

section \<open>The list page\<close>

record zones_page =
  zp_zones :: "zone list"
  zp_tenants :: "tenant list"
  zp_isLoading :: bool
  zp_params :: search_pairs
  zp_addOpened :: bool
  zp_addForm :: zone_form
  zp_creating :: bool
  zp_editZone :: "zone option"
  zp_editForm :: zone_edit
  zp_updating :: bool

datatype zones_event =
    SetZoneFilters "(string \<times> string option) list"
  | OpenAddZone | CloseAddZone | EditAddZone "zone_form \<Rightarrow> zone_form" | SubmitAddZone | AddZoneAnswer zone_form "thrown option"
  | SetEditZone zone | CloseEditZone | EditEditZone "zone_edit \<Rightarrow> zone_edit" | SubmitEditZone
  | EditZoneAnswer zone zone_edit "thrown option"
  | NavigateZone zone | ConfirmDeleteZone zone | DeleteZoneAnswer zone "thrown option"
  | ZonesData "zone list" | TenantsData "tenant list"

fun zones_answer :: "zones_event \<Rightarrow> bool" where
  "zones_answer (AddZoneAnswer _ _) = True"
| "zones_answer (EditZoneAnswer _ _ _) = True"
| "zones_answer (DeleteZoneAnswer _ _) = True"
| "zones_answer (ZonesData _) = True"
| "zones_answer (TenantsData _) = True"
| "zones_answer _ = False"

definition ZONE_FILTERS :: "(string \<times> string) list" where
  "ZONE_FILTERS = [(''search'', []), (''type'', []), (''status'', [])]"

definition zone_filter :: "search_pairs \<Rightarrow> string \<Rightarrow> string" where
  "zone_filter ps k = nullish (map_of (filter_values ZONE_FILTERS ps) k) []"

definition zones_initial :: "search_pairs \<Rightarrow> zones_page" where
  "zones_initial ps = \<lparr>zp_zones = [], zp_tenants = [], zp_isLoading = True, zp_params = ps, zp_addOpened = False,
     zp_addForm = AddZone_initial, zp_creating = False, zp_editZone = None, zp_editForm = EditZone_initial None, zp_updating = False\<rparr>"

definition zones_canWrite :: "auth_user option \<Rightarrow> bool" where
  "zones_canWrite u = hasRole u [Operator]"

definition zone_matches :: "search_pairs \<Rightarrow> zone \<Rightarrow> bool" where
  "zone_matches ps z = (let search = zone_filter ps ''search''; status = zone_filter ps ''status'' in
     \<not> (search \<noteq> [] \<and> \<not> js_includes (js_lower (zn_name z)) (js_lower search)
         \<and> \<not> js_includes (js_lower (zn_description z)) (js_lower search))
     \<and> \<not> (zone_filter ps ''type'' \<noteq> [] \<and> zn_zone_type z \<noteq> zone_filter ps ''type'')
     \<and> \<not> (status = ''active'' \<and> \<not> zn_enabled z)
     \<and> \<not> (status = ''disabled'' \<and> zn_enabled z))"

definition visible_zones :: "(string \<Rightarrow> string \<Rightarrow> int) \<Rightarrow> search_pairs \<Rightarrow> zone list \<Rightarrow> zone list" where
  "visible_zones lc ps zones = filter (zone_matches ps) (js_sort (by_key lc zn_name) zones)"

definition totalRecords :: "zone list \<Rightarrow> int" where
  "totalRecords zones = foldl (\<lambda>s z. s + zn_record_count z) 0 zones"

definition zones_byType :: "zone list \<Rightarrow> string \<Rightarrow> nat" where
  "zones_byType zones t = length (filter (\<lambda>z. zn_zone_type z = t) zones)"

definition typeOptions :: "zone list \<Rightarrow> (string \<times> string) list" where
  "typeOptions zones = map (\<lambda>t. (t, fst (snd (typeMeta t)))) (js_sort str_cmp (js_unique (map zn_zone_type zones)))"

definition tenantName :: "tenant list \<Rightarrow> string option \<Rightarrow> string" where
  "tenantName ts i = (case find (\<lambda>t. Some (tn_id t) = i) ts of None \<Rightarrow> em_dash | Some t \<Rightarrow> tn_name t)"

subsection \<open>Handlers\<close>

definition AddZone_handleClose :: "zones_page \<Rightarrow> zones_page" where
  "AddZone_handleClose s = s\<lparr>zp_addForm := AddZone_initial, zp_addOpened := False\<rparr>"

definition AddZone_submit :: "zones_page \<Rightarrow> zones_page \<times> cmd list" where
  "AddZone_submit s = (let v = zp_addForm s in
     if form_valid (AddZone_validate v) then (s\<lparr>zp_creating := True\<rparr>, [mutate useCreateZone (zone_create_body v)]) else (s, []))"

definition AddZone_answer :: "zone_form \<Rightarrow> thrown option \<Rightarrow> zones_page \<Rightarrow> zones_page \<times> cmd list" where
  "AddZone_answer v r s = (let s' = s\<lparr>zp_creating := False\<rparr> in
     case r of
       None \<Rightarrow> (AddZone_handleClose s', settled_ok useCreateZone (zone_create_body v)
                 [Notify (''Zone '' @ quoted (zf_name v) @ '' created'') ''green''])
     | Some e \<Rightarrow> (s', [notify_error e]))"

text \<open>\<open>form.reset()\<close> restores the values of the first render, when no zone was being edited.\<close>

definition EditZone_handleClose :: "zones_page \<Rightarrow> zones_page" where
  "EditZone_handleClose s = s\<lparr>zp_editForm := EditZone_initial None, zp_editZone := None\<rparr>"

definition EditZone_submit :: "zones_page \<Rightarrow> zones_page \<times> cmd list" where
  "EditZone_submit s = (case zp_editZone s of
     None \<Rightarrow> (s, [])
   | Some z \<Rightarrow> (s\<lparr>zp_updating := True\<rparr>, [mutate useUpdateZone (zn_id z, zone_update_body (zp_editForm s))]))"

definition EditZone_answer :: "zone \<Rightarrow> zone_edit \<Rightarrow> thrown option \<Rightarrow> zones_page \<Rightarrow> zones_page \<times> cmd list" where
  "EditZone_answer z v r s = (let s' = s\<lparr>zp_updating := False\<rparr> in
     case r of
       None \<Rightarrow> (EditZone_handleClose s', settled_ok useUpdateZone (zn_id z, zone_update_body v)
                 [Notify (''Zone '' @ quoted (zn_name z) @ '' updated'') ''green''])
     | Some e \<Rightarrow> (s', [notify_error e]))"

definition zone_delete_text :: "zone \<Rightarrow> string" where
  "zone_delete_text z = ''Delete '' @ zn_name z @ ''? All '' @ int_str (zn_record_count z) @ '' records will be removed.''"

definition zones_confirmDelete :: "zone \<Rightarrow> cmd list" where
  "zones_confirmDelete z = [OpenConfirm ''Delete zone'' (zone_delete_text z) ''Delete'' [mutate useDeleteZone (zn_id z)]]"

definition zones_delete_answer :: "zone \<Rightarrow> thrown option \<Rightarrow> cmd list" where
  "zones_delete_answer z r = (case r of
     None \<Rightarrow> settled_ok useDeleteZone (zn_id z) [Notify (''Zone '' @ quoted (zn_name z) @ '' deleted'') ''green'']
   | Some e \<Rightarrow> [notify_error e])"

fun zones_step :: "zones_event \<Rightarrow> zones_page \<Rightarrow> zones_page \<times> cmd list" where
  "zones_step (SetZoneFilters patch) s = (s\<lparr>zp_params := setFilters ZONE_FILTERS patch (zp_params s)\<rparr>, [])"
| "zones_step OpenAddZone s = (s\<lparr>zp_addOpened := True\<rparr>, [])"
| "zones_step CloseAddZone s = (AddZone_handleClose s, [])"
| "zones_step (EditAddZone f) s = (s\<lparr>zp_addForm := f (zp_addForm s)\<rparr>, [])"
| "zones_step SubmitAddZone s = AddZone_submit s"
| "zones_step (AddZoneAnswer v r) s = AddZone_answer v r s"
| "zones_step (SetEditZone z) s = (s\<lparr>zp_editZone := Some z\<rparr>, [])"
| "zones_step CloseEditZone s = (EditZone_handleClose s, [])"
| "zones_step (EditEditZone f) s = (s\<lparr>zp_editForm := f (zp_editForm s)\<rparr>, [])"
| "zones_step SubmitEditZone s = EditZone_submit s"
| "zones_step (EditZoneAnswer z v r) s = EditZone_answer z v r s"
| "zones_step (NavigateZone z) s = (s, [Goto (''/zones/'' @ zn_id z)])"
| "zones_step (ConfirmDeleteZone z) s = (s, zones_confirmDelete z)"
| "zones_step (DeleteZoneAnswer z r) s = (s, zones_delete_answer z r)"
| "zones_step (ZonesData zs) s = (s\<lparr>zp_zones := zs, zp_isLoading := False\<rparr>, [])"
| "zones_step (TenantsData ts) s = (s\<lparr>zp_tenants := ts\<rparr>, [])"

subsection \<open>Rendering\<close>

definition AddZoneModal :: "zones_page \<Rightarrow> zones_event view list" where
  "AddZoneModal s = (let v = zp_addForm s in show_if (zp_addOpened s)
    [Modal ''Add DNS zone'' CloseAddZone [Form SubmitAddZone
      ([Select ''Tenant'' (tenantOptions (zp_tenants s)) (zf_tenant_id v) False (\<lambda>x. EditAddZone (zf_tenant_id_update (\<lambda>_. x))),
        TextInput ''Zone name'' (zf_name v) True False (\<lambda>x. EditAddZone (zf_name_update (\<lambda>_. x))),
        Select ''Zone type'' ZONE_TYPE_OPTIONS (zf_zone_type v) False (\<lambda>x. EditAddZone (zf_zone_type_update (\<lambda>_. x)))]
       @ show_if (zf_zone_type v = Some ''forward'')
         [TextInput ''Forwarder address'' (zf_forwarder v) True False (\<lambda>x. EditAddZone (zf_forwarder_update (\<lambda>_. x)))]
       @ [TextInput ''Description'' (zf_description v) False False (\<lambda>x. EditAddZone (zf_description_update (\<lambda>_. x))),
          NumberInput ''Default TTL (seconds)'' (zf_ttl_default v) (Some 0) (Some 86400) False
            (\<lambda>x. EditAddZone (zf_ttl_default_update (\<lambda>_. x))),
          Switch ''Enable zone'' (zf_enabled v) False (EditAddZone (zf_enabled_update Not)),
          Button ''Cancel'' False CloseAddZone, Submit ''Create zone'' (zp_creating s)])]])"

definition EditZoneModal :: "zones_page \<Rightarrow> zones_event view list" where
  "EditZoneModal s = (case zp_editZone s of
     None \<Rightarrow> []
   | Some z \<Rightarrow> (let v = zp_editForm s in
      [Modal (''Edit zone: '' @ zn_name z) CloseEditZone [Form SubmitEditZone
        ([TextInput ''Zone name'' (zn_name z) False True (\<lambda>_. CloseEditZone),
          Select ''Zone type'' ZONE_TYPE_OPTIONS (ze_zone_type v) False (\<lambda>x. EditEditZone (ze_zone_type_update (\<lambda>_. x)))]
         @ show_if (ze_zone_type v = Some ''forward'')
           [TextInput ''Forwarder address'' (ze_forwarder v) False False (\<lambda>x. EditEditZone (ze_forwarder_update (\<lambda>_. x)))]
         @ [TextInput ''Description'' (ze_description v) False False (\<lambda>x. EditEditZone (ze_description_update (\<lambda>_. x))),
            NumberInput ''Default TTL (seconds)'' (ze_ttl_default v) (Some 0) (Some 86400) False
              (\<lambda>x. EditEditZone (ze_ttl_default_update (\<lambda>_. x))),
            Switch ''Enable zone'' (ze_enabled v) False (EditEditZone (ze_enabled_update Not)),
            Button ''Cancel'' False CloseEditZone, Submit ''Save changes'' (zp_updating s)])]]))"

definition zone_kpis :: "(int \<Rightarrow> string) \<Rightarrow> zone list \<Rightarrow> zones_event view list" where
  "zone_kpis loc zones =
    [KpiCard ''Total zones'' (nat_str (length zones)) (nat_str (length (filter zn_enabled zones)) @ '' active'') None,
     KpiCard ''Local (authoritative)'' (nat_str (zones_byType zones ''local'')) ''Own records defined here'' None,
     KpiCard ''Forward'' (nat_str (zones_byType zones ''forward'')) ''Relay to upstream resolver'' None,
     KpiCard ''Total records'' (loc (totalRecords zones)) ''Across all local zones'' None]"

definition zone_filter_bar :: "search_pairs \<Rightarrow> zone list \<Rightarrow> zones_event view" where
  "zone_filter_bar ps zones = Box
    [TextInput [] (zone_filter ps ''search'') False False (\<lambda>x. SetZoneFilters [(''search'', Some x)]),
     Select [] (typeOptions zones) (or_null (zone_filter ps ''type'')) False (\<lambda>v. SetZoneFilters [(''type'', Some (nullish v []))]),
     Select [] [(''active'', ''Active''), (''disabled'', ''Disabled'')] (or_null (zone_filter ps ''status'')) False
       (\<lambda>v. SetZoneFilters [(''status'', Some (nullish v []))])]"

definition zone_row :: "bool \<Rightarrow> tenant list \<Rightarrow> zone \<Rightarrow> zones_event view" where
  "zone_row canWrite ts z = (let st = zoneStatus z; tm = typeMeta (zn_zone_type z) in Row
    [Box ([Anchor (''/zones/'' @ zn_id z) [Text (zn_name z)], Button [] False (NavigateZone z)]
        @ show_if (zn_description z \<noteq> []) [Text (zn_description z)]),
     Text (tenantName ts (zn_tenant_id z)),
     Tooltip (snd (snd tm)) (Badge (fst tm) (fst (snd tm))),
     Box [Badge (fst st) [], Text (snd st)],
     Text (if zn_record_count z > 0 then int_str (zn_record_count z) else em_dash),
     Text (int_str (zn_ttl_default z) @ ''s''),
     Text (nullish (zn_forwarder z) em_dash),
     Box ([Tooltip ''Open zone'' (Button [] False (NavigateZone z))]
        @ show_if canWrite [Tooltip ''Edit'' (Button [] False (SetEditZone z)),
                            Tooltip ''Delete'' (Button [] False (ConfirmDeleteZone z))])])"

definition ZonesPage :: "ui_env \<Rightarrow> auth_user option \<Rightarrow> zones_page \<Rightarrow> zones_event view" where
  "ZonesPage w u s =
    (if zp_isLoading s then Loader
     else let canWrite = zones_canWrite u; zones = zp_zones s; visible = visible_zones (ue_lc w) (zp_params s) zones in Box
      ([Text ''DNS Zones'', Text ''Manage local authoritative zones, forwarders, and passthrough exemptions.'']
       @ show_if canWrite [Button ''Add zone'' False OpenAddZone]
       @ zone_kpis (ue_loc w) zones
       @ [zone_filter_bar (zp_params s) zones,
          Table [''Zone'', ''Tenant'', ''Type'', ''Status'', ''Records'', ''TTL'', ''Forwarder'', []]
            (show_if (visible = []) [Row [Text ''No zones match the current filters'']]
             @ map (zone_row canWrite (zp_tenants s)) visible)]
       @ show_if (visible \<noteq> []) [Text (nat_str (length visible) @ '' of '' @ nat_str (length zones) @ '' zones'')]
       @ AddZoneModal s @ EditZoneModal s))"

section \<open>Read-only users\<close>

definition zones_idle :: "zones_page \<Rightarrow> bool" where
  "zones_idle s \<longleftrightarrow> \<not> zp_addOpened s \<and> zp_editZone s = None"

lemma offers_zone_row: "offers e (zone_row False ts z) \<Longrightarrow> e = NavigateZone z"
  by (auto simp: zone_row_def Let_def)

lemma zones_read_only_offers:
  assumes "\<not> zones_canWrite u" and "zones_idle s" and "offers e (ZonesPage w u s)"
  shows "(\<exists>patch. e = SetZoneFilters patch) \<or> (\<exists>z. e = NavigateZone z)"
  using assms by (auto simp: ZonesPage_def zones_idle_def AddZoneModal_def EditZoneModal_def zone_kpis_def zone_filter_bar_def Let_def
    dest!: offers_zone_row split: if_splits)

lemma zones_answer_idle: "zones_idle s \<Longrightarrow> zones_answer e \<Longrightarrow> zones_idle (fst (zones_step e s))"
  by (cases e) (auto simp: zones_idle_def AddZone_answer_def AddZone_handleClose_def EditZone_answer_def EditZone_handleClose_def Let_def
      split: option.splits)

lemma zones_answer_silent: "zones_answer e \<Longrightarrow> requests (snd (zones_step e s)) = []"
  by (cases e) (auto simp: AddZone_answer_def EditZone_answer_def zones_delete_answer_def Let_def split: option.splits)

interpretation zro: read_only_page "ZonesPage w u" zones_answer zones_step "\<lambda>s. \<not> zones_canWrite u \<and> zones_idle s" for w u
proof unfold_locales
  fix s e assume i: "\<not> zones_canWrite u \<and> zones_idle s"
  { assume "offers e (ZonesPage w u s)"
    then show "\<not> zones_canWrite u \<and> zones_idle (fst (zones_step e s))" and "writes (snd (zones_step e s)) = []"
      using i zones_read_only_offers [of u s e w] by (auto simp: zones_idle_def) }
  { assume "zones_answer e"
    then show "\<not> zones_canWrite u \<and> zones_idle (fst (zones_step e s))" and "writes (snd (zones_step e s)) = []"
      using i zones_answer_idle zones_answer_silent by (auto simp: writes_def) }
qed

section \<open>The edit form of the list\<close>

text \<open>The edit form is edited only while its modal is open, and closing the modal resets it.\<close>

definition edit_form_clean :: "zones_page \<Rightarrow> bool" where
  "edit_form_clean s \<longleftrightarrow> (zp_editZone s = None \<longrightarrow> zp_editForm s = EditZone_initial None)"

lemma edit_form_offered: "zp_editZone s = None \<Longrightarrow> \<not> offers (EditEditZone f) (ZonesPage w u s)"
  by (auto simp: ZonesPage_def AddZoneModal_def EditZoneModal_def zone_kpis_def zone_filter_bar_def zone_row_def Let_def
      split: if_splits)

interpretation zef: page "ZonesPage w u" zones_answer zones_step edit_form_clean for w u
proof unfold_locales
  fix s e assume i: "edit_form_clean s"
  { assume "offers e (ZonesPage w u s)"
    then show "edit_form_clean (fst (zones_step e s))"
      using i edit_form_offered [of s _ w u]
      by (cases e) (auto simp: edit_form_clean_def AddZone_handleClose_def AddZone_submit_def EditZone_handleClose_def EditZone_submit_def
          AddZone_answer_def EditZone_answer_def Let_def split: option.splits) }
  { assume "zones_answer e"
    then show "edit_form_clean (fst (zones_step e s))"
      using i by (cases e) (auto simp: edit_form_clean_def AddZone_handleClose_def EditZone_handleClose_def
          AddZone_answer_def EditZone_answer_def Let_def split: option.splits) }
qed

section \<open>Properties\<close>

text \<open>C33. Opening the edit modal on any zone shows the blank defaults instead of the zone's values: in every reachable state
  with no zone being edited, opening zone \<open>z\<close> and saving at once sends an update that makes \<open>z\<close> an enabled local zone
  with an empty description, TTL 300 and no forwarder.\<close>

theorem zone_edit_overwrites_zone:
  assumes "page_run (ZonesPage w u) zones_answer zones_step (zones_initial ps) s cs" and "zp_editZone s = None"
  shows "zp_editForm (fst (zones_step (SetEditZone z) s)) = EditZone_initial None
    \<and> requests (snd (zones_step SubmitEditZone (fst (zones_step (SetEditZone z) s)))) =
      [mu_fn useUpdateZone (zn_id z, JObj [(''zone_type'', JStr ''local''), (''description'', JStr []), (''enabled'', JBool True),
         (''ttl_default'', JNum ''300''), (''forwarder'', JNull)])]"
proof -
  have "edit_form_clean s"
    using zef.run_keeps [OF assms(1)] by (simp add: edit_form_clean_def zones_initial_def)
  then have "zp_editForm s = EditZone_initial None" using assms(2) by (simp add: edit_form_clean_def)
  moreover have "int_str 300 = ''300''" by code_simp
  ultimately show ?thesis
    by (simp add: EditZone_submit_def EditZone_initial_def zone_update_body_def jopt_def jint_def mutate_def)
qed

definition wit_zone :: zone where
  "wit_zone = \<lparr>zn_id = ''z1'', zn_tenant_id = Some ''t1'', zn_name = ''corp.local'', zn_zone_type = ''forward'',
     zn_description = ''branch'', zn_enabled = False, zn_ttl_default = 60, zn_forwarder = Some ''10.0.0.53'', zn_record_count = 0,
     zn_created_at = ''2026-01-01T00:00:00Z'', zn_updated_at = ''2026-01-01T00:00:00Z''\<rparr>"

theorem zone_edit_overwrites_zone_witness:
  "zp_editForm (fst (zones_step (SetEditZone wit_zone) (zones_initial []))) = EditZone_initial None
   \<and> EditZone_initial None \<noteq> EditZone_initial (Some wit_zone)"
  using zone_edit_overwrites_zone [OF page_run.run_start, where ps = "[]" and z = wit_zone]
  by (simp add: zones_initial_def EditZone_initial_def wit_zone_def)

end
