(* ===== verification/ZoneDetail.thy ===== *)
theory ZoneDetail
  imports Zones
begin

text \<open>
  \<open>pages/ZoneDetailPage.tsx\<close>: one zone, its records with their add and edit modal, the export of the zone file and the
  settings form. The record modal is mounted when it opens, so its form starts from the record; the settings form is
  mounted with the first answer that has the zone. A number field of a record is \<open>null\<close>, a number, or the empty text of
  a cleared input.
\<close>

section \<open>Records\<close>

definition detail_typeMeta :: "string \<Rightarrow> string \<times> string" where
  "detail_typeMeta t = nullish (map_of [(''local'', (''blue'', ''Local'')), (''forward'', (''violet'', ''Forward'')),
     (''passthrough'', (''teal'', ''Passthrough''))] t) (''gray'', t)"

definition RECORD_TYPES :: "string list" where
  "RECORD_TYPES = [''A'', ''AAAA'', ''CNAME'', ''MX'', ''TXT'', ''NS'', ''PTR'', ''SRV'', ''CAA'']"

definition RECORD_TYPE_OPTIONS :: "(string \<times> string) list" where
  "RECORD_TYPE_OPTIONS = map (\<lambda>t. (t, t)) RECORD_TYPES"

definition RECORD_TYPE_COLOR :: "string \<rightharpoonup> string" where
  "RECORD_TYPE_COLOR = map_of [(''A'', ''blue''), (''AAAA'', ''indigo''), (''CNAME'', ''cyan''), (''MX'', ''violet''),
     (''TXT'', ''gray''), (''NS'', ''teal''), (''PTR'', ''orange''), (''SRV'', ''pink''), (''CAA'', ''red'')]"

definition hasPriority :: "string option \<Rightarrow> bool" where
  "hasPriority t \<longleftrightarrow> t = Some ''MX'' \<or> t = Some ''SRV''"

record record_form =
  rf_name :: string
  rf_record_type :: "string option"
  rf_data :: string
  rf_ttl :: "num_input option"
  rf_priority :: "num_input option"
  rf_enabled :: bool

definition RecordModal_initial :: "dns_record option \<Rightarrow> record_form" where
  "RecordModal_initial r = (case r of
     None \<Rightarrow> \<lparr>rf_name = ''@'', rf_record_type = Some ''A'', rf_data = [], rf_ttl = None, rf_priority = None, rf_enabled = True\<rparr>
   | Some x \<Rightarrow> \<lparr>rf_name = dn_name x, rf_record_type = Some (dn_record_type x), rf_data = dn_data x,
       rf_ttl = map_option Num (dn_ttl x), rf_priority = map_option Num (dn_priority x), rf_enabled = dn_enabled x\<rparr>)"

definition RecordModal_validate :: "record_form \<Rightarrow> field_errors" where
  "RecordModal_validate v =
    [(''name'', if length (js_trim (rf_name v)) < 1 then Some ''Name is required'' else None),
     (''data'', if length (js_trim (rf_data v)) < 1 then Some ''Data is required'' else None)]"

definition jnum_or_null :: "num_input option \<Rightarrow> json" where
  "jnum_or_null v = (case v of None \<Rightarrow> JNull | Some n \<Rightarrow> jnum n)"

definition record_body :: "record_form \<Rightarrow> json" where
  "record_body v = JObj [(''name'', JStr (rf_name v)), (''record_type'', jopt (rf_record_type v)), (''data'', JStr (rf_data v)),
     (''ttl'', jnum_or_null (rf_ttl v)),
     (''priority'', if hasPriority (rf_record_type v) then jnum_or_null (rf_priority v) else JNull),
     (''enabled'', JBool (rf_enabled v))]"

section \<open>Page state and events\<close>

record zone_page =
  zd_zoneId :: string
  zd_zone :: "zone option"
  zd_isLoading :: bool
  zd_records :: "dns_record list"
  zd_recordsLoading :: bool
  zd_showModal :: bool
  zd_addForm :: record_form
  zd_adding :: bool
  zd_editRecord :: "dns_record option"
  zd_editForm :: record_form
  zd_saving :: bool
  zd_settings :: zone_edit
  zd_settingsPending :: bool

datatype zone_event =
    ZoneData "zone option" | RecordsData "dns_record list"
  | ShowAddRecord | CloseAddRecord | EditAddRecord "record_form \<Rightarrow> record_form" | SubmitAddRecord
  | AddRecordAnswer record_form "thrown option"
  | SetEditRecord dns_record | CloseEditRecord | EditEditRecord "record_form \<Rightarrow> record_form" | SubmitEditRecord
  | EditRecordAnswer dns_record record_form "thrown option"
  | ConfirmDeleteRecord dns_record | DeleteRecordAnswer dns_record "thrown option"
  | ExportZone | ExportAnswer nat string
  | EditSettings "zone_edit \<Rightarrow> zone_edit" | SubmitSettings | SettingsAnswer zone_edit "thrown option"
  | ConfirmDeleteThis | DeleteThisAnswer "thrown option"

fun zone_answer :: "zone_event \<Rightarrow> bool" where
  "zone_answer (ZoneData _) = True"
| "zone_answer (RecordsData _) = True"
| "zone_answer (AddRecordAnswer _ _) = True"
| "zone_answer (EditRecordAnswer _ _ _) = True"
| "zone_answer (DeleteRecordAnswer _ _) = True"
| "zone_answer (ExportAnswer _ _) = True"
| "zone_answer (SettingsAnswer _ _) = True"
| "zone_answer (DeleteThisAnswer _) = True"
| "zone_answer _ = False"

definition zone_initial :: "string \<Rightarrow> zone_page" where
  "zone_initial i = \<lparr>zd_zoneId = i, zd_zone = None, zd_isLoading = True, zd_records = [], zd_recordsLoading = True,
     zd_showModal = False, zd_addForm = RecordModal_initial None, zd_adding = False, zd_editRecord = None,
     zd_editForm = RecordModal_initial None, zd_saving = False, zd_settings = EditZone_initial None, zd_settingsPending = False\<rparr>"

section \<open>Handlers\<close>

text \<open>The records tab is unmounted while the zone is a passthrough zone, which closes its modals.\<close>

definition zone_data :: "zone option \<Rightarrow> zone_page \<Rightarrow> zone_page" where
  "zone_data zo s = (let s1 = s\<lparr>zd_zone := zo, zd_isLoading := False\<rparr> in
     case zo of
       None \<Rightarrow> s1
     | Some z \<Rightarrow> (let s2 = (if zd_zone s = None then s1\<lparr>zd_settings := SettingsTab_initial z\<rparr> else s1) in
         if zn_zone_type z = ''passthrough'' then s2\<lparr>zd_showModal := False, zd_editRecord := None\<rparr> else s2))"

definition setEditRecord :: "dns_record \<Rightarrow> zone_page \<Rightarrow> zone_page" where
  "setEditRecord r s = (if zd_editRecord s = None
     then s\<lparr>zd_editRecord := Some r, zd_editForm := RecordModal_initial (Some r), zd_saving := False\<rparr>
     else s\<lparr>zd_editRecord := Some r\<rparr>)"

definition record_add :: "zone_page \<Rightarrow> zone_page \<times> cmd list" where
  "record_add s = (let v = zd_addForm s in
     if form_valid (RecordModal_validate v)
     then (s\<lparr>zd_adding := True\<rparr>, [mutate (useCreateRecord (zd_zoneId s)) (record_body v)]) else (s, []))"

definition record_add_answer :: "record_form \<Rightarrow> thrown option \<Rightarrow> zone_page \<Rightarrow> zone_page \<times> cmd list" where
  "record_add_answer v r s = (let s' = s\<lparr>zd_adding := False\<rparr> in
     case r of
       None \<Rightarrow> (s'\<lparr>zd_showModal := False\<rparr>, settled_ok (useCreateRecord (zd_zoneId s)) (record_body v) [Notify ''Record added'' ''green''])
     | Some e \<Rightarrow> (s', [notify_error e]))"

definition record_save :: "zone_page \<Rightarrow> zone_page \<times> cmd list" where
  "record_save s = (case zd_editRecord s of
     None \<Rightarrow> (s, [])
   | Some r \<Rightarrow> (let v = zd_editForm s in
       if form_valid (RecordModal_validate v)
       then (s\<lparr>zd_saving := True\<rparr>, [mutate (useUpdateRecord (zd_zoneId s)) (dn_id r, record_body v)]) else (s, [])))"

definition record_save_answer :: "dns_record \<Rightarrow> record_form \<Rightarrow> thrown option \<Rightarrow> zone_page \<Rightarrow> zone_page \<times> cmd list" where
  "record_save_answer x v r s = (let s' = s\<lparr>zd_saving := False\<rparr> in
     case r of
       None \<Rightarrow> (s'\<lparr>zd_editRecord := None\<rparr>,
                 settled_ok (useUpdateRecord (zd_zoneId s)) (dn_id x, record_body v) [Notify ''Record updated'' ''green''])
     | Some e \<Rightarrow> (s', [notify_error e]))"

definition record_confirmDelete :: "dns_record \<Rightarrow> zone_page \<Rightarrow> cmd list" where
  "record_confirmDelete r s = [OpenConfirm ''Delete record''
     (''Delete '' @ dn_name r @ '' '' @ dn_record_type r @ '' '' @ dn_data r @ ''?'') ''Delete''
     [mutate (useDeleteRecord (zd_zoneId s)) (dn_id r)]]"

definition record_delete_answer :: "dns_record \<Rightarrow> thrown option \<Rightarrow> zone_page \<Rightarrow> cmd list" where
  "record_delete_answer x r s = (case r of
     None \<Rightarrow> settled_ok (useDeleteRecord (zd_zoneId s)) (dn_id x) [Notify ''Record deleted'' ''green'']
   | Some e \<Rightarrow> [notify_error e])"

text \<open>\<open>fetch\<close> of the export, and its answer: the status and the body. \<open>res.ok\<close> is a status from 200 to 299.\<close>

definition handleExport :: "zone_page \<Rightarrow> cmd list" where
  "handleExport s = [Send (RawGet (''/api/v1/dns-zones/'' @ zd_zoneId s @ ''/export'') [])]"

definition export_answer :: "nat \<Rightarrow> string \<Rightarrow> zone_page \<Rightarrow> cmd list" where
  "export_answer status content s =
    (if \<not> (200 \<le> status \<and> status < 300) then [Notify (''Export failed: '' @ nat_str status) ''red'']
     else (case zd_zone s of None \<Rightarrow> [] | Some z \<Rightarrow> [Download (zn_name z @ ''.zone'') content]))"

definition settings_submit :: "zone_page \<Rightarrow> zone_page \<times> cmd list" where
  "settings_submit s = (case zd_zone s of
     None \<Rightarrow> (s, [])
   | Some z \<Rightarrow> (s\<lparr>zd_settingsPending := True\<rparr>, [mutate useUpdateZone (zn_id z, zone_update_body (zd_settings s))]))"

definition settings_answer :: "zone_edit \<Rightarrow> thrown option \<Rightarrow> zone_page \<Rightarrow> zone_page \<times> cmd list" where
  "settings_answer v r s = (s\<lparr>zd_settingsPending := False\<rparr>, (case r of
      None \<Rightarrow> settled_ok useUpdateZone (zd_zoneId s, zone_update_body v) [Notify ''Zone settings saved'' ''green'']
    | Some e \<Rightarrow> [notify_error e]))"

definition zone_confirmDelete :: "zone_page \<Rightarrow> cmd list" where
  "zone_confirmDelete s = (case zd_zone s of
     None \<Rightarrow> []
   | Some z \<Rightarrow> [OpenConfirm ''Delete zone'' (zone_delete_text z) ''Delete'' [mutate useDeleteZone (zn_id z)]])"

definition zone_delete_answer :: "thrown option \<Rightarrow> zone_page \<Rightarrow> cmd list" where
  "zone_delete_answer r s = (case r of
     None \<Rightarrow> settled_ok useDeleteZone (zd_zoneId s) [Notify ''Zone deleted'' ''green'', Goto ''/zones'']
   | Some e \<Rightarrow> [notify_error e])"

fun zone_step :: "zone_event \<Rightarrow> zone_page \<Rightarrow> zone_page \<times> cmd list" where
  "zone_step (ZoneData z) s = (zone_data z s, [])"
| "zone_step (RecordsData rs) s = (s\<lparr>zd_records := rs, zd_recordsLoading := False\<rparr>, [])"
| "zone_step ShowAddRecord s = (s\<lparr>zd_showModal := True, zd_addForm := RecordModal_initial None, zd_adding := False\<rparr>, [])"
| "zone_step CloseAddRecord s = (s\<lparr>zd_showModal := False\<rparr>, [])"
| "zone_step (EditAddRecord f) s = (s\<lparr>zd_addForm := f (zd_addForm s)\<rparr>, [])"
| "zone_step SubmitAddRecord s = record_add s"
| "zone_step (AddRecordAnswer v r) s = record_add_answer v r s"
| "zone_step (SetEditRecord r) s = (setEditRecord r s, [])"
| "zone_step CloseEditRecord s = (s\<lparr>zd_editRecord := None\<rparr>, [])"
| "zone_step (EditEditRecord f) s = (s\<lparr>zd_editForm := f (zd_editForm s)\<rparr>, [])"
| "zone_step SubmitEditRecord s = record_save s"
| "zone_step (EditRecordAnswer x v r) s = record_save_answer x v r s"
| "zone_step (ConfirmDeleteRecord r) s = (s, record_confirmDelete r s)"
| "zone_step (DeleteRecordAnswer x r) s = (s, record_delete_answer x r s)"
| "zone_step ExportZone s = (s, handleExport s)"
| "zone_step (ExportAnswer st c) s = (s, export_answer st c s)"
| "zone_step (EditSettings f) s = (s\<lparr>zd_settings := f (zd_settings s)\<rparr>, [])"
| "zone_step SubmitSettings s = settings_submit s"
| "zone_step (SettingsAnswer v r) s = settings_answer v r s"
| "zone_step ConfirmDeleteThis s = (s, zone_confirmDelete s)"
| "zone_step (DeleteThisAnswer r) s = (s, zone_delete_answer r s)"

section \<open>Rendering\<close>

definition RecordModal :: "dns_record option \<Rightarrow> record_form \<Rightarrow> bool \<Rightarrow> zone_event \<Rightarrow> zone_event
     \<Rightarrow> ((record_form \<Rightarrow> record_form) \<Rightarrow> zone_event) \<Rightarrow> zone_event view" where
  "RecordModal r v pending close submit edit =
    Modal (case r of None \<Rightarrow> ''Add DNS record'' | Some x \<Rightarrow> ''Edit record: '' @ dn_name x @ '' '' @ dn_record_type x) close
     [Form submit
      ([TextInput ''Name'' (rf_name v) True False (\<lambda>x. edit (rf_name_update (\<lambda>_. x))),
        Select ''Type'' RECORD_TYPE_OPTIONS (rf_record_type v) False (\<lambda>x. edit (rf_record_type_update (\<lambda>_. x))),
        TextInput ''Data'' (rf_data v) True False (\<lambda>x. edit (rf_data_update (\<lambda>_. x)))]
       @ show_if (hasPriority (rf_record_type v))
         [NumberInput ''Priority'' (nullish (rf_priority v) Blank) (Some 0) (Some 65535) False
            (\<lambda>x. edit (rf_priority_update (\<lambda>_. Some x)))]
       @ [NumberInput ''TTL (seconds)'' (nullish (rf_ttl v) Blank) (Some 0) None False (\<lambda>x. edit (rf_ttl_update (\<lambda>_. Some x))),
          Switch ''Enabled'' (rf_enabled v) False (edit (rf_enabled_update Not)),
          Button ''Cancel'' False close,
          Submit (case r of None \<Rightarrow> ''Add record'' | Some _ \<Rightarrow> ''Save changes'') pending])]"

definition record_row :: "bool \<Rightarrow> dns_record \<Rightarrow> zone_event view" where
  "record_row canWrite r = Row
    [Badge (if dn_enabled r then ''green'' else ''gray'') [], Text (dn_name r),
     Badge (nullish (RECORD_TYPE_COLOR (dn_record_type r)) ''gray'') (dn_record_type r),
     Text (case dn_ttl r of None \<Rightarrow> ''default'' | Some n \<Rightarrow> int_str n),
     Text (case dn_priority r of None \<Rightarrow> em_dash | Some n \<Rightarrow> int_str n),
     Text (dn_data r), Text (if dn_enabled r then ''Yes'' else ''No''),
     Box (show_if canWrite [Tooltip ''Edit'' (Button [] False (SetEditRecord r)),
                            Tooltip ''Delete'' (Button [] False (ConfirmDeleteRecord r))])]"

definition RecordsTab :: "bool \<Rightarrow> zone_page \<Rightarrow> zone_event view" where
  "RecordsTab canWrite s = (let records = zd_records s in
     if zd_recordsLoading s then Loader
     else Box
      ([Text (plural (length records) ''record'' @ '' '' @ mid_dot @ '' '' @ nat_str (length (filter dn_enabled records)) @ '' active''),
        Tooltip ''Export as BIND zone file'' (Button ''Export zone file'' False ExportZone)]
       @ show_if canWrite [Button ''Add record'' False ShowAddRecord]
       @ [Table [[], ''Name'', ''Type'', ''TTL'', ''Priority'', ''Data'', ''On'', []]
            (show_if (records = []) [Row [Text (''No records yet.''
                @ (if canWrite then '' Click '' @ [CHR 0xE2, CHR 0x80, CHR 0x9C] @ ''Add record'' @ [CHR 0xE2, CHR 0x80, CHR 0x9D] @ '' to create the first one.'' else []))]]
             @ map (record_row canWrite) records)]
       @ show_if (zd_showModal s)
         [RecordModal None (zd_addForm s) (zd_adding s) CloseAddRecord SubmitAddRecord EditAddRecord]
       @ (case zd_editRecord s of None \<Rightarrow> []
          | Some r \<Rightarrow> [RecordModal (Some r) (zd_editForm s) (zd_saving s) CloseEditRecord SubmitEditRecord EditEditRecord])))"

definition DETAIL_ZONE_TYPE_OPTIONS :: "(string \<times> string) list" where
  "DETAIL_ZONE_TYPE_OPTIONS = [(''local'', ''Local '' @ em_dash @ '' authoritative zone''),
     (''forward'', ''Forward '' @ em_dash @ '' relay to upstream resolver''),
     (''passthrough'', ''Passthrough '' @ em_dash @ '' exempt from filtering'')]"

definition SettingsTab :: "bool \<Rightarrow> zone \<Rightarrow> zone_page \<Rightarrow> zone_event view" where
  "SettingsTab canWrite z s = (let v = zd_settings s in Form SubmitSettings
    ([TextInput ''Zone name'' (zn_name z) False True (\<lambda>_. SubmitSettings),
      Select ''Zone type'' DETAIL_ZONE_TYPE_OPTIONS (ze_zone_type v) (\<not> canWrite) (\<lambda>x. EditSettings (ze_zone_type_update (\<lambda>_. x)))]
     @ show_if (ze_zone_type v = Some ''forward'')
       [TextInput ''Forwarder address'' (ze_forwarder v) False (\<not> canWrite) (\<lambda>x. EditSettings (ze_forwarder_update (\<lambda>_. x)))]
     @ [TextInput ''Description'' (ze_description v) False (\<not> canWrite) (\<lambda>x. EditSettings (ze_description_update (\<lambda>_. x))),
        NumberInput ''Default TTL (seconds)'' (ze_ttl_default v) (Some 0) (Some 86400) (\<not> canWrite)
          (\<lambda>x. EditSettings (ze_ttl_default_update (\<lambda>_. x))),
        Switch ''Zone enabled'' (ze_enabled v) (\<not> canWrite) (EditSettings (ze_enabled_update Not))]
     @ show_if canWrite [Submit ''Save settings'' (zd_settingsPending s)]))"

definition zone_header :: "ui_env \<Rightarrow> bool \<Rightarrow> zone \<Rightarrow> zone_event view" where
  "zone_header w canWrite z = (let tm = detail_typeMeta (zn_zone_type z) in Box
    ([Anchor ''/zones'' [Text ''DNS Zones''], Text (zn_name z), Text (zn_name z), Badge (fst tm) (snd tm),
      Badge (if zn_enabled z then ''green'' else ''gray'') (if zn_enabled z then ''Active'' else ''Disabled'')]
     @ show_if (zn_description z \<noteq> []) [Text (zn_description z)]
     @ [Text (''Default TTL: '' @ int_str (zn_ttl_default z) @ ''s'')]
     @ show_if (truthy (zn_forwarder z)) [Text (''Forwarder: '' @ the (zn_forwarder z))]
     @ [Text (''Created: '' @ ue_day w (zn_created_at z))]
     @ show_if canWrite [Tooltip ''Delete zone'' (Button [] False ConfirmDeleteThis)]))"

definition ZoneDetailPage :: "ui_env \<Rightarrow> auth_user option \<Rightarrow> zone_page \<Rightarrow> zone_event view" where
  "ZoneDetailPage w u s =
    (if zd_isLoading s then Loader
     else (case zd_zone s of
       None \<Rightarrow> Text ''Zone not found.''
     | Some z \<Rightarrow> (let canWrite = zones_canWrite u in Box
        [zone_header w canWrite z,
         Text (''Records'' @ (if zn_record_count z > 0 then '' ('' @ int_str (zn_record_count z) @ '')'' else [])), Text ''Settings'',
         (if zn_zone_type z = ''passthrough''
          then Text (''Passthrough zones do not contain DNS records '' @ em_dash
            @ '' all queries for this zone bypass filtering and are forwarded to the default resolver.'')
          else RecordsTab canWrite s),
         SettingsTab canWrite z s])))"

section \<open>Read-only users\<close>

definition zone_idle :: "zone_page \<Rightarrow> bool" where
  "zone_idle s \<longleftrightarrow> \<not> zd_showModal s \<and> zd_editRecord s = None"

lemma offers_RecordsTab: "zone_idle s \<Longrightarrow> offers e (RecordsTab False s) \<Longrightarrow> e = ExportZone"
  by (auto simp: RecordsTab_def zone_idle_def record_row_def Let_def split: if_splits)

lemma offers_SettingsTab [simp]: "\<not> offers e (SettingsTab False z s)"
  by (auto simp: SettingsTab_def Let_def)

lemma offers_zone_header [simp]: "\<not> offers e (zone_header w False z)"
  by (auto simp: zone_header_def Let_def)

lemma zone_read_only_offers:
  assumes "\<not> zones_canWrite u" and "zone_idle s" and "offers e (ZoneDetailPage w u s)"
  shows "e = ExportZone"
  using assms by (auto simp: ZoneDetailPage_def Let_def dest: offers_RecordsTab split: if_splits option.splits)

lemma zone_answer_idle: "zone_idle s \<Longrightarrow> zone_answer e \<Longrightarrow> zone_idle (fst (zone_step e s))"
  by (cases e) (auto simp: zone_idle_def zone_data_def record_add_answer_def record_save_answer_def settings_answer_def Let_def
      split: option.splits)

lemma zone_answer_silent: "zone_answer e \<Longrightarrow> requests (snd (zone_step e s)) = []"
  by (cases e) (auto simp: record_add_answer_def record_save_answer_def record_delete_answer_def export_answer_def settings_answer_def
      zone_delete_answer_def Let_def split: option.splits)

interpretation zdro: read_only_page "ZoneDetailPage w u" zone_answer zone_step "\<lambda>s. \<not> zones_canWrite u \<and> zone_idle s" for w u
proof unfold_locales
  fix s e assume i: "\<not> zones_canWrite u \<and> zone_idle s"
  { assume "offers e (ZoneDetailPage w u s)"
    then have "e = ExportZone" using i zone_read_only_offers by blast
    then show "\<not> zones_canWrite u \<and> zone_idle (fst (zone_step e s))" and "writes (snd (zone_step e s)) = []"
      using i by (simp_all add: handleExport_def) }
  { assume "zone_answer e"
    then show "\<not> zones_canWrite u \<and> zone_idle (fst (zone_step e s))" and "writes (snd (zone_step e s)) = []"
      using i zone_answer_idle zone_answer_silent by (auto simp: writes_def) }
qed

section \<open>Properties\<close>


end
