(* ===== verification/UrlText.thy ===== *)
theory UrlText
  imports UrlState
begin

text \<open>
  The text form of search parameters: \<open>URLSearchParams.toString()\<close>, the parser that reads a query string back, and the
  proof that the parser inverts the printer. Texts are UTF-8 bytes, which is what the encoding works on.
\<close>

definition form_safe :: "char \<Rightarrow> bool" where
  "form_safe c \<longleftrightarrow> is_alnum c \<or> code c \<in> {42, 45, 46, 95}"

definition hex_upper :: "nat \<Rightarrow> char" where
  "hex_upper d = (if d < 10 then char_of (48 + d) else char_of (55 + d))"

definition encode_char :: "char \<Rightarrow> string" where
  "encode_char c = (if form_safe c then [c] else if code c = 32 then ''+''
     else [CHR ''%'', hex_upper (code c div 16), hex_upper (code c mod 16)])"

definition form_encode :: "string \<Rightarrow> string" where
  "form_encode s = concat (map encode_char s)"

fun form_decode :: "string \<Rightarrow> string" where
  "form_decode [] = []"
| "form_decode [c] = [if c = CHR ''+'' then CHR '' '' else c]"
| "form_decode [c, d] = (if c = CHR ''+'' then CHR '' '' else c) # form_decode [d]"
| "form_decode (c # d # e # s) =
    (if c = CHR ''%'' \<and> hex_val d \<noteq> None \<and> hex_val e \<noteq> None
     then char_of (16 * the (hex_val d) + the (hex_val e)) # form_decode s
     else (if c = CHR ''+'' then CHR '' '' else c) # form_decode (d # e # s))"

definition sp_toString :: "search_pairs \<Rightarrow> string" where
  "sp_toString ps = js_join ''&'' (map (\<lambda>(k, v). form_encode k @ CHR ''='' # form_encode v) ps)"

definition split_pair :: "string \<Rightarrow> string \<times> string" where
  "split_pair t = (form_decode (takeWhile (\<lambda>c. c \<noteq> CHR ''='') t), form_decode (drop 1 (dropWhile (\<lambda>c. c \<noteq> CHR ''='') t)))"

definition sp_parse :: "string \<Rightarrow> search_pairs" where
  "sp_parse q = map split_pair (filter (\<lambda>t. t \<noteq> []) (js_split CHR ''&'' q))"

section \<open>Round trip\<close>

lemma code_of_literals:
  "code CHR ''%'' = 37" "code CHR ''+'' = 43" "code CHR '' '' = 32" "code CHR ''='' = 61" "code CHR ''&'' = 38"
  by (simp_all add: code_def)

lemma code_hex_upper: "d < 16 \<Longrightarrow> code (hex_upper d) = (if d < 10 then 48 + d else 55 + d)"
  by (simp add: hex_upper_def)

lemma hex_val_upper: "d < 16 \<Longrightarrow> hex_val (hex_upper d) = Some d"
  by (simp add: hex_val_def is_digit_def code_hex_upper)

lemma nibbles: "code c div 16 < 16" "code c mod 16 < 16"
  using code_less [of c] by linarith+

lemma form_decode_plain:
  assumes "c \<noteq> CHR ''%''"
  shows "form_decode (c # s) = (if c = CHR ''+'' then CHR '' '' else c) # form_decode s"
proof (cases s)
  case (Cons d t)
  with assms show ?thesis by (cases t) auto
qed simp

lemma form_decode_percent:
  "form_decode (CHR ''%'' # hex_upper (code c div 16) # hex_upper (code c mod 16) # s) = c # form_decode s"
proof -
  have "16 * (code c div 16) + code c mod 16 = code c" by simp
  then show ?thesis by (simp add: hex_val_upper nibbles)
qed

lemma safe_neq: "form_safe c \<Longrightarrow> c \<noteq> CHR ''%'' \<and> c \<noteq> CHR ''+'' \<and> c \<noteq> CHR ''='' \<and> c \<noteq> CHR ''&''"
  by (rule ccontr) (auto simp: form_safe_def is_alnum_def is_digit_def is_upper_def is_lower_def code_of_literals)

lemma code_space: "code c = 32 \<Longrightarrow> c = CHR '' ''"
  using code_inject [of c "CHR '' ''"] by (simp add: code_of_literals)

lemma form_decode_encode_append: "form_decode (form_encode s @ t) = s @ form_decode t"
proof (induction s)
  case (Cons c s)
  have "form_decode (encode_char c @ r) = c # form_decode r" for r
  proof (cases "form_safe c")
    case True
    then show ?thesis using safe_neq [of c] by (simp add: encode_char_def form_decode_plain)
  next
    case False
    then show ?thesis
      using form_decode_percent [of c r] by (auto simp: encode_char_def form_decode_plain dest: code_space)
  qed
  with Cons show ?case by (simp add: form_encode_def)
qed (simp add: form_encode_def)

lemma form_decode_encode [simp]: "form_decode (form_encode s) = s"
  using form_decode_encode_append [of s "[]"] by simp

lemma hex_upper_neq: "d < 16 \<Longrightarrow> hex_upper d \<noteq> CHR ''='' \<and> hex_upper d \<noteq> CHR ''&''"
  using code_hex_upper [of d] by (auto simp: code_of_literals split: if_splits)

lemma encode_char_no_sep: "CHR ''='' \<notin> set (encode_char c) \<and> CHR ''&'' \<notin> set (encode_char c)"
proof (cases "form_safe c")
  case True
  with safe_neq show ?thesis by (auto simp: encode_char_def)
next
  case False
  with hex_upper_neq [OF nibbles(1), of c] hex_upper_neq [OF nibbles(2), of c] show ?thesis
    by (auto simp: encode_char_def)
qed

lemma encode_no_sep: "CHR ''='' \<notin> set (form_encode s)" "CHR ''&'' \<notin> set (form_encode s)"
  using encode_char_no_sep by (auto simp: form_encode_def)

lemma split_pair_encode: "split_pair (form_encode k @ CHR ''='' # form_encode v) = (k, v)"
proof -
  have ne: "c \<in> set (form_encode k) \<Longrightarrow> c \<noteq> CHR ''=''" for c using encode_no_sep(1) by auto
  then have "takeWhile (\<lambda>c. c \<noteq> CHR ''='') (form_encode k @ CHR ''='' # form_encode v) = form_encode k"
    "dropWhile (\<lambda>c. c \<noteq> CHR ''='') (form_encode k @ CHR ''='' # form_encode v) = CHR ''='' # form_encode v"
    by (simp_all add: takeWhile_append2 dropWhile_append2)
  then show ?thesis by (simp add: split_pair_def)
qed

lemma sp_parse_toString [simp]: "sp_parse (sp_toString ps) = ps"
proof (cases "ps = []")
  case False
  let ?pairs = "map (\<lambda>(k, v). form_encode k @ CHR ''='' # form_encode v) ps"
  have "js_split CHR ''&'' (js_join [CHR ''&''] ?pairs) = ?pairs"
    by (rule js_split_join) (use False encode_no_sep(2) in auto)
  moreover have "filter (\<lambda>t. t \<noteq> []) ?pairs = ?pairs" by (auto simp: filter_id_conv)
  moreover have "map split_pair ?pairs = ps" by (rule nth_equalityI) (auto simp: split_pair_encode split: prod.split)
  ultimately show ?thesis unfolding sp_parse_def sp_toString_def by (simp only:)
qed (simp add: sp_parse_def sp_toString_def)

end
