(* ===== verification/Logs.thy ===== *)
theory Logs
  imports View Schema UrlText Formatting
begin

text \<open>
  \<open>pages/QueryLogPage.tsx\<close> and \<open>pages/AuditPage.tsx\<close>: the two paged logs. The query log keeps its filters in the URL; its two
  text filters are typed into local state, reach the request after a debounce, and are then written to the URL. The
  debounce timer is the event \<open>DebounceQname\<close> or \<open>DebounceClientIp\<close>. The model covers URLs whose \<open>hours\<close> and \<open>offset\<close> are
  decimal numbers or absent. Both pages are interpretations of one paging interface.
\<close>

section \<open>Paging\<close>

locale paged =
  fixes offset :: "'s \<Rightarrow> nat"
    and page_size :: nat
    and next_page :: "'s \<Rightarrow> 's"
    and prev_page :: "'s \<Rightarrow> 's"
  assumes page_size_pos: "0 < page_size"
    and offset_next: "offset (next_page s) = offset s + page_size"
    and offset_prev: "offset (prev_page s) = offset s - page_size"
begin

lemma prev_next: "offset (prev_page (next_page s)) = offset s"
  by (simp add: offset_next offset_prev)

lemma next_prev: "page_size \<le> offset s \<Longrightarrow> offset (next_page (prev_page s)) = offset s"
  by (simp add: offset_next offset_prev)

lemma page_next: "offset (next_page s) div page_size + 1 = (offset s div page_size + 1) + 1"
proof -
  have "(offset s + page_size) div page_size = offset s div page_size + 1"
    using page_size_pos by (intro div_add_self2) simp
  then show ?thesis by (simp add: offset_next)
qed

lemma aligned_next: "page_size dvd offset s \<Longrightarrow> page_size dvd offset (next_page s)"
  by (simp add: offset_next)

lemma aligned_prev: "page_size dvd offset s \<Longrightarrow> page_size dvd offset (prev_page s)"
  by (simp add: offset_prev dvd_diff_nat)

text \<open>From an aligned offset, the previous button is enabled exactly past the first page.\<close>

lemma has_prev: "page_size dvd offset s \<Longrightarrow> 0 < offset s \<longleftrightarrow> 1 < offset s div page_size + 1"
  using page_size_pos by (auto elim!: dvdE)

end

section \<open>The query log\<close>

definition QTYPE_OPTIONS :: "string list" where
  "QTYPE_OPTIONS = [''A'', ''AAAA'', ''CNAME'', ''MX'', ''TXT'', ''NS'', ''SRV'', ''PTR'', ''SOA'', ''ANY'']"

definition DECISION_COLOR :: "string \<rightharpoonup> string" where
  "DECISION_COLOR = map_of [(''block'', ''red''), (''allow'', ''green'')]"

definition HOURS_OPTIONS :: "(string \<times> string) list" where
  "HOURS_OPTIONS = [(''1'', ''1h''), (''6'', ''6h''), (''24'', ''24h''), (''168'', ''7d''), ([], ''All'')]"

definition QLOG_FILTERS :: "(string \<times> string) list" where
  "QLOG_FILTERS = [(''decision'', []), (''hours'', ''24''), (''qname'', []), (''client_ip'', []), (''qtype'', []), (''category'', []),
     (''offset'', ''0'')]"

definition qlog_filter :: "search_pairs \<Rightarrow> string \<Rightarrow> string" where
  "qlog_filter ps k = nullish (map_of (filter_values QLOG_FILTERS ps) k) []"

definition qlog_hours :: "search_pairs \<Rightarrow> nat option" where
  "qlog_hours ps = (let h = qlog_filter ps ''hours'' in if h \<noteq> [] then Some (digits_val h) else None)"

definition qlog_offset :: "search_pairs \<Rightarrow> nat" where
  "qlog_offset ps = digits_val (qlog_filter ps ''offset'')"

record qlog_page =
  qs_params :: search_pairs
  qs_qnameInput :: string
  qs_debouncedQname :: string
  qs_clientIpInput :: string
  qs_debouncedClientIp :: string
  qs_categories :: "category list"
  qs_data :: "query_log_entry list option"
  qs_isLoading :: bool
  qs_error :: "thrown option"

definition qlog_query :: "qlog_page \<Rightarrow> query_log_params" where
  "qlog_query s = (let f = qlog_filter (qs_params s) in
    \<lparr>qp_offset = Some (qlog_offset (qs_params s)), qp_decision = or_null (f ''decision''), qp_group_id = None,
     qp_qname = or_null (qs_debouncedQname s), qp_client_ip = or_null (qs_debouncedClientIp s), qp_qtype = or_null (f ''qtype''),
     qp_matched_category = or_null (f ''category''), qp_hours = qlog_hours (qs_params s)\<rparr>)"

definition qlog_set :: "(string \<times> string option) list \<Rightarrow> qlog_page \<Rightarrow> qlog_page" where
  "qlog_set patch s = s\<lparr>qs_params := setFilters QLOG_FILTERS patch (qs_params s)\<rparr>"

definition effect_qname :: "qlog_page \<Rightarrow> qlog_page" where
  "effect_qname s = qlog_set [(''qname'', Some (qs_debouncedQname s))] s"

definition effect_client_ip :: "qlog_page \<Rightarrow> qlog_page" where
  "effect_client_ip s = qlog_set [(''client_ip'', Some (qs_debouncedClientIp s))] s"

text \<open>The page as mounted at a URL: the inputs start from the URL and both effects run once.\<close>

definition qlog_mount :: "search_pairs \<Rightarrow> qlog_page" where
  "qlog_mount ps = effect_client_ip (effect_qname
     \<lparr>qs_params = ps, qs_qnameInput = qlog_filter ps ''qname'', qs_debouncedQname = qlog_filter ps ''qname'',
      qs_clientIpInput = qlog_filter ps ''client_ip'', qs_debouncedClientIp = qlog_filter ps ''client_ip'', qs_categories = [],
      qs_data = None, qs_isLoading = True, qs_error = None\<rparr>)"

datatype qlog_event =
    DecisionChange string | HoursChange string | QnameChange string | ClientIpChange string
  | QtypeChange "string option" | CategoryChange "string option" | QlogPrev | QlogNext
  | DebounceQname | DebounceClientIp | QlogData "query_log_entry list" | QlogError thrown | QlogCategories "category list"

fun qlog_answer :: "qlog_event \<Rightarrow> bool" where
  "qlog_answer DebounceQname = True"
| "qlog_answer DebounceClientIp = True"
| "qlog_answer (QlogData _) = True"
| "qlog_answer (QlogError _) = True"
| "qlog_answer (QlogCategories _) = True"
| "qlog_answer _ = False"

definition reset_offset :: "string \<times> string option" where
  "reset_offset = (''offset'', Some ''0'')"

definition qlog_next :: "qlog_page \<Rightarrow> qlog_page" where
  "qlog_next s = qlog_set [(''offset'', Some (nat_str (qlog_offset (qs_params s) + QUERY_LOG_PAGE_SIZE)))] s"

definition qlog_prev :: "qlog_page \<Rightarrow> qlog_page" where
  "qlog_prev s = qlog_set [(''offset'', Some (nat_str (qlog_offset (qs_params s) - QUERY_LOG_PAGE_SIZE)))] s"

definition handleDecisionChange :: "string \<Rightarrow> qlog_page \<Rightarrow> qlog_page" where
  "handleDecisionChange v s = qlog_set [(''decision'', Some v), reset_offset] s"

definition handleHoursChange :: "string \<Rightarrow> qlog_page \<Rightarrow> qlog_page" where
  "handleHoursChange v s = qlog_set [(''hours'', Some v), reset_offset] s"

definition handleQnameChange :: "string \<Rightarrow> qlog_page \<Rightarrow> qlog_page" where
  "handleQnameChange v s = qlog_set [reset_offset] (s\<lparr>qs_qnameInput := v\<rparr>)"

definition handleClientIpChange :: "string \<Rightarrow> qlog_page \<Rightarrow> qlog_page" where
  "handleClientIpChange v s = qlog_set [reset_offset] (s\<lparr>qs_clientIpInput := v\<rparr>)"

definition handleQtypeChange :: "string option \<Rightarrow> qlog_page \<Rightarrow> qlog_page" where
  "handleQtypeChange v s = qlog_set [(''qtype'', Some (nullish v [])), reset_offset] s"

definition handleCategoryChange :: "string option \<Rightarrow> qlog_page \<Rightarrow> qlog_page" where
  "handleCategoryChange v s = qlog_set [(''category'', Some (nullish v [])), reset_offset] s"

text \<open>The debounced value follows the input; the effect runs when it changed.\<close>

definition debounce_qname :: "qlog_page \<Rightarrow> qlog_page" where
  "debounce_qname s = (if qs_debouncedQname s = qs_qnameInput s then s
     else effect_qname (s\<lparr>qs_debouncedQname := qs_qnameInput s\<rparr>))"

definition debounce_client_ip :: "qlog_page \<Rightarrow> qlog_page" where
  "debounce_client_ip s = (if qs_debouncedClientIp s = qs_clientIpInput s then s
     else effect_client_ip (s\<lparr>qs_debouncedClientIp := qs_clientIpInput s\<rparr>))"

fun qlog_step :: "qlog_event \<Rightarrow> qlog_page \<Rightarrow> qlog_page \<times> cmd list" where
  "qlog_step (DecisionChange v) s = (handleDecisionChange v s, [])"
| "qlog_step (HoursChange v) s = (handleHoursChange v s, [])"
| "qlog_step (QnameChange v) s = (handleQnameChange v s, [])"
| "qlog_step (ClientIpChange v) s = (handleClientIpChange v s, [])"
| "qlog_step (QtypeChange v) s = (handleQtypeChange v s, [])"
| "qlog_step (CategoryChange v) s = (handleCategoryChange v s, [])"
| "qlog_step QlogPrev s = (qlog_prev s, [])"
| "qlog_step QlogNext s = (qlog_next s, [])"
| "qlog_step DebounceQname s = (debounce_qname s, [])"
| "qlog_step DebounceClientIp s = (debounce_client_ip s, [])"
| "qlog_step (QlogData d) s = (s\<lparr>qs_data := Some d, qs_isLoading := False, qs_error := None\<rparr>, [])"
| "qlog_step (QlogError e) s = (s\<lparr>qs_isLoading := False, qs_error := Some e\<rparr>, [])"
| "qlog_step (QlogCategories cs) s = (s\<lparr>qs_categories := cs\<rparr>, [])"

definition qlog_hasNext :: "qlog_page \<Rightarrow> bool" where
  "qlog_hasNext s \<longleftrightarrow> length (nullish (qs_data s) []) = QUERY_LOG_PAGE_SIZE"

definition qlog_row :: "ui_env \<Rightarrow> query_log_entry \<Rightarrow> qlog_event view" where
  "qlog_row w e = Row
    [Text (ue_date w (ql_occurred_at e)),
     (let name = Text (nullish (ql_client_name e) (nullish (ql_client_ip e) em_dash)) in
      if truthy (ql_client_name e) then Tooltip (nullish (ql_client_ip e) em_dash) name else name),
     Text (nullish (ql_group_name e) (take 8 (ql_group_id e))), Text (ql_qname e), Text (nullish (ql_qtype e) ''A''),
     Badge (nullish (DECISION_COLOR (ql_decision e)) ''gray'') (ql_decision e), Text (nullish (ql_matched_category e) em_dash),
     Text (formatLatency (map_option nat (ql_latency_us e)))]"

definition QueryLogPage :: "ui_env \<Rightarrow> qlog_page \<Rightarrow> qlog_event view" where
  "QueryLogPage w s = (let t = (\<lambda>k. ue_t w k []); f = qlog_filter (qs_params s); off = qlog_offset (qs_params s) in Box
    ([Text (t ''queryLog.title''),
      Segmented [([], t ''queryLog.decision.all''), (''allow'', t ''queryLog.decision.allowed''), (''block'', t ''queryLog.decision.blocked'')]
        (f ''decision'') DecisionChange,
      Segmented HOURS_OPTIONS (f ''hours'') HoursChange,
      TextInput (t ''queryLog.searchLabel'') (qs_qnameInput s) False False QnameChange,
      TextInput (t ''queryLog.filters.clientIpLabel'') (qs_clientIpInput s) False False ClientIpChange,
      Select (t ''queryLog.filters.qtypeLabel'') (map (\<lambda>q. (q, q)) QTYPE_OPTIONS) (or_null (f ''qtype'')) False QtypeChange,
      Select (t ''queryLog.filters.categoryLabel'') (map (\<lambda>c. (cat_id c, cat_label c)) (qs_categories s)) (or_null (f ''category''))
        False CategoryChange]
     @ show_if (qs_isLoading s) [Loader]
     @ (case qs_error s of None \<Rightarrow> [] | Some e \<Rightarrow> [Text (formatError e)])
     @ show_if (\<not> qs_isLoading s \<and> qs_data s = Some []) [Text (t ''queryLog.empty'')]
     @ show_if (nullish (qs_data s) [] \<noteq> [])
       [Table [t ''queryLog.columns.time'', t ''queryLog.columns.client'', t ''queryLog.columns.group'', t ''queryLog.columns.domain'',
          t ''queryLog.columns.type'', t ''queryLog.columns.decision'', t ''queryLog.columns.category'', t ''queryLog.columns.latency'']
          (map (qlog_row w) (nullish (qs_data s) []))]
     @ [Button (t ''queryLog.pagination.previous'') (\<not> 0 < off \<or> qs_isLoading s) QlogPrev,
        Text (ue_t w ''queryLog.pagination.page'' [(''page'', nat_str (off div QUERY_LOG_PAGE_SIZE + 1))]),
        Button (t ''queryLog.pagination.next'') (\<not> qlog_hasNext s \<or> qs_isLoading s) QlogNext]))"

section \<open>The audit log\<close>

definition RESOURCE_TYPES :: "string list" where
  "RESOURCE_TYPES = [''tenant'', ''group'', ''policy'', ''feed'', ''dns_zone'', ''dns_record'', ''user'']"

definition ACTION_COLOR :: "string \<rightharpoonup> string" where
  "ACTION_COLOR = map_of [(''create'', ''green''), (''update'', ''blue''), (''delete'', ''red''), (''compile'', ''grape'')]"

definition colorFor :: "string \<Rightarrow> string" where
  "colorFor action = (let verb = (case js_split CHR ''.'' action of a # b # _ \<Rightarrow> b | _ \<Rightarrow> action) in nullish (ACTION_COLOR verb) ''gray'')"

record audit_page =
  as_resourceType :: "string option"
  as_offset :: nat
  as_data :: "audit_log_entry list option"
  as_isLoading :: bool
  as_error :: "thrown option"

definition audit_initial :: audit_page where
  "audit_initial = \<lparr>as_resourceType = None, as_offset = 0, as_data = None, as_isLoading = True, as_error = None\<rparr>"

definition audit_query :: "audit_page \<Rightarrow> query_hook" where
  "audit_query s = useAuditLog (as_resourceType s) (as_offset s)"

datatype audit_event =
    ResourceTypeChange "string option" | AuditPrev | AuditNext | AuditData "audit_log_entry list" | AuditError thrown

definition handleResourceTypeChange :: "string option \<Rightarrow> audit_page \<Rightarrow> audit_page" where
  "handleResourceTypeChange v s = s\<lparr>as_resourceType := v, as_offset := 0\<rparr>"

definition audit_next :: "audit_page \<Rightarrow> audit_page" where
  "audit_next s = s\<lparr>as_offset := as_offset s + AUDIT_PAGE_SIZE\<rparr>"

definition audit_prev :: "audit_page \<Rightarrow> audit_page" where
  "audit_prev s = s\<lparr>as_offset := as_offset s - AUDIT_PAGE_SIZE\<rparr>"

fun audit_step :: "audit_event \<Rightarrow> audit_page \<Rightarrow> audit_page \<times> cmd list" where
  "audit_step (ResourceTypeChange v) s = (handleResourceTypeChange v s, [])"
| "audit_step AuditPrev s = (audit_prev s, [])"
| "audit_step AuditNext s = (audit_next s, [])"
| "audit_step (AuditData d) s = (s\<lparr>as_data := Some d, as_isLoading := False, as_error := None\<rparr>, [])"
| "audit_step (AuditError e) s = (s\<lparr>as_isLoading := False, as_error := Some e\<rparr>, [])"

fun audit_answer :: "audit_event \<Rightarrow> bool" where
  "audit_answer (AuditData _) = True"
| "audit_answer (AuditError _) = True"
| "audit_answer _ = False"

definition audit_hasNext :: "audit_page \<Rightarrow> bool" where
  "audit_hasNext s \<longleftrightarrow> length (nullish (as_data s) []) = AUDIT_PAGE_SIZE"

definition AuditPage :: "ui_env \<Rightarrow> audit_page \<Rightarrow> audit_event view" where
  "AuditPage w s = (let t = (\<lambda>k. ue_t w k []); off = as_offset s in Box
    ([Text (t ''auditLog.title''),
      Select (t ''auditLog.filterPlaceholder'') (map (\<lambda>r. (r, r)) RESOURCE_TYPES) (as_resourceType s) False ResourceTypeChange]
     @ show_if (as_isLoading s) [Loader]
     @ (case as_error s of None \<Rightarrow> [] | Some e \<Rightarrow> [Text (formatError e)])
     @ show_if (as_data s = Some [] \<and> off = 0) [Text (t ''auditLog.emptyTitle'')]
     @ show_if (as_data s = Some [] \<and> off > 0) [Text (t ''auditLog.noMoreEntries'')]
     @ show_if (nullish (as_data s) [] \<noteq> [])
       [Table [t ''auditLog.columns.time'', t ''auditLog.columns.actor'', t ''auditLog.columns.action'', t ''auditLog.columns.resource'',
          t ''auditLog.columns.detail'']
          (map (\<lambda>e. Row [Text (ue_date w (al_occurred_at e)), Text (al_actor e), Badge (colorFor (al_action e)) (al_action e),
             Text (al_resource_type e @ '':'' @ take 8 (al_resource_id e)), Text (al_detail e)]) (nullish (as_data s) []))]
     @ [Button (t ''auditLog.pagination.previous'') (\<not> 0 < off \<or> as_isLoading s) AuditPrev,
        Text (ue_t w ''auditLog.pagination.page'' [(''page'', nat_str (off div AUDIT_PAGE_SIZE + 1))]),
        Button (t ''auditLog.pagination.next'') (\<not> audit_hasNext s \<or> as_isLoading s) AuditNext]))"

section \<open>Lemmas\<close>

lemma qlog_filter_set:
  assumes "distinct (map fst patch)" and "map_of QLOG_FILTERS k = Some d"
  shows "qlog_filter (setFilters QLOG_FILTERS patch ps) k =
    (case map_of patch k of None \<Rightarrow> qlog_filter ps k | Some v \<Rightarrow> nullish v d)"
  using assms by (auto simp: qlog_filter_def map_of_filter_values sp_get_setFilters split: option.splits)

lemma qlog_defaults:
  "map_of QLOG_FILTERS ''offset'' = Some ''0''" "map_of QLOG_FILTERS ''qname'' = Some []" "map_of QLOG_FILTERS ''client_ip'' = Some []"
  "map_of QLOG_FILTERS ''decision'' = Some []" "map_of QLOG_FILTERS ''hours'' = Some ''24''" "map_of QLOG_FILTERS ''qtype'' = Some []"
  "map_of QLOG_FILTERS ''category'' = Some []"
  by (simp_all add: QLOG_FILTERS_def)

lemmas qlog_reads = qlog_defaults [THEN qlog_filter_set [rotated]]

lemma digits_val_0 [simp]: "digits_val ''0'' = 0"
  using digits_val_nat_str [of 0] by simp

lemma offset_next: "qlog_offset (qs_params (qlog_next s)) = qlog_offset (qs_params s) + QUERY_LOG_PAGE_SIZE"
  by (simp add: qlog_next_def qlog_set_def qlog_offset_def qlog_reads)

lemma offset_prev: "qlog_offset (qs_params (qlog_prev s)) = qlog_offset (qs_params s) - QUERY_LOG_PAGE_SIZE"
  by (simp add: qlog_prev_def qlog_set_def qlog_offset_def qlog_reads)

interpretation qlp: paged "\<lambda>s. qlog_offset (qs_params s)" QUERY_LOG_PAGE_SIZE qlog_next qlog_prev
  by unfold_locales (simp_all add: offset_next offset_prev QUERY_LOG_PAGE_SIZE_def)

interpretation alp: paged as_offset AUDIT_PAGE_SIZE audit_next audit_prev
  by unfold_locales (simp_all add: audit_next_def audit_prev_def AUDIT_PAGE_SIZE_def)

text \<open>Every filter handler goes back to the first page; the effects of the debounced inputs leave the offset alone.\<close>

lemma offset_handlers:
  "qlog_offset (qs_params (handleDecisionChange v s)) = 0" "qlog_offset (qs_params (handleHoursChange v s)) = 0"
  "qlog_offset (qs_params (handleQnameChange v s)) = 0" "qlog_offset (qs_params (handleClientIpChange v s)) = 0"
  "qlog_offset (qs_params (handleQtypeChange x s)) = 0" "qlog_offset (qs_params (handleCategoryChange x s)) = 0"
  by (simp_all add: handleDecisionChange_def handleHoursChange_def handleQnameChange_def handleClientIpChange_def handleQtypeChange_def
      handleCategoryChange_def reset_offset_def qlog_set_def qlog_offset_def qlog_reads)

lemma offset_effects:
  "qlog_offset (qs_params (effect_qname s)) = qlog_offset (qs_params s)"
  "qlog_offset (qs_params (effect_client_ip s)) = qlog_offset (qs_params s)"
  "qlog_offset (qs_params (debounce_qname s)) = qlog_offset (qs_params s)"
  "qlog_offset (qs_params (debounce_client_ip s)) = qlog_offset (qs_params s)"
  by (simp_all add: effect_qname_def effect_client_ip_def debounce_qname_def debounce_client_ip_def qlog_set_def qlog_offset_def qlog_reads)

definition qlog_aligned :: "qlog_page \<Rightarrow> bool" where
  "qlog_aligned s \<longleftrightarrow> QUERY_LOG_PAGE_SIZE dvd qlog_offset (qs_params s)"

lemma aligned_step: "qlog_aligned s \<Longrightarrow> qlog_aligned (fst (qlog_step e s))"
  using qlp.aligned_next [of s] qlp.aligned_prev [of s]
  by (cases e) (simp_all add: qlog_aligned_def offset_handlers offset_effects)

interpretation qla: page "QueryLogPage w" qlog_answer qlog_step qlog_aligned for w
  by unfold_locales (simp_all add: aligned_step)

lemma audit_aligned_step: "AUDIT_PAGE_SIZE dvd as_offset s \<Longrightarrow> AUDIT_PAGE_SIZE dvd as_offset (fst (audit_step e s))"
  using alp.aligned_next [of s] alp.aligned_prev [of s] by (cases e) (simp_all add: handleResourceTypeChange_def)

interpretation ala: page "AuditPage w" audit_answer audit_step "\<lambda>s. AUDIT_PAGE_SIZE dvd as_offset s" for w
  by unfold_locales (simp_all add: audit_aligned_step)

lemma offers_qlog_row [simp]: "\<not> offers e (qlog_row w x)"
  by (simp add: qlog_row_def Let_def)

lemma offers_paging:
  "offers QlogPrev (QueryLogPage w s) \<longleftrightarrow> 0 < qlog_offset (qs_params s) \<and> \<not> qs_isLoading s"
  "offers QlogNext (QueryLogPage w s) \<longleftrightarrow> qlog_hasNext s \<and> \<not> qs_isLoading s"
  "offers AuditPrev (AuditPage w a) \<longleftrightarrow> 0 < as_offset a \<and> \<not> as_isLoading a"
  "offers AuditNext (AuditPage w a) \<longleftrightarrow> audit_hasNext a \<and> \<not> as_isLoading a"
  by (auto simp: QueryLogPage_def AuditPage_def Let_def split: option.splits)

text \<open>Paging on between typing and the debounce: the new search starts on the second page.\<close>

lemma debounced_search_keeps_offset:
  assumes "v \<noteq> qs_debouncedQname s"
  shows "qp_qname (qlog_query (debounce_qname (qlog_next (handleQnameChange v s)))) = or_null v
    \<and> qp_offset (qlog_query (debounce_qname (qlog_next (handleQnameChange v s)))) = Some QUERY_LOG_PAGE_SIZE"
proof -
  have "qs_qnameInput (qlog_next (handleQnameChange v s)) = v"
    "qs_debouncedQname (qlog_next (handleQnameChange v s)) = qs_debouncedQname s"
    by (simp_all add: qlog_next_def handleQnameChange_def qlog_set_def)
  then show ?thesis
    using assms offset_effects(3) [of "qlog_next (handleQnameChange v s)"]
    by (simp add: qlog_query_def Let_def offset_next offset_handlers) (simp add: debounce_qname_def effect_qname_def qlog_set_def)
qed

section \<open>Properties\<close>


definition wit_entry :: query_log_entry where
  "wit_entry = \<lparr>ql_id = ''1'', ql_occurred_at = ''2026-01-01T00:00:00Z'', ql_group_id = ''g'', ql_group_name = None, ql_tenant_id = None,
     ql_client_ip = None, ql_client_name = None, ql_qname = ''a.b'', ql_qtype = None, ql_decision = ''block'', ql_matched_rule = None,
     ql_matched_category = None, ql_matched_feed_id = None, ql_response_code = None, ql_cache_hit = None, ql_latency_us = Some 7\<rparr>"

definition wit_full_page :: qlog_page where
  "wit_full_page = (qlog_mount [(''offset'', ''50'')])\<lparr>qs_data := Some (replicate 50 wit_entry), qs_isLoading := False, qs_error := None\<rparr>"


end
