(* ===== verification/Dashboard.thy ===== *)
theory Dashboard
  imports Logs
begin

text \<open>
  \<open>pages/DashboardPage.tsx\<close> with \<open>pages/dashboard\<close>: the widget layout kept in local storage, the queries behind the widgets,
  the deltas against the prior window, and every widget. A widget configuration entry is the JSON value the storage
  holds, so that a foreign or damaged entry is represented as it is. Ratios are doubles \<open>(m, k)\<close>, standing for \<open>m / 2 ^ k\<close>.
\<close>

section \<open>Data types\<close>

type_synonym dbl = "nat \<times> nat"

record dashboard_summary =
  sm_total_queries :: nat
  sm_blocked_queries :: nat
  sm_allowed_queries :: nat
  sm_block_ratio :: dbl
  sm_cache_hit_ratio :: dbl
  sm_unique_clients :: nat
  sm_tenant_count :: nat
  sm_group_count :: nat
  sm_feed_count :: nat
  sm_top_blocked_domains :: "(string \<times> string \<times> nat) list"

record timeseries_point =
  ts_bucket :: string
  ts_total :: nat
  ts_blocked :: nat
  ts_allowed :: nat

record group_breakdown =
  gb_group_id :: string
  gb_group_name :: string
  gb_tenant_name :: string
  gb_total :: nat
  gb_blocked :: nat
  gb_block_ratio :: dbl

record top_client =
  tc_client_ip :: string
  tc_hostname :: "string option"
  tc_owner :: "string option"
  tc_group_name :: "string option"
  tc_total :: nat
  tc_blocked :: nat
  tc_block_ratio :: dbl

record category_breakdown =
  cb_category :: string
  cb_count :: nat
  cb_pct :: dbl

record recent_event =
  re_id :: string
  re_occurred_at :: string
  re_client_ip :: "string option"
  re_client_name :: "string option"
  re_qname :: string
  re_decision :: string
  re_matched_category :: "string option"
  re_matched_feed_id :: "string option"
  re_group_name :: "string option"
  re_latency_us :: "nat option"

record latency_stats =
  lt_p50_us :: "nat option"
  lt_p95_us :: "nat option"
  lt_p99_us :: "nat option"
  lt_sample_count :: nat

record mix_slice =
  mx_label :: string
  mx_count :: nat
  mx_pct :: dbl

record query_mix =
  qm_qtype :: "mix_slice list"
  qm_response_code :: "mix_slice list"
  qm_matched_rule :: "mix_slice list"

text \<open>What a query hook returns: the data, whether it is loading, and the error.\<close>

record 'a query_state =
  qy_data :: "'a option"
  qy_isLoading :: bool
  qy_error :: "thrown option"

section \<open>Widget layout\<close>

definition WIDGET_DEFS :: "(string \<times> string) list" where
  "WIDGET_DEFS = [(''query-volume'', ''Query volume''), (''decision'', ''Decision breakdown''), (''top-domains'', ''Top blocked domains''),
     (''categories'', ''Blocks by category''), (''top-clients'', ''Top clients''), (''group-breakdown'', ''Group breakdown''),
     (''feed-health'', ''Feed health''), (''recent-events'', ''Recent block events''), (''latency'', ''Resolver latency''),
     (''query-mix'', ''Query mix'')]"

definition widget :: "string \<Rightarrow> bool \<Rightarrow> json" where
  "widget i b = JObj [(''id'', JStr i), (''visible'', JBool b)]"

definition DEFAULT_CONFIG :: "json list" where
  "DEFAULT_CONFIG = map (\<lambda>(i, _). widget i True) WIDGET_DEFS"

text \<open>\<open>w.id\<close>: reading a property of \<open>null\<close> throws, of any other value it gives the member or \<open>undefined\<close>.\<close>

definition widget_id :: "json \<Rightarrow> json option" where
  "widget_id w = (case w of JObj kvs \<Rightarrow> jget ''id'' kvs | _ \<Rightarrow> None)"

definition loadWidgetConfig :: "string option \<Rightarrow> json list" where
  "loadWidgetConfig raw =
    (if \<not> truthy raw then DEFAULT_CONFIG
     else (case json_parse (the raw) of
       Some (JArr saved) \<Rightarrow>
         if JNull \<in> set saved then DEFAULT_CONFIG
         else let ids = map widget_id saved; merged = saved @ filter (\<lambda>w. widget_id w \<notin> set ids) DEFAULT_CONFIG;
                  valid = map (\<lambda>(i, _). Some (JStr i)) WIDGET_DEFS
              in filter (\<lambda>w. widget_id w \<in> set valid) merged
     | _ \<Rightarrow> DEFAULT_CONFIG))"

definition saveWidgetConfig :: "json list \<Rightarrow> string" where
  "saveWidgetConfig config = stringify (JArr config)"

definition TIME_SEGMENTS :: "(string \<times> string) list" where
  "TIME_SEGMENTS = [(''1'', ''1h''), (''6'', ''6h''), (''24'', ''24h''), (''168'', ''7d''), (''720'', ''30d'')]"

definition id_of :: "json \<Rightarrow> string" where
  "id_of w = (case widget_id w of Some (JStr i) \<Rightarrow> i | _ \<Rightarrow> [])"

fun json_truthy :: "json option \<Rightarrow> bool" where
  "json_truthy None = False"
| "json_truthy (Some JNull) = False"
| "json_truthy (Some (JBool b)) = b"
| "json_truthy (Some (JNum t)) = list_ex (\<lambda>c. is_digit c \<and> c \<noteq> CHR ''0'') (takeWhile (\<lambda>c. c \<noteq> CHR ''e'' \<and> c \<noteq> CHR ''E'') t)"
| "json_truthy (Some (JStr s)) = (s \<noteq> [])"
| "json_truthy (Some _) = True"

definition widget_visible :: "json \<Rightarrow> bool" where
  "widget_visible w = (case w of JObj kvs \<Rightarrow> json_truthy (jget ''visible'' kvs) | _ \<Rightarrow> False)"

text \<open>\<open>{ ...w, visible: b }\<close>\<close>

definition set_visible :: "bool \<Rightarrow> json \<Rightarrow> json" where
  "set_visible b w = (case w of
     JObj kvs \<Rightarrow> if ''visible'' \<in> fst ` set kvs
       then JObj (map (\<lambda>(k, v). if k = ''visible'' then (k, JBool b) else (k, v)) kvs)
       else JObj (kvs @ [(''visible'', JBool b)])
   | _ \<Rightarrow> JObj [(''visible'', JBool b)])"

section \<open>Queries\<close>

definition group_key :: "string option \<Rightarrow> key_atom" where
  "group_key g = (case g of None \<Rightarrow> KNull | Some s \<Rightarrow> KStr s)"

definition dash_query :: "string \<Rightarrow> string \<Rightarrow> (string \<times> string option) list \<Rightarrow> nat \<Rightarrow> nat \<Rightarrow> string option \<Rightarrow> query_hook" where
  "dash_query key path params interval hours g = (useQuery [KStr key, KNum hours, group_key g]
     (RawGet path (params @ [(''group_id'', g)])))\<lparr>qh_refetchInterval := Some interval\<rparr>"

definition dashboard_queries :: "nat \<Rightarrow> string option \<Rightarrow> query_hook list" where
  "dashboard_queries hours g = (let h = (''hours'', Some (nat_str hours)) in
    [dash_query ''dashboard-summary'' ''/api/v1/analytics/summary'' [h] 30000 hours g,
     dash_query ''dashboard-timeseries'' ''/api/v1/analytics/timeseries'' [h] 30000 hours g,
     (useQuery [KStr ''dashboard-by-group'', KNum hours] (RawGet ''/api/v1/analytics/by-group'' [h]))\<lparr>qh_refetchInterval := Some 30000\<rparr>,
     dash_query ''dashboard-top-clients'' ''/api/v1/analytics/top-clients'' [h, (''limit'', Some ''10'')] 30000 hours g,
     dash_query ''dashboard-categories'' ''/api/v1/analytics/top-categories'' [h] 30000 hours g,
     dash_query ''dashboard-recent-blocks'' ''/api/v1/analytics/recent-events''
       [(''decision'', Some ''block''), (''limit'', Some ''25''), h] 10000 hours g,
     dash_query ''dashboard-latency'' ''/api/v1/analytics/latency'' [h] 30000 hours g,
     dash_query ''dashboard-query-mix'' ''/api/v1/analytics/query-mix'' [h] 30000 hours g,
     dash_query ''dashboard-summary-prev'' ''/api/v1/analytics/summary'' [h, (''offset_hours'', Some (nat_str hours))] 30000 hours g])"

section \<open>Doubles\<close>

definition dbl_less :: "dbl \<Rightarrow> dbl \<Rightarrow> bool" where
  "dbl_less x y \<longleftrightarrow> fst x * 2 ^ snd y < fst y * 2 ^ snd x"

definition dbl_dist :: "dbl \<Rightarrow> dbl \<Rightarrow> dbl" where
  "dbl_dist x y = (let a = fst x * 2 ^ snd y; b = fst y * 2 ^ snd x in
     dbl_div (if b \<le> a then a - b else b - a) (2 ^ (snd x + snd y)))"

definition up_arrow :: string where "up_arrow = [CHR 0xE2, CHR 0x96, CHR 0xB2]"
definition down_arrow :: string where "down_arrow = [CHR 0xE2, CHR 0x96, CHR 0xBC]"

definition rangeLabel :: "nat \<Rightarrow> string" where
  "rangeLabel hours = (case map_of TIME_SEGMENTS (nat_str hours) of Some l \<Rightarrow> l | None \<Rightarrow> nat_str hours @ ''h'')"

definition relativeDelta :: "nat \<Rightarrow> nat option \<Rightarrow> nat option \<Rightarrow> string option" where
  "relativeDelta hours cur prev = (case (cur, prev) of
     (Some c, Some p) \<Rightarrow>
       if p = 0 then (if c > 0 then Some (''new vs prior '' @ rangeLabel hours) else None)
       else (let arrow = (if c > p then up_arrow else if c < p then down_arrow else []);
                 pct = times100 (dbl_div (if p \<le> c then c - p else p - c) p)
             in Some (arrow @ toFixed 0 pct @ ''% vs prior '' @ rangeLabel hours))
   | _ \<Rightarrow> None)"

definition pointDelta :: "nat \<Rightarrow> dbl option \<Rightarrow> dbl option \<Rightarrow> string option" where
  "pointDelta hours cur prev = (case (cur, prev) of
     (Some c, Some p) \<Rightarrow>
       (let arrow = (if dbl_less p c then up_arrow else if dbl_less c p then down_arrow else [])
        in Some (arrow @ toFixed 1 (times100 (dbl_dist c p)) @ ''pts vs prior '' @ rangeLabel hours))
   | _ \<Rightarrow> None)"

section \<open>Page state and handlers\<close>

record dash_data =
  da_feeds :: "feed list option"
  da_summary :: "dashboard_summary query_state"
  da_timeseries :: "timeseries_point list query_state"
  da_byGroup :: "group_breakdown list query_state"
  da_topClients :: "top_client list query_state"
  da_categories :: "category_breakdown list query_state"
  da_recentBlocks :: "recent_event list query_state"
  da_latency :: "latency_stats query_state"
  da_queryMix :: "query_mix query_state"
  da_prevSummary :: "dashboard_summary option"

record dash_page =
  dd_hours :: nat
  dd_groupScope :: "string option"
  dd_config :: "json list"
  dd_storage :: "string option"
  dd_customizeOpened :: bool
  dd_data :: dash_data

definition query_pending :: "'a query_state" where
  "query_pending = \<lparr>qy_data = None, qy_isLoading = True, qy_error = None\<rparr>"

definition dash_mount :: "string option \<Rightarrow> dash_page" where
  "dash_mount raw = \<lparr>dd_hours = 24, dd_groupScope = None, dd_config = loadWidgetConfig raw, dd_storage = raw,
     dd_customizeOpened = False, dd_data = \<lparr>da_feeds = None, da_summary = query_pending, da_timeseries = query_pending,
       da_byGroup = query_pending, da_topClients = query_pending, da_categories = query_pending, da_recentBlocks = query_pending,
       da_latency = query_pending, da_queryMix = query_pending, da_prevSummary = None\<rparr>\<rparr>"

definition groupOptions :: "dash_data \<Rightarrow> (string \<times> string) list" where
  "groupOptions d = map (\<lambda>g. (gb_group_id g, gb_tenant_name g @ '' / '' @ gb_group_name g)) (nullish (qy_data (da_byGroup d)) [])"

definition dashboardError :: "dash_data \<Rightarrow> thrown option" where
  "dashboardError d = hd (filter (\<lambda>e. e \<noteq> None)
     [qy_error (da_summary d), qy_error (da_timeseries d), qy_error (da_byGroup d), qy_error (da_topClients d),
      qy_error (da_categories d), qy_error (da_recentBlocks d), qy_error (da_latency d), qy_error (da_queryMix d)] @ [None])"

definition updateConfig :: "json list \<Rightarrow> dash_page \<Rightarrow> dash_page" where
  "updateConfig next s = s\<lparr>dd_config := next, dd_storage := Some (saveWidgetConfig next)\<rparr>"

definition toggleWidget :: "string \<Rightarrow> dash_page \<Rightarrow> dash_page" where
  "toggleWidget i s = updateConfig (map (\<lambda>w. if widget_id w = Some (JStr i) then set_visible (\<not> widget_visible w) w else w)
     (dd_config s)) s"

definition findIndex :: "('a \<Rightarrow> bool) \<Rightarrow> 'a list \<Rightarrow> int" where
  "findIndex P xs = (let n = length (takeWhile (\<lambda>x. \<not> P x) xs) in if n < length xs then int n else -1)"

definition moveWidget :: "string \<Rightarrow> int \<Rightarrow> dash_page \<Rightarrow> dash_page" where
  "moveWidget i dir s = (let cfg = dd_config s; idx = findIndex (\<lambda>w. widget_id w = Some (JStr i)) cfg; swap = idx + dir in
     if idx < 0 then s
     else if swap < 0 \<or> swap \<ge> int (length cfg) then s
     else updateConfig (cfg[nat idx := cfg ! nat swap, nat swap := cfg ! nat idx]) s)"

definition resetConfig :: "dash_page \<Rightarrow> dash_page" where
  "resetConfig s = updateConfig DEFAULT_CONFIG s"

datatype dash_event =
    SetGroupScope "string option" | SetHours string | OpenCustomize | CloseCustomize
  | ToggleWidget string | MoveWidget string int | ResetConfig | DashGoto string | DashData dash_data

fun dash_answer :: "dash_event \<Rightarrow> bool" where
  "dash_answer (DashData _) = True"
| "dash_answer _ = False"

fun dash_step :: "dash_event \<Rightarrow> dash_page \<Rightarrow> dash_page \<times> cmd list" where
  "dash_step (SetGroupScope g) s = (s\<lparr>dd_groupScope := g\<rparr>, [])"
| "dash_step (SetHours v) s = (s\<lparr>dd_hours := digits_val v\<rparr>, [])"
| "dash_step OpenCustomize s = (s\<lparr>dd_customizeOpened := True\<rparr>, [])"
| "dash_step CloseCustomize s = (s\<lparr>dd_customizeOpened := False\<rparr>, [])"
| "dash_step (ToggleWidget i) s = (toggleWidget i s, [])"
| "dash_step (MoveWidget i dir) s = (moveWidget i dir s, [])"
| "dash_step ResetConfig s = (resetConfig s, [])"
| "dash_step (DashGoto href) s = (s, [Goto href])"
| "dash_step (DashData d) s = (s\<lparr>dd_data := d\<rparr>, [])"

end
