(* ===== verification/Widgets.thy ===== *)
theory Widgets
  imports Dashboard
begin

text \<open>
  The widgets of the dashboard (\<open>pages/dashboard/widgets\<close>), the customise drawer and the page that shows them. A row that
  drills into the query log raises \<open>DashGoto\<close> with the address the code navigates to.
\<close>

section \<open>Shared\<close>

definition queryLogHref :: "nat \<Rightarrow> (string \<times> string) list \<Rightarrow> string" where
  "queryLogHref hours params = ''/query-log?''
     @ sp_toString (fold (\<lambda>(k, v) ps. if v \<noteq> [] then sp_set k v ps else ps) params [(''hours'', nat_str hours)])"

definition WidgetCard :: "string \<Rightarrow> 'e view list \<Rightarrow> bool \<Rightarrow> 'e view list \<Rightarrow> 'e view" where
  "WidgetCard title rightSection loading children = Box ([Text title] @ rightSection @ (if loading then [Loader] else children))"

lemma offers_WidgetCard [simp]:
  "offers e (WidgetCard t r l c) \<longleftrightarrow> (\<exists>v \<in> set r. offers e v) \<or> \<not> l \<and> (\<exists>v \<in> set c. offers e v)"
  by (auto simp: WidgetCard_def)

section \<open>The widgets\<close>

definition QueryVolumeWidget :: "ui_env \<Rightarrow> timeseries_point list query_state \<Rightarrow> dash_event view" where
  "QueryVolumeWidget w q = (let data = nullish (qy_data q) [] in
     WidgetCard ''Query volume'' [] (qy_isLoading q)
      [if list_all (\<lambda>p. ts_allowed p = 0 \<and> ts_blocked p = 0) data then Text ''No query telemetry in this window.''
       else Chart (map (\<lambda>p. [ue_time w (ts_bucket p), nat_str (ts_allowed p), nat_str (ts_blocked p)]) data)])"

definition DecisionWidget :: "ui_env \<Rightarrow> dashboard_summary query_state \<Rightarrow> nat \<Rightarrow> dash_event view" where
  "DecisionWidget w q hours =
    (let field = (\<lambda>f. case qy_data q of None \<Rightarrow> 0 | Some s \<Rightarrow> f s);
         total = field sm_total_queries; blocked = field sm_blocked_queries; allowed = field sm_allowed_queries in
     WidgetCard ''Decision breakdown'' [] (qy_isLoading q)
      ([Chart (if total > 0 then [[''Allowed'', nat_str allowed], [''Blocked'', nat_str blocked]] else [[''No data'', ''1'']]),
        Text (if total > 0 then toFixed 1 (times100 (dbl_div allowed total)) @ ''% allowed'' else [])]
       @ show_if (total > 0)
         [Clickable (DashGoto (queryLogHref hours [(''decision'', ''allow'')])) [Text ''Allowed'', Text (ue_loc w (int allowed))],
          Clickable (DashGoto (queryLogHref hours [(''decision'', ''block'')])) [Text ''Blocked'', Text (ue_loc w (int blocked))]]))"

definition TopDomainsWidget :: "ui_env \<Rightarrow> (string \<times> string \<times> nat) list option \<Rightarrow> bool \<Rightarrow> nat \<Rightarrow> dash_event view" where
  "TopDomainsWidget w data loading hours =
     WidgetCard ''Top blocked domains'' [] loading
      [if nullish data [] = [] then Text ''No blocked queries in this window.''
       else Table [''#'', ''Domain'', ''Hits'']
         (map (\<lambda>(i, qname, decision, n). Clickable (DashGoto (queryLogHref hours [(''qname'', qname), (''decision'', decision)]))
             [Text (nat_str (i + 1)), Text qname, Text (ue_loc w (int n))]) (enumerate 0 (nullish data [])))]"

definition CategoriesWidget :: "ui_env \<Rightarrow> category_breakdown list query_state \<Rightarrow> nat \<Rightarrow> dash_event view" where
  "CategoriesWidget w q hours = (let data = nullish (qy_data q) [] in
     WidgetCard ''Blocks by category'' [] (qy_isLoading q)
      (if data = [] then [Text ''No categorised blocks in this window.'']
       else map (\<lambda>c. Clickable (DashGoto (queryLogHref hours [(''category'', cb_category c), (''decision'', ''block'')]))
              [Text (cb_category c), Text (ue_num w (cb_pct c) @ ''%''), Progress (cb_pct c) ''red'']) data))"

definition client_color :: "dbl \<Rightarrow> string" where
  "client_color r = (if dbl_less (dbl_div 3 10) r then ''red'' else if dbl_less (dbl_div 1 10) r then ''yellow'' else ''green'')"

definition TopClientsWidget :: "ui_env \<Rightarrow> top_client list query_state \<Rightarrow> nat \<Rightarrow> dash_event view" where
  "TopClientsWidget w q hours = (let data = nullish (qy_data q) [] in
     WidgetCard ''Top clients by query volume'' [] (qy_isLoading q)
      [if data = [] then Text ''No client telemetry in this window.''
       else Table [''Client'', ''Owner'', ''Group'', ''Queries'', ''Block%'']
         (map (\<lambda>c. Clickable (DashGoto (queryLogHref hours [(''client_ip'', tc_client_ip c)]))
            [Box (Text (tc_client_ip c) # show_if (truthy (tc_hostname c)) [Text (the (tc_hostname c))]),
             Text (nullish (tc_owner c) em_dash), Text (nullish (tc_group_name c) em_dash), Text (ue_loc w (int (tc_total c))),
             Badge (client_color (tc_block_ratio c)) (toFixed 0 (times100 (tc_block_ratio c)) @ ''%'')]) data)])"

definition sorted_groups :: "group_breakdown list \<Rightarrow> group_breakdown list" where
  "sorted_groups gs = js_sort (descending (\<lambda>g. int (gb_total g))) gs"

definition GroupBreakdownWidget :: "ui_env \<Rightarrow> group_breakdown list query_state \<Rightarrow> string option \<Rightarrow> dash_event view" where
  "GroupBreakdownWidget w q scoped = (let sorted = sorted_groups (nullish (qy_data q) []) in
     WidgetCard ''Per-group breakdown''
      (show_if (truthy scoped) [Button (''scoped '' @ em_dash @ '' click to clear'') False (SetGroupScope None)]) (qy_isLoading q)
      [if sorted = [] then Text ''No group telemetry yet.''
       else Table [''Tenant'', ''Group'', ''Total'', ''Blocked'', ''Block ratio'']
         (map (\<lambda>g. Clickable (SetGroupScope (if Some (gb_group_id g) = scoped then None else Some (gb_group_id g)))
            [Text (gb_tenant_name g), Text (gb_group_name g), Text (ue_loc w (int (gb_total g))), Text (ue_loc w (int (gb_blocked g))),
             Progress (times100 (gb_block_ratio g)) ''red'', Text (toFixed 0 (times100 (gb_block_ratio g)) @ ''%'')]) sorted)])"

definition widget_feedStatus :: "feed \<Rightarrow> string \<times> string" where
  "widget_feedStatus f = (if \<not> fd_enabled f then (''gray'', ''disabled'')
     else if fd_last_domain_count f = None then (''yellow'', ''pending'') else (''green'', ''ok''))"

definition FeedHealthWidget :: "ui_env \<Rightarrow> feed list option \<Rightarrow> dash_event view" where
  "FeedHealthWidget w feeds = (let data = nullish feeds [] in
     WidgetCard ''Feed health'' [] False
      (if data = [] then [Text ''No feeds configured.'']
       else map (\<lambda>f. Box ([Badge (fst (widget_feedStatus f)) [], Text (if fd_provider f \<noteq> [] then fd_provider f else fd_id f),
                Badge ''gray'' (fd_category_id f)]
              @ (case fd_last_domain_count f of None \<Rightarrow> [] | Some n \<Rightarrow> [Text (ue_loc w n @ '' domains'')]))) (take 8 data)
            @ show_if (length data > 8) [Text (''+'' @ nat_str (length data - 8) @ '' more'')]))"

definition RecentEventsWidget :: "ui_env \<Rightarrow> recent_event list query_state \<Rightarrow> nat \<Rightarrow> dash_event view" where
  "RecentEventsWidget w q hours = (let data = nullish (qy_data q) [] in
     WidgetCard ''Recent block events'' [Badge ''red'' (''live '' @ mid_dot @ '' last 25'')] (qy_isLoading q)
      [if data = [] then Text ''No block events recorded yet.''
       else Table [''Time'', ''Client'', ''Domain'', ''Category'', ''Feed'', ''Group'']
         (map (\<lambda>e. Clickable (DashGoto (queryLogHref hours [(''qname'', re_qname e), (''decision'', re_decision e)]))
            [Text (ue_time w (re_occurred_at e)),
             Box (Text (nullish (re_client_ip e) em_dash) # show_if (truthy (re_client_name e)) [Text (the (re_client_name e))]),
             Text (re_qname e),
             (if truthy (re_matched_category e) then Badge ''red'' (the (re_matched_category e)) else Text em_dash),
             Text (nullish (re_matched_feed_id e) em_dash), Text (nullish (re_group_name e) em_dash)]) data)])"

definition LatencyWidget :: "latency_stats query_state \<Rightarrow> dash_event view" where
  "LatencyWidget q = WidgetCard ''Resolver latency'' [] (qy_isLoading q)
     (case qy_data q of
        None \<Rightarrow> [Text ''No latency samples in this window.'']
      | Some d \<Rightarrow> if lt_sample_count d = 0 then [Text ''No latency samples in this window.'']
          else map (\<lambda>(l, v). Box [Text l, Text (fmtUs v)]) [(''p50'', lt_p50_us d), (''p95'', lt_p95_us d), (''p99'', lt_p99_us d)])"

definition MixColumn :: "ui_env \<Rightarrow> string \<Rightarrow> mix_slice list \<Rightarrow> string \<Rightarrow> dash_event view" where
  "MixColumn w title slices color = Box (Text title #
     (if slices = [] then [Text ''No data'']
      else map (\<lambda>s. Box [Text (mx_label s), Text (ue_num w (mx_pct s) @ ''%''), Progress (mx_pct s) color]) (take 5 slices)))"

definition QueryMixWidget :: "ui_env \<Rightarrow> query_mix query_state \<Rightarrow> dash_event view" where
  "QueryMixWidget w q = (let col = (\<lambda>f. case qy_data q of None \<Rightarrow> [] | Some m \<Rightarrow> f m) in
     WidgetCard ''Query mix'' [] (qy_isLoading q)
      [MixColumn w ''Query type'' (col qm_qtype) ''grape'', MixColumn w ''Response code'' (col qm_response_code) ''orange'',
       MixColumn w ''Matched rule'' (col qm_matched_rule) ''cyan''])"

section \<open>The page\<close>

text \<open>The switch of \<open>renderWidget\<close>; an id outside it renders nothing.\<close>

definition renderWidget :: "ui_env \<Rightarrow> dash_page \<Rightarrow> string \<Rightarrow> dash_event view list" where
  "renderWidget w s i = (let d = dd_data s; h = dd_hours s in
     if i = ''query-volume'' then [QueryVolumeWidget w (da_timeseries d)]
     else if i = ''decision'' then [DecisionWidget w (da_summary d) h]
     else if i = ''top-domains''
       then [TopDomainsWidget w (map_option sm_top_blocked_domains (qy_data (da_summary d))) (qy_isLoading (da_summary d)) h]
     else if i = ''categories'' then [CategoriesWidget w (da_categories d) h]
     else if i = ''top-clients'' then [TopClientsWidget w (da_topClients d) h]
     else if i = ''group-breakdown'' then [GroupBreakdownWidget w (da_byGroup d) (dd_groupScope s)]
     else if i = ''feed-health'' then [FeedHealthWidget w (da_feeds d)]
     else if i = ''recent-events'' then [RecentEventsWidget w (da_recentBlocks d) h]
     else if i = ''latency'' then [LatencyWidget (da_latency d)]
     else if i = ''query-mix'' then [QueryMixWidget w (da_queryMix d)]
     else [])"

definition CustomizeDrawer :: "dash_page \<Rightarrow> dash_event view list" where
  "CustomizeDrawer s = (let cfg = dd_config s; hidden = length (filter (\<lambda>w. \<not> widget_visible w) cfg) in
     show_if (dd_customizeOpened s)
      [Modal ''Customize dashboard'' CloseCustomize
        ([Text ''Toggle widgets on or off and reorder them. Changes are saved automatically.'']
         @ map (\<lambda>(idx, w). Box [Switch (the (map_of WIDGET_DEFS (id_of w))) (widget_visible w) False (ToggleWidget (id_of w)),
               Button ''Move up'' (idx = 0) (MoveWidget (id_of w) (- 1)),
               Button ''Move down'' (idx = length cfg - 1) (MoveWidget (id_of w) 1)]) (enumerate 0 cfg)
         @ show_if (hidden > 0) [Text (nat_str hidden @ '' widget'' @ (if hidden > 1 then ''s'' else []) @ '' hidden'')]
         @ [Button ''Reset to defaults'' False ResetConfig])])"

definition kpi_value :: "dashboard_summary query_state \<Rightarrow> string \<Rightarrow> string" where
  "kpi_value q v = (if qy_isLoading q then ellipsis else if qy_error q \<noteq> None then em_dash else v)"

definition kpi_sub :: "dashboard_summary query_state \<Rightarrow> string option \<Rightarrow> string" where
  "kpi_sub q v = (if qy_error q \<noteq> None then [] else nullish v [])"

definition dashboard_kpis :: "ui_env \<Rightarrow> dash_page \<Rightarrow> dash_event view list" where
  "dashboard_kpis w s = (let q = da_summary (dd_data s); h = dd_hours s; prev = da_prevSummary (dd_data s);
       num = (\<lambda>f. case qy_data q of None \<Rightarrow> 0 | Some x \<Rightarrow> f x); ratio = (\<lambda>f. case qy_data q of None \<Rightarrow> (0, 0) | Some x \<Rightarrow> f x);
       cur = (\<lambda>f. map_option f (qy_data q)); old = (\<lambda>f. map_option f prev);
       curr = (\<lambda>f. map_option f (qy_data q)); oldr = (\<lambda>f. map_option f prev) in
    [KpiCard ''Total queries'' (kpi_value q (ue_loc w (int (num sm_total_queries))))
       (kpi_sub q (relativeDelta h (cur sm_total_queries) (old sm_total_queries))) None,
     KpiCard ''Block ratio'' (kpi_value q (toFixed 1 (times100 (ratio sm_block_ratio)) @ ''%''))
       (kpi_sub q (pointDelta h (curr sm_block_ratio) (oldr sm_block_ratio))) None,
     KpiCard ''Cache hit'' (kpi_value q (toFixed 1 (times100 (ratio sm_cache_hit_ratio)) @ ''%''))
       (kpi_sub q (pointDelta h (curr sm_cache_hit_ratio) (oldr sm_cache_hit_ratio))) None,
     KpiCard ''Active clients'' (kpi_value q (ue_loc w (int (num sm_unique_clients))))
       (kpi_sub q (relativeDelta h (cur sm_unique_clients) (old sm_unique_clients))) None,
     KpiCard ''Tenants'' (kpi_value q (ue_loc w (int (num sm_tenant_count))))
       (kpi_sub q (Some (nat_str (num sm_group_count) @ '' groups''))) None])"

definition DashboardPage :: "ui_env \<Rightarrow> dash_page \<Rightarrow> dash_event view" where
  "DashboardPage w s = Box
    ([Text ''Dashboard'', Select [] (groupOptions (dd_data s)) (dd_groupScope s) False SetGroupScope,
      Segmented TIME_SEGMENTS (nat_str (dd_hours s)) SetHours, Badge ''teal'' ''auto-refresh 30s'',
      Tooltip ''Customize widgets'' (Button ''Customize dashboard'' False OpenCustomize)]
     @ (case dashboardError (dd_data s) of None \<Rightarrow> [] | Some e \<Rightarrow> [Text ''Some dashboard data failed to load'', Text (formatError e)])
     @ dashboard_kpis w s
     @ map (\<lambda>c. Box (renderWidget w s (id_of c))) (filter widget_visible (dd_config s))
     @ CustomizeDrawer s)"

section \<open>The layout\<close>

text \<open>A layout of known widgets in which every known widget occurs.\<close>

definition layout_ok :: "json list \<Rightarrow> bool" where
  "layout_ok cfg \<longleftrightarrow> list_all json_ok cfg \<and> widget_id ` set cfg = (\<lambda>(i, _). Some (JStr i)) ` set WIDGET_DEFS"

lemma layout_not_null: "layout_ok cfg \<Longrightarrow> JNull \<notin> set cfg"
proof
  assume "layout_ok cfg" "JNull \<in> set cfg"
  then have "widget_id JNull \<in> (\<lambda>(i, _). Some (JStr i)) ` set WIDGET_DEFS" unfolding layout_ok_def by (metis imageI)
  then show False by (auto simp: widget_id_def)
qed

lemma widget_id_widget [simp]: "widget_id (widget i b) = Some (JStr i)"
  by (simp add: widget_def widget_id_def jget_def)

lemma layout_default: "layout_ok DEFAULT_CONFIG"
  by (auto simp: layout_ok_def DEFAULT_CONFIG_def list_all_iff widget_def widget_id_def jget_def image_image split_def)

lemma merge_image:
  assumes "f ` set d = V"
  shows "f ` set (filter (\<lambda>x. f x \<in> V) (a @ filter (\<lambda>x. f x \<notin> set (map f a)) d)) = V"
proof (intro set_eqI iffI)
  fix v assume "v \<in> V"
  then obtain x where "x \<in> set d" "f x = v" using assms by blast
  with \<open>v \<in> V\<close> show "v \<in> f ` set (filter (\<lambda>x. f x \<in> V) (a @ filter (\<lambda>x. f x \<notin> set (map f a)) d))"
    by (cases "v \<in> f ` set a") force+
qed auto

lemma layout_merge:
  assumes "list_all json_ok saved"
  shows "layout_ok (filter (\<lambda>w. widget_id w \<in> set (map (\<lambda>(i, _). Some (JStr i)) WIDGET_DEFS))
     (saved @ filter (\<lambda>w. widget_id w \<notin> set (map widget_id saved)) DEFAULT_CONFIG))"
  using assms layout_default merge_image [of widget_id DEFAULT_CONFIG "(\<lambda>(i, _). Some (JStr i)) ` set WIDGET_DEFS" saved]
  by (auto simp: layout_ok_def list_all_iff)

lemma layout_load: "layout_ok (loadWidgetConfig raw)"
proof (cases "\<exists>saved. truthy raw \<and> json_parse (the raw) = Some (JArr saved) \<and> JNull \<notin> set saved")
  case True
  then obtain saved where s: "truthy raw" "json_parse (the raw) = Some (JArr saved)" "JNull \<notin> set saved" by blast
  then show ?thesis using json_parse_ok [OF s(2)] layout_merge [of saved] by (simp add: loadWidgetConfig_def Let_def)
next
  case False
  then show ?thesis by (auto simp: loadWidgetConfig_def Let_def layout_default split: option.split json.split)
qed

lemma load_save:
  assumes "layout_ok cfg"
  shows "loadWidgetConfig (Some (saveWidgetConfig cfg)) = cfg"
proof -
  have ok: "json_ok (JArr cfg)" and ids: "widget_id ` set cfg = (\<lambda>(i, _). Some (JStr i)) ` set WIDGET_DEFS"
    using assms by (simp_all add: layout_ok_def)
  have "widget_id ` set DEFAULT_CONFIG = widget_id ` set cfg" using layout_default ids by (simp add: layout_ok_def)
  then have "filter P (filter (\<lambda>w. widget_id w \<notin> set (map widget_id cfg)) DEFAULT_CONFIG) = []" for P
    by (auto simp: filter_empty_conv)
  moreover have "filter (\<lambda>w. widget_id w \<in> set (map (\<lambda>(i, _). Some (JStr i)) WIDGET_DEFS)) cfg = cfg"
    using ids by (auto simp: filter_id_conv)
  moreover have "json_parse (saveWidgetConfig cfg) = Some (JArr cfg)"
    unfolding saveWidgetConfig_def by (rule json_parse_stringify [OF ok])
  moreover have "truthy (Some (saveWidgetConfig cfg))" by (simp add: saveWidgetConfig_def truthy_def)
  ultimately show ?thesis using layout_not_null [OF assms] by (simp add: loadWidgetConfig_def Let_def del: filter_filter)
qed

lemma jget_set_other: "k \<noteq> x \<Longrightarrow> jget k (map (\<lambda>(k, v). if k = x then (k, y) else (k, v)) kvs) = jget k kvs"
proof -
  assume "k \<noteq> x"
  then have "map_of (map (\<lambda>(k, v). if k = x then (k, y) else (k, v)) l) k = map_of l k" for l :: "(string \<times> json) list"
    by (induction l) auto
  then show ?thesis by (simp add: jget_def rev_map)
qed

lemma widget_id_set_visible [simp]: "widget_id w \<noteq> None \<Longrightarrow> widget_id (set_visible b w) = widget_id w"
  by (cases w) (auto simp: widget_id_def set_visible_def jget_set_other, auto simp: jget_def)

lemma json_ok_set_visible: "json_ok w \<Longrightarrow> json_ok (set_visible b w)"
  by (cases w) (auto simp: set_visible_def list_all_iff split: if_splits)

lemma ids_toggle: "map widget_id (map (\<lambda>w. if widget_id w = Some (JStr i) then set_visible (f w) w else w) cfg) = map widget_id cfg"
  by simp

lemma layout_toggle:
  "layout_ok cfg \<Longrightarrow> layout_ok (map (\<lambda>w. if widget_id w = Some (JStr i) then set_visible (f w) w else w) cfg)"
  using arg_cong [OF ids_toggle [of i f cfg], of set]
  by (auto simp: layout_ok_def list_all_iff json_ok_set_visible simp del: map_map)

definition dash_saved :: "dash_page \<Rightarrow> bool" where
  "dash_saved s \<longleftrightarrow> layout_ok (dd_config s) \<and> loadWidgetConfig (dd_storage s) = dd_config s"

lemma saved_update: "layout_ok cfg \<Longrightarrow> dash_saved (updateConfig cfg s)"
  by (simp add: dash_saved_def updateConfig_def load_save)

lemma mset_move: "mset (dd_config (moveWidget i d s)) = mset (dd_config s)"
proof -
  let ?idx = "findIndex (\<lambda>w. widget_id w = Some (JStr i)) (dd_config s)"
  show ?thesis
  proof (cases "?idx < 0 \<or> ?idx + d < 0 \<or> ?idx + d \<ge> int (length (dd_config s))")
    case False
    then have "nat ?idx < length (dd_config s)" "nat (?idx + d) < length (dd_config s)"
      by (auto simp: findIndex_def Let_def split: if_splits)
    then show ?thesis using False by (simp add: moveWidget_def Let_def updateConfig_def mset_swap)
  qed (auto simp: moveWidget_def Let_def)
qed

lemma saved_move: "dash_saved s \<Longrightarrow> dash_saved (moveWidget i d s)"
proof -
  assume s: "dash_saved s"
  have "set (dd_config (moveWidget i d s)) = set (dd_config s)" using mset_move by (metis set_mset_mset)
  then have "layout_ok (dd_config (moveWidget i d s))" using s by (simp add: dash_saved_def layout_ok_def list_all_iff)
  then show ?thesis using s saved_update by (auto simp: moveWidget_def Let_def updateConfig_def dash_saved_def load_save split: if_splits)
qed

lemma saved_step: "dash_saved s \<Longrightarrow> dash_saved (fst (dash_step e s))"
  using saved_move
  by (cases e) (auto simp: toggleWidget_def resetConfig_def layout_default intro!: saved_update layout_toggle, auto simp: dash_saved_def)

lemma saved_mount: "dash_saved (dash_mount raw)"
  by (simp add: dash_saved_def dash_mount_def layout_load)

definition unique_widgets :: "json list \<Rightarrow> bool" where
  "unique_widgets cfg \<longleftrightarrow> distinct (map widget_id cfg)"

lemma unique_move: "unique_widgets (dd_config (moveWidget i d s)) \<longleftrightarrow> unique_widgets (dd_config s)"
  using mset_eq_imp_distinct_iff [of "map widget_id (dd_config (moveWidget i d s))" "map widget_id (dd_config s)"]
  by (simp add: unique_widgets_def mset_move)

lemma unique_default: "unique_widgets DEFAULT_CONFIG"
  by (simp add: unique_widgets_def DEFAULT_CONFIG_def WIDGET_DEFS_def)

lemma unique_step: "unique_widgets (dd_config s) \<Longrightarrow> unique_widgets (dd_config (fst (dash_step e s)))"
proof (cases e)
  case (ToggleWidget i)
  assume "unique_widgets (dd_config s)"
  then show ?thesis using ToggleWidget
    by (simp add: toggleWidget_def updateConfig_def unique_widgets_def ids_toggle del: map_map)
qed (simp_all add: resetConfig_def updateConfig_def unique_move unique_default)

lemma dash_no_writes: "writes (snd (dash_step e s)) = []"
  by (cases e) (simp_all add: writes_def)

interpretation dsv: read_only_page "DashboardPage w" dash_answer dash_step
    "\<lambda>s. dash_saved s \<and> (b \<longrightarrow> unique_widgets (dd_config s))" for w b
  by unfold_locales (auto simp: saved_step unique_step dash_no_writes)

lemma id_of_known: "widget_id w = Some (JStr i) \<Longrightarrow> id_of w = i"
  by (simp add: id_of_def)

lemma layout_ids: "layout_ok cfg \<Longrightarrow> id_of ` set cfg = fst ` set WIDGET_DEFS"
proof -
  assume "layout_ok cfg"
  then have "(\<lambda>x. case x of Some (JStr i) \<Rightarrow> i | _ \<Rightarrow> []) ` widget_id ` set cfg
      = (\<lambda>x. case x of Some (JStr i) \<Rightarrow> i | _ \<Rightarrow> []) ` (\<lambda>(i, _). Some (JStr i)) ` set WIDGET_DEFS"
    by (simp only: layout_ok_def)
  then show ?thesis by (simp add: image_image id_of_def split_def)
qed

text \<open>C6. Whatever the browser's storage holds when the dashboard opens (nothing, foreign text, an old or a hand-edited layout),
  in every run of the page the layout lists exactly the known widgets, none missing and none unknown; what is stored is
  the layout on screen, so that a reload shows it again; the widgets stay without duplicates when they start without;
  and the page never sends a write.\<close>

theorem layout_survives_reload:
  assumes "page_run (DashboardPage w) dash_answer dash_step (dash_mount raw) s cs"
  shows "id_of ` set (dd_config s) = fst ` set WIDGET_DEFS
    \<and> dd_config (dash_mount (dd_storage s)) = dd_config s
    \<and> (unique_widgets (loadWidgetConfig raw) \<longrightarrow> unique_widgets (dd_config s))
    \<and> writes cs = []"
proof (intro conjI)
  have mount: "dash_saved (dash_mount raw)" by (rule saved_mount)
  have s: "dash_saved s" using dsv.run_keeps [OF assms, of False] mount by simp
  show "id_of ` set (dd_config s) = fst ` set WIDGET_DEFS" using s layout_ids by (simp add: dash_saved_def)
  show "dd_config (dash_mount (dd_storage s)) = dd_config s" using s by (simp add: dash_saved_def dash_mount_def)
  show "unique_widgets (loadWidgetConfig raw) \<longrightarrow> unique_widgets (dd_config s)"
    using dsv.run_keeps [OF assms, of True] mount by (simp add: dash_mount_def)
  show "writes cs = []" using dsv.run_silent [OF assms, of False] mount by simp
qed

section \<open>Drilling into the query log\<close>

text \<open>The filters a row of the dashboard stands for.\<close>

definition drill_params :: "dash_data \<Rightarrow> (string \<times> string) list set" where
  "drill_params d = {[(''decision'', ''allow'')], [(''decision'', ''block'')]}
     \<union> {[(''qname'', q), (''decision'', dec)] | q dec n. (q, dec, n) \<in> set (nullish (map_option sm_top_blocked_domains (qy_data (da_summary d))) [])}
     \<union> (\<lambda>c. [(''category'', cb_category c), (''decision'', ''block'')]) ` set (nullish (qy_data (da_categories d)) [])
     \<union> (\<lambda>c. [(''client_ip'', tc_client_ip c)]) ` set (nullish (qy_data (da_topClients d)) [])
     \<union> (\<lambda>e. [(''qname'', re_qname e), (''decision'', re_decision e)]) ` set (nullish (qy_data (da_recentBlocks d)) [])"

lemma offers_simple_widgets [simp]:
  "\<not> offers e (QueryVolumeWidget w q)" "\<not> offers e (FeedHealthWidget w fs)" "\<not> offers e (LatencyWidget l)"
  "\<not> offers e (MixColumn w t sl c)" "\<not> offers e (QueryMixWidget w m)"
proof -
  show "\<not> offers e (MixColumn w t sl c)" for t sl c by (auto simp: MixColumn_def)
  then show "\<not> offers e (QueryMixWidget w m)" by (simp add: QueryMixWidget_def Let_def)
qed (auto simp: QueryVolumeWidget_def FeedHealthWidget_def LatencyWidget_def Let_def split: option.splits if_splits)

lemma offers_group_widget: "\<not> offers (DashGoto h) (GroupBreakdownWidget w q g)"
  by (auto simp: GroupBreakdownWidget_def Let_def)

lemma offers_decision_widget:
  "offers (DashGoto h) (DecisionWidget w q n) \<Longrightarrow> \<exists>d \<in> {''allow'', ''block''}. h = queryLogHref n [(''decision'', d)]"
  by (auto simp: DecisionWidget_def Let_def bex_Un split: if_splits)

lemma offers_domains_widget:
  "offers (DashGoto h) (TopDomainsWidget w data l n)
   \<Longrightarrow> \<exists>q dec c. (q, dec, c) \<in> set (nullish data []) \<and> h = queryLogHref n [(''qname'', q), (''decision'', dec)]"
  by (auto simp: TopDomainsWidget_def in_set_enumerate_eq split: if_splits) (metis nth_mem)

lemma offers_categories_widget:
  "offers (DashGoto h) (CategoriesWidget w q n)
   \<Longrightarrow> \<exists>c \<in> set (nullish (qy_data q) []). h = queryLogHref n [(''category'', cb_category c), (''decision'', ''block'')]"
  by (auto simp: CategoriesWidget_def Let_def split: if_splits)

lemma offers_clients_widget:
  "offers (DashGoto h) (TopClientsWidget w q n)
   \<Longrightarrow> \<exists>c \<in> set (nullish (qy_data q) []). h = queryLogHref n [(''client_ip'', tc_client_ip c)]"
  by (auto simp: TopClientsWidget_def Let_def split: if_splits)

lemma offers_events_widget:
  "offers (DashGoto h) (RecentEventsWidget w q n)
   \<Longrightarrow> \<exists>e \<in> set (nullish (qy_data q) []). h = queryLogHref n [(''qname'', re_qname e), (''decision'', re_decision e)]"
  by (auto simp: RecentEventsWidget_def Let_def split: if_splits)

lemma offers_widget:
  assumes "\<exists>v \<in> set (renderWidget w s i). offers (DashGoto h) v"
  shows "\<exists>ps \<in> drill_params (dd_data s). h = queryLogHref (dd_hours s) ps"
  using assms
  by (auto simp: renderWidget_def Let_def offers_group_widget drill_params_def split: if_splits option.splits
      dest!: offers_decision_widget offers_domains_widget offers_categories_widget offers_clients_widget offers_events_widget)

lemma offers_dashboard:
  assumes "offers (DashGoto h) (DashboardPage w s)"
  shows "\<exists>ps \<in> drill_params (dd_data s). h = queryLogHref (dd_hours s) ps"
proof -
  have "\<not> (\<exists>v \<in> set (dashboard_kpis w s). offers (DashGoto h) v)" by (simp add: dashboard_kpis_def Let_def)
  moreover have "\<not> (\<exists>v \<in> set (CustomizeDrawer s). offers (DashGoto h) v)" by (auto simp: CustomizeDrawer_def Let_def)
  ultimately have "\<exists>c. \<exists>v \<in> set (renderWidget w s (id_of c)). offers (DashGoto h) v"
    using assms by (auto simp: DashboardPage_def bex_Un split: option.splits)
  then show ?thesis using offers_widget by blast
qed

text \<open>What the query log asks for when it is opened at an address of the dashboard.\<close>

lemma drill_keys: "ps \<in> drill_params d \<Longrightarrow> distinct (map fst ps) \<and> set (map fst ps) \<subseteq> {''decision'', ''qname'', ''client_ip'', ''category''}"
  by (auto simp: drill_params_def)

lemma href_pairs: "sp_parse (drop 11 (queryLogHref n ps))
    = fold (\<lambda>(k, v) qs. if v \<noteq> [] then sp_set k v qs else qs) ps [(''hours'', nat_str n)]"
  by (simp add: queryLogHref_def)

lemma get_href:
  "distinct (map fst ps) \<Longrightarrow> sp_get k (fold (\<lambda>(k, v) qs. if v \<noteq> [] then sp_set k v qs else qs) ps base)
     = (case map_of ps k of None \<Rightarrow> sp_get k base | Some v \<Rightarrow> if v = [] then sp_get k base else Some v)"
proof (induction ps arbitrary: base)
  case (Cons kv ps)
  have "map_of ps (fst kv) = None" using Cons.prems by (simp add: map_of_eq_None_iff)
  then show ?case using Cons by (cases kv) (auto simp: sp.get_set split: option.split)
qed simp

lemma filter_href:
  assumes "distinct (map fst ps)" and "map_of QLOG_FILTERS k = Some d"
  shows "qlog_filter (sp_parse (drop 11 (queryLogHref n ps))) k
    = (case map_of ps k of Some (c # v) \<Rightarrow> c # v | _ \<Rightarrow> if k = ''hours'' then nat_str n else d)"
proof -
  have "qlog_filter (sp_parse (drop 11 (queryLogHref n ps))) k = nullish (sp_get k (sp_parse (drop 11 (queryLogHref n ps)))) d"
    using assms(2) by (auto simp: qlog_filter_def map_of_filter_values nullish_def split: option.split)
  then show ?thesis unfolding href_pairs get_href [OF assms(1)]
    by (auto simp: sp_get_def nullish_def split: option.split list.split)
qed

lemma filter_mount:
  "map_of QLOG_FILTERS k = Some d \<Longrightarrow> qlog_filter (qs_params (qlog_mount ps)) k = qlog_filter ps k"
  by (auto simp: qlog_mount_def effect_qname_def effect_client_ip_def qlog_set_def qlog_filter_set)

lemma mount_debounced:
  "qs_debouncedQname (qlog_mount ps) = qlog_filter ps ''qname''" "qs_debouncedClientIp (qlog_mount ps) = qlog_filter ps ''client_ip''"
  by (simp_all add: qlog_mount_def effect_qname_def effect_client_ip_def qlog_set_def)

lemma drill_absent: "ps \<in> drill_params d \<Longrightarrow> k \<notin> {''decision'', ''qname'', ''client_ip'', ''category''} \<Longrightarrow> map_of ps k = None"
  using drill_keys [of ps d] by (auto simp: map_of_eq_None_iff)


section \<open>Witnesses\<close>

definition wit_summary :: dashboard_summary where
  "wit_summary = \<lparr>sm_total_queries = 10, sm_blocked_queries = 4, sm_allowed_queries = 6, sm_block_ratio = (2, 2), sm_cache_hit_ratio = (1, 1),
     sm_unique_clients = 3, sm_tenant_count = 1, sm_group_count = 2, sm_feed_count = 1, sm_top_blocked_domains = [(''ads.example'', ''block'', 4)]\<rparr>"

definition wit_dash :: dash_page where
  "wit_dash = (let s = dash_mount None in
     s\<lparr>dd_data := (dd_data s)\<lparr>da_summary := \<lparr>qy_data = Some wit_summary, qy_isLoading = False, qy_error = None\<rparr>\<rparr>\<rparr>)"

definition wit_toggled :: dash_page where
  "wit_toggled = toggleWidget ''latency'' (fst (dash_step OpenCustomize (dash_mount None)))"

theorem layout_survives_reload_witness:
  "page_run (DashboardPage wit_env) dash_answer dash_step (dash_mount None) wit_toggled []
   \<and> \<not> widget_visible (dd_config wit_toggled ! 8) \<and> dd_config (dash_mount (dd_storage wit_toggled)) = dd_config wit_toggled"
proof -
  let ?s = "fst (dash_step OpenCustomize (dash_mount None))"
  have cfg: "dd_config (dash_mount None) = DEFAULT_CONFIG" by (simp add: dash_mount_def loadWidgetConfig_def truthy_def)
  have 1: "page_run (DashboardPage wit_env) dash_answer dash_step (dash_mount None) ?s ([] @ [])"
    by (rule page_run.run_event [OF page_run.run_start, where e = OpenCustomize]) (simp_all add: DashboardPage_def)
  have "offers (ToggleWidget ''latency'') (DashboardPage wit_env ?s)"
    by (simp add: DashboardPage_def CustomizeDrawer_def cfg Let_def DEFAULT_CONFIG_def WIDGET_DEFS_def id_of_def)
  then have run: "page_run (DashboardPage wit_env) dash_answer dash_step (dash_mount None) wit_toggled (([] @ []) @ [])"
    by (intro page_run.run_event [OF 1, where e = "ToggleWidget ''latency''"]) (simp_all add: wit_toggled_def)
  have "\<not> widget_visible (dd_config wit_toggled ! 8)"
    by (simp add: wit_toggled_def toggleWidget_def updateConfig_def cfg DEFAULT_CONFIG_def WIDGET_DEFS_def set_visible_def widget_def
        widget_visible_def jget_def widget_id_def)
  with run layout_survives_reload [OF run] show ?thesis by simp
qed


end
