(* ===== verification/Crud.thy ===== *)
theory Crud
  imports View Schema UrlState Formatting
begin

text \<open>
  What the add/edit/delete tabs of the DHCP and upstream pages share: the observer of a mutation hook, the modal with
  its form, and the handlers. A tab is described by a record of its own functions (\<open>crud_ops\<close>): the initial form
  values, the validators, the payload, the three mutations and its messages. A form is mounted when its modal
  opens, with the values of the entity being edited, and keeps them until it is unmounted.
\<close>

section \<open>Mutation observers\<close>

text \<open>\<open>isPending\<close> of a mutation hook follows its latest call. A call is numbered; the answer of an older one changes nothing.\<close>

record observer =
  ob_calls :: nat
  ob_pending :: bool

definition ob_idle :: observer where
  "ob_idle = \<lparr>ob_calls = 0, ob_pending = False\<rparr>"

definition ob_call :: "observer \<Rightarrow> observer" where
  "ob_call b = \<lparr>ob_calls = ob_calls b + 1, ob_pending = True\<rparr>"

definition ob_latest :: "nat \<Rightarrow> observer \<Rightarrow> bool" where
  "ob_latest n b \<longleftrightarrow> n = ob_calls b"

definition ob_settle :: "nat \<Rightarrow> observer \<Rightarrow> observer" where
  "ob_settle n b = (if ob_latest n b then b\<lparr>ob_pending := False\<rparr> else b)"

section \<open>The modal\<close>

record ('r, 'f) crud_modal =
  cm_editing :: "'r option"
  cm_open :: bool
  cm_form :: 'f

definition mount_form :: "'f \<Rightarrow> ('r, 'f) crud_modal \<Rightarrow> ('r, 'f) crud_modal" where
  "mount_form v m = (if cm_open m then m else m\<lparr>cm_form := v\<rparr>)"

definition openWith :: "('r option \<Rightarrow> 'f) \<Rightarrow> 'r option \<Rightarrow> ('r, 'f) crud_modal \<Rightarrow> ('r, 'f) crud_modal" where
  "openWith initial r m = (mount_form (initial r) m)\<lparr>cm_editing := r, cm_open := True\<rparr>"

definition openCreate :: "('r option \<Rightarrow> 'f) \<Rightarrow> ('r, 'f) crud_modal \<Rightarrow> ('r, 'f) crud_modal" where
  "openCreate initial m = openWith initial None m"

definition openEdit :: "('r option \<Rightarrow> 'f) \<Rightarrow> 'r \<Rightarrow> ('r, 'f) crud_modal \<Rightarrow> ('r, 'f) crud_modal" where
  "openEdit initial r m = openWith initial (Some r) m"

definition close_modal :: "('r, 'f) crud_modal \<Rightarrow> ('r, 'f) crud_modal" where
  "close_modal m = m\<lparr>cm_open := False\<rparr>"

section \<open>A tab\<close>

record ('r, 'f) crud_tab =
  ct_rows :: "'r list"
  ct_isLoading :: bool
  ct_modal :: "('r, 'f) crud_modal"
  ct_create :: observer
  ct_update :: observer

record ('r, 'f) crud_ops =
  co_initial :: "'r option \<Rightarrow> 'f"
  co_validate :: "'r option \<Rightarrow> 'f \<Rightarrow> field_errors"
  co_payload :: "'f \<Rightarrow> json"
  co_id :: "'r \<Rightarrow> string"
  co_is_edit :: "'r option \<Rightarrow> bool"
  co_enabled :: "'r \<Rightarrow> bool"
  co_create :: "json mutation"
  co_update :: "(string \<times> json) mutation"
  co_delete :: "string mutation"
  co_saved :: "bool \<Rightarrow> string"
  co_confirm :: "'r \<Rightarrow> string \<times> string"
  co_deleted :: string

definition crud_mount :: "('r, 'f) crud_ops \<Rightarrow> ('r, 'f) crud_tab" where
  "crud_mount ops = \<lparr>ct_rows = [], ct_isLoading = True, ct_modal = \<lparr>cm_editing = None, cm_open = False, cm_form = co_initial ops None\<rparr>,
     ct_create = ob_idle, ct_update = ob_idle\<rparr>"

definition crud_saving :: "('r, 'f) crud_tab \<Rightarrow> bool" where
  "crud_saving s \<longleftrightarrow> ob_pending (ct_create s) \<or> ob_pending (ct_update s)"

datatype ('r, 'f) crud_event =
    OpenCreate | OpenEdit 'r | CloseModal | EditForm "'f \<Rightarrow> 'f" | SubmitForm
  | SaveAnswer nat "'r option" json "thrown option"
  | ToggleEnabled 'r | ToggleAnswer nat 'r "thrown option"
  | ConfirmDelete 'r | DeleteAnswer 'r "thrown option"
  | RowsData "'r list"

fun crud_answer :: "('r, 'f) crud_event \<Rightarrow> bool" where
  "crud_answer (SaveAnswer _ _ _ _) = True"
| "crud_answer (ToggleAnswer _ _ _) = True"
| "crud_answer (DeleteAnswer _ _) = True"
| "crud_answer (RowsData _) = True"
| "crud_answer _ = False"

text \<open>\<open>.catch((e: Error) => notifications.show({ color: "red", title: "Error", message: e.message }))\<close>\<close>

definition notify_raw :: "thrown \<Rightarrow> cmd" where
  "notify_raw e = NotifyTitled ''Error'' (raw_message e) ''red''"

lemma requests_notify_raw [simp]: "requests_of (notify_raw e) = []"
  by (simp add: notify_raw_def)

text \<open>The payload goes to an update of the entity being edited, or to a create.\<close>

definition crud_save :: "('r, 'f) crud_ops \<Rightarrow> json \<Rightarrow> ('r, 'f) crud_tab \<Rightarrow> ('r, 'f) crud_tab \<times> cmd list" where
  "crud_save ops body s = (let ed = cm_editing (ct_modal s) in
     if co_is_edit ops ed then (s\<lparr>ct_update := ob_call (ct_update s)\<rparr>, [mutate (co_update ops) (co_id ops (the ed), body)])
     else (s\<lparr>ct_create := ob_call (ct_create s)\<rparr>, [mutate (co_create ops) body]))"

definition crud_submit :: "('r, 'f) crud_ops \<Rightarrow> ('r, 'f) crud_tab \<Rightarrow> ('r, 'f) crud_tab \<times> cmd list" where
  "crud_submit ops s = (let m = ct_modal s in
     if form_valid (co_validate ops (cm_editing m) (cm_form m)) then crud_save ops (co_payload ops (cm_form m)) s else (s, []))"

text \<open>The answer of the call numbered \<open>n\<close>, with the entity that was being edited and the body that was sent.\<close>

definition save_cache :: "('r, 'f) crud_ops \<Rightarrow> 'r option \<Rightarrow> json \<Rightarrow> cmd list" where
  "save_cache ops ed body = (if co_is_edit ops ed then settled_ok (co_update ops) (co_id ops (the ed), body) []
     else settled_ok (co_create ops) body [])"

definition save_settle :: "('r, 'f) crud_ops \<Rightarrow> nat \<Rightarrow> 'r option \<Rightarrow> ('r, 'f) crud_tab \<Rightarrow> ('r, 'f) crud_tab" where
  "save_settle ops n ed s = (if co_is_edit ops ed then s\<lparr>ct_update := ob_settle n (ct_update s)\<rparr>
     else s\<lparr>ct_create := ob_settle n (ct_create s)\<rparr>)"

definition crud_save_answer ::
    "('r, 'f) crud_ops \<Rightarrow> nat \<Rightarrow> 'r option \<Rightarrow> json \<Rightarrow> thrown option \<Rightarrow> ('r, 'f) crud_tab \<Rightarrow> ('r, 'f) crud_tab \<times> cmd list" where
  "crud_save_answer ops n ed body r s = (let s' = save_settle ops n ed s in
     case r of
       None \<Rightarrow> (s'\<lparr>ct_modal := close_modal (ct_modal s')\<rparr>, save_cache ops ed body @ [Notify (co_saved ops (co_is_edit ops ed)) ''green''])
     | Some e \<Rightarrow> (s', [notify_raw e]))"

definition toggle_payload :: "('r, 'f) crud_ops \<Rightarrow> 'r \<Rightarrow> string \<times> json" where
  "toggle_payload ops r = (co_id ops r, JObj [(''enabled'', JBool (\<not> co_enabled ops r))])"

definition crud_toggle :: "('r, 'f) crud_ops \<Rightarrow> 'r \<Rightarrow> ('r, 'f) crud_tab \<Rightarrow> ('r, 'f) crud_tab \<times> cmd list" where
  "crud_toggle ops r s = (s\<lparr>ct_update := ob_call (ct_update s)\<rparr>, [mutate (co_update ops) (toggle_payload ops r)])"

definition crud_toggle_answer :: "('r, 'f) crud_ops \<Rightarrow> nat \<Rightarrow> 'r \<Rightarrow> thrown option \<Rightarrow> ('r, 'f) crud_tab \<Rightarrow> ('r, 'f) crud_tab \<times> cmd list" where
  "crud_toggle_answer ops n r res s = (s\<lparr>ct_update := ob_settle n (ct_update s)\<rparr>,
     case res of None \<Rightarrow> settled_ok (co_update ops) (toggle_payload ops r) [] | Some e \<Rightarrow> [notify_raw e])"

definition crud_confirmDelete :: "('r, 'f) crud_ops \<Rightarrow> 'r \<Rightarrow> cmd list" where
  "crud_confirmDelete ops r = (let (title, msg) = co_confirm ops r in
     [OpenConfirm title msg ''Delete'' [mutate (co_delete ops) (co_id ops r)]])"

definition crud_delete_answer :: "('r, 'f) crud_ops \<Rightarrow> 'r \<Rightarrow> thrown option \<Rightarrow> cmd list" where
  "crud_delete_answer ops r res = (case res of
     None \<Rightarrow> settled_ok (co_delete ops) (co_id ops r) [Notify (co_deleted ops) ''green''] | Some e \<Rightarrow> [notify_raw e])"

definition set_modal :: "(('r, 'f) crud_modal \<Rightarrow> ('r, 'f) crud_modal) \<Rightarrow> ('r, 'f) crud_tab \<Rightarrow> ('r, 'f) crud_tab" where
  "set_modal f s = s\<lparr>ct_modal := f (ct_modal s)\<rparr>"

fun crud_step :: "('r, 'f) crud_ops \<Rightarrow> ('r, 'f) crud_event \<Rightarrow> ('r, 'f) crud_tab \<Rightarrow> ('r, 'f) crud_tab \<times> cmd list" where
  "crud_step ops OpenCreate s = (set_modal (openCreate (co_initial ops)) s, [])"
| "crud_step ops (OpenEdit r) s = (set_modal (openEdit (co_initial ops) r) s, [])"
| "crud_step ops CloseModal s = (set_modal close_modal s, [])"
| "crud_step ops (EditForm f) s = (set_modal (\<lambda>m. m\<lparr>cm_form := f (cm_form m)\<rparr>) s, [])"
| "crud_step ops SubmitForm s = crud_submit ops s"
| "crud_step ops (SaveAnswer n ed body r) s = crud_save_answer ops n ed body r s"
| "crud_step ops (ToggleEnabled r) s = crud_toggle ops r s"
| "crud_step ops (ToggleAnswer n r res) s = crud_toggle_answer ops n r res s"
| "crud_step ops (ConfirmDelete r) s = (s, crud_confirmDelete ops r)"
| "crud_step ops (DeleteAnswer r res) s = (s, crud_delete_answer ops r res)"
| "crud_step ops (RowsData rs) s = (s\<lparr>ct_rows := rs, ct_isLoading := False\<rparr>, [])"

section \<open>Editing\<close>

text \<open>
  The contract of an edit form: an entity that is well-formed (as the server returns it) passes the validators, is
  updated rather than created, and the untouched form gives back the entity's fields.
\<close>

locale edit_form =
  fixes ops :: "('r, 'f) crud_ops"
    and well_formed :: "'r \<Rightarrow> bool"
    and fields :: "'r \<Rightarrow> (string \<times> json) list"
  assumes valid: "well_formed r \<Longrightarrow> form_valid (co_validate ops (Some r) (co_initial ops (Some r)))"
    and is_edit: "well_formed r \<Longrightarrow> co_is_edit ops (Some r)"
    and payload: "well_formed r \<Longrightarrow> co_payload ops (co_initial ops (Some r)) = JObj (fields r)"
begin

lemma save_untouched:
  assumes "well_formed r" and "\<not> cm_open (ct_modal s)"
  shows "requests (snd (crud_step ops SubmitForm (fst (crud_step ops (OpenEdit r) s))))
     = [mu_fn (co_update ops) (co_id ops r, JObj (fields r))]"
  using assms valid [of r] is_edit [of r] payload [of r]
  by (simp add: set_modal_def openEdit_def openWith_def mount_form_def crud_submit_def crud_save_def mutate_def Let_def)

end

text \<open>Joining server lists with \<open>", "\<close> and splitting the text again gives the list back.\<close>

definition split_list :: "string \<Rightarrow> string list" where
  "split_list t = filter (\<lambda>s. s \<noteq> []) (map js_trim (js_split CHR '','' t))"

definition clean_entry :: "string \<Rightarrow> bool" where
  "clean_entry x \<longleftrightarrow> x \<noteq> [] \<and> CHR '','' \<notin> set x \<and> js_trim x = x"

lemma js_trim_space: "js_trim (CHR '' '' # x) = js_trim x"
  by (simp add: js_trim_def is_space_def code_def)

lemma split_list_join: "list_all clean_entry xs \<Longrightarrow> split_list (js_join '', '' xs) = xs"
proof (induction xs rule: induct_list012)
  case (3 x y ys)
  have sp: "split_list (CHR '' '' # t) = split_list t" for t
    by (cases "js_split CHR '','' t") (auto simp: split_list_def js_trim_space)
  have "js_join '', '' (x # y # ys) = x @ CHR '','' # CHR '' '' # js_join '', '' (y # ys)" by simp
  then have "split_list (js_join '', '' (x # y # ys)) = x # split_list (CHR '' '' # js_join '', '' (y # ys))"
    using 3(3) by (simp add: split_list_def js_split_append_sep clean_entry_def del: js_split.simps)
  then show ?case using 3 by (simp add: sp)
qed (simp_all add: split_list_def clean_entry_def js_split_no_sep js_trim_def)

definition required :: "string \<Rightarrow> string option" where
  "required v = (if js_trim v = [] then Some ''Required'' else None)"

text \<open>An optional text as the server stores it: absent or not empty.\<close>

definition stored_text :: "string option \<Rightarrow> bool" where
  "stored_text v \<longleftrightarrow> v \<noteq> Some []"

lemma stored_text_back [simp]: "stored_text v \<Longrightarrow> or_null (nullish v []) = v"
  by (cases v) (auto simp: stored_text_def or_null_def nullish_def)

lemma required_ok [simp]: "js_trim v \<noteq> [] \<Longrightarrow> required v = None"
  by (simp add: required_def)

lemma jopt_Some [simp]: "jopt (Some x) = JStr x"
  by (simp add: jopt_def)

end
