(* ===== verification/Dhcp.thy ===== *)
theory Dhcp
  imports Crud
begin

text \<open>
  \<open>pages/dhcp\<close>: the tabs of the DHCP page. Scopes and reservations of both families are tabs of the form described in
  \<open>Crud\<close>; leases and status only show data. A select passes \<open>null\<close> when its value is cleared, so the values it
  edits are optional.
\<close>

definition right_arrow :: string where "right_arrow = [CHR 0xE2, CHR 0x86, CHR 0x92]"

section \<open>Scopes\<close>

record scope_form =
  sf_tenant_id :: "string option"
  sf_name :: string
  sf_description :: string
  sf_subnet :: string
  sf_range_start :: string
  sf_range_end :: string
  sf_router_ip :: string
  sf_dns_servers :: string
  sf_ntp_server :: string
  sf_domain_name :: string
  sf_interface :: string
  sf_lease_time_s :: num_input
  sf_max_lease_time_s :: num_input
  sf_ddns_enabled :: bool
  sf_ddns_zone_id :: "string option"
  sf_ddns_ttl_s :: num_input
  sf_pxe_next_server :: string
  sf_pxe_boot_filename :: string
  sf_pxe_uefi_boot_filename :: string
  sf_enabled :: bool

definition interfaceOptions :: "string list option \<Rightarrow> string option \<Rightarrow> string list" where
  "interfaceOptions interfaces current = js_unique (nullish interfaces [] @ (if truthy current then [the current] else []))"

definition ScopeForm_initial :: "dhcp_scope option \<Rightarrow> scope_form" where
  "ScopeForm_initial i = (case i of
     None \<Rightarrow> \<lparr>sf_tenant_id = Some [], sf_name = [], sf_description = [], sf_subnet = [], sf_range_start = [], sf_range_end = [],
       sf_router_ip = [], sf_dns_servers = [], sf_ntp_server = [], sf_domain_name = [], sf_interface = [],
       sf_lease_time_s = Num 86400, sf_max_lease_time_s = Num 604800, sf_ddns_enabled = False, sf_ddns_zone_id = Some [],
       sf_ddns_ttl_s = Num 300, sf_pxe_next_server = [], sf_pxe_boot_filename = [], sf_pxe_uefi_boot_filename = [], sf_enabled = True\<rparr>
   | Some s \<Rightarrow> \<lparr>sf_tenant_id = Some (ds_tenant_id s), sf_name = ds_name s, sf_description = nullish (ds_description s) [],
       sf_subnet = ds_subnet s, sf_range_start = ds_range_start s, sf_range_end = ds_range_end s,
       sf_router_ip = nullish (ds_router_ip s) [], sf_dns_servers = js_join '', '' (ds_dns_servers s),
       sf_ntp_server = nullish (ds_ntp_server s) [], sf_domain_name = nullish (ds_domain_name s) [],
       sf_interface = nullish (ds_interface s) [], sf_lease_time_s = Num (ds_lease_time_s s),
       sf_max_lease_time_s = Num (ds_max_lease_time_s s), sf_ddns_enabled = ds_ddns_enabled s,
       sf_ddns_zone_id = Some (nullish (ds_ddns_zone_id s) []), sf_ddns_ttl_s = Num (ds_ddns_ttl_s s),
       sf_pxe_next_server = nullish (ds_pxe_next_server s) [], sf_pxe_boot_filename = nullish (ds_pxe_boot_filename s) [],
       sf_pxe_uefi_boot_filename = nullish (ds_pxe_uefi_boot_filename s) [], sf_enabled = ds_enabled s\<rparr>)"

text \<open>\<open>/^\d+\.\d+\.\d+\.\d+\/\d+$/\<close>\<close>

definition digits1 :: "string \<Rightarrow> bool" where
  "digits1 t \<longleftrightarrow> t \<noteq> [] \<and> list_all is_digit t"

definition cidr_like :: "string \<Rightarrow> bool" where
  "cidr_like t = (case js_split CHR ''/'' t of
     [a, len] \<Rightarrow> length (js_split CHR ''.'' a) = 4 \<and> list_all digits1 (js_split CHR ''.'' a) \<and> digits1 len
   | _ \<Rightarrow> False)"

definition ScopeForm_validate :: "dhcp_scope option \<Rightarrow> scope_form \<Rightarrow> field_errors" where
  "ScopeForm_validate i v =
    [(''tenant_id'', if \<not> truthy (map_option ds_id i) \<and> \<not> truthy (sf_tenant_id v) then Some ''Required'' else None),
     (''name'', required (sf_name v)),
     (''subnet'', if js_trim (sf_subnet v) = [] then Some ''Required''
                  else if \<not> cidr_like (js_trim (sf_subnet v)) then Some ''Must be CIDR (e.g. 10.0.1.0/24)'' else None),
     (''range_start'', required (sf_range_start v)),
     (''range_end'', required (sf_range_end v))]"

text \<open>The payload has every field of the form, \<open>tenant_id\<close> included, whether the scope is new or not.\<close>

definition ScopeForm_payload :: "scope_form \<Rightarrow> json" where
  "ScopeForm_payload v = JObj
    [(''tenant_id'', jopt (sf_tenant_id v)), (''name'', JStr (sf_name v)), (''description'', jopt (or_null (sf_description v))),
     (''subnet'', JStr (sf_subnet v)), (''range_start'', JStr (sf_range_start v)), (''range_end'', JStr (sf_range_end v)),
     (''router_ip'', jopt (or_null (sf_router_ip v))), (''dns_servers'', jstrs (split_list (sf_dns_servers v))),
     (''ntp_server'', jopt (or_null (sf_ntp_server v))), (''domain_name'', jopt (or_null (sf_domain_name v))),
     (''interface'', jopt (or_null (sf_interface v))), (''lease_time_s'', jnum (sf_lease_time_s v)),
     (''max_lease_time_s'', jnum (sf_max_lease_time_s v)), (''ddns_enabled'', JBool (sf_ddns_enabled v)),
     (''ddns_zone_id'', jopt (Option.bind (sf_ddns_zone_id v) or_null)), (''ddns_ttl_s'', jnum (sf_ddns_ttl_s v)),
     (''pxe_next_server'', jopt (or_null (sf_pxe_next_server v))), (''pxe_boot_filename'', jopt (or_null (sf_pxe_boot_filename v))),
     (''pxe_uefi_boot_filename'', jopt (or_null (sf_pxe_uefi_boot_filename v))), (''enabled'', JBool (sf_enabled v))]"

definition ScopesTab_ops :: "(dhcp_scope, scope_form) crud_ops" where
  "ScopesTab_ops = \<lparr>co_initial = ScopeForm_initial, co_validate = ScopeForm_validate, co_payload = ScopeForm_payload, co_id = ds_id,
     co_is_edit = (\<lambda>e. e \<noteq> None), co_enabled = ds_enabled, co_create = useCreateDhcpScope, co_update = useUpdateDhcpScope,
     co_delete = useDeleteDhcpScope, co_saved = (\<lambda>ed. if ed then ''Scope updated'' else ''Scope created''),
     co_confirm = (\<lambda>s. (''Delete scope'',
       ''Delete '' @ ds_name s @ '' ('' @ ds_subnet s @ '')? mantis-dhcp stops serving it immediately.'')),
     co_deleted = ''Scope deleted''\<rparr>"

type_synonym scopes_event = "(dhcp_scope, scope_form) crud_event"

definition ScopeForm :: "(string \<times> string) list \<Rightarrow> (string \<times> string) list \<Rightarrow> string list option
    \<Rightarrow> dhcp_scope option \<Rightarrow> bool \<Rightarrow> scope_form \<Rightarrow> scopes_event view" where
  "ScopeForm tenantOpts zoneOpts interfaces i saving v = Form SubmitForm
    (show_if (\<not> truthy (map_option ds_id i))
       [Select ''Tenant'' tenantOpts (sf_tenant_id v) False (\<lambda>x. EditForm (sf_tenant_id_update (\<lambda>_. x)))]
     @ [TextInput ''Name'' (sf_name v) True False (\<lambda>x. EditForm (sf_name_update (\<lambda>_. x))),
        TextInput ''Description'' (sf_description v) False False (\<lambda>x. EditForm (sf_description_update (\<lambda>_. x))),
        TextInput ''Subnet (CIDR)'' (sf_subnet v) True False (\<lambda>x. EditForm (sf_subnet_update (\<lambda>_. x))),
        TextInput ''Pool start'' (sf_range_start v) True False (\<lambda>x. EditForm (sf_range_start_update (\<lambda>_. x))),
        TextInput ''Pool end'' (sf_range_end v) True False (\<lambda>x. EditForm (sf_range_end_update (\<lambda>_. x))),
        TextInput ''Router (option 3)'' (sf_router_ip v) False False (\<lambda>x. EditForm (sf_router_ip_update (\<lambda>_. x))),
        TextInput ''DNS servers (option 6)'' (sf_dns_servers v) False False (\<lambda>x. EditForm (sf_dns_servers_update (\<lambda>_. x))),
        TextInput ''NTP server (option 42)'' (sf_ntp_server v) False False (\<lambda>x. EditForm (sf_ntp_server_update (\<lambda>_. x))),
        TextInput ''Domain name (option 15)'' (sf_domain_name v) False False (\<lambda>x. EditForm (sf_domain_name_update (\<lambda>_. x))),
        NumberInput ''Lease time (s)'' (sf_lease_time_s v) (Some 60) None False (\<lambda>x. EditForm (sf_lease_time_s_update (\<lambda>_. x))),
        NumberInput ''Max lease time (s)'' (sf_max_lease_time_s v) (Some 60) None False (\<lambda>x. EditForm (sf_max_lease_time_s_update (\<lambda>_. x))),
        Text ''Advanced (DDNS, PXE, interface)'',
        Switch (''DDNS '' @ em_dash @ '' push A records to DNS zone'') (sf_ddns_enabled v) False (EditForm (sf_ddns_enabled_update Not))]
     @ show_if (sf_ddns_enabled v)
       [Select ''DDNS zone'' zoneOpts (sf_ddns_zone_id v) False (\<lambda>x. EditForm (sf_ddns_zone_id_update (\<lambda>_. x))),
        NumberInput ''DDNS TTL (s)'' (sf_ddns_ttl_s v) (Some 30) None False (\<lambda>x. EditForm (sf_ddns_ttl_s_update (\<lambda>_. x)))]
     @ [TextInput ''PXE next-server (siaddr)'' (sf_pxe_next_server v) False False (\<lambda>x. EditForm (sf_pxe_next_server_update (\<lambda>_. x))),
        TextInput ''PXE boot filename (BIOS)'' (sf_pxe_boot_filename v) False False (\<lambda>x. EditForm (sf_pxe_boot_filename_update (\<lambda>_. x))),
        TextInput ''PXE boot filename (UEFI)'' (sf_pxe_uefi_boot_filename v) False False
          (\<lambda>x. EditForm (sf_pxe_uefi_boot_filename_update (\<lambda>_. x))),
        Select ''Interface (optional)'' (map (\<lambda>x. (x, x)) (interfaceOptions interfaces (Option.bind i ds_interface))) (Some (sf_interface v))
          False (\<lambda>x. EditForm (sf_interface_update (\<lambda>_. nullish x []))),
        Switch ''Enabled'' (sf_enabled v) False (EditForm (sf_enabled_update Not)),
        Button ''Cancel'' False CloseModal, Submit ''Save'' saving])"

definition scope_columns :: "(dhcp_scope, scopes_event) crud_column list" where
  "scope_columns =
    [(''Name'', \<lambda>s. Text (ds_name s)), (''Subnet'', \<lambda>s. Text (ds_subnet s)),
     (''Pool'', \<lambda>s. Text (ds_range_start s @ '' '' @ en_dash @ '' '' @ ds_range_end s)),
     (''Lease'', \<lambda>s. Text (fmtDuration (ds_lease_time_s s))),
     (''DDNS'', \<lambda>s. if ds_ddns_enabled s then Badge ''blue'' ''DDNS'' else Text em_dash),
     (''Enabled'', \<lambda>s. Switch [] (ds_enabled s) False (ToggleEnabled s))]"

definition ScopesTab :: "(string \<times> string) list \<Rightarrow> (string \<times> string) list \<Rightarrow> string list option
    \<Rightarrow> (dhcp_scope, scope_form) crud_tab \<Rightarrow> scopes_event view" where
  "ScopesTab tenantOpts zoneOpts interfaces s = (let m = ct_modal s in Box
    ([Text ''DHCP Scopes'', Button ''Add scope'' False OpenCreate,
      CrudTable (ct_rows s) (ct_isLoading s) scope_columns
        (Some (Text ''No scopes configured. Add one to start serving DHCP.'')) (Some OpenEdit) (Some ConfirmDelete) None]
     @ EntityModal (cm_open m) CloseModal (if cm_editing m \<noteq> None then ''Edit scope'' else ''Add scope'')
         [ScopeForm tenantOpts zoneOpts interfaces (cm_editing m) (crud_saving s) (cm_form m)]))"

section \<open>Reservations\<close>

record reserve_prefill =
  rp_ip_address :: string
  rp_mac_address :: "string option"
  rp_duid :: "string option"

record reservation_form =
  rf_mac_address :: string
  rf_ip_address :: string
  rf_hostname :: string
  rf_description :: string
  rf_client_id :: string
  rf_next_server :: string
  rf_boot_filename :: string
  rf_uefi_boot_filename :: string
  rf_enabled :: bool

definition ReservationForm_initial :: "dhcp_reservation option \<Rightarrow> reservation_form" where
  "ReservationForm_initial i = (case i of
     None \<Rightarrow> \<lparr>rf_mac_address = [], rf_ip_address = [], rf_hostname = [], rf_description = [], rf_client_id = [], rf_next_server = [],
       rf_boot_filename = [], rf_uefi_boot_filename = [], rf_enabled = True\<rparr>
   | Some r \<Rightarrow> \<lparr>rf_mac_address = dr_mac_address r, rf_ip_address = dr_ip_address r, rf_hostname = nullish (dr_hostname r) [],
       rf_description = nullish (dr_description r) [], rf_client_id = nullish (dr_client_id r) [],
       rf_next_server = nullish (dr_next_server r) [], rf_boot_filename = nullish (dr_boot_filename r) [],
       rf_uefi_boot_filename = nullish (dr_uefi_boot_filename r) [], rf_enabled = dr_enabled r\<rparr>)"

definition ReservationForm_validate :: "dhcp_reservation option \<Rightarrow> reservation_form \<Rightarrow> field_errors" where
  "ReservationForm_validate _ v =
    [(''mac_address'', if truthy (normalizeMac (rf_mac_address v)) then None else Some ''Format: aa:bb:cc:dd:ee:ff''),
     (''ip_address'', required (rf_ip_address v))]"

definition ReservationForm_payload :: "reservation_form \<Rightarrow> json" where
  "ReservationForm_payload v = JObj
    [(''mac_address'', JStr (nullish (normalizeMac (rf_mac_address v)) (rf_mac_address v))), (''ip_address'', JStr (rf_ip_address v)),
     (''hostname'', jopt (or_null (rf_hostname v))), (''description'', jopt (or_null (rf_description v))),
     (''client_id'', jopt (or_null (rf_client_id v))), (''next_server'', jopt (or_null (rf_next_server v))),
     (''boot_filename'', jopt (or_null (rf_boot_filename v))), (''uefi_boot_filename'', jopt (or_null (rf_uefi_boot_filename v))),
     (''enabled'', JBool (rf_enabled v))]"

definition ReservationsTab_ops :: "string option \<Rightarrow> (dhcp_reservation, reservation_form) crud_ops" where
  "ReservationsTab_ops sc = \<lparr>co_initial = ReservationForm_initial, co_validate = ReservationForm_validate,
     co_payload = ReservationForm_payload, co_id = dr_id, co_is_edit = (\<lambda>e. truthy (map_option dr_id e)), co_enabled = dr_enabled,
     co_create = useCreateDhcpReservation sc, co_update = useUpdateDhcpReservation sc, co_delete = useDeleteDhcpReservation sc,
     co_saved = (\<lambda>ed. if ed then ''Reservation updated'' else ''Reservation created''),
     co_confirm = (\<lambda>r. (''Delete reservation'',
       ''Remove reservation for '' @ dr_mac_address r @ '' '' @ right_arrow @ '' '' @ dr_ip_address r @ ''?'')),
     co_deleted = ''Reservation deleted''\<rparr>"

text \<open>A reservations tab: the rows with their modal, and the search text. The scope is a property of the page.\<close>

record ('r, 'f) reservations_tab =
  rt_crud :: "('r, 'f) crud_tab"
  rt_search :: string

datatype ('r, 'f) reservations_event =
    RtCrud "('r, 'f) crud_event" | RtSearch string | RtScope "string option"

text \<open>\<open>setEditing({ mac_address: prefill.mac_address ?? "", ip_address: prefill.ip_address })\<close>: a reservation with no id, whose other
  fields are \<open>undefined\<close>; the form reads them as empty and \<open>enabled\<close> as \<open>true\<close>.\<close>

definition prefilled :: "reserve_prefill \<Rightarrow> dhcp_reservation" where
  "prefilled p = \<lparr>dr_id = [], dr_scope_id = [], dr_tenant_id = [], dr_mac_address = nullish (rp_mac_address p) [],
     dr_ip_address = rp_ip_address p, dr_hostname = None, dr_description = None, dr_client_id = None, dr_next_server = None,
     dr_boot_filename = None, dr_uefi_boot_filename = None, dr_enabled = True, dr_created_at = [], dr_updated_at = []\<rparr>"

definition open_prefilled :: "('r option \<Rightarrow> 'f) \<Rightarrow> 'r \<Rightarrow> ('r, 'f) reservations_tab \<Rightarrow> ('r, 'f) reservations_tab" where
  "open_prefilled initial r t = t\<lparr>rt_crud := set_modal (openWith initial (Some r)) (rt_crud t)\<rparr>"

definition reservation_matches :: "string \<Rightarrow> dhcp_reservation \<Rightarrow> bool" where
  "reservation_matches q r \<longleftrightarrow> js_includes (js_lower (dr_mac_address r)) q \<or> js_includes (js_lower (dr_ip_address r)) q
     \<or> js_includes (js_lower (nullish (dr_hostname r) [])) q"

definition filtered_by :: "(string \<Rightarrow> 'r \<Rightarrow> bool) \<Rightarrow> string \<Rightarrow> 'r list \<Rightarrow> 'r list" where
  "filtered_by matches search rows = (let q = js_lower (js_trim search) in if q = [] then rows else filter (matches q) rows)"

definition ReservationForm :: "bool \<Rightarrow> reservation_form \<Rightarrow> (dhcp_reservation, reservation_form) crud_event view" where
  "ReservationForm saving v = Form SubmitForm
    [TextInput ''MAC address'' (rf_mac_address v) True False (\<lambda>x. EditForm (rf_mac_address_update (\<lambda>_. x))),
     TextInput ''IP address'' (rf_ip_address v) True False (\<lambda>x. EditForm (rf_ip_address_update (\<lambda>_. x))),
     TextInput ''Hostname'' (rf_hostname v) False False (\<lambda>x. EditForm (rf_hostname_update (\<lambda>_. x))),
     TextInput ''Description'' (rf_description v) False False (\<lambda>x. EditForm (rf_description_update (\<lambda>_. x))),
     TextInput ''Client ID (hex)'' (rf_client_id v) False False (\<lambda>x. EditForm (rf_client_id_update (\<lambda>_. x))),
     TextInput ''PXE next-server'' (rf_next_server v) False False (\<lambda>x. EditForm (rf_next_server_update (\<lambda>_. x))),
     TextInput ''PXE boot file (BIOS)'' (rf_boot_filename v) False False (\<lambda>x. EditForm (rf_boot_filename_update (\<lambda>_. x))),
     TextInput ''PXE boot file (UEFI)'' (rf_uefi_boot_filename v) False False (\<lambda>x. EditForm (rf_uefi_boot_filename_update (\<lambda>_. x))),
     Switch ''Enabled'' (rf_enabled v) False (EditForm (rf_enabled_update Not)),
     Button ''Cancel'' False CloseModal, Submit ''Save'' saving]"

definition reservation_columns :: "(dhcp_reservation, (dhcp_reservation, reservation_form) crud_event) crud_column list" where
  "reservation_columns =
    [(''MAC'', \<lambda>r. Text (dr_mac_address r)), (''IP'', \<lambda>r. Text (dr_ip_address r)), (''Hostname'', \<lambda>r. Text (nullish (dr_hostname r) em_dash)),
     (''Description'', \<lambda>r. Text (nullish (dr_description r) em_dash)),
     (''PXE'', \<lambda>r. if truthy (dr_boot_filename r) then Badge ''grape'' ''PXE'' else Text em_dash),
     (''Enabled'', \<lambda>r. Switch [] (dr_enabled r) False (ToggleEnabled r))]"

definition ReservationsTab :: "(string \<times> string) list \<Rightarrow> string option \<Rightarrow> (dhcp_reservation, reservation_form) reservations_tab
    \<Rightarrow> (dhcp_reservation, reservation_form) reservations_event view" where
  "ReservationsTab scopeOpts scopeId t = (let s = rt_crud t; m = ct_modal s; scoped = truthy scopeId in Box
    ([Text ''Host Reservations'']
     @ show_if scoped [TextInput [] (rt_search t) False False RtSearch]
     @ [Select [] scopeOpts scopeId False RtScope,
        (let add = Button ''Add reservation'' (\<not> scoped) (RtCrud OpenCreate) in if scoped then add else Tooltip ''Select a scope first'' add),
        (if \<not> scoped then Text ''Select a scope to view reservations.''
         else map_view RtCrud (CrudTable (filtered_by reservation_matches (rt_search t) (ct_rows s)) (ct_isLoading s) reservation_columns
           (Some (Text ''No reservations in this scope.'')) (Some OpenEdit) (Some ConfirmDelete) None))]
     @ map (map_view RtCrud) (EntityModal (cm_open m) CloseModal
         (if truthy (map_option dr_id (cm_editing m)) then ''Edit reservation'' else ''Add reservation'')
         [ReservationForm (crud_saving s) (cm_form m)])))"

section \<open>Leases\<close>

record 'l leases_tab =
  lz_rows :: "'l list"
  lz_isLoading :: bool
  lz_isFetching :: bool
  lz_search :: string

datatype 'l leases_event =
    LzSearch string | LzScope "string option" | LzRefetch | LzReserve 'l | LzData "'l list"

definition leases_mount :: "'l leases_tab" where
  "leases_mount = \<lparr>lz_rows = [], lz_isLoading = True, lz_isFetching = True, lz_search = []\<rparr>"

definition scopeName :: "(string \<times> string) list \<Rightarrow> string \<Rightarrow> string" where
  "scopeName scopeOpts i = nullish (map_of (rev scopeOpts) i) i"

definition lease_matches :: "string \<Rightarrow> dhcp_lease \<Rightarrow> bool" where
  "lease_matches q l \<longleftrightarrow> js_includes (js_lower (dl_ip_address l)) q \<or> js_includes (js_lower (dl_mac_address l)) q
     \<or> js_includes (js_lower (nullish (dl_hostname l) [])) q"

definition lease_state :: "int \<Rightarrow> string \<times> string" where
  "lease_state n = nullish (LEASE_STATE n) (''State '' @ int_str n, ''gray'')"

definition lease_columns :: "ui_env \<Rightarrow> (string \<times> string) list \<Rightarrow> string option \<Rightarrow> (dhcp_lease, dhcp_lease leases_event) crud_column list" where
  "lease_columns w scopeOpts scopeId =
    (if \<not> truthy scopeId then [(''Scope'', \<lambda>l. Text (scopeName scopeOpts (dl_scope_id l)))] else [])
    @ [(''IP'', \<lambda>l. Text (dl_ip_address l)), (''MAC'', \<lambda>l. Text (dl_mac_address l)),
       (''Hostname'', \<lambda>l. Text (if truthy (dl_hostname l) then the (dl_hostname l) else em_dash)),
       (''Expires in'', \<lambda>l. Text (fmtExpire (ue_tz w) (ue_now w) (Some (dl_expires_at l)))),
       (''State'', \<lambda>l. Badge (snd (lease_state (dl_state l))) (fst (lease_state (dl_state l))))]"

definition reserve_action :: "'l \<Rightarrow> 'l leases_event view" where
  "reserve_action l = Tooltip ''Reserve this IP for this client'' (Button ''Reserve'' False (LzReserve l))"

definition LeasesTab :: "ui_env \<Rightarrow> (string \<times> string) list \<Rightarrow> string option \<Rightarrow> dhcp_lease leases_tab \<Rightarrow> dhcp_lease leases_event view" where
  "LeasesTab w scopeOpts scopeId t = Box
    [Text ''Active Leases'', TextInput [] (lz_search t) False False LzSearch, Select [] scopeOpts scopeId False LzScope,
     Tooltip ''Refresh'' (Button [] (lz_isFetching t) LzRefetch),
     CrudTable (filtered_by lease_matches (lz_search t) (lz_rows t)) (lz_isLoading t) (lease_columns w scopeOpts scopeId)
       (Some (Text ''No active leases. Auto-refreshes every 30 s.'')) None None (Some reserve_action)]"

section \<open>Status\<close>

record status_tab =
  sg_stats :: "dhcp_subnet_stat list"
  sg_statsLoading :: bool
  sg_instances :: "daemon_heartbeat list"
  sg_healthLoading :: bool

definition subnet_pct :: "dhcp_subnet_stat \<Rightarrow> nat" where
  "subnet_pct s = (if st_total_addresses s > 0
     then fixed_units 0 (times100 (dbl_div (nat (st_assigned_addresses s)) (nat (st_total_addresses s)))) else 0)"

definition subnet_color :: "nat \<Rightarrow> string" where
  "subnet_color pct = (if pct > 85 then ''red'' else if pct > 60 then ''orange'' else ''blue'')"

definition StatusTab :: "ui_env \<Rightarrow> status_tab \<Rightarrow> 'e view" where
  "StatusTab w t = Box
    [Text ''DHCP daemon health'',
     (if sg_healthLoading t then Loader
      else if sg_instances t = [] then Text (''No mantis-dhcp/mantis-dhcp6 instance has reported in '' @ em_dash
        @ '' either none is running, or none has been up long enough for its first heartbeat yet.'')
      else Table [''Family'', ''Host'', ''Started'', ''Last seen'', ''Status'']
        (map (\<lambda>i. Row [Text (''DHCPv'' @ hb_family i), Text (nullish (hb_hostname i) ''unknown''),
           Text (formatRelativeTime (ue_tz w) (ue_now w) (Some (hb_started_at i))),
           Text (formatRelativeTime (ue_tz w) (ue_now w) (Some (hb_last_seen_at i))),
           (if hb_stale i then Badge ''red'' ''Not responding'' else Badge ''green'' ''Online'')]) (sg_instances t))),
     Text ''Subnet utilisation'',
     (if sg_statsLoading t then Loader
      else if sg_stats t = [] then Text ''No scopes, or no leases allocated yet.''
      else Table [''Scope'', ''Subnet'', ''Assigned / Total'', ''Utilisation'', ''Declined'']
        (map (\<lambda>s. Row [Text (st_scope_name s), Text (st_subnet s),
           Text (int_str (st_assigned_addresses s) @ '' / '' @ int_str (st_total_addresses s)),
           Box [Progress (subnet_pct s, 0) (subnet_color (subnet_pct s)), Text (nat_str (subnet_pct s) @ ''%'')],
           (if st_declined_addresses s > 0 then Badge ''red'' (int_str (st_declined_addresses s)) else Text ''0'')]) (sg_stats t)))]"

end
