(* ===== verification/Dhcp6.thy ===== *)
theory Dhcp6
  imports Dhcp
begin

text \<open>\<open>pages/dhcp/dhcpv6\<close>: the scopes, reservations and leases of DHCPv6.\<close>

section \<open>Scopes\<close>

record scope6_form =
  s6_tenant_id :: "string option"
  s6_name :: string
  s6_description :: string
  s6_subnet :: string
  s6_pool_start :: string
  s6_pool_end :: string
  s6_pd_prefix :: string
  s6_pd_prefix_len :: "num_input option"
  s6_dns_servers :: string
  s6_domain_name :: string
  s6_interface :: string
  s6_preferred_lifetime_s :: num_input
  s6_valid_lifetime_s :: num_input
  s6_ddns_enabled :: bool
  s6_enabled :: bool

definition Scope6Form_initial :: "dhcp_scope6 option \<Rightarrow> scope6_form" where
  "Scope6Form_initial i = (case i of
     None \<Rightarrow> \<lparr>s6_tenant_id = Some [], s6_name = [], s6_description = [], s6_subnet = [], s6_pool_start = [], s6_pool_end = [],
       s6_pd_prefix = [], s6_pd_prefix_len = None, s6_dns_servers = [], s6_domain_name = [], s6_interface = [],
       s6_preferred_lifetime_s = Num 3000, s6_valid_lifetime_s = Num 4000, s6_ddns_enabled = False, s6_enabled = True\<rparr>
   | Some s \<Rightarrow> \<lparr>s6_tenant_id = Some (ds6_tenant_id s), s6_name = ds6_name s, s6_description = nullish (ds6_description s) [],
       s6_subnet = ds6_subnet s, s6_pool_start = ds6_pool_start s, s6_pool_end = ds6_pool_end s,
       s6_pd_prefix = nullish (ds6_pd_prefix s) [], s6_pd_prefix_len = map_option Num (ds6_pd_prefix_len s),
       s6_dns_servers = js_join '', '' (ds6_dns_servers s), s6_domain_name = nullish (ds6_domain_name s) [],
       s6_interface = nullish (ds6_interface s) [], s6_preferred_lifetime_s = Num (ds6_preferred_lifetime_s s),
       s6_valid_lifetime_s = Num (ds6_valid_lifetime_s s), s6_ddns_enabled = ds6_ddns_enabled s, s6_enabled = ds6_enabled s\<rparr>)"

definition Scope6Form_validate :: "dhcp_scope6 option \<Rightarrow> scope6_form \<Rightarrow> field_errors" where
  "Scope6Form_validate i v =
    [(''tenant_id'', if \<not> truthy (map_option ds6_id i) \<and> \<not> truthy (s6_tenant_id v) then Some ''Required'' else None),
     (''name'', required (s6_name v)), (''subnet'', required (s6_subnet v)), (''pool_start'', required (s6_pool_start v)),
     (''pool_end'', required (s6_pool_end v))]"

definition Scope6Form_payload :: "scope6_form \<Rightarrow> json" where
  "Scope6Form_payload v = JObj
    [(''tenant_id'', jopt (s6_tenant_id v)), (''name'', JStr (s6_name v)), (''description'', jopt (or_null (s6_description v))),
     (''subnet'', JStr (s6_subnet v)), (''pool_start'', JStr (s6_pool_start v)), (''pool_end'', JStr (s6_pool_end v)),
     (''pd_prefix'', jopt (or_null (s6_pd_prefix v))),
     (''pd_prefix_len'', case s6_pd_prefix_len v of None \<Rightarrow> JNull | Some n \<Rightarrow> jnum n),
     (''dns_servers'', jstrs (split_list (s6_dns_servers v))), (''domain_name'', jopt (or_null (s6_domain_name v))),
     (''interface'', jopt (or_null (s6_interface v))), (''preferred_lifetime_s'', jnum (s6_preferred_lifetime_s v)),
     (''valid_lifetime_s'', jnum (s6_valid_lifetime_s v)), (''ddns_enabled'', JBool (s6_ddns_enabled v)),
     (''enabled'', JBool (s6_enabled v))]"

definition Scope6sTab_ops :: "(dhcp_scope6, scope6_form) crud_ops" where
  "Scope6sTab_ops = \<lparr>co_initial = Scope6Form_initial, co_validate = Scope6Form_validate, co_payload = Scope6Form_payload, co_id = ds6_id,
     co_is_edit = (\<lambda>e. e \<noteq> None), co_enabled = ds6_enabled, co_create = useCreateDhcpScope6, co_update = useUpdateDhcpScope6,
     co_delete = useDeleteDhcpScope6, co_saved = (\<lambda>ed. if ed then ''Scope updated'' else ''Scope created''),
     co_confirm = (\<lambda>s. (''Delete IPv6 scope'', ''Delete '' @ ds6_name s @ '' ('' @ ds6_subnet s @ '')?'')), co_deleted = ''Scope deleted''\<rparr>"

type_synonym scopes6_event = "(dhcp_scope6, scope6_form) crud_event"

definition Scope6Form :: "(string \<times> string) list \<Rightarrow> string list option \<Rightarrow> dhcp_scope6 option \<Rightarrow> bool \<Rightarrow> scope6_form \<Rightarrow> scopes6_event view" where
  "Scope6Form tenantOpts interfaces i saving v = Form SubmitForm
    (show_if (\<not> truthy (map_option ds6_id i))
       [Select ''Tenant'' tenantOpts (s6_tenant_id v) False (\<lambda>x. EditForm (s6_tenant_id_update (\<lambda>_. x)))]
     @ [TextInput ''Name'' (s6_name v) True False (\<lambda>x. EditForm (s6_name_update (\<lambda>_. x))),
        TextInput ''Description'' (s6_description v) False False (\<lambda>x. EditForm (s6_description_update (\<lambda>_. x))),
        TextInput ''Subnet (CIDR)'' (s6_subnet v) True False (\<lambda>x. EditForm (s6_subnet_update (\<lambda>_. x))),
        TextInput ''Pool start'' (s6_pool_start v) True False (\<lambda>x. EditForm (s6_pool_start_update (\<lambda>_. x))),
        TextInput ''Pool end'' (s6_pool_end v) True False (\<lambda>x. EditForm (s6_pool_end_update (\<lambda>_. x))),
        TextInput ''PD prefix (optional)'' (s6_pd_prefix v) False False (\<lambda>x. EditForm (s6_pd_prefix_update (\<lambda>_. x))),
        NumberInput ''Delegated prefix len'' (nullish (s6_pd_prefix_len v) Blank) (Some 1) (Some 128) False
          (\<lambda>x. EditForm (s6_pd_prefix_len_update (\<lambda>_. Some x))),
        TextInput ''DNS servers'' (s6_dns_servers v) False False (\<lambda>x. EditForm (s6_dns_servers_update (\<lambda>_. x))),
        TextInput ''Domain name'' (s6_domain_name v) False False (\<lambda>x. EditForm (s6_domain_name_update (\<lambda>_. x))),
        NumberInput ''Preferred lifetime (s)'' (s6_preferred_lifetime_s v) (Some 60) None False
          (\<lambda>x. EditForm (s6_preferred_lifetime_s_update (\<lambda>_. x))),
        NumberInput ''Valid lifetime (s)'' (s6_valid_lifetime_s v) (Some 60) None False (\<lambda>x. EditForm (s6_valid_lifetime_s_update (\<lambda>_. x))),
        Text ''Advanced (DDNS, interface)'',
        Switch ''DDNS'' (s6_ddns_enabled v) False (EditForm (s6_ddns_enabled_update Not)),
        Select ''Interface (optional)'' (map (\<lambda>x. (x, x)) (interfaceOptions interfaces (Option.bind i ds6_interface))) (Some (s6_interface v))
          False (\<lambda>x. EditForm (s6_interface_update (\<lambda>_. nullish x []))),
        Switch ''Enabled'' (s6_enabled v) False (EditForm (s6_enabled_update Not)),
        Button ''Cancel'' False CloseModal, Submit ''Save'' saving])"

definition scope6_columns :: "(dhcp_scope6, scopes6_event) crud_column list" where
  "scope6_columns =
    [(''Name'', \<lambda>s. Text (ds6_name s)), (''Subnet'', \<lambda>s. Text (ds6_subnet s)),
     (''Pool'', \<lambda>s. Text (ds6_pool_start s @ '' '' @ en_dash @ ds6_pool_end s)),
     (''Lifetime'', \<lambda>s. Text (fmtDuration (ds6_valid_lifetime_s s))),
     (''Enabled'', \<lambda>s. Switch [] (ds6_enabled s) False (ToggleEnabled s))]"

definition Scope6sTab :: "(string \<times> string) list \<Rightarrow> string list option \<Rightarrow> (dhcp_scope6, scope6_form) crud_tab \<Rightarrow> scopes6_event view" where
  "Scope6sTab tenantOpts interfaces s = (let m = ct_modal s in Box
    ([Text ''IPv6 Scopes'', Button ''Add scope'' False OpenCreate,
      CrudTable (ct_rows s) (ct_isLoading s) scope6_columns (Some (Text ''No IPv6 scopes configured.'')) (Some OpenEdit) (Some ConfirmDelete) None]
     @ EntityModal (cm_open m) CloseModal (if cm_editing m \<noteq> None then ''Edit IPv6 scope'' else ''Add IPv6 scope'')
         [Scope6Form tenantOpts interfaces (cm_editing m) (crud_saving s) (cm_form m)]))"

section \<open>Reservations\<close>

record reservation6_form =
  r6_duid :: string
  r6_ip_address :: string
  r6_hostname :: string
  r6_description :: string
  r6_enabled :: bool

definition Reservation6Form_initial :: "dhcp_reservation6 option \<Rightarrow> reservation6_form" where
  "Reservation6Form_initial i = (case i of
     None \<Rightarrow> \<lparr>r6_duid = [], r6_ip_address = [], r6_hostname = [], r6_description = [], r6_enabled = True\<rparr>
   | Some r \<Rightarrow> \<lparr>r6_duid = dr6_duid r, r6_ip_address = dr6_ip_address r, r6_hostname = nullish (dr6_hostname r) [],
       r6_description = nullish (dr6_description r) [], r6_enabled = dr6_enabled r\<rparr>)"

definition Reservation6Form_validate :: "dhcp_reservation6 option \<Rightarrow> reservation6_form \<Rightarrow> field_errors" where
  "Reservation6Form_validate _ v = [(''duid'', required (r6_duid v)), (''ip_address'', required (r6_ip_address v))]"

definition Reservation6Form_payload :: "reservation6_form \<Rightarrow> json" where
  "Reservation6Form_payload v = JObj
    [(''duid'', JStr (r6_duid v)), (''ip_address'', JStr (r6_ip_address v)), (''hostname'', jopt (or_null (r6_hostname v))),
     (''description'', jopt (or_null (r6_description v))), (''enabled'', JBool (r6_enabled v))]"

definition Reservation6sTab_ops :: "string option \<Rightarrow> (dhcp_reservation6, reservation6_form) crud_ops" where
  "Reservation6sTab_ops sc = \<lparr>co_initial = Reservation6Form_initial, co_validate = Reservation6Form_validate,
     co_payload = Reservation6Form_payload, co_id = dr6_id, co_is_edit = (\<lambda>e. truthy (map_option dr6_id e)), co_enabled = dr6_enabled,
     co_create = useCreateDhcpReservation6 sc, co_update = useUpdateDhcpReservation6 sc, co_delete = useDeleteDhcpReservation6 sc,
     co_saved = (\<lambda>_. ''Reservation saved''), co_confirm = (\<lambda>r. (''Delete reservation'', ''Remove reservation for '' @ dr6_duid r @ ''?'')),
     co_deleted = ''Reservation deleted''\<rparr>"

definition prefilled6 :: "reserve_prefill \<Rightarrow> dhcp_reservation6" where
  "prefilled6 p = \<lparr>dr6_id = [], dr6_scope_id = [], dr6_tenant_id = [], dr6_duid = nullish (rp_duid p) [], dr6_ip_address = rp_ip_address p,
     dr6_hostname = None, dr6_description = None, dr6_enabled = True, dr6_created_at = [], dr6_updated_at = []\<rparr>"

definition reservation6_matches :: "string \<Rightarrow> dhcp_reservation6 \<Rightarrow> bool" where
  "reservation6_matches q r \<longleftrightarrow> js_includes (js_lower (dr6_duid r)) q \<or> js_includes (js_lower (dr6_ip_address r)) q
     \<or> js_includes (js_lower (nullish (dr6_hostname r) [])) q"

definition Reservation6Form :: "bool \<Rightarrow> reservation6_form \<Rightarrow> (dhcp_reservation6, reservation6_form) crud_event view" where
  "Reservation6Form saving v = Form SubmitForm
    [TextInput ''DUID (hex)'' (r6_duid v) True False (\<lambda>x. EditForm (r6_duid_update (\<lambda>_. x))),
     TextInput ''IPv6 address'' (r6_ip_address v) True False (\<lambda>x. EditForm (r6_ip_address_update (\<lambda>_. x))),
     TextInput ''Hostname'' (r6_hostname v) False False (\<lambda>x. EditForm (r6_hostname_update (\<lambda>_. x))),
     TextInput ''Description'' (r6_description v) False False (\<lambda>x. EditForm (r6_description_update (\<lambda>_. x))),
     Switch ''Enabled'' (r6_enabled v) False (EditForm (r6_enabled_update Not)),
     Button ''Cancel'' False CloseModal, Submit ''Save'' saving]"

definition reservation6_columns :: "(dhcp_reservation6, (dhcp_reservation6, reservation6_form) crud_event) crud_column list" where
  "reservation6_columns =
    [(''DUID'', \<lambda>r. Text (dr6_duid r)), (''IP address'', \<lambda>r. Text (dr6_ip_address r)),
     (''Hostname'', \<lambda>r. Text (nullish (dr6_hostname r) em_dash)),
     (''Enabled'', \<lambda>r. Switch [] (dr6_enabled r) False (ToggleEnabled r))]"

definition Reservation6sTab :: "(string \<times> string) list \<Rightarrow> string option \<Rightarrow> (dhcp_reservation6, reservation6_form) reservations_tab
    \<Rightarrow> (dhcp_reservation6, reservation6_form) reservations_event view" where
  "Reservation6sTab scopeOpts scopeId t = (let s = rt_crud t; m = ct_modal s; scoped = truthy scopeId in Box
    ([Text ''IPv6 Reservations'']
     @ show_if scoped [TextInput [] (rt_search t) False False RtSearch]
     @ [Select [] scopeOpts scopeId False RtScope,
        (let add = Button ''Add'' (\<not> scoped) (RtCrud OpenCreate) in if scoped then add else Tooltip ''Select a scope first'' add),
        (if \<not> scoped then Text ''Select a scope.''
         else map_view RtCrud (CrudTable (filtered_by reservation6_matches (rt_search t) (ct_rows s)) (ct_isLoading s) reservation6_columns
           (Some (Text ''No reservations.'')) (Some OpenEdit) (Some ConfirmDelete) None))]
     @ map (map_view RtCrud) (EntityModal (cm_open m) CloseModal
         (if truthy (map_option dr6_id (cm_editing m)) then ''Edit reservation'' else ''Add IPv6 reservation'')
         [Reservation6Form (crud_saving s) (cm_form m)])))"

section \<open>Leases\<close>

definition lease6_matches :: "string \<Rightarrow> dhcp_lease6 \<Rightarrow> bool" where
  "lease6_matches q l \<longleftrightarrow> js_includes (js_lower (dl6_ip_address l)) q \<or> js_includes (js_lower (dl6_duid l)) q
     \<or> js_includes (js_lower (nullish (dl6_hostname l) [])) q"

definition lease6_columns :: "ui_env \<Rightarrow> (string \<times> string) list \<Rightarrow> string option \<Rightarrow> (dhcp_lease6, dhcp_lease6 leases_event) crud_column list" where
  "lease6_columns w scopeOpts scopeId =
    (if \<not> truthy scopeId then [(''Scope'', \<lambda>l. Text (scopeName scopeOpts (dl6_scope_id l)))] else [])
    @ [(''IP address'', \<lambda>l. Text (dl6_ip_address l)), (''DUID'', \<lambda>l. Text (dl6_duid l)),
       (''Hostname'', \<lambda>l. Text (if truthy (dl6_hostname l) then the (dl6_hostname l) else em_dash)),
       (''Type'', \<lambda>l. if dl6_lease_type l = 2 then Badge ''grape'' ''IA_PD'' else Badge ''blue'' ''IA_NA''),
       (''Expires in'', \<lambda>l. Text (fmtExpire (ue_tz w) (ue_now w) (Some (dl6_expires_at l))))]"

definition Leases6Tab :: "ui_env \<Rightarrow> (string \<times> string) list \<Rightarrow> string option \<Rightarrow> dhcp_lease6 leases_tab \<Rightarrow> dhcp_lease6 leases_event view" where
  "Leases6Tab w scopeOpts scopeId t = Box
    [Text ''Active IPv6 Leases'', TextInput [] (lz_search t) False False LzSearch, Select [] scopeOpts scopeId False LzScope,
     Tooltip ''Refresh'' (Button [] (lz_isFetching t) LzRefetch),
     CrudTable (filtered_by lease6_matches (lz_search t) (lz_rows t)) (lz_isLoading t) (lease6_columns w scopeOpts scopeId)
       (Some (Text ''No active leases.'')) None None (Some reserve_action)]"

section \<open>Editing round trips\<close>

definition scope_wf :: "dhcp_scope \<Rightarrow> bool" where
  "scope_wf s \<longleftrightarrow> ds_id s \<noteq> [] \<and> js_trim (ds_name s) \<noteq> [] \<and> cidr_like (js_trim (ds_subnet s)) \<and> js_trim (ds_subnet s) \<noteq> []
     \<and> js_trim (ds_range_start s) \<noteq> [] \<and> js_trim (ds_range_end s) \<noteq> [] \<and> list_all clean_entry (ds_dns_servers s)
     \<and> list_all stored_text [ds_description s, ds_router_ip s, ds_ntp_server s, ds_domain_name s, ds_interface s, ds_ddns_zone_id s,
          ds_pxe_next_server s, ds_pxe_boot_filename s, ds_pxe_uefi_boot_filename s]"

definition scope_fields :: "dhcp_scope \<Rightarrow> (string \<times> json) list" where
  "scope_fields s = [(''tenant_id'', JStr (ds_tenant_id s)), (''name'', JStr (ds_name s)), (''description'', jopt (ds_description s)),
     (''subnet'', JStr (ds_subnet s)), (''range_start'', JStr (ds_range_start s)), (''range_end'', JStr (ds_range_end s)),
     (''router_ip'', jopt (ds_router_ip s)), (''dns_servers'', jstrs (ds_dns_servers s)), (''ntp_server'', jopt (ds_ntp_server s)),
     (''domain_name'', jopt (ds_domain_name s)), (''interface'', jopt (ds_interface s)), (''lease_time_s'', jint (ds_lease_time_s s)),
     (''max_lease_time_s'', jint (ds_max_lease_time_s s)), (''ddns_enabled'', JBool (ds_ddns_enabled s)),
     (''ddns_zone_id'', jopt (ds_ddns_zone_id s)), (''ddns_ttl_s'', jint (ds_ddns_ttl_s s)),
     (''pxe_next_server'', jopt (ds_pxe_next_server s)), (''pxe_boot_filename'', jopt (ds_pxe_boot_filename s)),
     (''pxe_uefi_boot_filename'', jopt (ds_pxe_uefi_boot_filename s)), (''enabled'', JBool (ds_enabled s))]"

interpretation sce: edit_form ScopesTab_ops scope_wf scope_fields
  by unfold_locales (simp_all add: ScopesTab_ops_def ScopeForm_validate_def ScopeForm_initial_def ScopeForm_payload_def scope_wf_def
      scope_fields_def form_valid_def truthy_def split_list_join)

definition reservation_wf :: "dhcp_reservation \<Rightarrow> bool" where
  "reservation_wf r \<longleftrightarrow> dr_id r \<noteq> [] \<and> normalizeMac (dr_mac_address r) = Some (dr_mac_address r) \<and> js_trim (dr_ip_address r) \<noteq> []
     \<and> list_all stored_text [dr_hostname r, dr_description r, dr_client_id r, dr_next_server r, dr_boot_filename r, dr_uefi_boot_filename r]"

definition reservation_fields :: "dhcp_reservation \<Rightarrow> (string \<times> json) list" where
  "reservation_fields r = [(''mac_address'', JStr (dr_mac_address r)), (''ip_address'', JStr (dr_ip_address r)), (''hostname'', jopt (dr_hostname r)),
     (''description'', jopt (dr_description r)), (''client_id'', jopt (dr_client_id r)), (''next_server'', jopt (dr_next_server r)),
     (''boot_filename'', jopt (dr_boot_filename r)), (''uefi_boot_filename'', jopt (dr_uefi_boot_filename r)),
     (''enabled'', JBool (dr_enabled r))]"

lemma normalizeMac_nonempty: "normalizeMac raw = Some m \<Longrightarrow> m \<noteq> []"
proof (cases "mac_hex raw" rule: chunk2.cases)
  case (1 a b t)
  assume "normalizeMac raw = Some m"
  with 1 show ?thesis by (cases "chunk2 t") (auto simp: normalizeMac_def Let_def split: if_splits)
qed (auto simp: normalizeMac_def Let_def split: if_splits)

interpretation rse: edit_form "ReservationsTab_ops sc" reservation_wf reservation_fields for sc
  by unfold_locales (auto simp: ReservationsTab_ops_def ReservationForm_validate_def ReservationForm_initial_def ReservationForm_payload_def
      reservation_wf_def reservation_fields_def form_valid_def truthy_def nullish_def [of "Some _"] dest: normalizeMac_nonempty)

definition scope6_wf :: "dhcp_scope6 \<Rightarrow> bool" where
  "scope6_wf s \<longleftrightarrow> ds6_id s \<noteq> [] \<and> js_trim (ds6_name s) \<noteq> [] \<and> js_trim (ds6_subnet s) \<noteq> [] \<and> js_trim (ds6_pool_start s) \<noteq> []
     \<and> js_trim (ds6_pool_end s) \<noteq> [] \<and> list_all clean_entry (ds6_dns_servers s)
     \<and> list_all stored_text [ds6_description s, ds6_pd_prefix s, ds6_domain_name s, ds6_interface s]"

definition scope6_fields :: "dhcp_scope6 \<Rightarrow> (string \<times> json) list" where
  "scope6_fields s = [(''tenant_id'', JStr (ds6_tenant_id s)), (''name'', JStr (ds6_name s)), (''description'', jopt (ds6_description s)),
     (''subnet'', JStr (ds6_subnet s)), (''pool_start'', JStr (ds6_pool_start s)), (''pool_end'', JStr (ds6_pool_end s)),
     (''pd_prefix'', jopt (ds6_pd_prefix s)), (''pd_prefix_len'', joptint (ds6_pd_prefix_len s)),
     (''dns_servers'', jstrs (ds6_dns_servers s)), (''domain_name'', jopt (ds6_domain_name s)), (''interface'', jopt (ds6_interface s)),
     (''preferred_lifetime_s'', jint (ds6_preferred_lifetime_s s)), (''valid_lifetime_s'', jint (ds6_valid_lifetime_s s)),
     (''ddns_enabled'', JBool (ds6_ddns_enabled s)), (''enabled'', JBool (ds6_enabled s))]"

interpretation sc6e: edit_form Scope6sTab_ops scope6_wf scope6_fields
  by unfold_locales (auto simp: Scope6sTab_ops_def Scope6Form_validate_def Scope6Form_initial_def Scope6Form_payload_def scope6_wf_def
      scope6_fields_def form_valid_def truthy_def split_list_join joptint_def split: option.split)

definition reservation6_wf :: "dhcp_reservation6 \<Rightarrow> bool" where
  "reservation6_wf r \<longleftrightarrow> dr6_id r \<noteq> [] \<and> js_trim (dr6_duid r) \<noteq> [] \<and> js_trim (dr6_ip_address r) \<noteq> []
     \<and> stored_text (dr6_hostname r) \<and> stored_text (dr6_description r)"

definition reservation6_fields :: "dhcp_reservation6 \<Rightarrow> (string \<times> json) list" where
  "reservation6_fields r = [(''duid'', JStr (dr6_duid r)), (''ip_address'', JStr (dr6_ip_address r)), (''hostname'', jopt (dr6_hostname r)),
     (''description'', jopt (dr6_description r)), (''enabled'', JBool (dr6_enabled r))]"

interpretation rs6e: edit_form "Reservation6sTab_ops sc" reservation6_wf reservation6_fields for sc
  by unfold_locales (simp_all add: Reservation6sTab_ops_def Reservation6Form_validate_def Reservation6Form_initial_def
      Reservation6Form_payload_def reservation6_wf_def reservation6_fields_def form_valid_def truthy_def)

end
