(* ===== verification/DhcpPage.thy ===== *)
theory DhcpPage
  imports Dhcp6
begin

text \<open>
  \<open>pages/DhcpPage.tsx\<close>: the page around the DHCP tabs. The family and the tab live in the URL; a tab is mounted when the URL
  names it and unmounted otherwise, so its search text and its modal do not survive a change. The scope selected for
  each family and the values a lease hands to the reservation form are state of the page. The effects that select
  the only scope and that consume such values run after every event. Data of the tabs' own queries arrives as an answer.

  Two updates of the URL in one handler share the parameters of the last render. The router either hands the update
  function a copy of them or the parameters themselves; the parameter \<open>shared\<close> says which.
\<close>

datatype panel =
    ScopesPanel "(dhcp_scope, scope_form) crud_tab"
  | Scope6sPanel "(dhcp_scope6, scope6_form) crud_tab"
  | ReservationsPanel "(dhcp_reservation, reservation_form) reservations_tab"
  | Reservation6sPanel "(dhcp_reservation6, reservation6_form) reservations_tab"
  | LeasesPanel "dhcp_lease leases_tab"
  | Leases6Panel "dhcp_lease6 leases_tab"
  | StatusPanel status_tab
  | NoPanel

record dhcp_page =
  dg_params :: search_pairs
  dg_tenants :: "tenant list"
  dg_zones :: "zone list"
  dg_scopes :: "dhcp_scope list"
  dg_scopes6 :: "dhcp_scope6 list"
  dg_health :: "daemon_heartbeat list"
  dg_interfaces :: "string list option"
  dg_scopeId4 :: "string option"
  dg_scopeId6 :: "string option"
  dg_prefill4 :: "reserve_prefill option"
  dg_prefill6 :: "reserve_prefill option"
  dg_panel :: panel

datatype dhcp_event =
    SetFamily string | SetTab string
  | ScopesEv scopes_event | Scope6sEv scopes6_event
  | ReservationsEv "(dhcp_reservation, reservation_form) reservations_event"
  | Reservation6sEv "(dhcp_reservation6, reservation6_form) reservations_event"
  | LeasesEv "dhcp_lease leases_event" | Leases6Ev "dhcp_lease6 leases_event"
  | StatusData "dhcp_subnet_stat list" "daemon_heartbeat list"
  | DhcpTenants "tenant list" | DhcpZones "zone list" | DhcpScopes "dhcp_scope list" | DhcpScopes6 "dhcp_scope6 list"
  | DhcpHealth "daemon_heartbeat list" | DhcpInterfaces "string list"

fun reservations_answer :: "('r, 'f) reservations_event \<Rightarrow> bool" where
  "reservations_answer (RtCrud e) = crud_answer e"
| "reservations_answer _ = False"

fun leases_answer :: "'l leases_event \<Rightarrow> bool" where
  "leases_answer (LzData _) = True"
| "leases_answer _ = False"

fun dhcp_answer :: "dhcp_event \<Rightarrow> bool" where
  "dhcp_answer (ScopesEv e) = crud_answer e"
| "dhcp_answer (Scope6sEv e) = crud_answer e"
| "dhcp_answer (ReservationsEv e) = reservations_answer e"
| "dhcp_answer (Reservation6sEv e) = reservations_answer e"
| "dhcp_answer (LeasesEv e) = leases_answer e"
| "dhcp_answer (Leases6Ev e) = leases_answer e"
| "dhcp_answer (SetFamily _) = False"
| "dhcp_answer (SetTab _) = False"
| "dhcp_answer _ = True"

definition family6 :: "search_pairs \<Rightarrow> bool" where
  "family6 ps \<longleftrightarrow> sp_get ''family'' ps = Some ''6''"

definition dhcp_tab :: "search_pairs \<Rightarrow> string" where
  "dhcp_tab ps = nullish (sp_get ''tab'' ps) ''scopes''"

definition mount_panel :: "search_pairs \<Rightarrow> panel" where
  "mount_panel ps = (let t = dhcp_tab ps; six = family6 ps in
     if t = ''scopes'' then (if six then Scope6sPanel (crud_mount Scope6sTab_ops) else ScopesPanel (crud_mount ScopesTab_ops))
     else if t = ''reservations''
       then (if six then Reservation6sPanel \<lparr>rt_crud = crud_mount (Reservation6sTab_ops None), rt_search = []\<rparr>
             else ReservationsPanel \<lparr>rt_crud = crud_mount (ReservationsTab_ops None), rt_search = []\<rparr>)
     else if t = ''leases'' then (if six then Leases6Panel leases_mount else LeasesPanel leases_mount)
     else if t = ''status'' then StatusPanel \<lparr>sg_stats = [], sg_statsLoading = True, sg_instances = [], sg_healthLoading = True\<rparr>
     else NoPanel)"

definition set_params :: "search_pairs \<Rightarrow> dhcp_page \<Rightarrow> dhcp_page" where
  "set_params ps s = (let s' = s\<lparr>dg_params := ps\<rparr> in
     if dhcp_tab ps = dhcp_tab (dg_params s) \<and> family6 ps = family6 (dg_params s) then s' else s'\<lparr>dg_panel := mount_panel ps\<rparr>)"

definition setFamily :: "string \<Rightarrow> dhcp_page \<Rightarrow> dhcp_page" where
  "setFamily f s = set_params (sp_set ''family'' f (dg_params s)) s"

definition setTab :: "string \<Rightarrow> dhcp_page \<Rightarrow> dhcp_page" where
  "setTab t s = set_params (sp_set ''tab'' t (dg_params s)) s"

definition zoneOptions :: "zone list \<Rightarrow> (string \<times> string) list" where
  "zoneOptions zs = map (\<lambda>z. (zn_id z, zn_name z)) (filter (\<lambda>z. zn_zone_type z = ''local'') zs)"

definition scopeOptions :: "dhcp_scope list \<Rightarrow> (string \<times> string) list" where
  "scopeOptions ss = map (\<lambda>s. (ds_id s, ds_name s @ '' ('' @ ds_subnet s @ '')'')) ss"

definition scope6Options :: "dhcp_scope6 list \<Rightarrow> (string \<times> string) list" where
  "scope6Options ss = map (\<lambda>s. (ds6_id s, ds6_name s @ '' ('' @ ds6_subnet s @ '')'')) ss"

definition auto_select :: "'s list \<Rightarrow> ('s \<Rightarrow> string) \<Rightarrow> string option \<Rightarrow> string option" where
  "auto_select scopes idf cur = (if \<not> truthy cur \<and> length scopes = 1 then Some (idf (hd scopes)) else cur)"

definition select_only_scope :: "dhcp_page \<Rightarrow> dhcp_page" where
  "select_only_scope s = s\<lparr>dg_scopeId4 := auto_select (dg_scopes s) ds_id (dg_scopeId4 s),
     dg_scopeId6 := auto_select (dg_scopes6 s) ds6_id (dg_scopeId6 s)\<rparr>"

text \<open>The effect of the mounted reservations tab.\<close>

definition consume_prefill :: "dhcp_page \<Rightarrow> dhcp_page" where
  "consume_prefill s = (case (dg_panel s, dg_prefill4 s, dg_prefill6 s) of
     (ReservationsPanel t, Some p, _) \<Rightarrow>
       if truthy (dg_scopeId4 s)
       then s\<lparr>dg_panel := ReservationsPanel (open_prefilled ReservationForm_initial (prefilled p) t), dg_prefill4 := None\<rparr> else s
   | (Reservation6sPanel t, _, Some p) \<Rightarrow>
       if truthy (dg_scopeId6 s)
       then s\<lparr>dg_panel := Reservation6sPanel (open_prefilled Reservation6Form_initial (prefilled6 p) t), dg_prefill6 := None\<rparr> else s
   | _ \<Rightarrow> s)"

definition dhcp_effects :: "dhcp_page \<Rightarrow> dhcp_page" where
  "dhcp_effects s = consume_prefill (select_only_scope s)"

definition dhcp_mount :: "search_pairs \<Rightarrow> dhcp_page" where
  "dhcp_mount ps = \<lparr>dg_params = ps, dg_tenants = [], dg_zones = [], dg_scopes = [], dg_scopes6 = [], dg_health = [], dg_interfaces = None,
     dg_scopeId4 = None, dg_scopeId6 = None, dg_prefill4 = None, dg_prefill6 = None, dg_panel = mount_panel ps\<rparr>"

text \<open>\<open>setFamily(f)\<close> and then \<open>setTab("reservations")\<close>, both on the parameters of the last render.\<close>

definition reserve_params :: "bool \<Rightarrow> string \<Rightarrow> search_pairs \<Rightarrow> search_pairs" where
  "reserve_params shared f ps = sp_set ''tab'' ''reservations'' (if shared then sp_set ''family'' f ps else ps)"

definition reserveFromLease :: "bool \<Rightarrow> string \<Rightarrow> string \<Rightarrow> reserve_prefill \<Rightarrow> dhcp_page \<Rightarrow> dhcp_page" where
  "reserveFromLease shared f scopeId p s = (let s' = (if f = ''4'' then s\<lparr>dg_scopeId4 := Some scopeId, dg_prefill4 := Some p\<rparr>
       else s\<lparr>dg_scopeId6 := Some scopeId, dg_prefill6 := Some p\<rparr>)
     in set_params (reserve_params shared f (dg_params s')) s')"

definition lease_step4 :: "bool \<Rightarrow> dhcp_lease leases_event \<Rightarrow> dhcp_lease leases_tab \<Rightarrow> dhcp_page \<Rightarrow> dhcp_page \<times> cmd list" where
  "lease_step4 shared e t s = (case e of
     LzSearch x \<Rightarrow> (s\<lparr>dg_panel := LeasesPanel (t\<lparr>lz_search := x\<rparr>)\<rparr>, [])
   | LzScope v \<Rightarrow> (s\<lparr>dg_scopeId4 := v\<rparr>, [])
   | LzRefetch \<Rightarrow> (s\<lparr>dg_panel := LeasesPanel (t\<lparr>lz_isFetching := True\<rparr>)\<rparr>, [Send (qh_call (useDhcpLeases (dg_scopeId4 s)))])
   | LzReserve l \<Rightarrow> (reserveFromLease shared ''4'' (dl_scope_id l)
       \<lparr>rp_ip_address = dl_ip_address l, rp_mac_address = Some (dl_mac_address l), rp_duid = None\<rparr> s, [])
   | LzData ls \<Rightarrow> (s\<lparr>dg_panel := LeasesPanel (t\<lparr>lz_rows := ls, lz_isLoading := False, lz_isFetching := False\<rparr>)\<rparr>, []))"

definition lease_step6 :: "bool \<Rightarrow> dhcp_lease6 leases_event \<Rightarrow> dhcp_lease6 leases_tab \<Rightarrow> dhcp_page \<Rightarrow> dhcp_page \<times> cmd list" where
  "lease_step6 shared e t s = (case e of
     LzSearch x \<Rightarrow> (s\<lparr>dg_panel := Leases6Panel (t\<lparr>lz_search := x\<rparr>)\<rparr>, [])
   | LzScope v \<Rightarrow> (s\<lparr>dg_scopeId6 := v\<rparr>, [])
   | LzRefetch \<Rightarrow> (s\<lparr>dg_panel := Leases6Panel (t\<lparr>lz_isFetching := True\<rparr>)\<rparr>, [Send (qh_call (useDhcpLeases6 (dg_scopeId6 s)))])
   | LzReserve l \<Rightarrow> (reserveFromLease shared ''6'' (dl6_scope_id l)
       \<lparr>rp_ip_address = dl6_ip_address l, rp_mac_address = None, rp_duid = Some (dl6_duid l)\<rparr> s, [])
   | LzData ls \<Rightarrow> (s\<lparr>dg_panel := Leases6Panel (t\<lparr>lz_rows := ls, lz_isLoading := False, lz_isFetching := False\<rparr>)\<rparr>, []))"

fun reservations_step :: "('r, 'f) crud_ops \<Rightarrow> ('r, 'f) reservations_event \<Rightarrow> ('r, 'f) reservations_tab
    \<Rightarrow> ('r, 'f) reservations_tab \<times> cmd list" where
  "reservations_step ops (RtCrud e) t = (let (c, cs) = crud_step ops e (rt_crud t) in (t\<lparr>rt_crud := c\<rparr>, cs))"
| "reservations_step ops (RtSearch x) t = (t\<lparr>rt_search := x\<rparr>, [])"
| "reservations_step ops (RtScope v) t = (t, [])"

fun scope_choice :: "('r, 'f) reservations_event \<Rightarrow> string option \<Rightarrow> string option" where
  "scope_choice (RtScope v) cur = v"
| "scope_choice _ cur = cur"

text \<open>An answer that arrives after its tab was unmounted changes nothing on the page; its notification and its cache operations
  happen all the same. The cache operations are those for the scope selected when the answer arrives.\<close>

definition late_answer :: "('r, 'f) crud_ops \<Rightarrow> ('r, 'f) crud_event \<Rightarrow> cmd list" where
  "late_answer ops e = (if crud_answer e then snd (crud_step ops e (crud_mount ops)) else [])"

fun late_reservations_answer :: "('r, 'f) crud_ops \<Rightarrow> ('r, 'f) reservations_event \<Rightarrow> cmd list" where
  "late_reservations_answer ops (RtCrud e) = late_answer ops e"
| "late_reservations_answer ops _ = []"

fun dhcp_handle :: "bool \<Rightarrow> dhcp_event \<Rightarrow> dhcp_page \<Rightarrow> dhcp_page \<times> cmd list" where
  "dhcp_handle sh (SetFamily f) s = (setFamily f s, [])"
| "dhcp_handle sh (SetTab t) s = (setTab t s, [])"
| "dhcp_handle sh (ScopesEv e) s = (case dg_panel s of
     ScopesPanel t \<Rightarrow> (let (t', cs) = crud_step ScopesTab_ops e t in (s\<lparr>dg_panel := ScopesPanel t'\<rparr>, cs)) | _ \<Rightarrow> (s, late_answer ScopesTab_ops e))"
| "dhcp_handle sh (Scope6sEv e) s = (case dg_panel s of
     Scope6sPanel t \<Rightarrow> (let (t', cs) = crud_step Scope6sTab_ops e t in (s\<lparr>dg_panel := Scope6sPanel t'\<rparr>, cs)) | _ \<Rightarrow> (s, late_answer Scope6sTab_ops e))"
| "dhcp_handle sh (ReservationsEv e) s = (case dg_panel s of
     ReservationsPanel t \<Rightarrow> (let (t', cs) = reservations_step (ReservationsTab_ops (dg_scopeId4 s)) e t
       in (s\<lparr>dg_panel := ReservationsPanel t', dg_scopeId4 := scope_choice e (dg_scopeId4 s)\<rparr>, cs)) 
   | _ \<Rightarrow> (s, late_reservations_answer (ReservationsTab_ops (dg_scopeId4 s)) e))"
| "dhcp_handle sh (Reservation6sEv e) s = (case dg_panel s of
     Reservation6sPanel t \<Rightarrow> (let (t', cs) = reservations_step (Reservation6sTab_ops (dg_scopeId6 s)) e t
       in (s\<lparr>dg_panel := Reservation6sPanel t', dg_scopeId6 := scope_choice e (dg_scopeId6 s)\<rparr>, cs)) 
   | _ \<Rightarrow> (s, late_reservations_answer (Reservation6sTab_ops (dg_scopeId6 s)) e))"
| "dhcp_handle sh (LeasesEv e) s = (case dg_panel s of LeasesPanel t \<Rightarrow> lease_step4 sh e t s | _ \<Rightarrow> (s, []))"
| "dhcp_handle sh (Leases6Ev e) s = (case dg_panel s of Leases6Panel t \<Rightarrow> lease_step6 sh e t s | _ \<Rightarrow> (s, []))"
| "dhcp_handle sh (StatusData st hb) s = (case dg_panel s of
     StatusPanel _ \<Rightarrow> (s\<lparr>dg_panel := StatusPanel \<lparr>sg_stats = st, sg_statsLoading = False, sg_instances = hb, sg_healthLoading = False\<rparr>\<rparr>, [])
   | _ \<Rightarrow> (s, []))"
| "dhcp_handle sh (DhcpTenants x) s = (s\<lparr>dg_tenants := x\<rparr>, [])"
| "dhcp_handle sh (DhcpZones x) s = (s\<lparr>dg_zones := x\<rparr>, [])"
| "dhcp_handle sh (DhcpScopes x) s = (s\<lparr>dg_scopes := x\<rparr>, [])"
| "dhcp_handle sh (DhcpScopes6 x) s = (s\<lparr>dg_scopes6 := x\<rparr>, [])"
| "dhcp_handle sh (DhcpHealth x) s = (s\<lparr>dg_health := x\<rparr>, [])"
| "dhcp_handle sh (DhcpInterfaces x) s = (s\<lparr>dg_interfaces := Some x\<rparr>, [])"

definition dhcp_step :: "bool \<Rightarrow> dhcp_event \<Rightarrow> dhcp_page \<Rightarrow> dhcp_page \<times> cmd list" where
  "dhcp_step shared e s = (let (s', cs) = dhcp_handle shared e s in (dhcp_effects s', cs))"

definition anyStale :: "daemon_heartbeat list \<Rightarrow> bool" where
  "anyStale health = list_ex hb_stale health"

definition dhcp_panel_view :: "ui_env \<Rightarrow> dhcp_page \<Rightarrow> dhcp_event view" where
  "dhcp_panel_view w s = (case dg_panel s of
     ScopesPanel t \<Rightarrow> map_view ScopesEv (ScopesTab (tenantOptions (dg_tenants s)) (zoneOptions (dg_zones s)) (dg_interfaces s) t)
   | Scope6sPanel t \<Rightarrow> map_view Scope6sEv (Scope6sTab (tenantOptions (dg_tenants s)) (dg_interfaces s) t)
   | ReservationsPanel t \<Rightarrow> map_view ReservationsEv (ReservationsTab (scopeOptions (dg_scopes s)) (dg_scopeId4 s) t)
   | Reservation6sPanel t \<Rightarrow> map_view Reservation6sEv (Reservation6sTab (scope6Options (dg_scopes6 s)) (dg_scopeId6 s) t)
   | LeasesPanel t \<Rightarrow> map_view LeasesEv (LeasesTab w (scopeOptions (dg_scopes s)) (dg_scopeId4 s) t)
   | Leases6Panel t \<Rightarrow> map_view Leases6Ev (Leases6Tab w (scope6Options (dg_scopes6 s)) (dg_scopeId6 s) t)
   | StatusPanel t \<Rightarrow> StatusTab w t
   | NoPanel \<Rightarrow> Box [])"

definition DhcpPage :: "ui_env \<Rightarrow> dhcp_page \<Rightarrow> dhcp_event view" where
  "DhcpPage w s = Box
    ([Text ''DHCP'']
     @ show_if (anyStale (dg_health s)) [Button ''Daemon not responding'' False (SetTab ''status'')]
     @ [Segmented [(''4'', ''DHCPv4''), (''6'', ''DHCPv6'')] (if family6 (dg_params s) then ''6'' else ''4'') SetFamily,
        Segmented [(''scopes'', ''Scopes''), (''reservations'', ''Reservations''), (''leases'', ''Leases''), (''status'', ''Status'')]
          (dhcp_tab (dg_params s)) SetTab,
        dhcp_panel_view w s])"

section \<open>The mounted panel\<close>

text \<open>Which tab and family a panel belongs to. The mounted panel is the one the URL names.\<close>

fun panel_of :: "panel \<Rightarrow> search_pairs \<Rightarrow> bool" where
  "panel_of (ScopesPanel _) ps = (dhcp_tab ps = ''scopes'' \<and> \<not> family6 ps)"
| "panel_of (Scope6sPanel _) ps = (dhcp_tab ps = ''scopes'' \<and> family6 ps)"
| "panel_of (ReservationsPanel _) ps = (dhcp_tab ps = ''reservations'' \<and> \<not> family6 ps)"
| "panel_of (Reservation6sPanel _) ps = (dhcp_tab ps = ''reservations'' \<and> family6 ps)"
| "panel_of (LeasesPanel _) ps = (dhcp_tab ps = ''leases'' \<and> \<not> family6 ps)"
| "panel_of (Leases6Panel _) ps = (dhcp_tab ps = ''leases'' \<and> family6 ps)"
| "panel_of (StatusPanel _) ps = (dhcp_tab ps = ''status'')"
| "panel_of NoPanel ps = (dhcp_tab ps \<notin> {''scopes'', ''reservations'', ''leases'', ''status''})"

definition dhcp_ok :: "dhcp_page \<Rightarrow> bool" where
  "dhcp_ok s \<longleftrightarrow> panel_of (dg_panel s) (dg_params s)"

lemma panel_of_mount: "panel_of (mount_panel ps) ps"
  by (simp add: mount_panel_def Let_def)

lemma panel_of_cong: "dhcp_tab ps = dhcp_tab qs \<Longrightarrow> family6 ps = family6 qs \<Longrightarrow> panel_of p ps = panel_of p qs"
  by (cases p) simp_all

lemma ok_set_params: "dhcp_ok s \<Longrightarrow> dhcp_ok (set_params ps s)"
  using panel_of_cong [of ps "dg_params s" "dg_panel s"] by (simp add: dhcp_ok_def set_params_def Let_def panel_of_mount)

lemma ok_select: "dhcp_ok (select_only_scope s) = dhcp_ok s"
  by (simp add: dhcp_ok_def select_only_scope_def)

lemma ok_consume: "dhcp_ok s \<Longrightarrow> dhcp_ok (consume_prefill s)"
  by (auto simp: dhcp_ok_def consume_prefill_def split: panel.splits option.splits)

lemma ok_reserve: "dhcp_ok s \<Longrightarrow> dhcp_ok (reserveFromLease sh f i p s)"
  unfolding reserveFromLease_def Let_def by (rule ok_set_params) (simp add: dhcp_ok_def)

lemma ok_panel: "panel_of p (dg_params s) \<Longrightarrow> dhcp_ok (s\<lparr>dg_panel := p\<rparr>)"
  by (simp add: dhcp_ok_def)

lemma ok_scope [simp]: "dhcp_ok (s\<lparr>dg_scopeId4 := v\<rparr>) = dhcp_ok s" "dhcp_ok (s\<lparr>dg_scopeId6 := v\<rparr>) = dhcp_ok s"
  by (simp_all add: dhcp_ok_def)

lemma ok_lease4: "dhcp_ok s \<Longrightarrow> dg_panel s = LeasesPanel t \<Longrightarrow> dhcp_ok (fst (lease_step4 sh x t s))"
  by (cases x) (simp_all add: lease_step4_def ok_reserve, simp_all add: dhcp_ok_def)

lemma ok_lease6: "dhcp_ok s \<Longrightarrow> dg_panel s = Leases6Panel t \<Longrightarrow> dhcp_ok (fst (lease_step6 sh x t s))"
  by (cases x) (simp_all add: lease_step6_def ok_reserve, simp_all add: dhcp_ok_def)

lemma ok_handle: "dhcp_ok s \<Longrightarrow> dhcp_ok (fst (dhcp_handle sh e s))"
proof (cases e)
  case (LeasesEv x)
  assume "dhcp_ok s"
  then show ?thesis using LeasesEv ok_lease4 by (cases "dg_panel s") simp_all
next
  case (Leases6Ev x)
  assume "dhcp_ok s"
  then show ?thesis using Leases6Ev ok_lease6 by (cases "dg_panel s") simp_all
next
  case (SetFamily f)
  assume "dhcp_ok s"
  then show ?thesis using SetFamily ok_set_params by (simp add: setFamily_def)
next
  case (SetTab f)
  assume "dhcp_ok s"
  then show ?thesis using SetTab ok_set_params by (simp add: setTab_def)
qed (cases "dg_panel s"; simp add: dhcp_ok_def split: prod.split)+

lemma ok_step: "dhcp_ok s \<Longrightarrow> dhcp_ok (fst (dhcp_step sh e s))"
proof -
  assume "dhcp_ok s"
  then have "dhcp_ok (fst (dhcp_handle sh e s))" by (rule ok_handle)
  then have "dhcp_ok (dhcp_effects (fst (dhcp_handle sh e s)))" unfolding dhcp_effects_def by (intro ok_consume) (simp only: ok_select)
  then show ?thesis by (simp add: dhcp_step_def split_def Let_def)
qed

interpretation dhp: page "DhcpPage w" dhcp_answer "dhcp_step sh" dhcp_ok for w sh
  by unfold_locales (simp_all add: ok_step)

section \<open>Reserving a lease\<close>

lemma offers_status [simp]: "\<not> offers e (StatusTab w t)"
  by (auto simp: StatusTab_def)

lemma reserve_panel4: "offers (LeasesEv (LzReserve l)) (DhcpPage w s) \<Longrightarrow> \<exists>t. dg_panel s = LeasesPanel t"
  by (cases "dg_panel s") (auto simp: DhcpPage_def dhcp_panel_view_def offers_map_view)

lemma reserve_panel6: "offers (Leases6Ev (LzReserve l)) (DhcpPage w s) \<Longrightarrow> \<exists>t. dg_panel s = Leases6Panel t"
  by (cases "dg_panel s") (auto simp: DhcpPage_def dhcp_panel_view_def offers_map_view)

lemma reserve_url:
  "dhcp_tab (reserve_params sh f ps) = ''reservations''"
  "\<not> family6 ps \<Longrightarrow> \<not> family6 (reserve_params sh ''4'' ps)"
  "family6 ps \<Longrightarrow> family6 (reserve_params sh ''6'' ps)"
  by (auto simp: dhcp_tab_def family6_def reserve_params_def sp.get_set nullish_def)

text \<open>The tab as it is after the effect: mounted afresh, the modal open on the values of the lease.\<close>

definition prefilled_tab :: "('r, 'f) crud_ops \<Rightarrow> 'r \<Rightarrow> ('r, 'f) reservations_tab" where
  "prefilled_tab ops r = open_prefilled (co_initial ops) r \<lparr>rt_crud = crud_mount ops, rt_search = []\<rparr>"

lemma reserve4:
  assumes "dhcp_ok s" and "dg_panel s = LeasesPanel t" and "dl_scope_id l \<noteq> []"
  shows "dg_panel (fst (dhcp_step sh (LeasesEv (LzReserve l)) s)) = ReservationsPanel (prefilled_tab (ReservationsTab_ops None)
      (prefilled \<lparr>rp_ip_address = dl_ip_address l, rp_mac_address = Some (dl_mac_address l), rp_duid = None\<rparr>))
    \<and> dg_scopeId4 (fst (dhcp_step sh (LeasesEv (LzReserve l)) s)) = Some (dl_scope_id l)
    \<and> dg_prefill4 (fst (dhcp_step sh (LeasesEv (LzReserve l)) s)) = None"
proof -
  have "dhcp_tab (dg_params s) = ''leases''" "\<not> family6 (dg_params s)" using assms(1,2) by (simp_all add: dhcp_ok_def)
  then show ?thesis using assms(2,3) reserve_url(1) [of sh "''4''" "dg_params s"] reserve_url(2) [of "dg_params s" sh]
    by (simp add: dhcp_step_def lease_step4_def reserveFromLease_def set_params_def mount_panel_def Let_def dhcp_effects_def
        select_only_scope_def auto_select_def consume_prefill_def truthy_def prefilled_tab_def ReservationsTab_ops_def crud_mount_def)
qed

lemma reserve6:
  assumes "dhcp_ok s" and "dg_panel s = Leases6Panel t" and "dl6_scope_id l \<noteq> []"
  shows "dg_panel (fst (dhcp_step sh (Leases6Ev (LzReserve l)) s)) = Reservation6sPanel (prefilled_tab (Reservation6sTab_ops None)
      (prefilled6 \<lparr>rp_ip_address = dl6_ip_address l, rp_mac_address = None, rp_duid = Some (dl6_duid l)\<rparr>))
    \<and> dg_scopeId6 (fst (dhcp_step sh (Leases6Ev (LzReserve l)) s)) = Some (dl6_scope_id l)
    \<and> dg_prefill6 (fst (dhcp_step sh (Leases6Ev (LzReserve l)) s)) = None"
proof -
  have "dhcp_tab (dg_params s) = ''leases''" "family6 (dg_params s)" using assms(1,2) by (simp_all add: dhcp_ok_def)
  then show ?thesis using assms(2,3) reserve_url(1) [of sh "''6''" "dg_params s"] reserve_url(3) [of "dg_params s" sh]
    by (simp add: dhcp_step_def lease_step6_def reserveFromLease_def set_params_def mount_panel_def Let_def dhcp_effects_def
        select_only_scope_def auto_select_def consume_prefill_def truthy_def prefilled_tab_def Reservation6sTab_ops_def crud_mount_def)
qed

lemma snd_dhcp_step: "snd (dhcp_step sh e s) = snd (dhcp_handle sh e s)"
  by (simp add: dhcp_step_def split_def Let_def)

lemma submit_prefilled4:
  assumes "dg_panel s = ReservationsPanel (prefilled_tab (ReservationsTab_ops None) (prefilled p))" and "dg_scopeId4 s = Some sc"
    and "normalizeMac (nullish (rp_mac_address p) []) = Some m" and "js_trim (rp_ip_address p) \<noteq> []"
  shows "requests (snd (dhcp_step sh (ReservationsEv (RtCrud SubmitForm)) s)) =
    [RawPost (''/api/v1/dhcp/scopes/'' @ sc @ ''/reservations'') (JObj
      [(''mac_address'', JStr m), (''ip_address'', JStr (rp_ip_address p)), (''hostname'', JNull), (''description'', JNull),
       (''client_id'', JNull), (''next_server'', JNull), (''boot_filename'', JNull), (''uefi_boot_filename'', JNull), (''enabled'', JBool True)])]"
  using assms normalizeMac_nonempty [OF assms(3)]
  by (simp add: snd_dhcp_step split_def Let_def crud_submit_def crud_save_def prefilled_tab_def open_prefilled_def set_modal_def openWith_def
      mount_form_def crud_mount_def ReservationsTab_ops_def ReservationForm_initial_def ReservationForm_validate_def
      ReservationForm_payload_def prefilled_def form_valid_def truthy_def jopt_def or_null_def nullish_def mutate_def
      useCreateDhcpReservation_def tmpl_opt_def)

lemma submit_prefilled6:
  assumes "dg_panel s = Reservation6sPanel (prefilled_tab (Reservation6sTab_ops None) (prefilled6 p))" and "dg_scopeId6 s = Some sc"
    and "js_trim (nullish (rp_duid p) []) \<noteq> []" and "js_trim (rp_ip_address p) \<noteq> []"
  shows "requests (snd (dhcp_step sh (Reservation6sEv (RtCrud SubmitForm)) s)) =
    [RawPost (''/api/v1/dhcp6/scopes/'' @ sc @ ''/reservations'') (JObj
      [(''duid'', JStr (nullish (rp_duid p) [])), (''ip_address'', JStr (rp_ip_address p)), (''hostname'', JNull), (''description'', JNull),
       (''enabled'', JBool True)])]"
  using assms
  by (simp add: snd_dhcp_step split_def Let_def crud_submit_def crud_save_def prefilled_tab_def open_prefilled_def set_modal_def openWith_def
      mount_form_def crud_mount_def Reservation6sTab_ops_def Reservation6Form_initial_def Reservation6Form_validate_def
      Reservation6Form_payload_def prefilled6_def form_valid_def truthy_def jopt_def or_null_def nullish_def mutate_def
      useCreateDhcpReservation6_def tmpl_opt_def)

text \<open>C12. In every reachable state of the DHCP page that offers to reserve a lease, for either family and either way the router
  hands out the URL parameters, taking the offer and saving the form at once creates the reservation for exactly that
  client and address, in the scope of the lease: the tab switch, the selected scope, the handed-over values and the freshly
  mounted form agree. The MAC address is sent in its canonical form.\<close>

theorem reserve_lease_end_to_end:
  assumes run: "page_run (DhcpPage w) dhcp_answer (dhcp_step sh) (dhcp_mount ps) s cs"
  shows "(\<forall>l m. offers (LeasesEv (LzReserve l)) (DhcpPage w s) \<and> dl_scope_id l \<noteq> [] \<and> normalizeMac (dl_mac_address l) = Some m
        \<and> js_trim (dl_ip_address l) \<noteq> [] \<longrightarrow>
      requests (snd (dhcp_step sh (ReservationsEv (RtCrud SubmitForm)) (fst (dhcp_step sh (LeasesEv (LzReserve l)) s)))) =
      [RawPost (''/api/v1/dhcp/scopes/'' @ dl_scope_id l @ ''/reservations'') (JObj
        [(''mac_address'', JStr m), (''ip_address'', JStr (dl_ip_address l)), (''hostname'', JNull), (''description'', JNull),
         (''client_id'', JNull), (''next_server'', JNull), (''boot_filename'', JNull), (''uefi_boot_filename'', JNull), (''enabled'', JBool True)])])
    \<and> (\<forall>l. offers (Leases6Ev (LzReserve l)) (DhcpPage w s) \<and> dl6_scope_id l \<noteq> [] \<and> js_trim (dl6_duid l) \<noteq> []
        \<and> js_trim (dl6_ip_address l) \<noteq> [] \<longrightarrow>
      requests (snd (dhcp_step sh (Reservation6sEv (RtCrud SubmitForm)) (fst (dhcp_step sh (Leases6Ev (LzReserve l)) s)))) =
      [RawPost (''/api/v1/dhcp6/scopes/'' @ dl6_scope_id l @ ''/reservations'') (JObj
        [(''duid'', JStr (dl6_duid l)), (''ip_address'', JStr (dl6_ip_address l)), (''hostname'', JNull), (''description'', JNull),
         (''enabled'', JBool True)])])"
proof -
  have ok: "dhcp_ok s" using dhp.run_keeps [OF run] by (simp add: dhcp_ok_def dhcp_mount_def panel_of_mount)
  show ?thesis
  proof (intro conjI allI impI; elim conjE)
    fix l m assume "offers (LeasesEv (LzReserve l)) (DhcpPage w s)" and l: "dl_scope_id l \<noteq> []" "normalizeMac (dl_mac_address l) = Some m"
      "js_trim (dl_ip_address l) \<noteq> []"
    then obtain t where "dg_panel s = LeasesPanel t" using reserve_panel4 by blast
    from reserve4 [OF ok this l(1), of sh] l show "requests (snd (dhcp_step sh (ReservationsEv (RtCrud SubmitForm))
        (fst (dhcp_step sh (LeasesEv (LzReserve l)) s)))) =
      [RawPost (''/api/v1/dhcp/scopes/'' @ dl_scope_id l @ ''/reservations'') (JObj
        [(''mac_address'', JStr m), (''ip_address'', JStr (dl_ip_address l)), (''hostname'', JNull), (''description'', JNull),
         (''client_id'', JNull), (''next_server'', JNull), (''boot_filename'', JNull), (''uefi_boot_filename'', JNull), (''enabled'', JBool True)])]"
      by (subst submit_prefilled4) (auto simp: nullish_def)
  next
    fix l assume "offers (Leases6Ev (LzReserve l)) (DhcpPage w s)" and l: "dl6_scope_id l \<noteq> []" "js_trim (dl6_duid l) \<noteq> []"
      "js_trim (dl6_ip_address l) \<noteq> []"
    then obtain t where "dg_panel s = Leases6Panel t" using reserve_panel6 by blast
    from reserve6 [OF ok this l(1), of sh] l show "requests (snd (dhcp_step sh (Reservation6sEv (RtCrud SubmitForm))
        (fst (dhcp_step sh (Leases6Ev (LzReserve l)) s)))) =
      [RawPost (''/api/v1/dhcp6/scopes/'' @ dl6_scope_id l @ ''/reservations'') (JObj
        [(''duid'', JStr (dl6_duid l)), (''ip_address'', JStr (dl6_ip_address l)), (''hostname'', JNull), (''description'', JNull),
         (''enabled'', JBool True)])]"
      by (subst submit_prefilled6) (auto simp: nullish_def)
  qed
qed

definition wit_lease :: dhcp_lease where
  "wit_lease = \<lparr>dl_ip_address = ''10.8.1.50'', dl_mac_address = ''AA-BB-CC-DD-EE-FF'', dl_hostname = None, dl_scope_id = ''s1'',
     dl_expires_at = ''2026-01-01T00:00:00Z'', dl_state = 0\<rparr>"

definition wit_dhcp :: dhcp_page where
  "wit_dhcp = fst (dhcp_step True (LeasesEv (LzData [wit_lease])) (dhcp_mount [(''tab'', ''leases'')]))"

theorem reserve_lease_end_to_end_witness:
  "offers (LeasesEv (LzReserve wit_lease)) (DhcpPage wit_env wit_dhcp)
   \<and> requests (snd (dhcp_step True (ReservationsEv (RtCrud SubmitForm)) (fst (dhcp_step True (LeasesEv (LzReserve wit_lease)) wit_dhcp)))) =
     [RawPost ''/api/v1/dhcp/scopes/s1/reservations'' (JObj
        [(''mac_address'', JStr ''aa:bb:cc:dd:ee:ff''), (''ip_address'', JStr ''10.8.1.50''), (''hostname'', JNull), (''description'', JNull),
         (''client_id'', JNull), (''next_server'', JNull), (''boot_filename'', JNull), (''uefi_boot_filename'', JNull), (''enabled'', JBool True)])]"
proof -
  have mount: "dhcp_mount [(''tab'', ''leases'')] = (dhcp_mount [(''tab'', ''leases'')])\<lparr>dg_panel := LeasesPanel leases_mount\<rparr>"
    by (simp add: dhcp_mount_def mount_panel_def dhcp_tab_def family6_def sp_get_def nullish_def Let_def)
  have run: "page_run (DhcpPage wit_env) dhcp_answer (dhcp_step True) (dhcp_mount [(''tab'', ''leases'')]) wit_dhcp
      ([] @ snd (dhcp_step True (LeasesEv (LzData [wit_lease])) (dhcp_mount [(''tab'', ''leases'')])))"
    by (rule page_run.run_event [OF page_run.run_start, where e = "LeasesEv (LzData [wit_lease])"]) (simp_all add: wit_dhcp_def)
  have panel: "dg_panel wit_dhcp = LeasesPanel \<lparr>lz_rows = [wit_lease], lz_isLoading = False, lz_isFetching = False, lz_search = []\<rparr>"
    unfolding wit_dhcp_def by (subst mount)
      (simp add: dhcp_step_def lease_step4_def dhcp_effects_def select_only_scope_def auto_select_def consume_prefill_def leases_mount_def
        dhcp_mount_def)
  have off: "offers (LeasesEv (LzReserve wit_lease)) (DhcpPage wit_env wit_dhcp)"
    by (simp add: DhcpPage_def dhcp_panel_view_def panel offers_map_view LeasesTab_def offers_CrudTable filtered_by_def js_trim_def
        reserve_action_def)
  have mac: "normalizeMac (dl_mac_address wit_lease) = Some ''aa:bb:cc:dd:ee:ff''" "js_trim (dl_ip_address wit_lease) \<noteq> []"
    "dl_scope_id wit_lease = ''s1''" "dl_ip_address wit_lease = ''10.8.1.50''" by code_simp+
  show ?thesis using reserve_lease_end_to_end [OF run] off mac by simp
qed

section \<open>Editing\<close>


definition wit_reservation :: dhcp_reservation where
  "wit_reservation = (prefilled \<lparr>rp_ip_address = ''10.8.1.50'', rp_mac_address = Some ''aa:bb:cc:dd:ee:ff'', rp_duid = None\<rparr>)
     \<lparr>dr_id := ''r1'', dr_hostname := Some ''printer''\<rparr>"


end
