(* ===== verification/Upstream.thy ===== *)
theory Upstream
  imports Crud
begin

text \<open>
  \<open>pages/UpstreamPage.tsx\<close> with \<open>pages/upstream\<close>: resolvers, pools, routes and the tenant policy. These tabs give their callbacks to
  \<open>mutate\<close>: the callbacks of a call run only when no later call of the same hook was made and the tab is still mounted, whereas
  the cache operations of the hook always run. The confirmation of a deletion is not part of the tab, so the answer of
  a deletion says itself whether its callbacks run.
\<close>

section \<open>Constants\<close>

definition STRATEGY_LABELS :: "string \<rightharpoonup> string" where
  "STRATEGY_LABELS = map_of [(''round_robin'', ''Round-robin''), (''weighted_round_robin'', ''Weighted RR''), (''failover'', ''Failover''),
     (''latency'', ''Latency'')]"

definition MATCH_TYPE_OPTIONS :: "(string \<times> string) list" where
  "MATCH_TYPE_OPTIONS = [(''domain_suffix'', ''Domain suffix''), (''domain_exact'', ''Exact domain''), (''qtype'', ''Query type''),
     (''category'', ''Category''), (''default'', ''Default (catch-all)'')]"

definition DNSSEC_OPTIONS :: "(string \<times> string) list" where
  "DNSSEC_OPTIONS = [(''strict'', ''Strict '' @ em_dash @ '' require AD bit''),
     (''opportunistic'', ''Opportunistic '' @ em_dash @ '' propagate AD bit''), (''disabled'', ''Disabled '' @ em_dash @ '' strip AD bit'')]"

definition PROTOCOL_OPTIONS :: "(string \<times> string) list" where
  "PROTOCOL_OPTIONS = [(''do53'', ''Plain DNS (do53)''), (''dot'', ''DNS-over-TLS (DoT)''), (''doh'', ''DNS-over-HTTPS (DoH)'')]"

definition DEFAULT_PORT_BY_PROTOCOL :: "string \<rightharpoonup> int" where
  "DEFAULT_PORT_BY_PROTOCOL = map_of [(''do53'', 53), (''dot'', 853), (''doh'', 443)]"

section \<open>Tabs with callbacks\<close>

record ('r, 'f) up_ops =
  uo_crud :: "('r, 'f) crud_ops"
  uo_created :: "string \<Rightarrow> string"
  uo_deleted :: "'r \<Rightarrow> cmd list"

datatype ('r, 'f) up_event =
    UpUi "('r, 'f) crud_event"
  | UpSaved nat "'r option" json "string + thrown"
  | UpToggled nat 'r "thrown option"
  | UpDeleted bool 'r "thrown option"

text \<open>The events of \<open>UpUi\<close> are those of the user and the data of the query.\<close>

fun up_answer :: "('r, 'f) up_event \<Rightarrow> bool" where
  "up_answer (UpUi (RowsData _)) = True"
| "up_answer (UpUi _) = False"
| "up_answer _ = True"

definition save_observer :: "('r, 'f) crud_ops \<Rightarrow> 'r option \<Rightarrow> ('r, 'f) crud_tab \<Rightarrow> observer" where
  "save_observer ops ed s = (if co_is_edit ops ed then ct_update s else ct_create s)"

definition up_saved :: "('r, 'f) up_ops \<Rightarrow> nat \<Rightarrow> 'r option \<Rightarrow> json \<Rightarrow> string + thrown \<Rightarrow> ('r, 'f) crud_tab \<Rightarrow> ('r, 'f) crud_tab \<times> cmd list" where
  "up_saved uops n ed body r s = (let ops = uo_crud uops; latest = ob_latest n (save_observer ops ed s); s' = save_settle ops n ed s in
     case r of
       Inl name \<Rightarrow> (if latest then set_modal close_modal s' else s',
         save_cache ops ed body
         @ (if latest then [Notify (if co_is_edit ops ed then co_saved ops True else uo_created uops name) ''green''] else []))
     | Inr e \<Rightarrow> (s', if latest then [notify_error e] else []))"

definition up_toggled :: "('r, 'f) up_ops \<Rightarrow> nat \<Rightarrow> 'r \<Rightarrow> thrown option \<Rightarrow> ('r, 'f) crud_tab \<Rightarrow> ('r, 'f) crud_tab \<times> cmd list" where
  "up_toggled uops n r res s = (let ops = uo_crud uops; latest = ob_latest n (ct_update s) in
     (s\<lparr>ct_update := ob_settle n (ct_update s)\<rparr>,
      case res of None \<Rightarrow> settled_ok (co_update ops) (toggle_payload ops r) [] | Some e \<Rightarrow> if latest then [notify_error e] else []))"

definition up_deleted :: "('r, 'f) up_ops \<Rightarrow> bool \<Rightarrow> 'r \<Rightarrow> thrown option \<Rightarrow> cmd list" where
  "up_deleted uops called r res = (let ops = uo_crud uops in
     case res of
       None \<Rightarrow> settled_ok (co_delete ops) (co_id ops r) (if called then uo_deleted uops r else [])
     | Some e \<Rightarrow> if called then [notify_error e] else [])"

fun up_step :: "('r, 'f) up_ops \<Rightarrow> ('r, 'f) up_event \<Rightarrow> ('r, 'f) crud_tab \<Rightarrow> ('r, 'f) crud_tab \<times> cmd list" where
  "up_step uops (UpUi e) s = crud_step (uo_crud uops) e s"
| "up_step uops (UpSaved n ed body r) s = up_saved uops n ed body r s"
| "up_step uops (UpToggled n r res) s = up_toggled uops n r res s"
| "up_step uops (UpDeleted called r res) s = (s, up_deleted uops called r res)"

section \<open>Resolvers\<close>

record resolver_form =
  vf_name :: string
  vf_protocol :: string
  vf_address :: string
  vf_port :: num_input
  vf_tls_hostname :: string
  vf_dnssec_validation :: "string option"
  vf_timeout_ms :: num_input
  vf_max_retries :: num_input
  vf_tags :: "string list"
  vf_enabled :: bool

text \<open>A protocol without a default port leaves the port \<open>undefined\<close>, which the input shows as blank.\<close>

definition default_port :: "string \<Rightarrow> num_input" where
  "default_port p = (case DEFAULT_PORT_BY_PROTOCOL p of Some n \<Rightarrow> Num n | None \<Rightarrow> Blank)"

definition ResolverForm_initial :: "upstream_resolver option \<Rightarrow> resolver_form" where
  "ResolverForm_initial i = (case i of
     None \<Rightarrow> \<lparr>vf_name = [], vf_protocol = ''do53'', vf_address = [], vf_port = default_port ''do53'', vf_tls_hostname = [],
       vf_dnssec_validation = Some ''opportunistic'', vf_timeout_ms = Num 5000, vf_max_retries = Num 2, vf_tags = [], vf_enabled = True\<rparr>
   | Some r \<Rightarrow> \<lparr>vf_name = ur_name r, vf_protocol = ur_protocol r, vf_address = ur_address r, vf_port = Num (ur_port r),
       vf_tls_hostname = nullish (ur_tls_hostname r) [], vf_dnssec_validation = Some (ur_dnssec_validation r),
       vf_timeout_ms = Num (ur_timeout_ms r), vf_max_retries = Num (ur_max_retries r), vf_tags = ur_tags r, vf_enabled = ur_enabled r\<rparr>)"

text \<open>A blank port is the empty text, which compares as 0.\<close>

definition port_error :: "num_input \<Rightarrow> string option" where
  "port_error v = (case v of
     Num n \<Rightarrow> if n < 1 \<or> n > 65535 then Some (''1'' @ en_dash @ ''65535'') else None | Blank \<Rightarrow> Some (''1'' @ en_dash @ ''65535''))"

definition ResolverForm_validate :: "upstream_resolver option \<Rightarrow> resolver_form \<Rightarrow> field_errors" where
  "ResolverForm_validate _ v = [(''name'', required (vf_name v)), (''address'', required (vf_address v)), (''port'', port_error (vf_port v))]"

definition needsTls :: "string \<Rightarrow> bool" where
  "needsTls p \<longleftrightarrow> p \<in> {''dot'', ''doh''}"

definition ResolverForm_submit :: "resolver_form \<Rightarrow> json" where
  "ResolverForm_submit v = JObj
    ([(''name'', JStr (vf_name v)), (''protocol'', JStr (vf_protocol v)), (''address'', JStr (vf_address v)), (''port'', jnum (vf_port v))]
     @ defined ''tls_hostname'' (if needsTls (vf_protocol v) \<and> vf_tls_hostname v \<noteq> [] then Some (JStr (vf_tls_hostname v)) else None)
     @ [(''dnssec_validation'', jopt (vf_dnssec_validation v)), (''timeout_ms'', jnum (vf_timeout_ms v)),
        (''max_retries'', jnum (vf_max_retries v)), (''tags'', jstrs (vf_tags v)), (''enabled'', JBool (vf_enabled v))])"

definition protocol_onChange :: "string option \<Rightarrow> resolver_form \<Rightarrow> resolver_form" where
  "protocol_onChange value v = (if \<not> truthy value then v else v\<lparr>vf_protocol := the value, vf_port := default_port (the value)\<rparr>)"

definition ResolversTab_ops :: "(upstream_resolver, resolver_form) up_ops" where
  "ResolversTab_ops = \<lparr>uo_crud = \<lparr>co_initial = ResolverForm_initial, co_validate = ResolverForm_validate, co_payload = ResolverForm_submit,
       co_id = ur_id, co_is_edit = (\<lambda>e. e \<noteq> None), co_enabled = ur_enabled, co_create = useCreateUpstreamResolver,
       co_update = useUpdateUpstreamResolver, co_delete = useDeleteUpstreamResolver, co_saved = (\<lambda>_. ''Resolver updated''),
       co_confirm = (\<lambda>r. (''Delete resolver'', ''Delete '' @ ur_name r @ ''? Any pools referencing it will lose this member.'')),
       co_deleted = []\<rparr>,
     uo_created = (\<lambda>name. ''Resolver '' @ quoted name @ '' created''),
     uo_deleted = (\<lambda>r. [Notify (''Resolver '' @ quoted (ur_name r) @ '' deleted'') ''green''])\<rparr>"

text \<open>The tab also probes a resolver. \<open>onSettled\<close> clears the mark whichever resolver it is on.\<close>

record resolvers_tab =
  vt_crud :: "(upstream_resolver, resolver_form) crud_tab"
  vt_probingId :: "string option"
  vt_probe :: observer

datatype resolvers_event =
    VtUp "(upstream_resolver, resolver_form) up_event" | Probe upstream_resolver | ProbeAnswer nat upstream_resolver "probe_result + thrown"

definition probe :: "upstream_resolver \<Rightarrow> resolvers_tab \<Rightarrow> resolvers_tab \<times> cmd list" where
  "probe r s = (s\<lparr>vt_probingId := Some (ur_id r), vt_probe := ob_call (vt_probe s)\<rparr>, [mutate useProbeUpstreamResolver (ur_id r)])"

definition probe_message :: "probe_result \<Rightarrow> string" where
  "probe_message p = (case pr_latency_ms p of None \<Rightarrow> ''undefined'' | Some n \<Rightarrow> int_str n) @ '' ms '' @ mid_dot @ '' ''
     @ nullish (pr_response_code p) ''null'' @ (if pr_dnssec_ad p then '' '' @ mid_dot @ '' AD'' else [])
     @ (if truthy (pr_tls_subject p) then '' '' @ mid_dot @ '' '' @ the (pr_tls_subject p) else [])"

definition probe_answer :: "nat \<Rightarrow> upstream_resolver \<Rightarrow> probe_result + thrown \<Rightarrow> resolvers_tab \<Rightarrow> resolvers_tab \<times> cmd list" where
  "probe_answer n r res s = (let s' = s\<lparr>vt_probe := ob_settle n (vt_probe s)\<rparr> in
     if \<not> ob_latest n (vt_probe s) then (s', [])
     else (s'\<lparr>vt_probingId := None\<rparr>,
       case res of
         Inl p \<Rightarrow> [if pr_ok p then NotifyTitled (ur_name r @ '' '' @ em_dash @ '' OK'') (probe_message p) ''green''
                  else NotifyTitled (ur_name r @ '' '' @ em_dash @ '' Failed'') (nullish (pr_error p) ''Unknown error'') ''red'']
       | Inr e \<Rightarrow> [notify_error e]))"

fun resolvers_step :: "resolvers_event \<Rightarrow> resolvers_tab \<Rightarrow> resolvers_tab \<times> cmd list" where
  "resolvers_step (VtUp e) s = (let (c, cs) = up_step ResolversTab_ops e (vt_crud s) in (s\<lparr>vt_crud := c\<rparr>, cs))"
| "resolvers_step (Probe r) s = probe r s"
| "resolvers_step (ProbeAnswer n r res) s = probe_answer n r res s"

definition ResolverForm :: "bool \<Rightarrow> resolver_form \<Rightarrow> (upstream_resolver, resolver_form) crud_event view" where
  "ResolverForm saving v = Form SubmitForm
    ([TextInput ''Name'' (vf_name v) True False (\<lambda>x. EditForm (vf_name_update (\<lambda>_. x))),
      Select ''Protocol'' PROTOCOL_OPTIONS (Some (vf_protocol v)) False (\<lambda>x. EditForm (protocol_onChange x)),
      NumberInput ''Port'' (vf_port v) (Some 1) (Some 65535) False (\<lambda>x. EditForm (vf_port_update (\<lambda>_. x))),
      TextInput ''Address'' (vf_address v) True False (\<lambda>x. EditForm (vf_address_update (\<lambda>_. x)))]
     @ show_if (needsTls (vf_protocol v))
       [TextInput ''TLS hostname (SNI)'' (vf_tls_hostname v) False False (\<lambda>x. EditForm (vf_tls_hostname_update (\<lambda>_. x)))]
     @ [Select ''DNSSEC validation'' DNSSEC_OPTIONS (vf_dnssec_validation v) False (\<lambda>x. EditForm (vf_dnssec_validation_update (\<lambda>_. x))),
        NumberInput ''Timeout (ms)'' (vf_timeout_ms v) (Some 100) (Some 30000) False (\<lambda>x. EditForm (vf_timeout_ms_update (\<lambda>_. x))),
        NumberInput ''Retries'' (vf_max_retries v) (Some 0) (Some 5) False (\<lambda>x. EditForm (vf_max_retries_update (\<lambda>_. x))),
        MultiSelect ''Tags'' [''public'', ''internal'', ''threat-intel'', ''doh'', ''do53''] (vf_tags v) (\<lambda>x. EditForm (vf_tags_update (\<lambda>_. x))),
        Switch ''Enabled'' (vf_enabled v) False (EditForm (vf_enabled_update Not)),
        Button ''Cancel'' False CloseModal, Submit ''Save'' saving])"

definition resolver_columns :: "(upstream_resolver, (upstream_resolver, resolver_form) crud_event) crud_column list" where
  "resolver_columns =
    [(''Name'', \<lambda>r. Box (Text (ur_name r) # show_if (ur_tags r \<noteq> []) [Box (map (Badge ''gray'') (ur_tags r))])),
     (''Protocol'', \<lambda>r. Badge (if ur_protocol r = ''dot'' then ''blue'' else if ur_protocol r = ''doh'' then ''violet'' else ''gray'')
        (js_upper (ur_protocol r))),
     (''Address'', \<lambda>r. Box (Text (ur_address r @ '':'' @ int_str (ur_port r))
        # show_if (truthy (ur_tls_hostname r) \<and> ur_tls_hostname r \<noteq> Some (ur_address r)) [Text (the (ur_tls_hostname r))])),
     (''DNSSEC'', \<lambda>r. Text (ur_dnssec_validation r)),
     (''On'', \<lambda>r. Switch [] (ur_enabled r) False (ToggleEnabled r))]"

definition map_column :: "('e \<Rightarrow> 'd) \<Rightarrow> ('r, 'e) crud_column \<Rightarrow> ('r, 'd) crud_column" where
  "map_column f c = (fst c, \<lambda>r. map_view f (snd c r))"

definition ResolversTab :: "resolvers_tab \<Rightarrow> resolvers_event view" where
  "ResolversTab t = (let s = vt_crud t; m = ct_modal s; ui = (\<lambda>e. VtUp (UpUi e)) in Box
    ([Text ''Named upstream DNS server profiles. Group them into pools for load-balancing and failover.'',
      Button ''Add resolver'' False (ui OpenCreate),
      CrudTable (ct_rows s) (ct_isLoading s) (map (map_column ui) resolver_columns)
        (Some (Text ''No resolvers configured. Add one to get started.'')) (Some (\<lambda>r. ui (OpenEdit r))) (Some (\<lambda>r. ui (ConfirmDelete r)))
        (Some (\<lambda>r. Tooltip ''Live probe (SOA query)'' (Button ''Test'' (vt_probingId t = Some (ur_id r)) (Probe r))))]
     @ map (map_view ui) (EntityModal (cm_open m) CloseModal (if cm_editing m \<noteq> None then ''Edit resolver'' else ''Add resolver'')
         [ResolverForm (crud_saving s) (cm_form m)])))"

section \<open>Pools\<close>

record pool_form =
  pf_name :: string
  pf_strategy :: "string option"
  pf_health_check_interval_s :: num_input
  pf_health_check_timeout_ms :: num_input
  pf_health_check_query :: string
  pf_health_check_type :: "string option"
  pf_unhealthy_threshold :: num_input
  pf_healthy_threshold :: num_input
  pf_min_healthy_members :: num_input

definition PoolForm_initial :: "upstream_pool option \<Rightarrow> pool_form" where
  "PoolForm_initial i = (case i of
     None \<Rightarrow> \<lparr>pf_name = [], pf_strategy = Some ''round_robin'', pf_health_check_interval_s = Num 30, pf_health_check_timeout_ms = Num 2000,
       pf_health_check_query = ''.'', pf_health_check_type = Some ''soa'', pf_unhealthy_threshold = Num 3, pf_healthy_threshold = Num 2,
       pf_min_healthy_members = Num 1\<rparr>
   | Some p \<Rightarrow> \<lparr>pf_name = up_name p, pf_strategy = Some (up_strategy p), pf_health_check_interval_s = Num (up_health_check_interval_s p),
       pf_health_check_timeout_ms = Num (up_health_check_timeout_ms p), pf_health_check_query = up_health_check_query p,
       pf_health_check_type = Some (up_health_check_type p), pf_unhealthy_threshold = Num (up_unhealthy_threshold p),
       pf_healthy_threshold = Num (up_healthy_threshold p), pf_min_healthy_members = Num (up_min_healthy_members p)\<rparr>)"

definition PoolForm_validate :: "upstream_pool option \<Rightarrow> pool_form \<Rightarrow> field_errors" where
  "PoolForm_validate _ v = [(''name'', required (pf_name v))]"

definition PoolForm_values :: "pool_form \<Rightarrow> json" where
  "PoolForm_values v = JObj
    [(''name'', JStr (pf_name v)), (''strategy'', jopt (pf_strategy v)), (''health_check_interval_s'', jnum (pf_health_check_interval_s v)),
     (''health_check_timeout_ms'', jnum (pf_health_check_timeout_ms v)), (''health_check_query'', JStr (pf_health_check_query v)),
     (''health_check_type'', jopt (pf_health_check_type v)), (''unhealthy_threshold'', jnum (pf_unhealthy_threshold v)),
     (''healthy_threshold'', jnum (pf_healthy_threshold v)), (''min_healthy_members'', jnum (pf_min_healthy_members v))]"

definition PoolsTab_ops :: "(upstream_pool, pool_form) up_ops" where
  "PoolsTab_ops = \<lparr>uo_crud = \<lparr>co_initial = PoolForm_initial, co_validate = PoolForm_validate, co_payload = PoolForm_values, co_id = up_id,
       co_is_edit = (\<lambda>e. e \<noteq> None), co_enabled = (\<lambda>_. True), co_create = useCreateUpstreamPool, co_update = useUpdateUpstreamPool,
       co_delete = useDeleteUpstreamPool, co_saved = (\<lambda>_. ''Pool updated''),
       co_confirm = (\<lambda>p. (''Delete pool'', ''Delete pool '' @ up_name p @ ''? Routes referencing it will break.'')), co_deleted = []\<rparr>,
     uo_created = (\<lambda>name. ''Pool '' @ quoted name @ '' created''),
     uo_deleted = (\<lambda>p. [Notify (''Pool '' @ quoted (up_name p) @ '' deleted'') ''green''])\<rparr>"

definition resolverName :: "upstream_resolver list \<Rightarrow> string \<Rightarrow> string" where
  "resolverName rs i = (case find (\<lambda>r. ur_id r = i) rs of Some r \<Rightarrow> ur_name r | None \<Rightarrow> take 8 i)"

definition times_sign :: string where "times_sign = [CHR 0xC3, CHR 0x97]"

definition member_badge :: "upstream_resolver list \<Rightarrow> string \<Rightarrow> upstream_pool_member \<Rightarrow> string" where
  "member_badge rs strategy m = resolverName rs (um_resolver_id m)
     @ (if strategy = ''failover'' then '' (p'' @ int_str (um_priority m) @ '')'' else [])
     @ (if strategy = ''weighted_round_robin'' then '' '' @ times_sign @ int_str (um_weight m) else [])"

definition PoolForm :: "bool \<Rightarrow> pool_form \<Rightarrow> (upstream_pool, pool_form) crud_event view" where
  "PoolForm saving v = Form SubmitForm
    [TextInput ''Pool name'' (pf_name v) True False (\<lambda>x. EditForm (pf_name_update (\<lambda>_. x))),
     Select ''Strategy'' [(''round_robin'', ''Round-robin''), (''weighted_round_robin'', ''Weighted round-robin''),
       (''failover'', ''Failover (priority order)''), (''latency'', ''Latency (lowest P50 wins)'')] (pf_strategy v) False
       (\<lambda>x. EditForm (pf_strategy_update (\<lambda>_. x))),
     Text ''Health check'',
     NumberInput ''Interval (s)'' (pf_health_check_interval_s v) (Some 5) (Some 3600) False (\<lambda>x. EditForm (pf_health_check_interval_s_update (\<lambda>_. x))),
     NumberInput ''Timeout (ms)'' (pf_health_check_timeout_ms v) (Some 100) (Some 10000) False
       (\<lambda>x. EditForm (pf_health_check_timeout_ms_update (\<lambda>_. x))),
     Select ''Query type'' [(''soa'', ''SOA (root)''), (''a'', ''A record''), (''txt'', ''TXT record'')] (pf_health_check_type v) False
       (\<lambda>x. EditForm (pf_health_check_type_update (\<lambda>_. x))),
     TextInput ''Probe domain'' (pf_health_check_query v) False False (\<lambda>x. EditForm (pf_health_check_query_update (\<lambda>_. x))),
     NumberInput ''Unhealthy threshold'' (pf_unhealthy_threshold v) (Some 1) (Some 10) False (\<lambda>x. EditForm (pf_unhealthy_threshold_update (\<lambda>_. x))),
     NumberInput ''Healthy threshold'' (pf_healthy_threshold v) (Some 1) (Some 10) False (\<lambda>x. EditForm (pf_healthy_threshold_update (\<lambda>_. x))),
     NumberInput ''Min healthy members'' (pf_min_healthy_members v) (Some 1) None False (\<lambda>x. EditForm (pf_min_healthy_members_update (\<lambda>_. x))),
     Button ''Cancel'' False CloseModal, Submit ''Save'' saving]"

definition pool_columns :: "upstream_resolver list \<Rightarrow> (upstream_pool, (upstream_pool, pool_form) up_event) crud_column list" where
  "pool_columns rs =
    [(''Pool'', \<lambda>p. Text (up_name p)),
     (''Strategy'', \<lambda>p. Badge [] (nullish (STRATEGY_LABELS (up_strategy p)) (up_strategy p))),
     (''Members'', \<lambda>p. Box (map (\<lambda>m. Badge [] (member_badge rs (up_strategy p) m)) (up_members p)
        @ show_if (up_members p = []) [Text ''No members''])),
     (''Health check'', \<lambda>p. Text (int_str (up_health_check_interval_s p) @ ''s / '' @ int_str (up_health_check_timeout_ms p) @ ''ms''))]"

definition PoolsTab :: "upstream_resolver list \<Rightarrow> (upstream_pool, pool_form) crud_tab \<Rightarrow> (upstream_pool, pool_form) up_event view" where
  "PoolsTab rs s = (let m = ct_modal s in Box
    ([Text ''Pools group resolvers under a load-balancing / failover strategy. Assign pools to upstream routes.'',
      Button ''Add pool'' False (UpUi OpenCreate),
      CrudTable (ct_rows s) (ct_isLoading s) (pool_columns rs)
        (Some (Text ''No pools. Create resolvers first, then group them into pools.'')) (Some (\<lambda>p. UpUi (OpenEdit p)))
        (Some (\<lambda>p. UpUi (ConfirmDelete p))) None]
     @ map (map_view UpUi) (EntityModal (cm_open m) CloseModal (if cm_editing m \<noteq> None then ''Edit pool'' else ''Add pool'')
         [PoolForm (crud_saving s) (cm_form m)])))"

section \<open>Routes\<close>

record route_form =
  uf_name :: string
  uf_match_type :: "string option"
  uf_match_value :: string
  uf_pool_id :: "string option"
  uf_priority :: num_input
  uf_enabled :: bool

definition RouteForm_initial :: "upstream_route option \<Rightarrow> route_form" where
  "RouteForm_initial i = (case i of
     None \<Rightarrow> \<lparr>uf_name = [], uf_match_type = Some ''default'', uf_match_value = [], uf_pool_id = Some [], uf_priority = Num 100, uf_enabled = True\<rparr>
   | Some r \<Rightarrow> \<lparr>uf_name = rt_name r, uf_match_type = Some (rt_match_type r), uf_match_value = nullish (rt_match_value r) [],
       uf_pool_id = Some (rt_pool_id r), uf_priority = Num (rt_priority r), uf_enabled = rt_enabled r\<rparr>)"

definition RouteForm_validate :: "upstream_route option \<Rightarrow> route_form \<Rightarrow> field_errors" where
  "RouteForm_validate _ v = [(''name'', required (uf_name v)),
     (''pool_id'', if \<not> truthy (uf_pool_id v) then Some ''Select a pool'' else None)]"

definition needsValue :: "route_form \<Rightarrow> bool" where
  "needsValue v \<longleftrightarrow> uf_match_type v \<noteq> Some ''default''"

definition RouteForm_submit :: "route_form \<Rightarrow> json" where
  "RouteForm_submit v = JObj
    [(''name'', JStr (uf_name v)), (''match_type'', jopt (uf_match_type v)),
     (''match_value'', if needsValue v then JStr (uf_match_value v) else JNull), (''pool_id'', jopt (uf_pool_id v)),
     (''priority'', jnum (uf_priority v)), (''enabled'', JBool (uf_enabled v))]"

definition RoutesTab_ops :: "string option \<Rightarrow> (upstream_route, route_form) up_ops" where
  "RoutesTab_ops t = \<lparr>uo_crud = \<lparr>co_initial = RouteForm_initial, co_validate = RouteForm_validate, co_payload = RouteForm_submit, co_id = rt_id,
       co_is_edit = (\<lambda>e. e \<noteq> None), co_enabled = rt_enabled, co_create = useCreateUpstreamRoute t, co_update = useUpdateUpstreamRoute t,
       co_delete = useDeleteUpstreamRoute t, co_saved = (\<lambda>_. ''Route updated''),
       co_confirm = (\<lambda>r. (''Delete route'', ''Delete route '' @ rt_name r @ ''?'')), co_deleted = []\<rparr>,
     uo_created = (\<lambda>_. ''Route created''), uo_deleted = (\<lambda>_. [])\<rparr>"

record routes_tab =
  wt_crud :: "(upstream_route, route_form) crud_tab"
  wt_tenants :: "tenant list"
  wt_tenantId :: "string option"
  wt_pools :: "upstream_pool list"

datatype routes_event =
    WtUp "(upstream_route, route_form) up_event" | WtTenant "string option" | WtTenants "tenant list" | WtPools "upstream_pool list"

fun routes_step :: "routes_event \<Rightarrow> routes_tab \<Rightarrow> routes_tab \<times> cmd list" where
  "routes_step (WtUp e) s = (let (c, cs) = up_step (RoutesTab_ops (wt_tenantId s)) e (wt_crud s) in (s\<lparr>wt_crud := c\<rparr>, cs))"
| "routes_step (WtTenant v) s = (s\<lparr>wt_tenantId := Some (nullish v [])\<rparr>, [])"
| "routes_step (WtTenants ts) s = (s\<lparr>wt_tenants := ts\<rparr>, [])"
| "routes_step (WtPools ps) s = (s\<lparr>wt_pools := ps\<rparr>, [])"

definition poolName :: "upstream_pool list \<Rightarrow> string \<Rightarrow> string" where
  "poolName ps i = (case find (\<lambda>p. up_id p = i) ps of Some p \<Rightarrow> up_name p | None \<Rightarrow> take 8 i)"

definition poolOption :: "upstream_pool \<Rightarrow> string \<times> string" where
  "poolOption p = (up_id p, up_name p @ '' ('' @ nullish (STRATEGY_LABELS (up_strategy p)) (up_strategy p) @ '', ''
     @ nat_str (length (up_members p)) @ '' members)'')"

definition RouteForm :: "upstream_pool list \<Rightarrow> bool \<Rightarrow> route_form \<Rightarrow> (upstream_route, route_form) crud_event view" where
  "RouteForm pools saving v = Form SubmitForm
    ([TextInput ''Name'' (uf_name v) True False (\<lambda>x. EditForm (uf_name_update (\<lambda>_. x))),
      Select ''Match type'' MATCH_TYPE_OPTIONS (uf_match_type v) False (\<lambda>x. EditForm (uf_match_type_update (\<lambda>_. x))),
      NumberInput ''Priority'' (uf_priority v) (Some 0) (Some 9999) False (\<lambda>x. EditForm (uf_priority_update (\<lambda>_. x)))]
     @ show_if (needsValue v) [TextInput ''Match value'' (uf_match_value v) False False (\<lambda>x. EditForm (uf_match_value_update (\<lambda>_. x)))]
     @ [Select ''Target pool'' (map poolOption pools) (uf_pool_id v) False (\<lambda>x. EditForm (uf_pool_id_update (\<lambda>_. x))),
        Switch ''Enabled'' (uf_enabled v) False (EditForm (uf_enabled_update Not)),
        Button ''Cancel'' False CloseModal, Submit ''Save'' saving])"

definition route_columns :: "upstream_pool list \<Rightarrow> (upstream_route, (upstream_route, route_form) crud_event) crud_column list" where
  "route_columns pools =
    [(''Priority'', \<lambda>r. Badge [] (int_str (rt_priority r))),
     (''Name'', \<lambda>r. Box (Text (rt_name r) # show_if (rt_tenant_id r = None) [Badge ''orange'' ''global''])),
     (''Match'', \<lambda>r. Badge [] (rt_match_type r)), (''Value'', \<lambda>r. Text (nullish (rt_match_value r) em_dash)),
     (''Pool'', \<lambda>r. Text (poolName pools (rt_pool_id r))), (''On'', \<lambda>r. Switch [] (rt_enabled r) False (ToggleEnabled r))]"

definition RoutesTab :: "routes_tab \<Rightarrow> routes_event view" where
  "RoutesTab t = (let s = wt_crud t; m = ct_modal s; ui = (\<lambda>e. WtUp (UpUi e)) in Box
    ([Text ''Routes map a (tenant, qname pattern) to an upstream pool. Evaluated in priority order.'',
      Select ''Tenant'' (tenantOptions (wt_tenants t)) (wt_tenantId t) False WtTenant]
     @ show_if (truthy (wt_tenantId t))
       ([Button ''Add route'' False (ui OpenCreate),
         CrudTable (ct_rows s) (ct_isLoading s) (map (map_column ui) (route_columns (wt_pools t)))
           (Some (Text ''No routes for this tenant. Add one to override the default forwarding.'')) (Some (\<lambda>r. ui (OpenEdit r)))
           (Some (\<lambda>r. ui (ConfirmDelete r))) None]
        @ map (map_view ui) (EntityModal (cm_open m) CloseModal (if cm_editing m \<noteq> None then ''Edit route'' else ''Add route'')
            [RouteForm (wt_pools t) (crud_saving s) (cm_form m)]))))"

section \<open>Tenant policy\<close>

record policy_form =
  of_require_encrypted :: bool
  of_dnssec_validation :: "string option"
  of_min_ttl_s :: num_input
  of_max_ttl_s :: num_input
  of_negative_ttl_s :: num_input

definition PolicyTab_initial :: policy_form where
  "PolicyTab_initial = \<lparr>of_require_encrypted = False, of_dnssec_validation = Some ''opportunistic'', of_min_ttl_s = Num 0,
     of_max_ttl_s = Num 86400, of_negative_ttl_s = Num 300\<rparr>"

definition policy_values :: "upstream_tenant_policy \<Rightarrow> policy_form" where
  "policy_values p = \<lparr>of_require_encrypted = tp_require_encrypted p, of_dnssec_validation = Some (tp_dnssec_validation p),
     of_min_ttl_s = Num (tp_min_ttl_s p), of_max_ttl_s = Num (tp_max_ttl_s p), of_negative_ttl_s = Num (tp_negative_ttl_s p)\<rparr>"

definition policy_body :: "policy_form \<Rightarrow> json" where
  "policy_body v = JObj [(''require_encrypted'', JBool (of_require_encrypted v)), (''dnssec_validation'', jopt (of_dnssec_validation v)),
     (''min_ttl_s'', jnum (of_min_ttl_s v)), (''max_ttl_s'', jnum (of_max_ttl_s v)), (''negative_ttl_s'', jnum (of_negative_ttl_s v))]"

text \<open>The query of the selected tenant: loading, its policy, or an error without data. A tenant whose policy is in the cache
  answers at once.\<close>

datatype policy_query = PolicyLoading | PolicyLoaded upstream_tenant_policy | PolicyFailed

record policy_tab =
  ot_tenants :: "tenant list"
  ot_tenantId :: "string option"
  ot_query :: policy_query
  ot_form :: policy_form
  ot_synced :: "string option"
  ot_upsert :: observer

datatype policy_event =
    OtTenant "string option" | OtTenants "tenant list" | OtQuery policy_query
  | OtEdit "policy_form \<Rightarrow> policy_form" | OtSubmit | OtSaved nat "string option" json "thrown option"

definition policy_mount :: policy_tab where
  "policy_mount = \<lparr>ot_tenants = [], ot_tenantId = None, ot_query = PolicyLoading, ot_form = PolicyTab_initial, ot_synced = None,
     ot_upsert = ob_idle\<rparr>"

text \<open>The synchronisation during render.\<close>

definition policy_sync :: "policy_tab \<Rightarrow> policy_tab" where
  "policy_sync s = (case ot_query s of
     PolicyLoaded p \<Rightarrow> if truthy (ot_tenantId s) \<and> ot_synced s \<noteq> ot_tenantId s
       then s\<lparr>ot_form := policy_values p, ot_synced := ot_tenantId s\<rparr> else s
   | _ \<Rightarrow> s)"

definition policy_submit :: "policy_tab \<Rightarrow> policy_tab \<times> cmd list" where
  "policy_submit s = (s\<lparr>ot_upsert := ob_call (ot_upsert s)\<rparr>, [mutate (useUpsertUpstreamTenantPolicy (ot_tenantId s)) (policy_body (ot_form s))])"

definition policy_saved :: "nat \<Rightarrow> string option \<Rightarrow> json \<Rightarrow> thrown option \<Rightarrow> policy_tab \<Rightarrow> policy_tab \<times> cmd list" where
  "policy_saved n t body r s = (let latest = ob_latest n (ot_upsert s); s' = s\<lparr>ot_upsert := ob_settle n (ot_upsert s)\<rparr> in
     case r of
       None \<Rightarrow> (s', settled_ok (useUpsertUpstreamTenantPolicy t) body (if latest then [Notify ''Upstream policy saved'' ''green''] else []))
     | Some e \<Rightarrow> (s', if latest then [notify_error e] else []))"

fun policy_handle :: "policy_event \<Rightarrow> policy_tab \<Rightarrow> policy_tab \<times> cmd list" where
  "policy_handle (OtTenant v) s = (s\<lparr>ot_tenantId := v, ot_query := PolicyLoading, ot_synced := None\<rparr>, [])"
| "policy_handle (OtTenants ts) s = (s\<lparr>ot_tenants := ts\<rparr>, [])"
| "policy_handle (OtQuery q) s = (s\<lparr>ot_query := q\<rparr>, [])"
| "policy_handle (OtEdit f) s = (s\<lparr>ot_form := f (ot_form s)\<rparr>, [])"
| "policy_handle OtSubmit s = policy_submit s"
| "policy_handle (OtSaved n t body r) s = policy_saved n t body r s"

definition policy_step :: "policy_event \<Rightarrow> policy_tab \<Rightarrow> policy_tab \<times> cmd list" where
  "policy_step e s = (let (s', cs) = policy_handle e s in (policy_sync s', cs))"

fun policy_answer :: "policy_event \<Rightarrow> bool" where
  "policy_answer (OtTenants _) = True"
| "policy_answer (OtQuery q) = True"
| "policy_answer (OtSaved _ _ _ _) = True"
| "policy_answer _ = False"

definition PolicyTab :: "policy_tab \<Rightarrow> policy_event view" where
  "PolicyTab s = (let v = ot_form s; loading = (ot_query s = PolicyLoading) in Box
    ([Text ''Per-tenant upstream DNS behaviour: DNSSEC enforcement, encryption requirements, TTL clamping, and blocked-query response type.'',
      Select ''Tenant'' (tenantOptions (ot_tenants s)) (ot_tenantId s) False OtTenant]
     @ show_if (truthy (ot_tenantId s) \<and> loading) [Loader]
     @ show_if (truthy (ot_tenantId s) \<and> \<not> loading) [Form OtSubmit
       [Select ''DNSSEC validation'' DNSSEC_OPTIONS (of_dnssec_validation v) False (\<lambda>x. OtEdit (of_dnssec_validation_update (\<lambda>_. x))),
        NumberInput ''Min TTL (s)'' (of_min_ttl_s v) (Some 0) None False (\<lambda>x. OtEdit (of_min_ttl_s_update (\<lambda>_. x))),
        NumberInput ''Max TTL (s)'' (of_max_ttl_s v) (Some 0) None False (\<lambda>x. OtEdit (of_max_ttl_s_update (\<lambda>_. x))),
        NumberInput ''Negative TTL (s)'' (of_negative_ttl_s v) (Some 0) None False (\<lambda>x. OtEdit (of_negative_ttl_s_update (\<lambda>_. x))),
        Checkbox ''Require encrypted upstream (reject do53 resolvers)'' (of_require_encrypted v) False False
          (OtEdit (of_require_encrypted_update Not)),
        Submit ''Save policy'' (ob_pending (ot_upsert s))]]))"

section \<open>The page\<close>

definition HealthTab :: "'e view" where
  "HealthTab = Box [Text ''Upstream Health Dashboard'',
     Text (''Per-resolver health state timelines, latency P50/P95/P99 charts, error breakdown, and pool utilization will appear here once the ''
       @ ''Sprint 18 health monitor is active in the filter node.'')]"

datatype up_panel =
    ResolversPanel resolvers_tab
  | PoolsPanel "upstream_resolver list" "(upstream_pool, pool_form) crud_tab"
  | RoutesPanel routes_tab
  | PolicyPanel policy_tab
  | HealthPanel
  | NoUpPanel

text \<open>The last tenant of the routes tab is kept for the answers that arrive after the tab was unmounted.\<close>

record upstream_page =
  ug_params :: search_pairs
  ug_panel :: up_panel
  ug_routesTenant :: "string option"

datatype upstream_event =
    UgTab "string option" | UgResolvers resolvers_event | UgPools "(upstream_pool, pool_form) up_event" | UgPoolResolvers "upstream_resolver list"
  | UgRoutes routes_event | UgPolicy policy_event

definition upstream_tab :: "search_pairs \<Rightarrow> string" where
  "upstream_tab ps = nullish (map_of (filter_values [(''tab'', ''resolvers'')] ps) ''tab'') []"

definition up_mount :: "search_pairs \<Rightarrow> up_panel" where
  "up_mount ps = (let t = upstream_tab ps in
     if t = ''resolvers'' then ResolversPanel \<lparr>vt_crud = crud_mount (uo_crud ResolversTab_ops), vt_probingId = None, vt_probe = ob_idle\<rparr>
     else if t = ''pools'' then PoolsPanel [] (crud_mount (uo_crud PoolsTab_ops))
     else if t = ''routes''
       then RoutesPanel \<lparr>wt_crud = crud_mount (uo_crud (RoutesTab_ops None)), wt_tenants = [], wt_tenantId = None, wt_pools = []\<rparr>
     else if t = ''policy'' then PolicyPanel policy_mount
     else if t = ''health'' then HealthPanel
     else NoUpPanel)"

definition upstream_mount :: "search_pairs \<Rightarrow> upstream_page" where
  "upstream_mount ps = \<lparr>ug_params = ps, ug_panel = up_mount ps, ug_routesTenant = None\<rparr>"

definition upstream_setTab :: "string option \<Rightarrow> upstream_page \<Rightarrow> upstream_page" where
  "upstream_setTab v s = (let ps = setFilters [(''tab'', ''resolvers'')] [(''tab'', Some (nullish v ''resolvers''))] (ug_params s) in
     if upstream_tab ps = upstream_tab (ug_params s) then s\<lparr>ug_params := ps\<rparr> else s\<lparr>ug_params := ps, ug_panel := up_mount ps\<rparr>)"

text \<open>What is left of an answer when its tab is no longer mounted: the cache operations of the hook.\<close>

fun up_late :: "('r, 'f) up_ops \<Rightarrow> ('r, 'f) up_event \<Rightarrow> cmd list" where
  "up_late uops (UpSaved _ ed body (Inl _)) = save_cache (uo_crud uops) ed body"
| "up_late uops (UpToggled _ r None) = settled_ok (co_update (uo_crud uops)) (toggle_payload (uo_crud uops) r) []"
| "up_late uops (UpDeleted _ r None) = settled_ok (co_delete (uo_crud uops)) (co_id (uo_crud uops) r) []"
| "up_late uops _ = []"

fun resolvers_late :: "resolvers_event \<Rightarrow> cmd list" where
  "resolvers_late (VtUp e) = up_late ResolversTab_ops e"
| "resolvers_late _ = []"

fun routes_late :: "string option \<Rightarrow> routes_event \<Rightarrow> cmd list" where
  "routes_late t (WtUp e) = up_late (RoutesTab_ops t) e"
| "routes_late t _ = []"

fun policy_late :: "policy_event \<Rightarrow> cmd list" where
  "policy_late (OtSaved _ t body None) = settled_ok (useUpsertUpstreamTenantPolicy t) body []"
| "policy_late _ = []"

fun upstream_step :: "upstream_event \<Rightarrow> upstream_page \<Rightarrow> upstream_page \<times> cmd list" where
  "upstream_step (UgTab v) s = (upstream_setTab v s, [])"
| "upstream_step (UgResolvers e) s = (case ug_panel s of
     ResolversPanel t \<Rightarrow> (let (t', cs) = resolvers_step e t in (s\<lparr>ug_panel := ResolversPanel t'\<rparr>, cs)) | _ \<Rightarrow> (s, resolvers_late e))"
| "upstream_step (UgPools e) s = (case ug_panel s of
     PoolsPanel rs t \<Rightarrow> (let (t', cs) = up_step PoolsTab_ops e t in (s\<lparr>ug_panel := PoolsPanel rs t'\<rparr>, cs)) | _ \<Rightarrow> (s, up_late PoolsTab_ops e))"
| "upstream_step (UgPoolResolvers rs) s = (case ug_panel s of PoolsPanel _ t \<Rightarrow> (s\<lparr>ug_panel := PoolsPanel rs t\<rparr>, []) | _ \<Rightarrow> (s, []))"
| "upstream_step (UgRoutes e) s = (case ug_panel s of
     RoutesPanel t \<Rightarrow> (let (t', cs) = routes_step e t in (s\<lparr>ug_panel := RoutesPanel t', ug_routesTenant := wt_tenantId t'\<rparr>, cs))
   | _ \<Rightarrow> (s, routes_late (ug_routesTenant s) e))"
| "upstream_step (UgPolicy e) s = (case ug_panel s of
     PolicyPanel t \<Rightarrow> (let (t', cs) = policy_step e t in (s\<lparr>ug_panel := PolicyPanel t'\<rparr>, cs)) | _ \<Rightarrow> (s, policy_late e))"

definition up_panel_view :: "up_panel \<Rightarrow> upstream_event view" where
  "up_panel_view p = (case p of
     ResolversPanel t \<Rightarrow> map_view UgResolvers (ResolversTab t)
   | PoolsPanel rs t \<Rightarrow> map_view UgPools (PoolsTab rs t)
   | RoutesPanel t \<Rightarrow> map_view UgRoutes (RoutesTab t)
   | PolicyPanel t \<Rightarrow> map_view UgPolicy (PolicyTab t)
   | HealthPanel \<Rightarrow> HealthTab
   | NoUpPanel \<Rightarrow> Box [])"

definition UpstreamPage :: "upstream_page \<Rightarrow> upstream_event view" where
  "UpstreamPage s = Box
    [Text ''DNS Upstream'',
     Text (''Manage upstream resolver profiles, HA pools, per-tenant routing rules, and forwarding policy. All config is delivered to filter ''
       @ ''nodes as signed upstream bundles.''),
     Segmented [(''resolvers'', ''Resolvers''), (''pools'', ''Pools''), (''routes'', ''Routes''), (''policy'', ''Tenant policy''), (''health'', ''Health'')]
       (upstream_tab (ug_params s)) (\<lambda>v. UgTab (Some v)),
     up_panel_view (ug_panel s)]"

section \<open>Editing round trips\<close>

definition resolver_wf :: "upstream_resolver \<Rightarrow> bool" where
  "resolver_wf r \<longleftrightarrow> js_trim (ur_name r) \<noteq> [] \<and> js_trim (ur_address r) \<noteq> [] \<and> 1 \<le> ur_port r \<and> ur_port r \<le> 65535"

definition resolver_fields :: "upstream_resolver \<Rightarrow> (string \<times> json) list" where
  "resolver_fields r = [(''name'', JStr (ur_name r)), (''protocol'', JStr (ur_protocol r)), (''address'', JStr (ur_address r)), (''port'', jint (ur_port r))]
     @ (if needsTls (ur_protocol r) \<and> truthy (ur_tls_hostname r) then [(''tls_hostname'', jopt (ur_tls_hostname r))] else [])
     @ [(''dnssec_validation'', JStr (ur_dnssec_validation r)), (''timeout_ms'', jint (ur_timeout_ms r)), (''max_retries'', jint (ur_max_retries r)),
        (''tags'', jstrs (ur_tags r)), (''enabled'', JBool (ur_enabled r))]"

interpretation rve: edit_form "uo_crud ResolversTab_ops" resolver_wf resolver_fields
proof unfold_locales
  fix r assume "resolver_wf r"
  then show "form_valid (co_validate (uo_crud ResolversTab_ops) (Some r) (co_initial (uo_crud ResolversTab_ops) (Some r)))"
    by (simp add: ResolversTab_ops_def ResolverForm_validate_def ResolverForm_initial_def resolver_wf_def form_valid_def port_error_def)
  show "co_payload (uo_crud ResolversTab_ops) (co_initial (uo_crud ResolversTab_ops) (Some r)) = JObj (resolver_fields r)"
    by (cases "ur_tls_hostname r") (auto simp: ResolversTab_ops_def ResolverForm_initial_def ResolverForm_submit_def resolver_fields_def
      defined_def truthy_def nullish_def)
qed (simp add: ResolversTab_ops_def)

definition pool_wf :: "upstream_pool \<Rightarrow> bool" where
  "pool_wf p \<longleftrightarrow> js_trim (up_name p) \<noteq> []"

definition pool_fields :: "upstream_pool \<Rightarrow> (string \<times> json) list" where
  "pool_fields p = [(''name'', JStr (up_name p)), (''strategy'', JStr (up_strategy p)), (''health_check_interval_s'', jint (up_health_check_interval_s p)),
     (''health_check_timeout_ms'', jint (up_health_check_timeout_ms p)), (''health_check_query'', JStr (up_health_check_query p)),
     (''health_check_type'', JStr (up_health_check_type p)), (''unhealthy_threshold'', jint (up_unhealthy_threshold p)),
     (''healthy_threshold'', jint (up_healthy_threshold p)), (''min_healthy_members'', jint (up_min_healthy_members p))]"

interpretation ple: edit_form "uo_crud PoolsTab_ops" pool_wf pool_fields
  by unfold_locales (simp_all add: PoolsTab_ops_def PoolForm_validate_def PoolForm_initial_def PoolForm_values_def pool_wf_def pool_fields_def
      form_valid_def)

text \<open>A route that matches something has its value; the default route has none.\<close>

definition route_wf :: "upstream_route \<Rightarrow> bool" where
  "route_wf r \<longleftrightarrow> js_trim (rt_name r) \<noteq> [] \<and> rt_pool_id r \<noteq> [] \<and> (rt_match_value r = None \<longleftrightarrow> rt_match_type r = ''default'')"

definition route_fields :: "upstream_route \<Rightarrow> (string \<times> json) list" where
  "route_fields r = [(''name'', JStr (rt_name r)), (''match_type'', JStr (rt_match_type r)), (''match_value'', jopt (rt_match_value r)),
     (''pool_id'', JStr (rt_pool_id r)), (''priority'', jint (rt_priority r)), (''enabled'', JBool (rt_enabled r))]"

interpretation rte: edit_form "uo_crud (RoutesTab_ops t)" route_wf route_fields for t
  by unfold_locales (auto simp: RoutesTab_ops_def RouteForm_validate_def RouteForm_initial_def RouteForm_submit_def needsValue_def route_wf_def
      route_fields_def form_valid_def truthy_def jopt_def nullish_def split: option.split)

lemma editing_form:
  assumes "\<not> cm_open (ct_modal s)"
  shows "ct_modal (fst (crud_step ops (EditForm f) (fst (crud_step ops (OpenEdit r) s))))
    = \<lparr>cm_editing = Some r, cm_open = True, cm_form = f (co_initial ops (Some r))\<rparr>"
  using assms by (cases "ct_modal s") (simp add: set_modal_def openEdit_def openWith_def mount_form_def)

lemma submit_edited:
  assumes "\<not> cm_open (ct_modal s)" and "form_valid (co_validate ops (Some r) (f (co_initial ops (Some r))))" and "co_is_edit ops (Some r)"
  shows "requests (snd (crud_step ops SubmitForm (fst (crud_step ops (EditForm f) (fst (crud_step ops (OpenEdit r) s))))))
    = [mu_fn (co_update ops) (co_id ops r, co_payload ops (f (co_initial ops (Some r))))]"
  using editing_form [OF assms(1), of ops f r] assms(2,3) by (simp add: crud_submit_def crud_save_def mutate_def Let_def)


definition wit_pool :: upstream_pool where
  "wit_pool = \<lparr>up_id = ''p1'', up_name = ''ha'', up_strategy = ''failover'', up_health_check_interval_s = 30, up_health_check_timeout_ms = 2000,
     up_health_check_query = ''.'', up_health_check_type = ''soa'', up_unhealthy_threshold = 3, up_healthy_threshold = 2,
     up_min_healthy_members = 1, up_fallback_pool_id = None, up_members = [], up_created_at = [], up_updated_at = []\<rparr>"


section \<open>The tenant policy form\<close>

text \<open>Once the policy of the selected tenant is loaded, the form has been synchronised with that tenant.\<close>

definition policy_synced :: "policy_tab \<Rightarrow> bool" where
  "policy_synced s \<longleftrightarrow> (\<forall>p. ot_query s = PolicyLoaded p \<and> truthy (ot_tenantId s) \<longrightarrow> ot_synced s = ot_tenantId s)"

lemma policy_synced_sync: "policy_synced (policy_sync s)"
  by (auto simp: policy_synced_def policy_sync_def split: policy_query.splits)

interpretation pso: page PolicyTab policy_answer policy_step policy_synced
  by unfold_locales (simp_all add: policy_step_def split_def Let_def policy_synced_sync)

text \<open>A later load for the same tenant keeps the edits; the first load of a tenant replaces the form by its policy.\<close>

lemma policy_first_load:
  assumes "t \<noteq> []"
  shows "ot_form (fst (policy_step (OtQuery (PolicyLoaded p)) (fst (policy_step (OtTenant (Some t)) s)))) = policy_values p"
  using assms by (simp add: policy_step_def policy_sync_def truthy_def)

lemma policy_reload_keeps_edits:
  "policy_synced s \<Longrightarrow> ot_query s = PolicyLoaded q \<Longrightarrow> ot_form (fst (policy_step (OtQuery (PolicyLoaded p)) s)) = ot_form s"
  by (auto simp: policy_step_def policy_sync_def policy_synced_def)

text \<open>C37. The tenant policy form loads the values of a tenant when they arrive and keeps edits on every later refetch. When the
  policy of a newly selected tenant cannot be loaded, the form of the tenant before is shown and can be saved: the
  first tenant's values are sent as the policy of the second.\<close>

theorem policy_form_of_failed_tenant:
  assumes run: "page_run PolicyTab policy_answer policy_step policy_mount s cs" and t: "t \<noteq> []" and idle: "\<not> ob_pending (ot_upsert s)"
  shows "(\<forall>p q. ot_query s = PolicyLoaded q \<longrightarrow> ot_form (fst (policy_step (OtQuery (PolicyLoaded p)) s)) = ot_form s)
    \<and> (\<forall>p. ot_form (fst (policy_step (OtQuery (PolicyLoaded p)) (fst (policy_step (OtTenant (Some t)) s)))) = policy_values p)
    \<and> (let s' = fst (policy_step (OtQuery PolicyFailed) (fst (policy_step (OtTenant (Some t)) s))) in
        offers OtSubmit (PolicyTab s')
        \<and> requests (snd (policy_step OtSubmit s')) = [RawPut (''/api/v1/tenants/'' @ t @ ''/upstream/policy'') (policy_body (ot_form s))])"
proof (intro conjI allI impI)
  have "policy_synced s" using pso.run_keeps [OF run] by (simp add: policy_synced_def policy_mount_def)
  then show "ot_form (fst (policy_step (OtQuery (PolicyLoaded p)) s)) = ot_form s" if "ot_query s = PolicyLoaded q" for p q
    using policy_reload_keeps_edits that by blast
  show "ot_form (fst (policy_step (OtQuery (PolicyLoaded p)) (fst (policy_step (OtTenant (Some t)) s)))) = policy_values p" for p
    by (rule policy_first_load [OF t])
  show "let s' = fst (policy_step (OtQuery PolicyFailed) (fst (policy_step (OtTenant (Some t)) s))) in
        offers OtSubmit (PolicyTab s')
        \<and> requests (snd (policy_step OtSubmit s')) = [RawPut (''/api/v1/tenants/'' @ t @ ''/upstream/policy'') (policy_body (ot_form s))]"
    using t idle by (simp add: policy_step_def policy_sync_def policy_submit_def PolicyTab_def Let_def truthy_def mutate_def
        useUpsertUpstreamTenantPolicy_def tmpl_opt_def)
qed

theorem policy_form_of_failed_tenant_witness:
  "requests (snd (policy_step OtSubmit (fst (policy_step (OtQuery PolicyFailed) (fst (policy_step (OtTenant (Some ''t2'')) policy_mount))))))
   = [RawPut ''/api/v1/tenants/t2/upstream/policy'' (policy_body PolicyTab_initial)]"
  using policy_form_of_failed_tenant [OF page_run.run_start, of "''t2''"]
  by (simp add: policy_mount_def ob_idle_def Let_def)

end
