(* ===== verification/Dialog.thy ===== *)
theory Dialog
  imports Crud Auth
begin

text \<open>
  A dialog with a form that calls one mutation, as the tenant, group, client, user and SIEM pages have it:
  \<open>form.onSubmit((values) => mutation.mutate(vars, { onSuccess: () => { notify; onDone(); }, onError }))\<close>. A dialog is
  described by its validators, its mutation, the variables it passes and its message. Where the form is a child of
  the modal it is unmounted when the modal closes (\<open>dialog_unmount\<close>): its values and the observer of its mutation are
  gone, so the callbacks of a call still in flight do not run. Where the form encloses the modal it stays mounted.
\<close>

section \<open>Dialogs\<close>

record 'f dialog =
  dl_opened :: bool
  dl_values :: 'f
  dl_call :: observer

record ('v, 'f) dialog_ops =
  do_validate :: "'f \<Rightarrow> field_errors"
  do_mutation :: "'v mutation"
  do_vars :: "'f \<Rightarrow> 'v option"  \<comment> \<open>None when building them throws\<close>
  do_message :: "'f \<Rightarrow> string"

definition dialog_closed :: "'f \<Rightarrow> 'f dialog" where
  "dialog_closed initial = \<lparr>dl_opened = False, dl_values = initial, dl_call = ob_idle\<rparr>"

text \<open>The observer of a component mounted anew: no earlier call is its latest one.\<close>

definition ob_fresh :: "observer \<Rightarrow> observer" where
  "ob_fresh b = \<lparr>ob_calls = ob_calls b + 1, ob_pending = False\<rparr>"

definition dialog_mount :: "'f \<Rightarrow> 'f dialog \<Rightarrow> 'f dialog" where
  "dialog_mount initial d = (if dl_opened d then d else d\<lparr>dl_opened := True, dl_values := initial\<rparr>)"

definition dialog_unmount :: "'f dialog \<Rightarrow> 'f dialog" where
  "dialog_unmount d = d\<lparr>dl_opened := False, dl_call := ob_fresh (dl_call d)\<rparr>"

definition dialog_edit :: "('f \<Rightarrow> 'f) \<Rightarrow> 'f dialog \<Rightarrow> 'f dialog" where
  "dialog_edit f d = d\<lparr>dl_values := f (dl_values d)\<rparr>"

definition dialog_submit :: "('v, 'f) dialog_ops \<Rightarrow> 'f dialog \<Rightarrow> 'f dialog \<times> cmd list" where
  "dialog_submit ops d =
    (if form_valid (do_validate ops (dl_values d))
     then (case do_vars ops (dl_values d) of
         None \<Rightarrow> (d, [])
       | Some v \<Rightarrow> (d\<lparr>dl_call := ob_call (dl_call d)\<rparr>, [mutate (do_mutation ops) v]))
     else (d, []))"

text \<open>The answer of the call numbered \<open>n\<close> that sent the values \<open>f\<close>; \<open>close\<close> is what \<open>onDone\<close> does to the dialog.\<close>

definition dialog_answer ::
    "('v, 'f) dialog_ops \<Rightarrow> ('f dialog \<Rightarrow> 'f dialog) \<Rightarrow> nat \<Rightarrow> 'f \<Rightarrow> thrown option \<Rightarrow> 'f dialog \<Rightarrow> 'f dialog \<times> cmd list" where
  "dialog_answer ops close n f r d =
    (let d' = d\<lparr>dl_call := ob_settle n (dl_call d)\<rparr>; latest = ob_latest n (dl_call d) in
     case r of
       None \<Rightarrow> (if latest then close d' else d,
          settled_ok (do_mutation ops) (the (do_vars ops f)) (if latest then [Notify (do_message ops f) ''green''] else []))
     | Some e \<Rightarrow> (d', if latest then [notify_error e] else []))"

text \<open>Mounted anew while the modal stays open, as after a loading or error view of the page.\<close>

definition dialog_remount :: "'f \<Rightarrow> 'f dialog \<Rightarrow> 'f dialog" where
  "dialog_remount initial d = d\<lparr>dl_values := initial, dl_call := ob_fresh (dl_call d)\<rparr>"

text \<open>The observer lives outside the modal in \<open>modals.openConfirmModal\<close>: the answer of a deletion says whether
  its callbacks run.\<close>

definition delete_answer :: "'v mutation \<Rightarrow> 'v \<Rightarrow> string \<Rightarrow> bool \<Rightarrow> thrown option \<Rightarrow> cmd list" where
  "delete_answer mu v msg cb r = (case r of
     None \<Rightarrow> settled_ok mu v (if cb then [Notify msg ''green''] else [])
   | Some e \<Rightarrow> if cb then [notify_error e] else [])"

section \<open>Query results\<close>

text \<open>\<open>data\<close>, \<open>isLoading\<close> and \<open>error\<close> of a query: a disabled one is not loading, and a failed refetch keeps the data.\<close>

record 'a query_result =
  qr_data :: "'a option"
  qr_isLoading :: bool
  qr_error :: "thrown option"

definition qr_start :: "bool \<Rightarrow> 'a query_result" where
  "qr_start enabled = \<lparr>qr_data = None, qr_isLoading = enabled, qr_error = None\<rparr>"

definition qr_answer :: "thrown + 'a \<Rightarrow> 'a query_result \<Rightarrow> 'a query_result" where
  "qr_answer r q = (case r of
     Inl e \<Rightarrow> q\<lparr>qr_isLoading := False, qr_error := Some e\<rparr>
   | Inr x \<Rightarrow> \<lparr>qr_data = Some x, qr_isLoading = False, qr_error = None\<rparr>)"

text \<open>\<open>if (isLoading) return <Loader />; if (error) return <Text>{formatError(error)}</Text>;\<close>\<close>

definition query_view :: "'a query_result \<Rightarrow> 'e view \<Rightarrow> 'e view" where
  "query_view q v = (if qr_isLoading q then Loader else case qr_error q of Some e \<Rightarrow> Text (formatError e) | None \<Rightarrow> v)"

section \<open>Lemmas\<close>

lemma offers_query_view: "offers e (query_view q v) \<Longrightarrow> offers e v"
  by (auto simp: query_view_def split: if_splits option.splits)


lemma dialog_answer_requests [simp]: "requests (snd (dialog_answer ops close n f r d)) = []"
  by (simp add: dialog_answer_def Let_def split: option.split)

lemma delete_answer_requests [simp]: "requests (delete_answer mu v msg cb r) = []"
  by (simp add: delete_answer_def split: option.split)

lemma dialog_opened_simps [simp]:
  "dl_opened (dialog_closed i) = False" "dl_opened (dialog_unmount d) = False" "dl_opened (dialog_remount i d) = dl_opened d" "dl_opened (dialog_edit f d) = dl_opened d"
  "dl_opened (dialog_mount i d) = True" "dl_opened (fst (dialog_submit ops d)) = dl_opened d"
  by (simp_all add: dialog_closed_def dialog_unmount_def dialog_remount_def dialog_edit_def dialog_mount_def dialog_submit_def split: option.split)

lemma dialog_answer_closed:
  "\<not> dl_opened d \<Longrightarrow> (\<And>d. \<not> dl_opened d \<Longrightarrow> \<not> dl_opened (close d)) \<Longrightarrow> \<not> dl_opened (fst (dialog_answer ops close n f r d))"
  by (simp add: dialog_answer_def Let_def split: option.split)

lemma dialog_calls_simps [simp]:
  "ob_calls (dl_call (dialog_edit f d)) = ob_calls (dl_call d)" "ob_calls (dl_call (dialog_mount i d)) = ob_calls (dl_call d)"
  "ob_calls (dl_call (dialog_unmount d)) = ob_calls (dl_call d) + 1"
  by (simp_all add: dialog_edit_def dialog_mount_def dialog_unmount_def ob_fresh_def)

text \<open>The answer of an older call leaves the dialog as it is and runs only the cache operations of the hook.\<close>

lemma dialog_answer_late:
  assumes "n < ob_calls (dl_call d)"
  shows "fst (dialog_answer ops close n f r d) = d"
    and "snd (dialog_answer ops close n f r d) = (if r = None then settled_ok (do_mutation ops) (the (do_vars ops f)) [] else [])"
  using assms by (auto simp: dialog_answer_def ob_latest_def ob_settle_def Let_def split: option.split)

lemma form_valid_simps [simp]:
  "form_valid []" "form_valid ((k, v) # es) \<longleftrightarrow> v = None \<and> form_valid es"
  by (simp_all add: form_valid_def)

lemma dialog_submit_writes:
  "list_all P (writes (snd (dialog_submit ops d))) \<longleftrightarrow>
     (form_valid (do_validate ops (dl_values d)) \<longrightarrow>
      (\<forall>v. do_vars ops (dl_values d) = Some v \<longrightarrow> is_write (mu_fn (do_mutation ops) v) \<longrightarrow> P (mu_fn (do_mutation ops) v)))"
  by (simp add: dialog_submit_def mutate_def split: option.split)

lemma dialog_submit_range:
  "(\<And>v. P (mu_fn (do_mutation ops) v)) \<Longrightarrow> list_all P (writes (snd (dialog_submit ops d)))"
  by (simp add: dialog_submit_writes)

lemma dialog_answer_writes [simp]: "writes (snd (dialog_answer ops close n f r d)) = []" "writes (delete_answer mu v msg cb r) = []"
  by (simp_all add: writes_def)

section \<open>Pages that write only what is allowed\<close>

locale guarded_page = page +
  fixes allowed :: "api_call \<Rightarrow> bool"
  assumes offered_allowed: "inv s \<Longrightarrow> offers e (render s) \<Longrightarrow> list_all allowed (writes (snd (step e s)))"
    and answer_allowed: "inv s \<Longrightarrow> answer e \<Longrightarrow> list_all allowed (writes (snd (step e s)))"
begin

lemma run_allowed: "page_run render answer step s s' cs \<Longrightarrow> inv s \<Longrightarrow> list_all allowed (writes cs)"
proof (induction rule: page_run.induct)
  case (run_event s s' cs e s'' cs')
  then show ?case using run_keeps [of s s' cs] offered_allowed [of s' e] answer_allowed [of s' e] by auto
qed simp

end

text \<open>A read-only page is one that is allowed nothing.\<close>

sublocale read_only_page \<subseteq> ro: guarded_page render answer step inv "\<lambda>_. False"
  by unfold_locales (simp_all add: offered_silent answer_silent)

end
