(* ===== verification/Users.thy ===== *)
theory Users
  imports Dialog
begin

text \<open>
  \<open>pages/UsersPage.tsx\<close>: the accounts with their roles and tenants. The add form encloses its modal and stays mounted; the edit
  form is keyed on the user's id and is mounted anew when the id changes.
\<close>

section \<open>Forms\<close>

definition ROLE_OPTIONS :: "(string \<times> string) list" where
  "ROLE_OPTIONS = [(''admin'', ''Admin '' @ em_dash @ '' full access, manage users''),
     (''operator'', ''Operator '' @ em_dash @ '' read/write, no user management''), (''viewer'', ''Viewer '' @ em_dash @ '' read-only'')]"

definition ROLE_COLOR :: "string \<rightharpoonup> string" where
  "ROLE_COLOR = map_of [(''admin'', ''red''), (''operator'', ''blue''), (''viewer'', ''gray'')]"

text \<open>The tenant choices of both forms, the first for no tenant.\<close>

definition scopeChoices :: "tenant list \<Rightarrow> (string \<times> string) list" where
  "scopeChoices ts = ([], ''Global (no tenant restriction)'') # tenantOptions ts"

record add_user_form =
  af_email :: string
  af_password :: string
  af_role :: "string option"
  af_tenant_id :: "string option"

definition AddUser_initial :: add_user_form where
  "AddUser_initial = \<lparr>af_email = [], af_password = [], af_role = Some ''viewer'', af_tenant_id = Some []\<rparr>"

definition AddUser_validate :: "add_user_form \<Rightarrow> field_errors" where
  "AddUser_validate v =
    [(''email'', if length (js_trim (af_email v)) < 3 then Some ''Email is required'' else None),
     (''password'', if length (af_password v) < 12 then Some ''Minimum 12 characters'' else None),
     (''role'', if \<not> truthy (af_role v) then Some ''Role is required'' else None)]"

definition AddUser_body :: "add_user_form \<Rightarrow> json" where
  "AddUser_body v = JObj [(''email'', JStr (af_email v)), (''password'', JStr (af_password v)), (''role'', jopt (af_role v)),
     (''tenant_id'', jopt (Option.bind (af_tenant_id v) or_null))]"

definition AddUser_ops :: "(json, add_user_form) dialog_ops" where
  "AddUser_ops = \<lparr>do_validate = AddUser_validate, do_mutation = useCreateUser, do_vars = (\<lambda>v. Some (AddUser_body v)),
     do_message = (\<lambda>v. ''User '' @ quoted (af_email v) @ '' created'')\<rparr>"

definition AddUser_handleClose :: "add_user_form dialog \<Rightarrow> add_user_form dialog" where
  "AddUser_handleClose d = d\<lparr>dl_values := AddUser_initial, dl_opened := False\<rparr>"

record edit_user_form =
  ef_role :: "string option"
  ef_tenant_id :: "string option"

definition EditUser_initial :: "user_out option \<Rightarrow> edit_user_form" where
  "EditUser_initial u = (case u of
     None \<Rightarrow> \<lparr>ef_role = Some ''viewer'', ef_tenant_id = Some []\<rparr>
   | Some x \<Rightarrow> \<lparr>ef_role = Some (us_role x), ef_tenant_id = Some (nullish (us_tenant_id x) [])\<rparr>)"

definition EditUser_body :: "edit_user_form \<Rightarrow> json" where
  "EditUser_body v = JObj [(''role'', jopt (ef_role v)), (''tenant_id'', jopt (Option.bind (ef_tenant_id v) or_null))]"

definition EditUser_ops :: "user_out \<Rightarrow> (string \<times> json, edit_user_form) dialog_ops" where
  "EditUser_ops u = \<lparr>do_validate = (\<lambda>_. []), do_mutation = useUpdateUser, do_vars = (\<lambda>v. Some (us_id u, EditUser_body v)),
     do_message = (\<lambda>_. ''User '' @ us_email u @ '' updated'')\<rparr>"

section \<open>The page\<close>

record users_page =
  uz_users :: "user_out list"
  uz_isLoading :: bool
  uz_tenants :: "tenant list"
  uz_add :: "add_user_form dialog"
  uz_editUser :: "user_out option"
  uz_edit :: "edit_user_form dialog"

datatype users_event =
    OpenAddUser | CloseAddUser | EditAddUser "add_user_form \<Rightarrow> add_user_form" | SubmitAddUser
  | AddUserAnswer nat add_user_form "thrown option"
  | SetEditUser user_out | CloseEditUser | EditEditUser "edit_user_form \<Rightarrow> edit_user_form" | SubmitEditUser
  | EditUserAnswer nat user_out edit_user_form "thrown option"
  | ConfirmDeleteUser user_out | DeleteUserAnswer user_out bool "thrown option"
  | UsersData "user_out list" | UsersFailed | UserTenantsData "tenant list"

fun users_answer :: "users_event \<Rightarrow> bool" where
  "users_answer (AddUserAnswer _ _ _) = True"
| "users_answer (EditUserAnswer _ _ _ _) = True"
| "users_answer (DeleteUserAnswer _ _ _) = True"
| "users_answer (UsersData _) = True"
| "users_answer UsersFailed = True"
| "users_answer (UserTenantsData _) = True"
| "users_answer _ = False"

definition users_initial :: users_page where
  "users_initial = \<lparr>uz_users = [], uz_isLoading = True, uz_tenants = [], uz_add = dialog_closed AddUser_initial,
     uz_editUser = None, uz_edit = dialog_closed (EditUser_initial None)\<rparr>"

definition users_canWrite :: "auth_user option \<Rightarrow> bool" where
  "users_canWrite u = hasRole u [Admin]"

definition isSelf :: "auth_user option \<Rightarrow> user_out \<Rightarrow> bool" where
  "isSelf me x \<longleftrightarrow> Some (us_id x) = map_option au_id me"

definition sorted_users :: "(string \<Rightarrow> string \<Rightarrow> int) \<Rightarrow> user_out list \<Rightarrow> user_out list" where
  "sorted_users lc us = js_sort (by_key lc us_email) us"

definition byRole :: "user_out list \<Rightarrow> string \<Rightarrow> nat" where
  "byRole us r = length (filter (\<lambda>x. us_role x = r) us)"

text \<open>The key of the edit modal.\<close>

definition edit_key :: "user_out option \<Rightarrow> string" where
  "edit_key u = nullish (map_option us_id u) ''none''"

definition setEditUser :: "user_out option \<Rightarrow> users_page \<Rightarrow> users_page" where
  "setEditUser u s =
    (if edit_key u = edit_key (uz_editUser s) then s\<lparr>uz_editUser := u\<rparr>
     else s\<lparr>uz_editUser := u, uz_edit := (dialog_unmount (uz_edit s))\<lparr>dl_values := EditUser_initial u\<rparr>\<rparr>)"

definition EditUser_submit :: "users_page \<Rightarrow> users_page \<times> cmd list" where
  "EditUser_submit s = (case uz_editUser s of
     None \<Rightarrow> (s, [])
   | Some u \<Rightarrow> (let (d, cs) = dialog_submit (EditUser_ops u) (uz_edit s) in (s\<lparr>uz_edit := d\<rparr>, cs)))"

text \<open>\<open>handleClose\<close> of the edit modal resets the form and clears the user.\<close>

definition EditUser_answer :: "nat \<Rightarrow> user_out \<Rightarrow> edit_user_form \<Rightarrow> thrown option \<Rightarrow> users_page \<Rightarrow> users_page \<times> cmd list" where
  "EditUser_answer n u f r s =
    (let (d, cs) = dialog_answer (EditUser_ops u) id n f r (uz_edit s); s' = s\<lparr>uz_edit := d\<rparr> in
     (if r = None \<and> ob_latest n (dl_call (uz_edit s)) then setEditUser None s' else s', cs))"

definition users_confirmDelete :: "auth_user option \<Rightarrow> user_out \<Rightarrow> cmd list" where
  "users_confirmDelete me u = (if isSelf me u then []
     else [OpenConfirm ''Delete user'' (''Delete '' @ us_email u @ ''? They will immediately lose access.'') ''Delete''
             [mutate useDeleteUser (us_id u)]])"

fun users_step :: "auth_user option \<Rightarrow> users_event \<Rightarrow> users_page \<Rightarrow> users_page \<times> cmd list" where
  "users_step me OpenAddUser s = (s\<lparr>uz_add := (uz_add s)\<lparr>dl_opened := True\<rparr>\<rparr>, [])"
| "users_step me CloseAddUser s = (s\<lparr>uz_add := AddUser_handleClose (uz_add s)\<rparr>, [])"
| "users_step me (EditAddUser f) s = (s\<lparr>uz_add := dialog_edit f (uz_add s)\<rparr>, [])"
| "users_step me SubmitAddUser s = (let (d, cs) = dialog_submit AddUser_ops (uz_add s) in (s\<lparr>uz_add := d\<rparr>, cs))"
| "users_step me (AddUserAnswer n f r) s =
     (let (d, cs) = dialog_answer AddUser_ops AddUser_handleClose n f r (uz_add s) in (s\<lparr>uz_add := d\<rparr>, cs))"
| "users_step me (SetEditUser u) s = (setEditUser (Some u) s, [])"
| "users_step me CloseEditUser s = (setEditUser None s, [])"
| "users_step me (EditEditUser f) s = (s\<lparr>uz_edit := dialog_edit f (uz_edit s)\<rparr>, [])"
| "users_step me SubmitEditUser s = EditUser_submit s"
| "users_step me (EditUserAnswer n u f r) s = EditUser_answer n u f r s"
| "users_step me (ConfirmDeleteUser u) s = (s, users_confirmDelete me u)"
| "users_step me (DeleteUserAnswer u cb r) s =
     (s, delete_answer useDeleteUser (us_id u) (''User '' @ quoted (us_email u) @ '' deleted'') cb r)"
| "users_step me (UsersData us) s = (s\<lparr>uz_users := us, uz_isLoading := False\<rparr>, [])"
| "users_step me UsersFailed s = (s\<lparr>uz_isLoading := False\<rparr>, [])"
| "users_step me (UserTenantsData ts) s = (s\<lparr>uz_tenants := ts\<rparr>, [])"

section \<open>Views\<close>

definition AddUserModal :: "users_page \<Rightarrow> users_event view list" where
  "AddUserModal s = (let d = uz_add s; v = dl_values d in show_if (dl_opened d)
    [Modal ''Add user'' CloseAddUser
      [Form SubmitAddUser
        [TextInput ''Email'' (af_email v) True False (\<lambda>x. EditAddUser (af_email_update (\<lambda>_. x))),
         TextInput ''Password'' (af_password v) True False (\<lambda>x. EditAddUser (af_password_update (\<lambda>_. x))),
         Select ''Role'' ROLE_OPTIONS (af_role v) False (\<lambda>x. EditAddUser (af_role_update (\<lambda>_. x))),
         Select ''Tenant scope'' (scopeChoices (uz_tenants s)) (af_tenant_id v) False (\<lambda>x. EditAddUser (af_tenant_id_update (\<lambda>_. x))),
         Button ''Cancel'' False CloseAddUser, Submit ''Create user'' (ob_pending (dl_call d))]]])"

definition EditUserModal :: "users_page \<Rightarrow> users_event view list" where
  "EditUserModal s = (case uz_editUser s of
     None \<Rightarrow> []
   | Some u \<Rightarrow> (let v = dl_values (uz_edit s) in
       [Modal (''Edit user: '' @ us_email u) CloseEditUser
        [Form SubmitEditUser
          [TextInput ''Email'' (us_email u) False True (\<lambda>_. CloseEditUser),
           Select ''Role'' ROLE_OPTIONS (ef_role v) False (\<lambda>x. EditEditUser (ef_role_update (\<lambda>_. x))),
           Select ''Tenant scope'' (scopeChoices (uz_tenants s)) (ef_tenant_id v) False (\<lambda>x. EditEditUser (ef_tenant_id_update (\<lambda>_. x))),
           Button ''Cancel'' False CloseEditUser, Submit ''Save'' (ob_pending (dl_call (uz_edit s)))]]]))"

definition user_row :: "auth_user option \<Rightarrow> user_out \<Rightarrow> users_event view" where
  "user_row me x = Row
    [Box (Text (us_email x) # show_if (isSelf me x) [Badge ''blue'' ''you'']),
     Badge (nullish (ROLE_COLOR (us_role x)) ''gray'') (us_role x),
     Text (if truthy (us_tenant_id x) then the (us_tenant_id x) else ''Global''),
     Box [Tooltip ''Edit user'' (Button ''Edit'' False (SetEditUser x)),
          Tooltip (if isSelf me x then ''Cannot delete your own account'' else ''Delete'')
            (Button ''Delete'' (isSelf me x) (ConfirmDeleteUser x))]]"

definition user_kpis :: "user_out list \<Rightarrow> users_event view" where
  "user_kpis us = Box (map (\<lambda>(l, n). Box [Text l, Text (nat_str n)])
    [(''Total users'', length us), (''Admins'', byRole us ''admin''), (''Operators'', byRole us ''operator''),
     (''Viewers'', byRole us ''viewer'')])"

definition UsersPage :: "ui_env \<Rightarrow> auth_user option \<Rightarrow> users_page \<Rightarrow> users_event view" where
  "UsersPage w me s =
    (if uz_isLoading s then Loader
     else let us = uz_users s; sorted = sorted_users (ue_lc w) us in Box
      ([Text ''User management'',
        Text ''Manage local accounts and role assignments. SSO/OIDC integration is on the roadmap.'']
       @ show_if (users_canWrite me) [Button ''Add user'' False OpenAddUser]
       @ [user_kpis us,
          Table [''Email'', ''Role'', ''Tenant scope'', []]
            (show_if (sorted = []) [Row [Text ''No users found'']] @ map (user_row me) sorted),
          Text (plural (length us) ''user'')]
       @ AddUserModal s @ EditUserModal s))"

section \<open>What the page writes\<close>

definition users_guarded :: "auth_user option \<Rightarrow> users_page \<Rightarrow> bool" where
  "users_guarded me s \<longleftrightarrow> users_canWrite me \<or> \<not> dl_opened (uz_add s)"

definition users_allowed :: "auth_user option \<Rightarrow> api_call \<Rightarrow> bool" where
  "users_allowed me c \<longleftrightarrow> (\<exists>b. c = mu_fn useCreateUser b) \<and> users_canWrite me
     \<or> (\<exists>i b. c = mu_fn useUpdateUser (i, b)) \<or> (\<exists>i. c = mu_fn useDeleteUser i \<and> Some i \<noteq> map_option au_id me)"

lemma setEditUser_add [simp]: "uz_add (setEditUser u s) = uz_add s"
  by (simp add: setEditUser_def)

lemma EditUser_submit_add [simp]: "uz_add (fst (EditUser_submit s)) = uz_add s"
  by (simp add: EditUser_submit_def split: option.split prod.split)

lemma EditUser_answer_add [simp]: "uz_add (fst (EditUser_answer n u f r s)) = uz_add s"
  by (simp add: EditUser_answer_def Let_def split: prod.split)

lemma handleClose_opened [simp]: "\<not> dl_opened (AddUser_handleClose d)"
  by (simp add: AddUser_handleClose_def)

lemma offers_add_user:
  "offers OpenAddUser (UsersPage w me s) \<Longrightarrow> users_canWrite me"
  "offers SubmitAddUser (UsersPage w me s) \<Longrightarrow> dl_opened (uz_add s)"
  by (auto simp: UsersPage_def AddUserModal_def EditUserModal_def user_kpis_def user_row_def Let_def split: if_splits option.splits)

lemma users_step_guarded:
  assumes "users_guarded me s" and "offers e (UsersPage w me s) \<or> users_answer e"
  shows "users_guarded me (fst (users_step me e s))"
proof (cases e)
  case OpenAddUser
  then show ?thesis using assms offers_add_user(1) by (auto simp: users_guarded_def)
next
  case SubmitAddUser
  then show ?thesis using assms(1) by (simp add: users_guarded_def split_beta)
next
  case (AddUserAnswer n f r)
  have "\<not> dl_opened (uz_add s) \<Longrightarrow> \<not> dl_opened (fst (dialog_answer AddUser_ops AddUser_handleClose n f r (uz_add s)))"
    by (rule dialog_answer_closed) simp_all
  then show ?thesis using assms(1) AddUserAnswer by (auto simp: users_guarded_def split_beta)
qed (use assms(1) in \<open>auto simp: users_guarded_def\<close>)

lemma users_step_allowed:
  assumes "users_guarded me s" and "offers e (UsersPage w me s) \<or> users_answer e"
  shows "list_all (users_allowed me) (writes (snd (users_step me e s)))"
proof (cases e)
  case SubmitAddUser
  then have "users_canWrite me" using assms offers_add_user(2) by (auto simp: users_guarded_def)
  then show ?thesis using SubmitAddUser
    by (auto simp: split_beta dialog_submit_writes users_allowed_def AddUser_ops_def)
next
  case SubmitEditUser
  have "list_all (users_allowed me) (writes (snd (dialog_submit (EditUser_ops u) (uz_edit s))))" for u
    by (auto simp: dialog_submit_writes users_allowed_def EditUser_ops_def)
  then show ?thesis using SubmitEditUser by (simp add: EditUser_submit_def split_beta split: option.split)
next
  case (AddUserAnswer n f r)
  then show ?thesis by (simp add: writes_def split_beta)
next
  case (EditUserAnswer n u f r)
  then show ?thesis by (simp add: writes_def EditUser_answer_def Let_def split_beta)
next
  case (ConfirmDeleteUser u)
  then show ?thesis by (auto simp: users_confirmDelete_def users_allowed_def isSelf_def mutate_def)
qed (simp_all add: writes_def)

interpretation usg: guarded_page "UsersPage w me" users_answer "users_step me" "users_guarded me" "users_allowed me" for w me
  by unfold_locales (blast intro: users_step_guarded users_step_allowed)+

lemma set_js_sort: "set (js_sort c xs) = set xs"
proof -
  have "set (js_insert c x ys) = insert x (set ys)" for x ys
    by (induction ys) auto
  then show ?thesis by (induction xs) (simp_all add: js_sort_def)
qed

lemma offers_user_row:
  assumes "\<not> uz_isLoading s" and "x \<in> set (uz_users s)"
  shows "offers e (user_row me x) \<Longrightarrow> offers e (UsersPage w me s)"
  using assms by (auto simp: UsersPage_def sorted_users_def set_js_sort Let_def)

lemma offers_ConfirmDeleteUser: "offers (ConfirmDeleteUser x) (UsersPage w me s) \<Longrightarrow> \<not> isSelf me x"
  by (auto simp: UsersPage_def AddUserModal_def EditUserModal_def user_kpis_def user_row_def Let_def split: if_splits option.splits)

text \<open>C38. In every run of the users page, whoever is signed in, each write is the creation of a user by an administrator, the
  update of a user, or the deletion of a user other than the one signed in. The page offers to edit every listed
  user and to delete every listed user but the one signed in, also when the one signed in is no administrator.\<close>

theorem users_page_writes:
  assumes "page_run (UsersPage w me) users_answer (users_step me) users_initial s cs"
  shows "list_all (users_allowed me) (writes cs)
    \<and> (\<not> uz_isLoading s \<longrightarrow> (\<forall>x \<in> set (uz_users s). offers (SetEditUser x) (UsersPage w me s)
         \<and> (offers (ConfirmDeleteUser x) (UsersPage w me s) \<longleftrightarrow> \<not> isSelf me x)))"
proof -
  have "list_all (users_allowed me) (writes cs)"
    by (rule usg.run_allowed [OF assms]) (simp add: users_guarded_def users_initial_def)
  moreover have "offers (SetEditUser x) (UsersPage w me s)" "offers (ConfirmDeleteUser x) (UsersPage w me s) \<longleftrightarrow> \<not> isSelf me x"
    if "\<not> uz_isLoading s" "x \<in> set (uz_users s)" for x
  proof -
    show "offers (SetEditUser x) (UsersPage w me s)"
      by (rule offers_user_row [OF that]) (simp add: user_row_def)
    have "\<not> isSelf me x \<Longrightarrow> offers (ConfirmDeleteUser x) (UsersPage w me s)"
      by (rule offers_user_row [OF that]) (simp add: user_row_def)
    then show "offers (ConfirmDeleteUser x) (UsersPage w me s) \<longleftrightarrow> \<not> isSelf me x"
      using offers_ConfirmDeleteUser by blast
  qed
  ultimately show ?thesis by blast
qed

definition wit_other :: user_out where
  "wit_other = \<lparr>us_id = ''2'', us_email = ''c@d'', us_role = ''admin'', us_tenant_id = None\<rparr>"

definition wit_users :: users_page where
  "wit_users = users_initial\<lparr>uz_users := [wit_other], uz_isLoading := False\<rparr>"

theorem users_page_writes_witness:
  "writes (snd (users_step (Some wit_user) (ConfirmDeleteUser wit_other) wit_users)) = [mu_fn useDeleteUser ''2'']
   \<and> offers (ConfirmDeleteUser wit_other) (UsersPage wit_env (Some wit_user) wit_users)
   \<and> list_all (users_allowed (Some wit_user)) [mu_fn useDeleteUser ''2''] \<and> \<not> users_canWrite (Some wit_user)"
proof -
  let ?run = "page_run (UsersPage wit_env (Some wit_user)) users_answer (users_step (Some wit_user)) users_initial wit_users"
  have 1: "?run ([] @ [])"
    by (rule page_run.run_event [OF page_run.run_start, where e = "UsersData [wit_other]"]) (simp_all add: wit_users_def)
  have off: "offers (ConfirmDeleteUser wit_other) (UsersPage wit_env (Some wit_user) wit_users)"
    using users_page_writes [OF 1] by (simp add: wit_users_def isSelf_def wit_user_def wit_other_def)
  have cs: "users_step (Some wit_user) (ConfirmDeleteUser wit_other) wit_users
      = (wit_users, users_confirmDelete (Some wit_user) wit_other)" by simp
  have w: "writes (users_confirmDelete (Some wit_user) wit_other) = [mu_fn useDeleteUser ''2'']"
    by (simp add: users_confirmDelete_def isSelf_def wit_user_def wit_other_def mutate_def useDeleteUser_def)
  have "?run (([] @ []) @ users_confirmDelete (Some wit_user) wit_other)"
    by (rule page_run.run_event [OF 1 disjI1 [OF off] cs])
  from users_page_writes [OF this] off w show ?thesis
    by (simp add: users_canWrite_def hasRole_def wit_user_def)
qed

end
