(* ===== verification/Tenancy.thy ===== *)
theory Tenancy
  imports Dialog
begin

text \<open>
  \<open>pages/TenantsPage.tsx\<close>, \<open>pages/GroupsPage.tsx\<close> and \<open>pages/ClientsPage.tsx\<close>: the tenants, the groups of a tenant and the
  clients seen in it. The forms are children of their modals, which are children of the loaded view: they are mounted when the
  modal opens and anew when the page comes back from its loading or error view. \<open>tenantId\<close> is the parameter of the route.
\<close>

definition min2 :: "string \<Rightarrow> string option" where
  "min2 v = (if length (js_trim v) < 2 then Some ''Name must be at least 2 characters'' else None)"

section \<open>Tenants\<close>

text \<open>The form has one field, the name.\<close>

definition CreateTenant_ops :: "(json, string) dialog_ops" where
  "CreateTenant_ops = \<lparr>do_validate = (\<lambda>v. [(''name'', min2 v)]), do_mutation = useCreateTenant,
     do_vars = (\<lambda>v. Some (JObj [(''name'', JStr v)])), do_message = (\<lambda>v. ''Tenant '' @ quoted v @ '' created'')\<rparr>"

record tenants_page =
  tz_tenants :: "tenant list query_result"
  tz_create :: "string dialog"

datatype tenants_event =
    OpenCreateTenant | CloseCreateTenant | EditTenant "string \<Rightarrow> string" | SubmitTenant
  | CreateTenantAnswer nat string "thrown option"
  | GotoTenant string
  | ConfirmDeleteTenant string string | DeleteTenantAnswer string string bool "thrown option"
  | TenantsAnswer "thrown + tenant list"

fun tenants_answer :: "tenants_event \<Rightarrow> bool" where
  "tenants_answer (CreateTenantAnswer _ _ _) = True"
| "tenants_answer (DeleteTenantAnswer _ _ _ _) = True"
| "tenants_answer (TenantsAnswer _) = True"
| "tenants_answer _ = False"

definition tenants_initial :: tenants_page where
  "tenants_initial = \<lparr>tz_tenants = qr_start True, tz_create = dialog_closed []\<rparr>"

definition canWrite :: "auth_user option \<Rightarrow> bool" where
  "canWrite u = hasRole u [Operator]"

definition canDelete :: "auth_user option \<Rightarrow> bool" where
  "canDelete u = hasRole u [Admin]"

definition tenants_confirmDelete :: "string \<Rightarrow> string \<Rightarrow> cmd list" where
  "tenants_confirmDelete tenantId name =
    [OpenConfirm ''Delete tenant'' (''Delete '' @ quoted name @ ''? This removes all its groups and policies.'') ''Delete''
       [mutate useDeleteTenant tenantId]]"

fun tenants_step :: "tenants_event \<Rightarrow> tenants_page \<Rightarrow> tenants_page \<times> cmd list" where
  "tenants_step OpenCreateTenant s = (s\<lparr>tz_create := dialog_mount [] (tz_create s)\<rparr>, [])"
| "tenants_step CloseCreateTenant s = (s\<lparr>tz_create := dialog_unmount (tz_create s)\<rparr>, [])"
| "tenants_step (EditTenant f) s = (s\<lparr>tz_create := dialog_edit f (tz_create s)\<rparr>, [])"
| "tenants_step SubmitTenant s = (let (d, cs) = dialog_submit CreateTenant_ops (tz_create s) in (s\<lparr>tz_create := d\<rparr>, cs))"
| "tenants_step (CreateTenantAnswer n f r) s =
     (let (d, cs) = dialog_answer CreateTenant_ops dialog_unmount n f r (tz_create s) in (s\<lparr>tz_create := d\<rparr>, cs))"
| "tenants_step (GotoTenant i) s = (s, [Goto (''/tenants/'' @ i)])"
| "tenants_step (ConfirmDeleteTenant i n) s = (s, tenants_confirmDelete i n)"
| "tenants_step (DeleteTenantAnswer i n cb r) s =
     (s, delete_answer useDeleteTenant i (''Tenant '' @ quoted n @ '' deleted'') cb r)"
| "tenants_step (TenantsAnswer r) s = (s\<lparr>tz_tenants := qr_answer r (tz_tenants s),
     tz_create := (case r of Inl _ \<Rightarrow> dialog_remount [] (tz_create s) | Inr _ \<Rightarrow> tz_create s)\<rparr>, [])"

definition tenant_row :: "ui_env \<Rightarrow> auth_user option \<Rightarrow> tenant \<Rightarrow> tenants_event view" where
  "tenant_row w u t = Clickable (GotoTenant (tn_id t))
    [Anchor (''/tenants/'' @ tn_id t) [Text (tn_name t)], Text (ue_date w (tn_created_at t)),
     Box (show_if (canDelete u) [Button ''Delete'' False (ConfirmDeleteTenant (tn_id t) (tn_name t))])]"

definition CreateTenantForm :: "string dialog \<Rightarrow> tenants_event view" where
  "CreateTenantForm d = Form SubmitTenant
    [TextInput ''Tenant name'' (dl_values d) True False (\<lambda>x. EditTenant (\<lambda>_. x)), Submit ''Create tenant'' (ob_pending (dl_call d))]"

definition TenantsPage :: "ui_env \<Rightarrow> auth_user option \<Rightarrow> tenants_page \<Rightarrow> tenants_event view" where
  "TenantsPage w u s = query_view (tz_tenants s) (let ts = qr_data (tz_tenants s) in Box
    ([Text ''Tenants''] @ show_if (canWrite u) [Button ''New tenant'' False OpenCreateTenant]
     @ show_if (ts = Some []) [Text ''No tenants yet. Create one to start configuring DNS policy.'']
     @ show_if (nullish ts [] \<noteq> []) [Table [''Name'', ''Created'', []] (map (tenant_row w u) (nullish ts []))]
     @ show_if (dl_opened (tz_create s)) [Modal ''New tenant'' CloseCreateTenant [CreateTenantForm (tz_create s)]]))"

section \<open>Groups\<close>

record group_form =
  gf_name :: string
  gf_vpn_subnet :: string

definition CreateGroup_initial :: group_form where
  "CreateGroup_initial = \<lparr>gf_name = [], gf_vpn_subnet = []\<rparr>"

text \<open>\<open>/^(\d{1,3}\.){3}\d{1,3}\/\d{1,2}$/\<close>\<close>

definition digits_upto :: "nat \<Rightarrow> string \<Rightarrow> bool" where
  "digits_upto k t \<longleftrightarrow> t \<noteq> [] \<and> length t \<le> k \<and> list_all is_digit t"

definition CIDR_RE :: "string \<Rightarrow> bool" where
  "CIDR_RE t = (case js_split CHR ''/'' t of
     [a, len] \<Rightarrow> length (js_split CHR ''.'' a) = 4 \<and> list_all (digits_upto 3) (js_split CHR ''.'' a) \<and> digits_upto 2 len
   | _ \<Rightarrow> False)"

definition CreateGroup_validate :: "group_form \<Rightarrow> field_errors" where
  "CreateGroup_validate v =
    [(''name'', min2 (gf_name v)),
     (''vpn_subnet'', if js_trim (gf_vpn_subnet v) = [] \<or> CIDR_RE (js_trim (gf_vpn_subnet v)) then None
        else Some ''Must be a CIDR like 10.8.1.0/24'')]"

definition CreateGroup_ops :: "string option \<Rightarrow> (json, group_form) dialog_ops" where
  "CreateGroup_ops t = \<lparr>do_validate = CreateGroup_validate, do_mutation = useCreateGroup t,
     do_vars = (\<lambda>v. Some (JObj [(''name'', JStr (gf_name v)), (''vpn_subnet'', jopt (or_null (js_trim (gf_vpn_subnet v))))])),
     do_message = (\<lambda>v. ''Group '' @ quoted (gf_name v) @ '' created'')\<rparr>"

definition RenameGroup_ops :: "string option \<Rightarrow> string \<Rightarrow> (string \<times> json, string) dialog_ops" where
  "RenameGroup_ops t groupId = \<lparr>do_validate = (\<lambda>v. [(''name'', min2 v)]), do_mutation = useRenameGroup t,
     do_vars = (\<lambda>v. Some (groupId, JObj [(''name'', JStr v)])), do_message = (\<lambda>v. ''Group renamed to '' @ quoted v)\<rparr>"

text \<open>The rename modal is open exactly while \<open>editingGroup\<close> is set.\<close>

record groups_page =
  gz_tenantId :: "string option"
  gz_tenants :: "tenant list"
  gz_groups :: "group_out list query_result"
  gz_create :: "group_form dialog"
  gz_editingGroup :: "(string \<times> string) option"
  gz_rename :: "string dialog"

datatype groups_event =
    OpenCreateGroup | CloseCreateGroup | EditGroup "group_form \<Rightarrow> group_form" | SubmitGroup
  | CreateGroupAnswer nat group_form "thrown option"
  | SetEditingGroup string string | CloseRename | EditRename "string \<Rightarrow> string" | SubmitRename
  | RenameAnswer nat string string "thrown option"
  | GotoClients | GotoGroup string
  | ConfirmDeleteGroup string string | DeleteGroupAnswer string string bool "thrown option"
  | GroupTenants "tenant list" | GroupsAnswer "thrown + group_out list"

fun groups_answer :: "groups_event \<Rightarrow> bool" where
  "groups_answer (CreateGroupAnswer _ _ _) = True"
| "groups_answer (RenameAnswer _ _ _ _) = True"
| "groups_answer (DeleteGroupAnswer _ _ _ _) = True"
| "groups_answer (GroupTenants _) = True"
| "groups_answer (GroupsAnswer _) = True"
| "groups_answer _ = False"

definition groups_initial :: "string option \<Rightarrow> groups_page" where
  "groups_initial t = \<lparr>gz_tenantId = t, gz_tenants = [], gz_groups = qr_start (truthy t), gz_create = dialog_closed CreateGroup_initial,
     gz_editingGroup = None, gz_rename = dialog_closed []\<rparr>"

text \<open>The rename form takes its name when it is mounted and its group at every render.\<close>

definition setEditingGroup :: "(string \<times> string) option \<Rightarrow> groups_page \<Rightarrow> groups_page" where
  "setEditingGroup g s = s\<lparr>gz_editingGroup := g,
     gz_rename := (case g of None \<Rightarrow> dialog_unmount (gz_rename s) | Some (_, name) \<Rightarrow> dialog_mount name (gz_rename s))\<rparr>"

definition RenameGroup_submit :: "groups_page \<Rightarrow> groups_page \<times> cmd list" where
  "RenameGroup_submit s = (case gz_editingGroup s of
     None \<Rightarrow> (s, [])
   | Some (i, _) \<Rightarrow> (let (d, cs) = dialog_submit (RenameGroup_ops (gz_tenantId s) i) (gz_rename s) in (s\<lparr>gz_rename := d\<rparr>, cs)))"

definition RenameGroup_answer :: "nat \<Rightarrow> string \<Rightarrow> string \<Rightarrow> thrown option \<Rightarrow> groups_page \<Rightarrow> groups_page \<times> cmd list" where
  "RenameGroup_answer n i f r s =
    (let (d, cs) = dialog_answer (RenameGroup_ops (gz_tenantId s) i) id n f r (gz_rename s); s' = s\<lparr>gz_rename := d\<rparr> in
     (if r = None \<and> ob_latest n (dl_call (gz_rename s)) then setEditingGroup None s' else s', cs))"

definition groups_confirmDelete :: "string option \<Rightarrow> string \<Rightarrow> string \<Rightarrow> cmd list" where
  "groups_confirmDelete t groupId name =
    [OpenConfirm ''Delete group'' (''Delete '' @ quoted name @ ''? This removes its policy and block-page override.'') ''Delete''
       [mutate (useDeleteGroup t) groupId]]"

definition route_text :: "string option \<Rightarrow> string" where
  "route_text t = nullish t ''undefined''"

fun groups_step :: "groups_event \<Rightarrow> groups_page \<Rightarrow> groups_page \<times> cmd list" where
  "groups_step OpenCreateGroup s = (s\<lparr>gz_create := dialog_mount CreateGroup_initial (gz_create s)\<rparr>, [])"
| "groups_step CloseCreateGroup s = (s\<lparr>gz_create := dialog_unmount (gz_create s)\<rparr>, [])"
| "groups_step (EditGroup f) s = (s\<lparr>gz_create := dialog_edit f (gz_create s)\<rparr>, [])"
| "groups_step SubmitGroup s = (let (d, cs) = dialog_submit (CreateGroup_ops (gz_tenantId s)) (gz_create s) in (s\<lparr>gz_create := d\<rparr>, cs))"
| "groups_step (CreateGroupAnswer n f r) s =
     (let (d, cs) = dialog_answer (CreateGroup_ops (gz_tenantId s)) dialog_unmount n f r (gz_create s) in (s\<lparr>gz_create := d\<rparr>, cs))"
| "groups_step (SetEditingGroup i n) s = (setEditingGroup (Some (i, n)) s, [])"
| "groups_step CloseRename s = (setEditingGroup None s, [])"
| "groups_step (EditRename f) s = (s\<lparr>gz_rename := dialog_edit f (gz_rename s)\<rparr>, [])"
| "groups_step SubmitRename s = RenameGroup_submit s"
| "groups_step (RenameAnswer n i f r) s = RenameGroup_answer n i f r s"
| "groups_step GotoClients s = (s, [Goto (''/tenants/'' @ route_text (gz_tenantId s) @ ''/clients'')])"
| "groups_step (GotoGroup i) s = (s, [Goto (''/tenants/'' @ route_text (gz_tenantId s) @ ''/groups/'' @ i)])"
| "groups_step (ConfirmDeleteGroup i n) s = (s, groups_confirmDelete (gz_tenantId s) i n)"
| "groups_step (DeleteGroupAnswer i n cb r) s =
     (s, delete_answer (useDeleteGroup (gz_tenantId s)) i (''Group '' @ quoted n @ '' deleted'') cb r)"
| "groups_step (GroupTenants ts) s = (s\<lparr>gz_tenants := ts\<rparr>, [])"
| "groups_step (GroupsAnswer r) s = (case r of
     Inr _ \<Rightarrow> (s\<lparr>gz_groups := qr_answer r (gz_groups s)\<rparr>, [])
   | Inl _ \<Rightarrow> (s\<lparr>gz_groups := qr_answer r (gz_groups s), gz_create := dialog_remount CreateGroup_initial (gz_create s),
       gz_rename := dialog_remount (case gz_editingGroup s of None \<Rightarrow> [] | Some (_, n) \<Rightarrow> n) (gz_rename s)\<rparr>, []))"

definition tenant_name :: "tenant list \<Rightarrow> string option \<Rightarrow> string" where
  "tenant_name ts t = (case find (\<lambda>x. Some (tn_id x) = t) ts of Some x \<Rightarrow> tn_name x | None \<Rightarrow> nullish t [])"

definition CreateGroupForm :: "group_form dialog \<Rightarrow> groups_event view" where
  "CreateGroupForm d = (let v = dl_values d in Form SubmitGroup
    [TextInput ''Group name'' (gf_name v) True False (\<lambda>x. EditGroup (gf_name_update (\<lambda>_. x))),
     TextInput ''VPN subnet (CIDR)'' (gf_vpn_subnet v) False False (\<lambda>x. EditGroup (gf_vpn_subnet_update (\<lambda>_. x))),
     Submit ''Create group'' (ob_pending (dl_call d))])"

definition RenameGroupForm :: "string dialog \<Rightarrow> groups_event view" where
  "RenameGroupForm d = Form SubmitRename
    [TextInput ''Group name'' (dl_values d) True False (\<lambda>x. EditRename (\<lambda>_. x)), Submit ''Save'' (ob_pending (dl_call d))]"

definition group_row :: "ui_env \<Rightarrow> auth_user option \<Rightarrow> string option \<Rightarrow> group_out \<Rightarrow> groups_event view" where
  "group_row w u t g = Clickable (GotoGroup (gr_id g))
    [Anchor (''/tenants/'' @ route_text t @ ''/groups/'' @ gr_id g) [Text (gr_name g)],
     (if truthy (gr_vpn_subnet g) then Badge [] (the (gr_vpn_subnet g)) else Text ''not set''),
     Text (ue_date w (gr_created_at g)),
     Box (show_if (canWrite u) [Button ''Rename'' False (SetEditingGroup (gr_id g) (gr_name g))]
          @ show_if (canDelete u) [Button ''Delete'' False (ConfirmDeleteGroup (gr_id g) (gr_name g))])]"

definition GroupsPage :: "ui_env \<Rightarrow> auth_user option \<Rightarrow> groups_page \<Rightarrow> groups_event view" where
  "GroupsPage w u s = query_view (gz_groups s) (let gs = qr_data (gz_groups s); t = gz_tenantId s in Box
    ([Anchor ''/tenants'' [Text ''Tenants''], Text (tenant_name (gz_tenants s) t), Text ''Groups'', Button ''Clients'' False GotoClients]
     @ show_if (canWrite u) [Button ''New group'' False OpenCreateGroup]
     @ show_if (gs = Some []) [Text ''No groups yet. A group maps to an OpenVPN AS/CE user-group and carries its own DNS policy.'']
     @ show_if (nullish gs [] \<noteq> []) [Table [''Name'', ''VPN subnet'', ''Created'', []] (map (group_row w u t) (nullish gs []))]
     @ show_if (truthy t \<and> gz_editingGroup s \<noteq> None) [Modal ''Rename group'' CloseRename [RenameGroupForm (gz_rename s)]]
     @ show_if (truthy t \<and> dl_opened (gz_create s)) [Modal ''New group'' CloseCreateGroup [CreateGroupForm (gz_create s)]]))"

section \<open>Clients\<close>

record client_form =
  cf_hostname :: string
  cf_owner :: string
  cf_device_type :: "string option"
  cf_tags :: "string list"

definition EditClient_initial :: "client_out \<Rightarrow> client_form" where
  "EditClient_initial c = \<lparr>cf_hostname = nullish (cl_hostname c) [], cf_owner = nullish (cl_owner c) [],
     cf_device_type = Some (nullish (cl_device_type c) []), cf_tags = cl_tags c\<rparr>"

text \<open>A cleared select has the value \<open>null\<close>, on which \<open>.trim()\<close> throws.\<close>

definition EditClient_body :: "client_form \<Rightarrow> json option" where
  "EditClient_body v = (case cf_device_type v of
     None \<Rightarrow> None
   | Some d \<Rightarrow> Some (JObj [(''hostname'', jopt (or_null (js_trim (cf_hostname v)))), (''owner'', jopt (or_null (js_trim (cf_owner v)))),
       (''device_type'', jopt (or_null (js_trim d))), (''tags'', jstrs (cf_tags v))]))"

definition EditClient_ops :: "string option \<Rightarrow> client_out \<Rightarrow> (string \<times> json, client_form) dialog_ops" where
  "EditClient_ops t c = \<lparr>do_validate = (\<lambda>_. []), do_mutation = useRegisterClient t,
     do_vars = (\<lambda>v. map_option (Pair (cl_ip c)) (EditClient_body v)),
     do_message = (\<lambda>_. ''Client '' @ cl_ip c @ '' registered'')\<rparr>"

text \<open>The query has a result per value of the filter. The edit modal is shown while \<open>editing\<close> is set and it is opened.\<close>

record clients_page =
  cz_tenantId :: "string option"
  cz_tenants :: "tenant list"
  cz_unregisteredOnly :: bool
  cz_clients :: "bool \<Rightarrow> client_out list query_result"
  cz_editing :: "client_out option"
  cz_edit :: "client_form dialog"

datatype clients_event =
    SetUnregisteredOnly bool
  | EditClient client_out | CloseClient | EditClientForm "client_form \<Rightarrow> client_form" | SubmitClient
  | RegisterAnswer nat client_out client_form "thrown option"
  | ConfirmDeleteClient client_out | DeleteClientAnswer client_out bool "thrown option"
  | ClientTenants "tenant list" | ClientsAnswer bool "thrown + client_out list"

fun clients_answer :: "clients_event \<Rightarrow> bool" where
  "clients_answer (RegisterAnswer _ _ _ _) = True"
| "clients_answer (DeleteClientAnswer _ _ _) = True"
| "clients_answer (ClientTenants _) = True"
| "clients_answer (ClientsAnswer _ _) = True"
| "clients_answer _ = False"

definition clients_query :: "clients_page \<Rightarrow> client_out list query_result" where
  "clients_query s = cz_clients s (cz_unregisteredOnly s)"

definition empty_client_form :: client_form where
  "empty_client_form = \<lparr>cf_hostname = [], cf_owner = [], cf_device_type = Some [], cf_tags = []\<rparr>"

definition clients_initial :: "string option \<Rightarrow> clients_page" where
  "clients_initial t = \<lparr>cz_tenantId = t, cz_tenants = [], cz_unregisteredOnly = False, cz_clients = (\<lambda>_. qr_start (truthy t)),
     cz_editing = None, cz_edit = dialog_closed empty_client_form\<rparr>"

text \<open>The loading and the error view have no modal: the form is mounted anew after them.\<close>

definition clients_settle_view :: "clients_page \<Rightarrow> clients_page" where
  "clients_settle_view s = (if qr_isLoading (clients_query s) \<or> qr_error (clients_query s) \<noteq> None
     then s\<lparr>cz_edit := dialog_remount (case cz_editing s of None \<Rightarrow> empty_client_form | Some c \<Rightarrow> EditClient_initial c) (cz_edit s)\<rparr>
     else s)"

definition edit_client :: "client_out \<Rightarrow> clients_page \<Rightarrow> clients_page" where
  "edit_client c s = s\<lparr>cz_editing := Some c, cz_edit := dialog_mount (EditClient_initial c) (cz_edit s)\<rparr>"

definition EditClient_submit :: "clients_page \<Rightarrow> clients_page \<times> cmd list" where
  "EditClient_submit s = (case cz_editing s of
     None \<Rightarrow> (s, [])
   | Some c \<Rightarrow> (let (d, cs) = dialog_submit (EditClient_ops (cz_tenantId s) c) (cz_edit s) in (s\<lparr>cz_edit := d\<rparr>, cs)))"

definition clients_confirmDelete :: "string option \<Rightarrow> client_out \<Rightarrow> cmd list" where
  "clients_confirmDelete t c =
    [OpenConfirm ''Delete client'' (''Delete registry entry for '' @ cl_ip c
        @ (if truthy (cl_hostname c) then '' ('' @ the (cl_hostname c) @ '')'' else [])
        @ ''? It will reappear as '' @ quoted ''unregistered'' @ '' the next time this IP sends a query.'') ''Delete''
       [mutate (useDeleteClient t) (cl_ip c)]]"

fun clients_step :: "clients_event \<Rightarrow> clients_page \<Rightarrow> clients_page \<times> cmd list" where
  "clients_step (SetUnregisteredOnly b) s = (clients_settle_view (s\<lparr>cz_unregisteredOnly := b\<rparr>), [])"
| "clients_step (EditClient c) s = (edit_client c s, [])"
| "clients_step CloseClient s = (s\<lparr>cz_editing := None, cz_edit := dialog_unmount (cz_edit s)\<rparr>, [])"
| "clients_step (EditClientForm f) s = (s\<lparr>cz_edit := dialog_edit f (cz_edit s)\<rparr>, [])"
| "clients_step SubmitClient s = EditClient_submit s"
| "clients_step (RegisterAnswer n c f r) s =
     (let (d, cs) = dialog_answer (EditClient_ops (cz_tenantId s) c) dialog_unmount n f r (cz_edit s) in (s\<lparr>cz_edit := d\<rparr>, cs))"
| "clients_step (ConfirmDeleteClient c) s = (s, clients_confirmDelete (cz_tenantId s) c)"
| "clients_step (DeleteClientAnswer c cb r) s =
     (s, delete_answer (useDeleteClient (cz_tenantId s)) (cl_ip c) (''Client '' @ cl_ip c @ '' deleted'') cb r)"
| "clients_step (ClientTenants ts) s = (s\<lparr>cz_tenants := ts\<rparr>, [])"
| "clients_step (ClientsAnswer b r) s =
     (clients_settle_view (s\<lparr>cz_clients := (cz_clients s)(b := qr_answer r (cz_clients s b))\<rparr>), [])"

definition EditClientModal :: "clients_page \<Rightarrow> clients_event view list" where
  "EditClientModal s = (case cz_editing s of
     None \<Rightarrow> []
   | Some c \<Rightarrow> (let v = dl_values (cz_edit s) in show_if (truthy (cz_tenantId s) \<and> dl_opened (cz_edit s))
      [Modal (''Edit client '' @ cl_ip c) CloseClient
       [Form SubmitClient
        [TextInput ''IP'' (cl_ip c) False True (\<lambda>_. CloseClient),
         TextInput ''Hostname'' (cf_hostname v) False False (\<lambda>x. EditClientForm (cf_hostname_update (\<lambda>_. x))),
         TextInput ''Owner'' (cf_owner v) False False (\<lambda>x. EditClientForm (cf_owner_update (\<lambda>_. x))),
         Select ''Device type'' (map (\<lambda>x. (x, x)) [''laptop'', ''desktop'', ''server'', ''mobile'', ''iot'']) (cf_device_type v) False
           (\<lambda>x. EditClientForm (cf_device_type_update (\<lambda>_. x))),
         MultiSelect ''Tags'' [] (cf_tags v) (\<lambda>x. EditClientForm (cf_tags_update (\<lambda>_. x))),
         Submit ''Save'' (ob_pending (dl_call (cz_edit s)))]]]))"

definition client_row :: "ui_env \<Rightarrow> auth_user option \<Rightarrow> client_out \<Rightarrow> clients_event view" where
  "client_row w u c = Row
    [Text (cl_ip c), Text (nullish (cl_hostname c) em_dash), Text (nullish (cl_owner c) em_dash), Text (nullish (cl_device_type c) em_dash),
     Box (map (Badge []) (cl_tags c)), Text (ue_date w (cl_last_seen c)),
     (if truthy (cl_registered_at c) then Badge ''green'' ''registered'' else Badge ''gray'' ''unregistered''),
     Box (show_if (canWrite u) [Button ''Edit'' False (EditClient c), Button ''Delete'' False (ConfirmDeleteClient c)])]"

definition ClientsPage :: "ui_env \<Rightarrow> auth_user option \<Rightarrow> clients_page \<Rightarrow> clients_event view" where
  "ClientsPage w u s = query_view (clients_query s)
    (let cs = qr_data (clients_query s); t = cz_tenantId s; only = cz_unregisteredOnly s in Box
    ([Anchor ''/tenants'' [Text ''Tenants''], Anchor (''/tenants/'' @ route_text t) [Text (tenant_name (cz_tenants s) t)], Text ''Clients'',
      Text ''Clients'', Switch ''Unregistered only'' only False (SetUnregisteredOnly (\<not> only)),
      Text ''Client IPs are auto-discovered from DNS query telemetry. Register hostname/owner/tags so they carry through to SIEM exports.'']
     @ show_if (cs = Some []) [Text (if only then ''No unregistered clients.''
          else ''No clients seen yet '' @ em_dash @ '' they appear here after the first DNS query from that IP.'')]
     @ show_if (nullish cs [] \<noteq> [])
         [Table [''IP'', ''Hostname'', ''Owner'', ''Device'', ''Tags'', ''Last seen'', ''Status'', []] (map (client_row w u) (nullish cs []))]
     @ EditClientModal s))"

section \<open>What the pages write\<close>

definition tenants_guarded :: "auth_user option \<Rightarrow> tenants_page \<Rightarrow> bool" where
  "tenants_guarded u s \<longleftrightarrow> canWrite u \<or> \<not> dl_opened (tz_create s)"

definition tenants_allowed :: "auth_user option \<Rightarrow> api_call \<Rightarrow> bool" where
  "tenants_allowed u c \<longleftrightarrow> canWrite u \<and> c \<in> range (mu_fn useCreateTenant) \<or> canDelete u \<and> c \<in> range (mu_fn useDeleteTenant)"

definition groups_guarded :: "string option \<Rightarrow> auth_user option \<Rightarrow> groups_page \<Rightarrow> bool" where
  "groups_guarded t u s \<longleftrightarrow> gz_tenantId s = t \<and> (canWrite u \<or> \<not> dl_opened (gz_create s) \<and> gz_editingGroup s = None)"

definition groups_allowed :: "string option \<Rightarrow> auth_user option \<Rightarrow> api_call \<Rightarrow> bool" where
  "groups_allowed t u c \<longleftrightarrow> canWrite u \<and> (c \<in> range (mu_fn (useCreateGroup t)) \<or> c \<in> range (mu_fn (useRenameGroup t)))
     \<or> canDelete u \<and> c \<in> range (mu_fn (useDeleteGroup t))"

definition clients_guarded :: "string option \<Rightarrow> auth_user option \<Rightarrow> clients_page \<Rightarrow> bool" where
  "clients_guarded t u s \<longleftrightarrow> cz_tenantId s = t \<and> (canWrite u \<or> \<not> dl_opened (cz_edit s))"

definition clients_allowed :: "string option \<Rightarrow> auth_user option \<Rightarrow> api_call \<Rightarrow> bool" where
  "clients_allowed t u c \<longleftrightarrow> canWrite u \<and> (c \<in> range (mu_fn (useRegisterClient t)) \<or> c \<in> range (mu_fn (useDeleteClient t)))"

lemma offers_tenants:
  "offers OpenCreateTenant (TenantsPage w u s) \<Longrightarrow> canWrite u"
  "offers (ConfirmDeleteTenant i n) (TenantsPage w u s) \<Longrightarrow> canDelete u"
  "offers SubmitTenant (TenantsPage w u s) \<Longrightarrow> dl_opened (tz_create s)"
  by (auto simp: TenantsPage_def tenant_row_def CreateTenantForm_def Let_def dest!: offers_query_view)

lemma unmount_answer_closed [simp]:
  "\<not> dl_opened d \<Longrightarrow> \<not> dl_opened (fst (dialog_answer ops dialog_unmount n f r d))"
  by (rule dialog_answer_closed) simp_all

lemma tenants_step_guarded:
  assumes "tenants_guarded u s" and "offers e (TenantsPage w u s) \<or> tenants_answer e"
  shows "tenants_guarded u (fst (tenants_step e s)) \<and> list_all (tenants_allowed u) (writes (snd (tenants_step e s)))"
  using assms
  by (cases e) (auto simp: tenants_guarded_def tenants_allowed_def split_beta tenants_confirmDelete_def mutate_def CreateTenant_ops_def
      intro!: dialog_submit_range dest: offers_tenants split: sum.splits)

interpretation tng: guarded_page "TenantsPage w u" tenants_answer tenants_step "tenants_guarded u" "tenants_allowed u" for w u
  by unfold_locales (use tenants_step_guarded in blast)+

lemma offers_groups:
  "offers OpenCreateGroup (GroupsPage w u s) \<Longrightarrow> canWrite u"
  "offers (SetEditingGroup i n) (GroupsPage w u s) \<Longrightarrow> canWrite u"
  "offers (ConfirmDeleteGroup i n) (GroupsPage w u s) \<Longrightarrow> canDelete u"
  "offers SubmitGroup (GroupsPage w u s) \<Longrightarrow> dl_opened (gz_create s)"
  "offers SubmitRename (GroupsPage w u s) \<Longrightarrow> gz_editingGroup s \<noteq> None"
  by (auto simp: GroupsPage_def group_row_def CreateGroupForm_def RenameGroupForm_def Let_def dest!: offers_query_view split: if_splits)

lemma rename_writes:
  assumes "canWrite u"
  shows "list_all (groups_allowed (gz_tenantId s) u) (writes (snd (RenameGroup_submit s)))"
  using assms by (cases "gz_editingGroup s")
    (auto simp: RenameGroup_submit_def RenameGroup_ops_def groups_allowed_def split_beta simp del: split_paired_All intro!: dialog_submit_range)

lemma rename_keeps [simp]:
  "gz_tenantId (fst (RenameGroup_submit s)) = gz_tenantId s" "gz_create (fst (RenameGroup_submit s)) = gz_create s"
  "gz_editingGroup (fst (RenameGroup_submit s)) = gz_editingGroup s"
  by (simp_all add: RenameGroup_submit_def split_beta split: option.split)

lemma groups_step_guarded:
  assumes "groups_guarded t u s" and "offers e (GroupsPage w u s) \<or> groups_answer e"
  shows "groups_guarded t u (fst (groups_step e s)) \<and> list_all (groups_allowed t u) (writes (snd (groups_step e s)))"
proof (cases e)
  case SubmitRename
  then have "canWrite u" using assms offers_groups(5) [of w u s] by (auto simp: groups_guarded_def)
  then show ?thesis using SubmitRename rename_writes [of u s] assms(1) by (simp add: groups_guarded_def)
next
  case (RenameAnswer n i f r)
  then show ?thesis using assms(1) by (auto simp: RenameGroup_answer_def groups_guarded_def setEditingGroup_def split_beta Let_def)
qed (use assms in
    \<open>auto simp: groups_guarded_def groups_allowed_def setEditingGroup_def split_beta groups_confirmDelete_def mutate_def CreateGroup_ops_def
      intro!: dialog_submit_range dest: offers_groups split: sum.splits\<close>)

interpretation grg: guarded_page "GroupsPage w u" groups_answer groups_step "groups_guarded t u" "groups_allowed t u" for w u t
  by unfold_locales (use groups_step_guarded in blast)+

lemma offers_clients:
  "offers (EditClient c) (ClientsPage w u s) \<Longrightarrow> canWrite u"
  "offers (ConfirmDeleteClient c) (ClientsPage w u s) \<Longrightarrow> canWrite u"
  "offers SubmitClient (ClientsPage w u s) \<Longrightarrow> dl_opened (cz_edit s)"
  by (auto simp: ClientsPage_def client_row_def EditClientModal_def Let_def dest!: offers_query_view split: if_splits option.splits)

lemma settle_view_keeps [simp]:
  "dl_opened (cz_edit (clients_settle_view s)) = dl_opened (cz_edit s)" "cz_tenantId (clients_settle_view s) = cz_tenantId s"
  by (simp_all add: clients_settle_view_def)

lemma register_writes:
  assumes "canWrite u"
  shows "list_all (clients_allowed (cz_tenantId s) u) (writes (snd (EditClient_submit s)))"
  using assms by (cases "cz_editing s")
    (auto simp: EditClient_submit_def EditClient_ops_def clients_allowed_def split_beta simp del: split_paired_All intro!: dialog_submit_range)

lemma register_keeps [simp]:
  "dl_opened (cz_edit (fst (EditClient_submit s))) = dl_opened (cz_edit s)" "cz_tenantId (fst (EditClient_submit s)) = cz_tenantId s"
  by (simp_all add: EditClient_submit_def split_beta split: option.split)

lemma clients_step_guarded:
  assumes "clients_guarded t u s" and "offers e (ClientsPage w u s) \<or> clients_answer e"
  shows "clients_guarded t u (fst (clients_step e s)) \<and> list_all (clients_allowed t u) (writes (snd (clients_step e s)))"
proof (cases e)
  case SubmitClient
  then have "canWrite u" using assms offers_clients(3) [of w u s] by (auto simp: clients_guarded_def)
  then show ?thesis using SubmitClient register_writes [of u s] assms(1) by (simp add: clients_guarded_def)
qed (use assms in
    \<open>auto simp: clients_guarded_def clients_allowed_def edit_client_def split_beta clients_confirmDelete_def mutate_def dest: offers_clients\<close>)

interpretation clg: guarded_page "ClientsPage w u" clients_answer clients_step "clients_guarded t u" "clients_allowed t u" for w u t
  by unfold_locales (use clients_step_guarded in blast)+

section \<open>Saving a client\<close>

text \<open>A text as the server stores it: absent, or trimmed and not empty.\<close>

definition trimmed_text :: "string option \<Rightarrow> bool" where
  "trimmed_text v \<longleftrightarrow> (case v of None \<Rightarrow> True | Some x \<Rightarrow> x \<noteq> [] \<and> js_trim x = x)"

definition client_wf :: "client_out \<Rightarrow> bool" where
  "client_wf c \<longleftrightarrow> trimmed_text (cl_hostname c) \<and> trimmed_text (cl_owner c) \<and> trimmed_text (cl_device_type c)"

definition client_fields :: "client_out \<Rightarrow> (string \<times> json) list" where
  "client_fields c = [(''hostname'', jopt (cl_hostname c)), (''owner'', jopt (cl_owner c)), (''device_type'', jopt (cl_device_type c)),
     (''tags'', jstrs (cl_tags c))]"

lemma trimmed_text_back [simp]: "trimmed_text v \<Longrightarrow> or_null (js_trim (nullish v [])) = v"
  by (cases v) (auto simp: trimmed_text_def or_null_def nullish_def js_trim_def)

lemma EditClient_body_initial: "client_wf c \<Longrightarrow> EditClient_body (EditClient_initial c) = Some (JObj (client_fields c))"
  by (simp add: client_wf_def EditClient_body_def EditClient_initial_def client_fields_def)


definition wit_client :: client_out where
  "wit_client = \<lparr>cl_id = ''c1'', cl_tenant_id = ''t1'', cl_group_id = None, cl_ip = ''10.8.1.2'', cl_hostname = Some ''pc'', cl_owner = None,
     cl_device_type = Some ''laptop'', cl_tags = [''x''], cl_last_seen = ''2026-01-01'', cl_registered_at = None, cl_registered_by = None\<rparr>"

definition wit_clients :: clients_page where
  "wit_clients = (clients_initial (Some ''t1''))\<lparr>cz_clients := (\<lambda>_. \<lparr>qr_data = Some [wit_client], qr_isLoading = False, qr_error = None\<rparr>)\<rparr>"


end
