(* ===== verification/Settings.thy ===== *)
theory Settings
  imports Dialog
begin

text \<open>
  \<open>pages/SettingsPage.tsx\<close>: the system information, the password form with the table of role capabilities, and the SIEM syslog
  sinks, one per tab of the URL. A tab is mounted while it is shown; leaving it drops its form values and the callbacks of its calls.
  \<open>b\<close> is the browser, for \<open>apiUrl\<close>.
\<close>

section \<open>Syslog sinks\<close>

record siem_syslog =
  sy_id :: string
  sy_tenant_id :: "string option"
  sy_name :: string
  sy_host :: string
  sy_port :: int
  sy_transport :: string
  sy_format :: string
  sy_facility :: int
  sy_app_name :: string
  sy_batch_size :: int
  sy_flush_interval_s :: int
  sy_filter_decision :: string
  sy_ca_cert_pem :: "string option"
  sy_enabled :: bool
  sy_last_delivered_at :: "string option"
  sy_last_error :: "string option"
  sy_consecutive_failures :: int
  sy_created_at :: string

record syslog_form =
  yf_name :: string
  yf_host :: string
  yf_port :: num_input
  yf_transport :: "string option"
  yf_format :: "string option"
  yf_facility :: num_input
  yf_app_name :: string
  yf_batch_size :: num_input
  yf_flush_interval_s :: num_input
  yf_filter_decision :: "string option"
  yf_enabled :: bool

definition AddSyslog_initial :: syslog_form where
  "AddSyslog_initial = \<lparr>yf_name = [], yf_host = [], yf_port = Num 514, yf_transport = Some ''tls'', yf_format = Some ''cef'',
     yf_facility = Num 16, yf_app_name = ''mantis-dns'', yf_batch_size = Num 200, yf_flush_interval_s = Num 30,
     yf_filter_decision = Some ''all'', yf_enabled = True\<rparr>"

text \<open>A blank port counts as zero in the comparison. \<open>/^[!-~]+$/\<close> accepts printable ASCII without the blank.\<close>

definition syslog_port_ok :: "num_input \<Rightarrow> bool" where
  "syslog_port_ok p = (case p of Blank \<Rightarrow> False | Num n \<Rightarrow> 1 \<le> n \<and> n \<le> 65535)"

definition printable :: "string \<Rightarrow> bool" where
  "printable v \<longleftrightarrow> v \<noteq> [] \<and> list_all (\<lambda>c. 0x21 \<le> code c \<and> code c \<le> 0x7E) v"

definition AddSyslog_validate :: "syslog_form \<Rightarrow> field_errors" where
  "AddSyslog_validate v =
    [(''name'', if length (js_trim (yf_name v)) < 2 then Some ''Required'' else None),
     (''host'', required (yf_host v)),
     (''port'', if syslog_port_ok (yf_port v) then None else Some (''Must be 1'' @ en_dash @ ''65535'')),
     (''app_name'', if printable (yf_app_name v) then None else Some ''No spaces or control characters'')]"

definition AddSyslog_body :: "syslog_form \<Rightarrow> json" where
  "AddSyslog_body v = JObj [(''name'', JStr (yf_name v)), (''host'', JStr (yf_host v)), (''port'', jnum (yf_port v)),
     (''transport'', jopt (yf_transport v)), (''format'', jopt (yf_format v)), (''facility'', jnum (yf_facility v)),
     (''app_name'', JStr (yf_app_name v)), (''batch_size'', jnum (yf_batch_size v)), (''flush_interval_s'', jnum (yf_flush_interval_s v)),
     (''filter_decision'', jopt (yf_filter_decision v)), (''enabled'', JBool (yf_enabled v))]"

definition AddSyslog_ops :: "(json, syslog_form) dialog_ops" where
  "AddSyslog_ops = \<lparr>do_validate = AddSyslog_validate, do_mutation = useCreateSiemSyslogSink, do_vars = (\<lambda>v. Some (AddSyslog_body v)),
     do_message = (\<lambda>v. ''Syslog sink '' @ quoted (yf_name v) @ '' created'')\<rparr>"

section \<open>The password form\<close>

record password_form =
  pw_current :: string
  pw_new :: string
  pw_confirm :: string

definition ChangePassword_initial :: password_form where
  "ChangePassword_initial = \<lparr>pw_current = [], pw_new = [], pw_confirm = []\<rparr>"

definition ChangePassword_validate :: "password_form \<Rightarrow> field_errors" where
  "ChangePassword_validate v =
    [(''current_password'', if pw_current v = [] then Some ''Required'' else None),
     (''new_password'', if length (pw_new v) < 12 then Some ''Minimum 12 characters'' else None),
     (''confirm_password'', if pw_confirm v \<noteq> pw_new v then Some ''Passwords do not match'' else None)]"

definition ChangePassword_ops :: "(json, password_form) dialog_ops" where
  "ChangePassword_ops = \<lparr>do_validate = ChangePassword_validate, do_mutation = useChangePassword,
     do_vars = (\<lambda>v. Some (JObj [(''current_password'', JStr (pw_current v)), (''new_password'', JStr (pw_new v))])),
     do_message = (\<lambda>_. ''Password changed'')\<rparr>"

text \<open>\<open>form.reset()\<close>\<close>

definition password_reset :: "password_form dialog \<Rightarrow> password_form dialog" where
  "password_reset d = d\<lparr>dl_values := ChangePassword_initial\<rparr>"

section \<open>The page\<close>

text \<open>\<open>dl_opened\<close> of the password form says that the security tab is mounted.\<close>

record settings_page =
  tg_params :: search_pairs
  tg_password :: "password_form dialog"
  tg_sinks :: "siem_syslog list query_result"
  tg_update :: observer
  tg_test :: observer
  tg_testingId :: "string option"
  tg_add :: "syslog_form dialog"

datatype settings_event =
    SetSettingsTab "string option"
  | EditPassword "password_form \<Rightarrow> password_form" | SubmitPassword | PasswordAnswer nat password_form "thrown option"
  | OpenAddSyslog | CloseAddSyslog | EditSyslog "syslog_form \<Rightarrow> syslog_form" | SubmitSyslog | AddSyslogAnswer nat syslog_form "thrown option"
  | ToggleSink siem_syslog | ToggleSinkAnswer nat siem_syslog "thrown option"
  | TestSink siem_syslog | TestSinkAnswer nat siem_syslog "thrown + bool \<times> string option"
  | ConfirmDeleteSink siem_syslog | DeleteSinkAnswer siem_syslog bool "thrown option"
  | SinksAnswer "thrown + siem_syslog list"

fun settings_page_answer :: "settings_event \<Rightarrow> bool" where
  "settings_page_answer (PasswordAnswer _ _ _) = True"
| "settings_page_answer (AddSyslogAnswer _ _ _) = True"
| "settings_page_answer (ToggleSinkAnswer _ _ _) = True"
| "settings_page_answer (TestSinkAnswer _ _ _) = True"
| "settings_page_answer (DeleteSinkAnswer _ _ _) = True"
| "settings_page_answer (SinksAnswer _) = True"
| "settings_page_answer _ = False"

definition settings_tab :: "search_pairs \<Rightarrow> string" where
  "settings_tab ps = nullish (map_of (filter_values [(''tab'', ''system'')] ps) ''tab'') []"

definition settings_initial :: "search_pairs \<Rightarrow> settings_page" where
  "settings_initial ps = \<lparr>tg_params = ps,
     tg_password = (dialog_closed ChangePassword_initial)\<lparr>dl_opened := settings_tab ps = ''security''\<rparr>,
     tg_sinks = qr_start True, tg_update = ob_idle, tg_test = ob_idle, tg_testingId = None, tg_add = dialog_closed AddSyslog_initial\<rparr>"

text \<open>Leaving a tab unmounts it.\<close>

definition settings_setTab :: "string option \<Rightarrow> settings_page \<Rightarrow> settings_page" where
  "settings_setTab v s =
    (let ps = setFilters [(''tab'', ''system'')] [(''tab'', Some (nullish v ''system''))] (tg_params s) in
     if settings_tab ps = settings_tab (tg_params s) then s\<lparr>tg_params := ps\<rparr>
     else s\<lparr>tg_params := ps,
       tg_password := (if settings_tab ps = ''security'' then dialog_mount ChangePassword_initial (tg_password s)
         else dialog_unmount (tg_password s)),
       tg_update := ob_fresh (tg_update s), tg_test := ob_fresh (tg_test s), tg_testingId := None, tg_add := dialog_unmount (tg_add s)\<rparr>)"

definition toggle_sink_vars :: "siem_syslog \<Rightarrow> string \<times> json" where
  "toggle_sink_vars x = (sy_id x, JObj [(''enabled'', JBool (\<not> sy_enabled x))])"

definition toggleSink :: "siem_syslog \<Rightarrow> settings_page \<Rightarrow> settings_page \<times> cmd list" where
  "toggleSink x s = (s\<lparr>tg_update := ob_call (tg_update s)\<rparr>, [mutate useUpdateSiemSyslogSink (toggle_sink_vars x)])"

definition toggleSink_answer :: "nat \<Rightarrow> siem_syslog \<Rightarrow> thrown option \<Rightarrow> settings_page \<Rightarrow> settings_page \<times> cmd list" where
  "toggleSink_answer n x r s = (s\<lparr>tg_update := ob_settle n (tg_update s)\<rparr>,
     case r of None \<Rightarrow> settled_ok useUpdateSiemSyslogSink (toggle_sink_vars x) []
     | Some e \<Rightarrow> if ob_latest n (tg_update s) then [notify_error e] else [])"

definition testSink :: "siem_syslog \<Rightarrow> settings_page \<Rightarrow> settings_page \<times> cmd list" where
  "testSink x s = (s\<lparr>tg_testingId := Some (sy_id x), tg_test := ob_call (tg_test s)\<rparr>, [mutate useTestSiemSyslogSink (sy_id x)])"

definition test_message :: "siem_syslog \<Rightarrow> bool \<times> string option \<Rightarrow> cmd" where
  "test_message x r = (let (success, err) = r in
     Notify (if success then if sy_transport x = ''udp'' then sy_name x @ '': sent (UDP '' @ em_dash @ '' delivery not confirmed)'' else sy_name x @ '': sent''
             else sy_name x @ '': failed '' @ em_dash @ '' '' @ nullish err ''null'') (if success then ''green'' else ''red''))"

text \<open>The callbacks, \<open>onSettled\<close> included, run for the latest test only.\<close>

definition testSink_answer :: "nat \<Rightarrow> siem_syslog \<Rightarrow> thrown + bool \<times> string option \<Rightarrow> settings_page \<Rightarrow> settings_page \<times> cmd list" where
  "testSink_answer n x r s =
    (if ob_latest n (tg_test s)
     then (s\<lparr>tg_test := ob_settle n (tg_test s), tg_testingId := None\<rparr>,
           [case r of Inr res \<Rightarrow> test_message x res | Inl e \<Rightarrow> notify_error e])
     else (s, []))"

definition sinks_confirmDelete :: "siem_syslog \<Rightarrow> cmd list" where
  "sinks_confirmDelete x =
    [OpenConfirm ''Delete syslog sink'' (''Delete '' @ sy_name x @ ''? This stops all delivery to '' @ sy_host x @ '':'' @ int_str (sy_port x) @ ''.'')
       ''Delete'' [mutate useDeleteSiemSyslogSink (sy_id x)]]"

fun settings_step :: "settings_event \<Rightarrow> settings_page \<Rightarrow> settings_page \<times> cmd list" where
  "settings_step (SetSettingsTab v) s = (settings_setTab v s, [])"
| "settings_step (EditPassword f) s = (s\<lparr>tg_password := dialog_edit f (tg_password s)\<rparr>, [])"
| "settings_step SubmitPassword s = (let (d, cs) = dialog_submit ChangePassword_ops (tg_password s) in (s\<lparr>tg_password := d\<rparr>, cs))"
| "settings_step (PasswordAnswer n f r) s =
     (let (d, cs) = dialog_answer ChangePassword_ops password_reset n f r (tg_password s) in (s\<lparr>tg_password := d\<rparr>, cs))"
| "settings_step OpenAddSyslog s = (s\<lparr>tg_add := dialog_mount AddSyslog_initial (tg_add s)\<rparr>, [])"
| "settings_step CloseAddSyslog s = (s\<lparr>tg_add := dialog_unmount (tg_add s)\<rparr>, [])"
| "settings_step (EditSyslog f) s = (s\<lparr>tg_add := dialog_edit f (tg_add s)\<rparr>, [])"
| "settings_step SubmitSyslog s = (let (d, cs) = dialog_submit AddSyslog_ops (tg_add s) in (s\<lparr>tg_add := d\<rparr>, cs))"
| "settings_step (AddSyslogAnswer n f r) s =
     (let (d, cs) = dialog_answer AddSyslog_ops dialog_unmount n f r (tg_add s) in (s\<lparr>tg_add := d\<rparr>, cs))"
| "settings_step (ToggleSink x) s = toggleSink x s"
| "settings_step (ToggleSinkAnswer n x r) s = toggleSink_answer n x r s"
| "settings_step (TestSink x) s = testSink x s"
| "settings_step (TestSinkAnswer n x r) s = testSink_answer n x r s"
| "settings_step (ConfirmDeleteSink x) s = (s, sinks_confirmDelete x)"
| "settings_step (DeleteSinkAnswer x cb r) s =
     (s, delete_answer useDeleteSiemSyslogSink (sy_id x) (''Syslog sink '' @ quoted (sy_name x) @ '' deleted'') cb r)"
| "settings_step (SinksAnswer r) s = (s\<lparr>tg_sinks := qr_answer r (tg_sinks s)\<rparr>, [])"

section \<open>Views\<close>

definition AddSyslogForm :: "syslog_form dialog \<Rightarrow> settings_event view" where
  "AddSyslogForm d = (let v = dl_values d in Form SubmitSyslog
    [TextInput ''Name'' (yf_name v) True False (\<lambda>x. EditSyslog (yf_name_update (\<lambda>_. x))),
     TextInput ''Host'' (yf_host v) True False (\<lambda>x. EditSyslog (yf_host_update (\<lambda>_. x))),
     NumberInput ''Port'' (yf_port v) (Some 1) (Some 65535) False (\<lambda>x. EditSyslog (yf_port_update (\<lambda>_. x))),
     Select ''Transport'' [(''tls'', ''TLS (recommended)''), (''tcp'', ''TCP''), (''udp'', ''UDP (best-effort, no delivery guarantee)'')]
       (yf_transport v) False (\<lambda>x. EditSyslog (yf_transport_update (\<lambda>_. x))),
     Select ''Format'' [(''cef'', ''CEF (ArcSight)''), (''json'', ''JSON'')] (yf_format v) False (\<lambda>x. EditSyslog (yf_format_update (\<lambda>_. x))),
     NumberInput ''Facility'' (yf_facility v) (Some 0) (Some 23) False (\<lambda>x. EditSyslog (yf_facility_update (\<lambda>_. x))),
     TextInput ''APP-NAME'' (yf_app_name v) False False (\<lambda>x. EditSyslog (yf_app_name_update (\<lambda>_. x))),
     Select ''Event filter'' [(''all'', ''All queries''), (''block'', ''Blocked only''), (''allow'', ''Allowed only'')] (yf_filter_decision v) False
       (\<lambda>x. EditSyslog (yf_filter_decision_update (\<lambda>_. x))),
     NumberInput ''Batch size'' (yf_batch_size v) (Some 1) (Some 10000) False (\<lambda>x. EditSyslog (yf_batch_size_update (\<lambda>_. x))),
     NumberInput ''Flush interval (s)'' (yf_flush_interval_s v) (Some 10) (Some 86400) False (\<lambda>x. EditSyslog (yf_flush_interval_s_update (\<lambda>_. x))),
     Button ''Cancel'' False CloseAddSyslog, Submit ''Add syslog sink'' (ob_pending (dl_call d))])"

definition ChangePasswordForm :: "password_form dialog \<Rightarrow> settings_event view" where
  "ChangePasswordForm d = (let v = dl_values d in Form SubmitPassword
    [TextInput ''Current password'' (pw_current v) True False (\<lambda>x. EditPassword (pw_current_update (\<lambda>_. x))),
     TextInput ''New password'' (pw_new v) True False (\<lambda>x. EditPassword (pw_new_update (\<lambda>_. x))),
     TextInput ''Confirm new password'' (pw_confirm v) True False (\<lambda>x. EditPassword (pw_confirm_update (\<lambda>_. x))),
     Submit ''Change password'' (ob_pending (dl_call d))])"

definition delivery_badge :: "ui_env \<Rightarrow> siem_syslog \<Rightarrow> settings_event view" where
  "delivery_badge w x = (if truthy (sy_last_error x) then Badge ''red'' (int_str (sy_consecutive_failures x) @ '' failures'')
     else if truthy (sy_last_delivered_at x) then Badge ''green'' (ue_time w (the (sy_last_delivered_at x)))
     else Badge ''gray'' ''no deliveries yet'')"

definition sink_row :: "ui_env \<Rightarrow> string option \<Rightarrow> siem_syslog \<Rightarrow> settings_event view" where
  "sink_row w testingId x = Row
    [Box [Text (sy_name x), Text (sy_host x @ '':'' @ int_str (sy_port x))],
     Badge (if sy_transport x = ''udp'' then ''orange'' else ''teal'') (js_upper (sy_transport x)), Badge [] (js_upper (sy_format x)),
     Text (sy_filter_decision x), delivery_badge w x, Switch [] (sy_enabled x) False (ToggleSink x),
     Box [Button ''Test'' (testingId = Some (sy_id x)) (TestSink x), Button ''Delete'' False (ConfirmDeleteSink x)]]"

definition SiemSyslogSection :: "ui_env \<Rightarrow> settings_page \<Rightarrow> settings_event view" where
  "SiemSyslogSection w s = (let q = tg_sinks s; sinks = nullish (qr_data q) [] in Box
    ([Text ''SIEM syslog'',
      Text (''Push enriched DNS events as RFC 5424 syslog (CEF or JSON payload) over TCP/TLS/UDP '' @ em_dash @ '' e.g. Wazuh''),
      Button ''Add syslog sink'' False OpenAddSyslog]
     @ show_if (qr_isLoading q) [Loader]
     @ show_if (\<not> qr_isLoading q \<and> sinks = []) [Text ''No syslog sinks configured. Add one to start streaming DNS events.'']
     @ show_if (sinks \<noteq> []) [Table [''Destination'', ''Transport'', ''Format'', ''Filter'', ''Last delivery'', ''On'', []]
         (map (sink_row w (tg_testingId s)) sinks)]
     @ show_if (dl_opened (tg_add s)) [Modal ''Add syslog sink'' CloseAddSyslog [AddSyslogForm (tg_add s)]]))"

definition EndpointRow :: "string \<Rightarrow> string \<Rightarrow> string \<Rightarrow> settings_event view" where
  "EndpointRow label url description = Box [Text label, Text description, Text url, Copy url, Anchor url [Text ''Open'']]"

definition CAPABILITIES :: "(string \<times> bool \<times> bool \<times> bool) list" where
  "CAPABILITIES =
    [(''View dashboard & analytics'', True, True, True), (''View tenants, groups, feeds'', True, True, True),
     (''View DNS zones & records'', True, True, True), (''View audit log'', True, True, False), (''Edit tenants & groups'', True, True, False),
     (''Edit policies & feeds'', True, True, False), (''Manage DNS zones & records'', True, True, False),
     (''Configure SIEM integrations'', True, False, False), (''Manage users'', True, False, False), (''System settings'', True, False, False)]"

definition Cap :: "bool \<Rightarrow> settings_event view" where
  "Cap yes = Badge (if yes then ''teal'' else ''dark'') []"

definition system_panel :: "browser \<Rightarrow> settings_event view" where
  "system_panel b = Box
    ([Text ''Platform'']
     @ map (\<lambda>(l, v). Box [Text l, Text v])
        [(''Product'', ''Mantis-DNS''), (''Control API'', ''FastAPI / Python''), (''Filter node'', ''Rust (mantis-filter)''),
         (''UI'', ''React + Mantine 9''), (''Auth'', ''JWT (HS256)''), (''Database'', ''PostgreSQL 17 (psycopg3)'')]
     @ [Text ''Infrastructure endpoints'', Text ''Service URLs for this deployment.'',
        EndpointRow ''Control plane API'' (br_api_base b) (''FastAPI REST API '' @ em_dash @ '' all management operations''),
        EndpointRow ''OpenAPI / Swagger'' (br_url b ''/docs'') ''Interactive API documentation'',
        EndpointRow ''ReDoc reference'' (br_url b ''/redoc'') ''Structured API reference''])"

text \<open>The preview of the single sign-on form has only disabled controls; their events cannot be raised.\<close>

definition sso_preview :: "settings_event view" where
  "sso_preview = (let no = SetSettingsTab None in Box
    [Text ''Single sign-on (SSO / OIDC)'', Badge ''gray'' (''Planned '' @ em_dash @ '' Sprint 8''),
     TextInput ''Issuer URL'' [] False True (\<lambda>_. no), TextInput ''Client ID'' [] False True (\<lambda>_. no),
     TextInput ''Client secret'' [] False True (\<lambda>_. no), TextInput ''Redirect URI'' [] False True (\<lambda>_. no),
     Select ''Claim mapping (role)'' (map (\<lambda>x. (x, x)) [''groups'', ''roles'', ''mantis_role'']) None True (\<lambda>_. no),
     Button ''Save SSO configuration'' True no, Button ''Test connection'' True no])"

definition security_panel :: "settings_page \<Rightarrow> settings_event view" where
  "security_panel s = Box
    [Text ''Change password'', ChangePasswordForm (tg_password s),
     Text ''Role-based access control'', Badge ''teal'' ''Active'',
     Text ''JWT-authenticated role hierarchy. Every mutating API endpoint is gated by role. Manage users via the '', Anchor ''/users'' [Text ''Users page''],
     Table [''Capability'', ''Admin'', ''Operator'', ''Viewer'']
       (map (\<lambda>(c, a, o1, v). Row [Text c, Cap a, Cap o1, Cap v]) CAPABILITIES),
     sso_preview,
     Text ''Password policy'', Badge ''orange'' ''Local accounts only'',
     Box (map Text [''Minimum 12 characters'', ''No maximum length limit'', ''Passwords are bcrypt-hashed (cost 12)'',
       ''Self-service password change available above; no forced rotation/expiry policy yet''])]"

definition integrations_panel :: "ui_env \<Rightarrow> browser \<Rightarrow> auth_user option \<Rightarrow> settings_page \<Rightarrow> settings_event view" where
  "integrations_panel w b u s = Box
    [(if hasRole u [Admin] then SiemSyslogSection w s else Text ''Admin role required to manage integrations.''),
     Text ''API access'', Badge ''gray'' (''API keys '' @ em_dash @ '' Planned''),
     Text ''Currently the API is authenticated via the same JWT tokens issued at login (Bearer header).'',
     Text ''Authentication'', Text ''Bearer JWT (Authorization header)'', Text ''Token expiry'', Text ''8 hours'',
     Text ''Docs'', Anchor (br_url b ''/docs'') [Text (br_url b ''/docs'')]]"

definition SettingsPage :: "ui_env \<Rightarrow> browser \<Rightarrow> auth_user option \<Rightarrow> settings_page \<Rightarrow> settings_event view" where
  "SettingsPage w b u s = (let tab = settings_tab (tg_params s) in Box
    [Text ''Settings'', Text ''System configuration, security, and integrations.'',
     Segmented [(''system'', ''System''), (''security'', ''Security''), (''integrations'', ''Integrations'')] tab (\<lambda>v. SetSettingsTab (Some v)),
     (if tab = ''system'' then system_panel b else if tab = ''security'' then security_panel s
      else if tab = ''integrations'' then integrations_panel w b u s else Box [])])"

section \<open>What the page writes\<close>

definition siem_call :: "api_call \<Rightarrow> bool" where
  "siem_call c \<longleftrightarrow> c \<in> range (mu_fn useCreateSiemSyslogSink) \<or> c \<in> range (mu_fn useUpdateSiemSyslogSink)
     \<or> c \<in> range (mu_fn useDeleteSiemSyslogSink) \<or> c \<in> range (mu_fn useTestSiemSyslogSink)"

definition settings_allowed :: "auth_user option \<Rightarrow> api_call \<Rightarrow> bool" where
  "settings_allowed u c \<longleftrightarrow> c \<in> range (mu_fn useChangePassword) \<or> hasRole u [Admin] \<and> siem_call c"

lemma offers_settings:
  "offers e (SettingsPage w b u s) \<Longrightarrow> hasRole u [Admin] \<or> (\<exists>v. e = SetSettingsTab v) \<or> (\<exists>f. e = EditPassword f) \<or> e = SubmitPassword"
  by (auto simp: SettingsPage_def system_panel_def security_panel_def integrations_panel_def EndpointRow_def ChangePasswordForm_def sso_preview_def
      Cap_def Let_def split: if_splits)

lemma settings_step_writes: "list_all (\<lambda>c. c \<in> range (mu_fn useChangePassword) \<or> siem_call c) (writes (snd (settings_step e s)))"
  by (cases e)
    (auto simp: split_beta siem_call_def toggleSink_def toggleSink_answer_def testSink_def testSink_answer_def test_message_def sinks_confirmDelete_def
      mutate_def ChangePassword_ops_def AddSyslog_ops_def writes_def intro!: dialog_submit_range [unfolded writes_def] split: option.split sum.split)

interpretation stg: guarded_page "SettingsPage w b u" settings_page_answer settings_step "\<lambda>_. True" "settings_allowed u" for w b u
proof unfold_locales
  fix s e assume o: "offers e (SettingsPage w b u s)"
  show "list_all (settings_allowed u) (writes (snd (settings_step e s)))"
  proof (cases "hasRole u [Admin]")
    case True
    then show ?thesis using settings_step_writes [of e s] by (auto simp: settings_allowed_def list_all_iff)
  next
    case False
    with offers_settings [OF o] show ?thesis
      by (auto simp: split_beta settings_allowed_def ChangePassword_ops_def intro!: dialog_submit_range)
  qed
next
  fix s e assume "settings_page_answer e"
  then show "list_all (settings_allowed u) (writes (snd (settings_step e s)))"
    by (cases e) (auto simp: split_beta toggleSink_answer_def testSink_answer_def test_message_def writes_def split: option.split sum.split)
qed simp_all

end
