(* ===== verification/PolicyView.thy ===== *)
theory PolicyView
  imports PolicyEditor BlockPage Feeds Dialog
begin

text \<open>
  The whole policy page: \<open>pages/PolicyPage.tsx\<close> with \<open>pages/DuplicatePolicyModal.tsx\<close> and \<open>pages/BlockPageCard.tsx\<close>, over the editor and
  the card of the two theories it imports. A file chosen in the logo picker arrives as an answer of the browser. \<open>lc\<close> is
  \<open>localeCompare\<close>.
\<close>

section \<open>State\<close>

record policy_test_result =
  pt_domain :: string
  pt_decision :: string
  pt_matched :: string
  pt_matched_category :: "string option"
  pt_matched_feed_id :: "string option"

text \<open>The source policy of the duplicate modal: the group it belongs to, whether it is loading, whether it was fetched, and the policy.\<close>

record source_policy =
  sp_loading :: bool
  sp_fetched :: bool
  sp_policy :: "policy_out option"

record policy_page =
  pp_tenantId :: "string option"
  pp_isLoading :: bool
  pp_categories :: "category list option"
  pp_topDomains :: "(string \<times> string \<times> int) list"
  pp_editor :: policy_editor
  pp_domain :: string
  pp_kind :: "string option"
  pp_compile :: observer
  pp_test :: observer
  pp_testData :: "policy_test_result option"
  pp_testError :: "thrown option"
  pp_duplicate :: duplicate_modal
  pp_tenants :: "tenant list"
  pp_groups :: "string \<Rightarrow> group_out list"
  pp_source :: "string \<Rightarrow> source_policy"
  pp_block :: block_card
  pp_blockUpsert :: observer
  pp_blockCompile :: observer

datatype block_event =
    BcEdit field_edit | BcPick | BcUpload "thrown option" "upload option" | BcSave | BcSaved nat "thrown option" | BcCompiled nat "thrown option"
  | BcTemplate "block_form option"

datatype policy_page_event =
    PpCategory string "string option" | PpDomain string | PpKind "string option" | PpAddOverride | PpRemoveOverride string
  | PpFailure "string option" | PpSave | PpSaved "thrown option" | PpCompile | PpCompiled nat "thrown option"
  | PpTestDomain string | PpTest | PpTested nat "thrown + policy_test_result"
  | PpOpenDuplicate | PpDupClose | PpDupTenant "string option" | PpDupGroup "string option" | PpDupConfirm
  | PpBlock block_event | PpGoto string
  | PpPolicy "policy_out option" | PpCategories "category list" | PpTopDomains "(string \<times> string \<times> int) list"
  | PpTenants "tenant list" | PpGroups string "group_out list" | PpSource string "policy_out option"

text \<open>Calls are numbered from one, so there is no answer of a call zero.\<close>

fun policy_page_answer :: "policy_page_event \<Rightarrow> bool" where
  "policy_page_answer (PpSaved _) = True"
| "policy_page_answer (PpCompiled _ _) = True"
| "policy_page_answer (PpTested _ _) = True"
| "policy_page_answer (PpBlock (BcUpload _ _)) = True"
| "policy_page_answer (PpBlock (BcSaved n _)) = (n > 0)"
| "policy_page_answer (PpBlock (BcCompiled _ _)) = True"
| "policy_page_answer (PpBlock (BcTemplate _)) = True"
| "policy_page_answer (PpPolicy _) = True"
| "policy_page_answer (PpCategories _) = True"
| "policy_page_answer (PpTopDomains _) = True"
| "policy_page_answer (PpTenants _) = True"
| "policy_page_answer (PpGroups _ _) = True"
| "policy_page_answer (PpSource _ _) = True"
| "policy_page_answer _ = False"

text \<open>The effect on \<open>policy?.id\<close> runs after the first render, before any data.\<close>

definition policy_page_initial :: "(string \<Rightarrow> string \<Rightarrow> int) \<Rightarrow> string option \<Rightarrow> string option \<Rightarrow> policy_page" where
  "policy_page_initial lc t g = \<lparr>pp_tenantId = t, pp_isLoading = truthy g, pp_categories = None, pp_topDomains = [],
     pp_editor = pe_load lc None (pe_initial g), pp_domain = [], pp_kind = Some ''deny'', pp_compile = ob_idle, pp_test = ob_idle,
     pp_testData = None, pp_testError = None, pp_duplicate = \<lparr>dm_tenantId = None, dm_groupId = None\<rparr>, pp_tenants = [], pp_groups = (\<lambda>_. []),
     pp_source = (\<lambda>_. \<lparr>sp_loading = True, sp_fetched = False, sp_policy = None\<rparr>),
     pp_block = \<lparr>bc_groupId = g, bc_form = DEFAULTS, bc_logoUploading = False\<rparr>, pp_blockUpsert = ob_idle, pp_blockCompile = ob_idle\<rparr>"

definition map_editor :: "(policy_editor \<Rightarrow> policy_editor) \<Rightarrow> policy_page \<Rightarrow> policy_page" where
  "map_editor f s = s\<lparr>pp_editor := f (pp_editor s)\<rparr>"

section \<open>Handlers\<close>

text \<open>\<open>form.onSubmit\<close> of the override form: add, then reset.\<close>

definition submit_override :: "policy_page \<Rightarrow> policy_page" where
  "submit_override s = (case AddOverrideForm_submit (pp_domain s) (pp_kind s) of
     None \<Rightarrow> s
   | Some o1 \<Rightarrow> (map_editor (addOverride o1) s)\<lparr>pp_domain := [], pp_kind := Some ''deny''\<rparr>)"

definition policy_goto :: "(string \<Rightarrow> string \<Rightarrow> int) \<Rightarrow> string \<Rightarrow> policy_page \<Rightarrow> cmd list" where
  "policy_goto lc path s = (case confirmNavigation (isDirty lc (pp_editor s)) path of
     Proceeded p \<Rightarrow> [Goto p]
   | ConfirmModal title msg p \<Rightarrow> [OpenConfirm title msg ''Discard changes'' [Goto p]])"

definition policy_page_compile :: "policy_page \<Rightarrow> policy_page \<times> cmd list" where
  "policy_page_compile s = (if truthy (pe_groupId (pp_editor s)) then (s\<lparr>pp_compile := ob_call (pp_compile s)\<rparr>, pe_compile (pp_editor s)) else (s, []))"

definition policy_page_compiled :: "nat \<Rightarrow> thrown option \<Rightarrow> policy_page \<Rightarrow> policy_page \<times> cmd list" where
  "policy_page_compiled n r s = (s\<lparr>pp_compile := ob_settle n (pp_compile s)\<rparr>,
     if ob_latest n (pp_compile s) then (case r of None \<Rightarrow> pe_compile_success | Some e \<Rightarrow> [notify_error e]) else [])"

text \<open>\<open>data\<close> and \<open>error\<close> of the test mutation are those of its latest call; a new call clears both.\<close>

definition policy_page_test :: "policy_page \<Rightarrow> policy_page \<times> cmd list" where
  "policy_page_test s = (let cs = pe_test (pp_editor s) in
     if cs = [] then (s, []) else (s\<lparr>pp_test := ob_call (pp_test s), pp_testData := None, pp_testError := None\<rparr>, cs))"

definition policy_page_tested :: "nat \<Rightarrow> thrown + policy_test_result \<Rightarrow> policy_page \<Rightarrow> policy_page" where
  "policy_page_tested n r s = (if ob_latest n (pp_test s)
     then (case r of Inr d \<Rightarrow> s\<lparr>pp_test := ob_settle n (pp_test s), pp_testData := Some d\<rparr>
                   | Inl e \<Rightarrow> s\<lparr>pp_test := ob_settle n (pp_test s), pp_testError := Some e\<rparr>)
     else s)"

definition duplicate_source :: "policy_page \<Rightarrow> source_policy" where
  "duplicate_source s = (case dm_groupId (pp_duplicate s) of
     None \<Rightarrow> \<lparr>sp_loading = False, sp_fetched = False, sp_policy = None\<rparr>
   | Some g \<Rightarrow> if g = [] then \<lparr>sp_loading = False, sp_fetched = False, sp_policy = None\<rparr> else pp_source s g)"

definition duplicate_confirm :: "policy_page \<Rightarrow> policy_page \<times> cmd list" where
  "duplicate_confirm s = (let (m, e, cs) = dm_confirm (sp_policy (duplicate_source s)) (pp_duplicate s) (pp_editor s) in
     (s\<lparr>pp_duplicate := m, pp_editor := e\<rparr>, cs))"

definition block_save :: "policy_page \<Rightarrow> policy_page \<times> cmd list" where
  "block_save s = (let cs = bc_save (pp_block s) in if cs = [] then (s, []) else (s\<lparr>pp_blockUpsert := ob_call (pp_blockUpsert s)\<rparr>, cs))"

definition block_saved :: "nat \<Rightarrow> thrown option \<Rightarrow> policy_page \<Rightarrow> policy_page \<times> cmd list" where
  "block_saved n r s = (let s' = s\<lparr>pp_blockUpsert := ob_settle n (pp_blockUpsert s)\<rparr>; latest = ob_latest n (pp_blockUpsert s) in
     case r of
       None \<Rightarrow> if latest then (s'\<lparr>pp_blockCompile := ob_call (pp_blockCompile s)\<rparr>, bc_save_success (pp_block s))
               else (s', settled_ok (useUpsertBlockPageTemplate (bc_groupId (pp_block s))) (block_body (bc_form (pp_block s))) [])
     | Some e \<Rightarrow> (s', if latest then bc_save_error e else []))"

definition block_compiled :: "nat \<Rightarrow> thrown option \<Rightarrow> policy_page \<Rightarrow> policy_page \<times> cmd list" where
  "block_compiled n r s = (s\<lparr>pp_blockCompile := ob_settle n (pp_blockCompile s)\<rparr>,
     if ob_latest n (pp_blockCompile s) then (case r of None \<Rightarrow> bc_compile_success | Some e \<Rightarrow> bc_compile_error e) else [])"

fun block_step :: "block_event \<Rightarrow> policy_page \<Rightarrow> policy_page \<times> cmd list" where
  "block_step (BcEdit e) s = (s\<lparr>pp_block := (pp_block s)\<lparr>bc_form := set_field e (bc_form (pp_block s))\<rparr>\<rparr>, [])"
| "block_step BcPick s = (s, [])"
| "block_step (BcUpload failure file) s = (let (b, cs) = uploadLogo failure file (pp_block s) in (s\<lparr>pp_block := b\<rparr>, cs))"
| "block_step BcSave s = block_save s"
| "block_step (BcSaved n r) s = block_saved n r s"
| "block_step (BcCompiled n r) s = block_compiled n r s"
| "block_step (BcTemplate t) s = (s\<lparr>pp_block := bc_template t (pp_block s)\<rparr>, [])"

fun policy_page_step :: "(string \<Rightarrow> string \<Rightarrow> int) \<Rightarrow> policy_page_event \<Rightarrow> policy_page \<Rightarrow> policy_page \<times> cmd list" where
  "policy_page_step lc (PpCategory c v) s = (map_editor (CategoryRow_onChange c v) s, [])"
| "policy_page_step lc (PpDomain v) s = (s\<lparr>pp_domain := v\<rparr>, [])"
| "policy_page_step lc (PpKind v) s = (s\<lparr>pp_kind := v\<rparr>, [])"
| "policy_page_step lc PpAddOverride s = (submit_override s, [])"
| "policy_page_step lc (PpRemoveOverride d) s = (map_editor (removeOverride d) s, [])"
| "policy_page_step lc (PpFailure v) s = (map_editor (setOnLoadFailure v) s, [])"
| "policy_page_step lc PpSave s = (let (e, cs) = pe_save (pp_editor s) in (s\<lparr>pp_editor := e\<rparr>, cs))"
| "policy_page_step lc (PpSaved r) s = (let (e, cs) = (case r of None \<Rightarrow> pe_save_success lc (pp_editor s) | Some x \<Rightarrow> pe_save_error x (pp_editor s))
     in (s\<lparr>pp_editor := e\<rparr>, cs))"
| "policy_page_step lc PpCompile s = policy_page_compile s"
| "policy_page_step lc (PpCompiled n r) s = policy_page_compiled n r s"
| "policy_page_step lc (PpTestDomain v) s = (map_editor (\<lambda>e. e\<lparr>pe_testDomain := v\<rparr>) s, [])"
| "policy_page_step lc PpTest s = policy_page_test s"
| "policy_page_step lc (PpTested n r) s = (policy_page_tested n r s, [])"
| "policy_page_step lc PpOpenDuplicate s = (map_editor (\<lambda>e. e\<lparr>pe_duplicateOpened := True\<rparr>) s, [])"
| "policy_page_step lc PpDupClose s = ((map_editor (\<lambda>e. e\<lparr>pe_duplicateOpened := False\<rparr>) s)\<lparr>pp_duplicate := fst (dm_close (pp_duplicate s))\<rparr>,
     snd (dm_close (pp_duplicate s)))"
| "policy_page_step lc (PpDupTenant v) s = (s\<lparr>pp_duplicate := dm_setTenant v (pp_duplicate s)\<rparr>, [])"
| "policy_page_step lc (PpDupGroup v) s = (s\<lparr>pp_duplicate := dm_setGroup v (pp_duplicate s)\<rparr>, [])"
| "policy_page_step lc PpDupConfirm s = duplicate_confirm s"
| "policy_page_step lc (PpBlock e) s = block_step e s"
| "policy_page_step lc (PpGoto p) s = (s, policy_goto lc p s)"
| "policy_page_step lc (PpPolicy p) s = ((map_editor (pe_policy_data lc p) s)\<lparr>pp_isLoading := False\<rparr>, [])"
| "policy_page_step lc (PpCategories cs) s = (s\<lparr>pp_categories := Some cs\<rparr>, [])"
| "policy_page_step lc (PpTopDomains ds) s = (s\<lparr>pp_topDomains := ds\<rparr>, [])"
| "policy_page_step lc (PpTenants ts) s = (s\<lparr>pp_tenants := ts\<rparr>, [])"
| "policy_page_step lc (PpGroups t gs) s = (s\<lparr>pp_groups := (pp_groups s)(t := gs)\<rparr>, [])"
| "policy_page_step lc (PpSource g p) s =
     (s\<lparr>pp_source := (pp_source s)(g := \<lparr>sp_loading = False, sp_fetched = True, sp_policy = p\<rparr>)\<rparr>, [])"

section \<open>Views\<close>

definition CategoryRow :: "category \<Rightarrow> string \<Rightarrow> policy_page_event view" where
  "CategoryRow c action = Box
    ([Text (cat_label c)] @ show_if (\<not> cat_has_bundled_feed c) [Tooltip (''No pre-loaded feed '' @ em_dash @ '' add one on the Feeds page'')
        (Badge ''gray'' ''no feed'')]
     @ [Text (cat_description c), Select [] CATEGORY_ACTION_OPTIONS (Some action) False (PpCategory (cat_id c))])"

definition policy_bar :: "(string \<Rightarrow> string \<Rightarrow> int) \<Rightarrow> policy_page \<Rightarrow> policy_page_event view" where
  "policy_bar lc s = (let e = pp_editor s; dirty = isDirty lc e in Box
    ([Text (if dirty then ''Unsaved changes'' else ''All changes saved''),
      Button ''Save policy'' (\<not> save_enabled lc e) PpSave,
      Button ''Compile & publish bundle'' (\<not> compile_enabled lc (ob_pending (pp_compile s)) e) PpCompile]
     @ show_if dirty [Text ''Save first''] @ [Button ''Duplicate from group...'' False PpOpenDuplicate]))"

definition categories_card :: "policy_page \<Rightarrow> policy_page_event view" where
  "categories_card s = Box (Text ''Categories'' # map (\<lambda>(g, cs). Box (Text (nullish (CATEGORY_GROUP_LABEL g) g)
     # map (\<lambda>c. CategoryRow c (category_action (pp_editor s) (cat_id c))) cs)) (category_sections (pp_categories s)))"

definition overrides_card :: "policy_page \<Rightarrow> policy_page_event view" where
  "overrides_card s = (let os = pe_overrides (pp_editor s) in Box
    ([Text ''Overrides''] @ show_if (os = []) [Text ''No overrides yet.'']
     @ map (\<lambda>o1. Box [Badge (if ov_kind o1 = Some ''allow'' then ''green'' else ''red'') (nullish (ov_kind o1) []), Text (ov_domain o1),
           Button ''Remove'' False (PpRemoveOverride (ov_domain o1))]) os
     @ [Form PpAddOverride
         [TextInput ''domain.example'' (pp_domain s) False False PpDomain,
          Select [] [(''allow'', ''allow''), (''deny'', ''deny'')] (pp_kind s) False PpKind, Submit ''Add'' False]]))"

definition failure_card :: "policy_page \<Rightarrow> policy_page_event view" where
  "failure_card s = Box [Text ''Failure policy'',
     Select [] [(''FAIL_OPEN'', ''Fail open '' @ em_dash @ '' resolve normally if bundle fails to load''),
       (''FAIL_CLOSED'', ''Fail closed '' @ em_dash @ '' block all resolution'')] (Some (pe_onLoadFailure (pp_editor s))) False PpFailure]"

definition MODE_OPTIONS :: "(string \<times> string) list" where
  "MODE_OPTIONS = [(''BLOCK_MODE_NXDOMAIN'', ''NXDOMAIN '' @ em_dash @ '' bare resolver error (no page)''),
     (''BLOCK_MODE_ZERO_IP'', ''0.0.0.0 '' @ em_dash @ '' dead-end address, connection fails''),
     (''BLOCK_MODE_REDIRECT'', ''Redirect '' @ em_dash @ '' show the block page below'')]"

definition num_option :: "num_input \<Rightarrow> int option" where
  "num_option n = (case n of Num k \<Rightarrow> Some k | Blank \<Rightarrow> None)"

definition redirect_fields :: "bool \<Rightarrow> block_card \<Rightarrow> block_event view list" where
  "redirect_fields canEdit b = (let f = bc_form b; no = \<not> canEdit; text = (\<lambda>l v e. TextInput l (nullish v []) False no (\<lambda>x. BcEdit (e x))) in
    [text ''Redirect IPv4'' (bf_redirect_ipv4 f) EIpv4, text ''Redirect IPv6 (optional)'' (bf_redirect_ipv6 f) EIpv6,
     NumberInput ''TTL (seconds)'' (Num (bf_ttl_seconds f)) (Some 0) (Some 86400) no (\<lambda>n. BcEdit (ETtl (num_option n)))]
    @ show_if (missingRedirectIp f) [Text ''Set an IPv4 or IPv6 address''])"

definition branding_fields :: "bool \<Rightarrow> block_card \<Rightarrow> block_event view list" where
  "branding_fields canEdit b = (let f = bc_form b; no = \<not> canEdit; text = (\<lambda>l v e. TextInput l v False no (\<lambda>x. BcEdit (e x))) in
    [text ''Title'' (nullish (bf_title f) []) ETitle, text ''Brand color'' (nullish (bf_brand_color f) []) EColor,
     text ''Message'' (nullish (bf_message f) []) EMessage, Text ''Logo'',
     Button ''Upload logo'' (no \<or> bc_logoUploading b) BcPick]
    @ show_if (truthy (bf_logo_url f)) [Button ''Remove'' no (BcEdit ERemoveLogo)]
    @ [Text (''PNG, JPEG, GIF, WEBP or SVG, up to '' @ int_str (round_div (int LOGO_MAX_BYTES) 1024) @ ''KB. Or paste a hosted image URL instead:''),
       text [] (logo_input_value f) ELogo, text ''Contact / request-access URL'' (nullish (bf_contact_url f) []) EContact,
       Switch ''Show requested domain'' (bf_show_domain f) no (BcEdit (EShowDomain (\<not> bf_show_domain f))),
       Switch ''Show block category'' (bf_show_category f) no (BcEdit (EShowCategory (\<not> bf_show_category f))),
       Text ''Live preview'', Text (previewHtml f)])"

definition BlockPageCard :: "bool \<Rightarrow> policy_page \<Rightarrow> block_event view" where
  "BlockPageCard canEdit s = (let b = pp_block s; f = bc_form b in Box
    ([Text ''Block page'',
      Select ''When a domain is blocked'' MODE_OPTIONS (Some (bf_block_mode f)) (\<not> canEdit) (\<lambda>v. BcEdit (EMode v))]
     @ show_if (isRedirect f) (redirect_fields canEdit b @ branding_fields canEdit b)
     @ show_if canEdit [Button ''Save block page'' (\<not> bc_save_enabled canEdit b \<or> ob_pending (pp_blockUpsert s) \<or> ob_pending (pp_blockCompile s))
         BcSave]))"

text \<open>\<open>String(error)\<close>\<close>

definition error_text :: "thrown \<Rightarrow> string" where
  "error_text e = (case e of ErrorObj m \<Rightarrow> (if m = [] then ''Error'' else ''Error: '' @ m) | OtherVal v \<Rightarrow> v)"

definition test_explanation :: "policy_test_result \<Rightarrow> string" where
  "test_explanation r =
    (if pt_matched r = ''override_allow'' then ''matched allow override''
     else if pt_matched r = ''override_deny'' then ''matched deny override''
     else if pt_matched r = ''category'' then ''category '' @ nullish (pt_matched_category r) []
       @ (if truthy (pt_matched_feed_id r) then '' '' @ mid_dot @ '' feed '' @ the (pt_matched_feed_id r) else [])
     else if pt_matched r = ''default'' then ''no rule matched '' @ em_dash @ '' default allow'' else [])"

definition test_card :: "(string \<Rightarrow> string \<Rightarrow> int) \<Rightarrow> policy_page \<Rightarrow> policy_page_event view" where
  "test_card lc s = Box
    ([Text ''Test a domain'',
      Text (if isDirty lc (pp_editor s) then ''You have unsaved changes '' @ em_dash @ '' this tests the last saved policy, not your edits below.''
            else ''Checks the saved policy (overrides + category feeds) without requiring a compiled bundle.''),
      Form PpTest [TextInput ''ads.example.com'' (pe_testDomain (pp_editor s)) False False PpTestDomain, Submit ''Test'' (ob_pending (pp_test s))]]
     @ (case pp_testData s of None \<Rightarrow> [] | Some r \<Rightarrow>
         [Badge (if pt_decision r = ''block'' then ''red'' else ''green'') (js_upper (pt_decision r)), Text (test_explanation r)])
     @ (case pp_testError s of None \<Rightarrow> [] | Some e \<Rightarrow> [Text (error_text e)]))"

definition DuplicatePolicyModal :: "policy_page \<Rightarrow> policy_page_event view list" where
  "DuplicatePolicyModal s = (let e = pp_editor s; m = pp_duplicate s; src = duplicate_source s;
       groups = (case dm_tenantId m of None \<Rightarrow> [] | Some t \<Rightarrow> map (\<lambda>g. (gr_id g, gr_name g)) (pp_groups s t)) in
    show_if (truthy (pe_groupId e) \<and> pe_duplicateOpened e)
    [Modal ''Duplicate policy from another group'' PpDupClose
      ([Text ''Loads another group's category toggles, overrides, and failure policy into this editor.'',
        Select ''Tenant'' (tenantOptions (pp_tenants s)) (dm_tenantId m) False PpDupTenant,
        Select ''Source group'' (dm_groupOptions (pe_groupId e) groups) (dm_groupId m) (\<not> truthy (dm_tenantId m)) PpDupGroup]
       @ show_if (truthy (dm_groupId m) \<and> sp_loading src) [Text ''Loading policy'']
       @ show_if (truthy (dm_groupId m) \<and> sp_fetched src \<and> sp_policy src = None) [Text ''This group has no saved policy yet.'']
       @ [Button ''Cancel'' False PpDupClose, Button ''Load policy'' (sp_policy src = None) PpDupConfirm])])"

definition top_domains_card :: "policy_page \<Rightarrow> policy_page_event view" where
  "top_domains_card s = Box
    ([Text ''Top domains (live telemetry)''] @ show_if (pp_topDomains s = []) [Text ''No query telemetry yet for this group.'']
     @ show_if (pp_topDomains s \<noteq> []) [Table [] (map (\<lambda>(q, d, n). Row [Text q, Badge (if d = ''block'' then ''red'' else ''green'') d, Text (int_str n)])
         (pp_topDomains s))])"

definition PolicyPage :: "ui_env \<Rightarrow> auth_user option \<Rightarrow> policy_page \<Rightarrow> policy_page_event view" where
  "PolicyPage w u s =
    (if pp_isLoading s then Loader
     else let op = hasRole u [Operator] in Box
      ([Clickable (PpGoto ''/tenants'') [Text ''Tenants''],
        Clickable (PpGoto (''/tenants/'' @ nullish (pp_tenantId s) ''undefined'')) [Text ''Groups''], Text ''Policy'', Text ''Policy'']
       @ show_if op [policy_bar (ue_lc w) s]
       @ [categories_card s, overrides_card s, failure_card s, map_view PpBlock (BlockPageCard op s), test_card (ue_lc w) s]
       @ DuplicatePolicyModal s @ [top_domains_card s]))"

section \<open>What the page writes\<close>

definition policy_write :: "api_call \<Rightarrow> bool" where
  "policy_write c \<longleftrightarrow> (\<exists>g. c \<in> range (mu_fn (useUpsertPolicy g)) \<or> c \<in> range (mu_fn (useUpsertBlockPageTemplate g))) \<or> c \<in> range (mu_fn useCompileBundle)"

definition policy_test_call :: "api_call \<Rightarrow> bool" where
  "policy_test_call c \<longleftrightarrow> (\<exists>g. c \<in> range (mu_fn (useTestPolicy g)))"

definition policy_allowed :: "auth_user option \<Rightarrow> api_call \<Rightarrow> bool" where
  "policy_allowed u c \<longleftrightarrow> hasRole u [Operator] \<and> policy_write c \<or> policy_test_call c"

definition policy_guarded :: "auth_user option \<Rightarrow> policy_page \<Rightarrow> bool" where
  "policy_guarded u s \<longleftrightarrow> hasRole u [Operator] \<or> ob_calls (pp_blockUpsert s) = 0"

lemma policy_writeI [simp]:
  "policy_write (mu_fn (useUpsertPolicy g) b)" "policy_write (mu_fn (useUpsertBlockPageTemplate g) b)" "policy_write (mu_fn useCompileBundle i)"
  "policy_test_call (mu_fn (useTestPolicy g) d)"
  unfolding policy_write_def policy_test_call_def by blast+

lemma offers_block_view: "offers e (BlockPageCard False s) \<Longrightarrow> False"
  by (auto simp: BlockPageCard_def redirect_fields_def branding_fields_def Let_def)

lemma offers_policy_page:
  assumes "offers e (PolicyPage w u s)" and "\<not> hasRole u [Operator]"
  shows "e \<noteq> PpSave \<and> e \<noteq> PpCompile \<and> (\<forall>b. e \<noteq> PpBlock b)"
proof -
  have "\<not> offers e (map_view PpBlock (BlockPageCard False s))"
    using offers_block_view by (auto simp: offers_map_view)
  then show ?thesis using assms
    by (auto simp: PolicyPage_def categories_card_def CategoryRow_def overrides_card_def failure_card_def test_card_def DuplicatePolicyModal_def
        top_domains_card_def Let_def split: if_splits option.splits)
qed

lemma block_step_writes: "list_all policy_write (writes (snd (block_step e s)))"
  by (cases e) (auto simp: block_save_def block_saved_def block_compiled_def bc_save_def bc_save_success_def bc_save_error_def bc_compile_success_def
      bc_compile_error_def uploadLogo_def writes_def mutate_def Let_def split_beta split: option.splits sum.splits)

lemma policy_step_writes: "list_all (\<lambda>c. policy_write c \<or> policy_test_call c) (writes (snd (policy_page_step lc e s)))"
proof (cases e)
  case (PpBlock b)
  then show ?thesis using block_step_writes [of b s] by (auto simp: list_all_iff)
qed (auto simp: pe_save_def pe_save_success_def pe_save_error_def policy_page_compile_def policy_page_compiled_def pe_compile_def pe_compile_success_def
    policy_page_test_def pe_test_def duplicate_confirm_def dm_confirm_def applyDuplicatedPolicy_def dm_close_def policy_goto_def
    confirmNavigation_def writes_def mutate_def Let_def split_beta split: option.splits sum.splits nav_outcome.splits list.splits)

lemma viewer_block_answer:
  assumes "ob_calls (pp_blockUpsert s) = 0" and "policy_page_answer (PpBlock b)"
  shows "ob_calls (pp_blockUpsert (fst (block_step b s))) = 0 \<and> writes (snd (block_step b s)) = []"
  using assms
  by (cases b) (auto simp: block_saved_def block_compiled_def ob_latest_def ob_settle_def bc_compile_success_def bc_compile_error_def uploadLogo_def
      writes_def Let_def split_beta split: option.splits sum.splits)

lemma viewer_step:
  assumes "ob_calls (pp_blockUpsert s) = 0" and "e \<noteq> PpSave" and "e \<noteq> PpCompile" and "\<forall>b. e \<noteq> PpBlock b"
  shows "ob_calls (pp_blockUpsert (fst (policy_page_step lc e s))) = 0
    \<and> list_all policy_test_call (writes (snd (policy_page_step lc e s)))"
  using assms
  by (cases e) (auto simp: map_editor_def submit_override_def pe_save_success_def pe_save_error_def policy_page_compiled_def pe_compile_success_def
    policy_page_test_def policy_page_tested_def pe_test_def duplicate_confirm_def dm_confirm_def applyDuplicatedPolicy_def dm_close_def policy_goto_def
    confirmNavigation_def writes_def mutate_def Let_def split_beta split: option.splits sum.splits nav_outcome.splits list.splits)

lemma policy_step_guarded:
  assumes "policy_guarded u s" and "offers e (PolicyPage w u s) \<or> policy_page_answer e"
  shows "policy_guarded u (fst (policy_page_step lc e s)) \<and> list_all (policy_allowed u) (writes (snd (policy_page_step lc e s)))"
proof (cases "hasRole u [Operator]")
  case True
  then show ?thesis using policy_step_writes [of lc e s] by (auto simp: policy_guarded_def policy_allowed_def list_all_iff)
next
  case False
  then have calls: "ob_calls (pp_blockUpsert s) = 0" using assms(1) by (simp add: policy_guarded_def)
  show ?thesis
  proof (cases "\<exists>b. e = PpBlock b")
    case True
    then obtain b where "e = PpBlock b" "policy_page_answer (PpBlock b)"
      using assms(2) offers_policy_page [of e w u s] \<open>\<not> hasRole u [Operator]\<close> by blast
    then show ?thesis using viewer_block_answer [OF calls] by (simp add: policy_guarded_def)
  next
    case block: False
    have "e \<noteq> PpSave \<and> e \<noteq> PpCompile"
      using assms(2) offers_policy_page [of e w u s] False by auto
    then show ?thesis using viewer_step [OF calls, of e lc] block
      by (auto simp: policy_guarded_def policy_allowed_def list_all_iff)
  qed
qed

interpretation ppg: guarded_page "PolicyPage w u" policy_page_answer "policy_page_step lc" "policy_guarded u" "policy_allowed u" for w u lc
  by unfold_locales (use policy_step_guarded in blast)+

end
