(* ===== verification/Access.thy ===== *)
theory Access
  imports Users Tenancy Settings PolicyView ZoneDetail Shell
begin

text \<open>
  The role guards of the control service (\<open>services/control/mantis_control\<close>) beside the conditions the pages put on their
  controls. A guarded endpoint names the roles of its \<open>require_role\<close> dependency; an endpoint that only depends on
  \<open>get_current_user\<close> names none.
\<close>

section \<open>Guards of the service\<close>

fun server_rank :: "role \<Rightarrow> nat" where
  "server_rank Viewer = 0"
| "server_rank Operator = 1"
| "server_rank Admin = 2"

text \<open>The caller's rank must reach the lowest rank of the roles named.\<close>

definition require_role :: "role list \<Rightarrow> role \<Rightarrow> bool" where
  "require_role roles r = (case map server_rank roles of [] \<Rightarrow> True | n # ns \<Rightarrow> fold min ns n \<le> server_rank r)"

type_synonym endpoint = "(verb \<times> string) \<times> role list"

definition tenant_endpoints :: "endpoint list" where
  "tenant_endpoints =
    [((POST, ''/api/v1/tenants''), [Admin]), ((DELETE, ''/api/v1/tenants/{tenant_id}''), [Admin]),
     ((POST, ''/api/v1/tenants/{tenant_id}/groups''), [Admin, Operator]), ((PUT, ''/api/v1/groups/{group_id}/subnet''), [Admin, Operator]),
     ((PUT, ''/api/v1/groups/{group_id}''), [Admin, Operator]), ((DELETE, ''/api/v1/groups/{group_id}''), [Admin])]"

definition client_endpoints :: "endpoint list" where
  "client_endpoints = [((PUT, ''/api/v1/tenants/{tenant_id}/clients/{ip}''), [Admin, Operator]),
     ((DELETE, ''/api/v1/tenants/{tenant_id}/clients/{ip}''), [Admin, Operator])]"

definition user_endpoints :: "endpoint list" where
  "user_endpoints = [((POST, ''/api/v1/auth/change-password''), []), ((POST, ''/api/v1/users''), [Admin]),
     ((PATCH, ''/api/v1/users/{user_id}''), [Admin]), ((DELETE, ''/api/v1/users/{user_id}''), [Admin])]"

definition siem_endpoints :: "endpoint list" where
  "siem_endpoints = [((POST, ''/api/v1/siem/syslog''), [Admin]), ((PATCH, ''/api/v1/siem/syslog/{syslog_id}''), [Admin]),
     ((DELETE, ''/api/v1/siem/syslog/{syslog_id}''), [Admin]), ((POST, ''/api/v1/siem/syslog/{syslog_id}/test''), [Admin])]"

definition feed_endpoints :: "endpoint list" where
  "feed_endpoints = [((POST, ''/api/v1/feeds''), [Admin]), ((PATCH, ''/api/v1/feeds/{feed_id}''), [Admin]),
     ((DELETE, ''/api/v1/feeds/{feed_id}''), [Admin]), ((POST, ''/api/v1/feeds/{feed_id}/ingest''), [Admin])]"

definition zone_endpoints :: "endpoint list" where
  "zone_endpoints = [((POST, ''/api/v1/dns-zones''), [Operator]), ((PATCH, ''/api/v1/dns-zones/{zone_id}''), [Operator]),
     ((DELETE, ''/api/v1/dns-zones/{zone_id}''), [Operator]), ((POST, ''/api/v1/dns-zones/{zone_id}/records''), [Operator]),
     ((PATCH, ''/api/v1/dns-zones/{zone_id}/records/{record_id}''), [Operator]),
     ((DELETE, ''/api/v1/dns-zones/{zone_id}/records/{record_id}''), [Operator])]"

definition policy_endpoints :: "endpoint list" where
  "policy_endpoints = [((PUT, ''/api/v1/groups/{group_id}/policy''), [Admin, Operator]), ((POST, ''/api/v1/groups/{group_id}/bundle''), [Admin, Operator]),
     ((PUT, ''/api/v1/groups/{group_id}/block-page-template''), [Admin, Operator])]"

text \<open>The one endpoint the pages here call with a path put together by hand, \<open>POST /groups/{group_id}/policy/test\<close>.\<close>

definition policy_test_roles :: "role list" where
  "policy_test_roles = [Operator, Admin]"

definition is_policy_test :: "string \<Rightarrow> bool" where
  "is_policy_test p \<longleftrightarrow> starts_with p ''/api/v1/groups/'' \<and> ends_with p ''/policy/test''"

definition endpoints :: "endpoint list" where
  "endpoints = policy_endpoints @ tenant_endpoints @ client_endpoints @ user_endpoints @ siem_endpoints @ feed_endpoints @ zone_endpoints"

text \<open>Whether the guard of a call's endpoint lets the user pass; nobody passes without a session.\<close>

definition server_accepts :: "auth_user option \<Rightarrow> api_call \<Rightarrow> bool" where
  "server_accepts u c = (case (u, c) of
     (Some x, Typed v p _ _ _) \<Rightarrow> (case map_of endpoints (v, p) of Some roles \<Rightarrow> require_role roles (au_role x) | None \<Rightarrow> False)
   | (Some x, RawPost p _) \<Rightarrow> is_policy_test p \<and> require_role policy_test_roles (au_role x)
   | _ \<Rightarrow> False)"

section \<open>Lemmas\<close>

lemma server_rank_eq: "server_rank r = ROLE_RANK r"
  by (cases r) simp_all

text \<open>With several roles the UI asks for the highest of them and the service for the lowest.\<close>

lemma hasRole_Max: "rs \<noteq> [] \<Longrightarrow> hasRole (Some x) rs \<longleftrightarrow> Max (set rs) \<le> au_role x"
  by (simp add: hasRole_all list_all_iff less_eq_role_def [symmetric])

lemma require_role_Min: "rs \<noteq> [] \<Longrightarrow> require_role rs r \<longleftrightarrow> Min (set rs) \<le> r"
proof (cases rs)
  case (Cons q qs)
  have "fold min ns n \<le> k \<longleftrightarrow> n \<le> k \<or> (\<exists>m \<in> set ns. m \<le> k)" for ns and n k :: nat
    by (induction ns arbitrary: n) (auto simp: min_le_iff_disj)
  with Cons show ?thesis by (auto simp: require_role_def server_rank_eq Min_le_iff simp flip: less_eq_role_def)
qed simp

lemma require_role_single: "require_role [r] (au_role x) \<longleftrightarrow> hasRole (Some x) [r]"
  by (simp add: require_role_Min hasRole_Max)

lemma require_operator: "require_role [Admin, Operator] (au_role x) \<longleftrightarrow> hasRole (Some x) [Operator]"
  by (simp add: require_role_Min hasRole_Max min_def less_eq_role_def)

lemmas guard_simps = server_accepts_def endpoints_def tenant_endpoints_def client_endpoints_def user_endpoints_def siem_endpoints_def
  feed_endpoints_def zone_endpoints_def policy_endpoints_def

lemma accepts_tenants:
  "server_accepts u (mu_fn useCreateTenant b) \<longleftrightarrow> canDelete u" "server_accepts u (mu_fn useDeleteTenant i) \<longleftrightarrow> canDelete u"
  "server_accepts u (mu_fn (useCreateGroup t) b) \<longleftrightarrow> canWrite u" "server_accepts u (mu_fn (useRenameGroup t) (i, b)) \<longleftrightarrow> canWrite u"
  "server_accepts u (mu_fn (useDeleteGroup t) i) \<longleftrightarrow> canDelete u"
  "server_accepts u (mu_fn (useRegisterClient t) (i, b)) \<longleftrightarrow> canWrite u" "server_accepts u (mu_fn (useDeleteClient t) i) \<longleftrightarrow> canWrite u"
  by (cases u; simp add: guard_simps mutation_defs require_role_single require_operator canWrite_def canDelete_def hasRole_def [of None])+

lemma accepts_users:
  "server_accepts u (mu_fn useCreateUser b) \<longleftrightarrow> users_canWrite u" "server_accepts u (mu_fn useUpdateUser (i, b)) \<longleftrightarrow> users_canWrite u"
  "server_accepts u (mu_fn useDeleteUser i) \<longleftrightarrow> users_canWrite u"
  by (cases u; simp add: guard_simps mutation_defs require_role_single users_canWrite_def hasRole_def [of None])+

lemma require_policy_test: "require_role policy_test_roles (au_role x) \<longleftrightarrow> hasRole (Some x) [Operator]"
  by (simp add: policy_test_roles_def require_role_Min hasRole_Max min_def less_eq_role_def)

lemma accepts_policy:
  "policy_write c \<Longrightarrow> server_accepts u c \<longleftrightarrow> hasRole u [Operator]" "policy_test_call c \<Longrightarrow> server_accepts u c \<longleftrightarrow> hasRole u [Operator]"
  by (cases u; auto simp: guard_simps policy_write_def policy_test_call_def mutation_defs useCompileBundle_def useTestPolicy_def require_operator
      require_policy_test is_policy_test_def starts_with_def ends_with_def hasRole_def [of None])+

lemma accepts_settings:
  "server_accepts u (mu_fn useChangePassword b) \<longleftrightarrow> u \<noteq> None" "siem_call c \<Longrightarrow> server_accepts u c \<longleftrightarrow> hasRole u [Admin]"
  by (cases u; auto simp: guard_simps siem_call_def mutation_defs useChangePassword_def useTestSiemSyslogSink_def require_role_single
      require_role_def [of "[]"] hasRole_def [of None])+

section \<open>Feeds and zones\<close>

definition feed_call :: "api_call \<Rightarrow> bool" where
  "feed_call c \<longleftrightarrow> c \<in> range (mu_fn useCreateFeed) \<or> c \<in> range (mu_fn useUpdateFeed) \<or> c \<in> range (mu_fn useDeleteFeed)
     \<or> c \<in> range (mu_fn useIngestFeedNow)"

lemma requests_mutate: "requests_of (mutate mu v) = [mu_fn mu v]"
  by (simp add: mutate_def)

lemma requests_each_mutate:
  "requests (map (\<lambda>x. mutate mu (f x)) xs) = map (\<lambda>x. mu_fn mu (f x)) xs" "requests (map (mutate mu) ys) = map (mu_fn mu) ys"
  "concat (map (requests_of \<circ> mutate mu) ys) = map (mu_fn mu) ys"
  by (induction xs, simp_all add: mutate_def) (induction ys, simp_all add: mutate_def)+

lemma feeds_step_calls: "list_all feed_call (writes (snd (feeds_step w e s)))"
proof (cases "feeds_answer e")
  case True
  then show ?thesis using feeds_answer_silent [of e w s] by (simp add: writes_def)
next
  case False
  then show ?thesis
    by (cases e)
      (auto simp: feed_call_def AddFeed_submit_def BulkAdd_submit_def EditFeed_submit_def toggleEnabled_def ingest_def feeds_confirmDelete_def
        bulkSetEnabled_def bulkSync_def bulkDelete_def writes_def requests_mutate requests_each_mutate list_all_iff Let_def split: option.split)
qed

lemma accepts_feeds: "feed_call c \<Longrightarrow> server_accepts u c \<longleftrightarrow> feeds_canWrite u"
  by (cases u; auto simp: guard_simps feed_call_def mutation_defs require_role_single feeds_canWrite_def hasRole_def [of None])

definition zone_call :: "api_call \<Rightarrow> bool" where
  "zone_call c \<longleftrightarrow> c \<in> range (mu_fn useCreateZone) \<or> c \<in> range (mu_fn useUpdateZone) \<or> c \<in> range (mu_fn useDeleteZone)
     \<or> (\<exists>z. c \<in> range (mu_fn (useCreateRecord z)) \<or> c \<in> range (mu_fn (useUpdateRecord z)) \<or> c \<in> range (mu_fn (useDeleteRecord z)))"

lemma zone_callI [simp]:
  "zone_call (mu_fn useCreateZone b)" "zone_call (mu_fn useUpdateZone v)" "zone_call (mu_fn useDeleteZone i)"
  "zone_call (mu_fn (useCreateRecord z) b)" "zone_call (mu_fn (useUpdateRecord z) v)" "zone_call (mu_fn (useDeleteRecord z) i)"
  unfolding zone_call_def by blast+

lemma accepts_zones: "zone_call c \<Longrightarrow> server_accepts u c \<longleftrightarrow> zones_canWrite u"
  by (cases u; auto simp: guard_simps zone_call_def mutation_defs require_role_single zones_canWrite_def hasRole_def [of None])

lemma zones_step_calls: "list_all zone_call (writes (snd (zones_step e s)))"
proof (cases "zones_answer e")
  case True
  then show ?thesis using zones_answer_silent [of e s] by (simp add: writes_def)
next
  case False
  then show ?thesis
    by (cases e) (auto simp: AddZone_submit_def EditZone_submit_def zones_confirmDelete_def writes_def requests_mutate Let_def
        split: option.split)
qed

lemma zone_step_calls: "list_all zone_call (writes (snd (zone_step e s)))"
proof (cases "zone_answer e")
  case True
  then show ?thesis using zone_answer_silent [of e s] by (simp add: writes_def)
next
  case False
  then show ?thesis
    by (cases e) (auto simp: record_add_def record_save_def record_confirmDelete_def handleExport_def settings_submit_def
        zone_confirmDelete_def writes_def requests_mutate Let_def split: option.split)
qed

interpretation fdg: guarded_page "FeedsPage w u" feeds_answer "feeds_step w" "\<lambda>_. True" feed_call for w u
  by unfold_locales (simp_all add: feeds_step_calls)

interpretation zng: guarded_page "ZonesPage w u" zones_answer zones_step "\<lambda>_. True" zone_call for w u
  by unfold_locales (simp_all add: zones_step_calls)

interpretation zdg: guarded_page "ZoneDetailPage w u" zone_answer zone_step "\<lambda>_. True" zone_call for w u
  by unfold_locales (simp_all add: zone_step_calls)

section \<open>Pages and guards\<close>

lemma feeds_accepted:
  assumes "page_run (FeedsPage w u) feeds_answer (feeds_step w) (feeds_initial ps) s cs"
  shows "list_all (server_accepts u) (writes cs)"
proof (cases "feeds_canWrite u")
  case True
  then show ?thesis using fdg.run_allowed [OF assms] by (auto simp: list_all_iff accepts_feeds)
next
  case False
  then show ?thesis using fro.run_silent [OF assms] by (simp add: feeds_idle_def feeds_initial_def)
qed

lemma zones_accepted:
  assumes "page_run (ZonesPage w u) zones_answer zones_step (zones_initial ps) s cs"
  shows "list_all (server_accepts u) (writes cs)"
proof (cases "zones_canWrite u")
  case True
  then show ?thesis using zng.run_allowed [OF assms] by (auto simp: list_all_iff accepts_zones)
next
  case False
  then show ?thesis using zro.run_silent [OF assms] by (simp add: zones_idle_def zones_initial_def)
qed

lemma zone_accepted:
  assumes "page_run (ZoneDetailPage w u) zone_answer zone_step (zone_initial i) s cs"
  shows "list_all (server_accepts u) (writes cs)"
proof (cases "zones_canWrite u")
  case True
  then show ?thesis using zdg.run_allowed [OF assms] by (auto simp: list_all_iff accepts_zones)
next
  case False
  then show ?thesis using zdro.run_silent [OF assms] by (simp add: zone_idle_def zone_initial_def)
qed

lemma groups_accepted:
  assumes "page_run (GroupsPage w u) groups_answer groups_step (groups_initial t) s cs"
  shows "list_all (server_accepts u) (writes cs)"
proof -
  have "list_all (groups_allowed t u) (writes cs)"
    by (rule grg.run_allowed [OF assms]) (simp add: groups_guarded_def groups_initial_def)
  then show ?thesis by (auto simp: list_all_iff groups_allowed_def accepts_tenants)
qed

lemma clients_accepted:
  assumes "page_run (ClientsPage w u) clients_answer clients_step (clients_initial t) s cs"
  shows "list_all (server_accepts u) (writes cs)"
proof -
  have "list_all (clients_allowed t u) (writes cs)"
    by (rule clg.run_allowed [OF assms]) (simp add: clients_guarded_def clients_initial_def)
  then show ?thesis by (auto simp: list_all_iff clients_allowed_def accepts_tenants)
qed

lemma settings_accepted:
  assumes "page_run (SettingsPage w b (Some x)) settings_page_answer settings_step (settings_initial ps) s cs"
  shows "list_all (server_accepts (Some x)) (writes cs)"
  using stg.run_allowed [OF assms] by (auto simp: list_all_iff settings_allowed_def accepts_settings)

lemma tenants_accepted:
  assumes "page_run (TenantsPage w u) tenants_answer tenants_step tenants_initial s cs"
  shows "list_all (\<lambda>c. server_accepts u c \<or> canWrite u \<and> \<not> canDelete u \<and> c \<in> range (mu_fn useCreateTenant)) (writes cs)"
proof -
  have "list_all (tenants_allowed u) (writes cs)"
    by (rule tng.run_allowed [OF assms]) (simp add: tenants_guarded_def tenants_initial_def)
  then show ?thesis by (auto simp: list_all_iff tenants_allowed_def accepts_tenants)
qed

lemma users_accepted:
  assumes "page_run (UsersPage w u) users_answer (users_step u) users_initial s cs"
  shows "list_all (\<lambda>c. server_accepts u c \<longleftrightarrow> users_canWrite u) (writes cs)"
proof -
  have "list_all (users_allowed u) (writes cs)"
    by (rule usg.run_allowed [OF assms]) (simp add: users_guarded_def users_initial_def)
  then show ?thesis by (auto simp: list_all_iff users_allowed_def accepts_users)
qed

lemma policy_accepted:
  assumes "page_run (PolicyPage w u) policy_page_answer (policy_page_step lc) (policy_page_initial lc t g) s cs"
  shows "list_all (\<lambda>c. server_accepts u c \<or> \<not> hasRole u [Operator] \<and> policy_test_call c) (writes cs)"
proof -
  have "list_all (policy_allowed u) (writes cs)"
    by (rule ppg.run_allowed [OF assms]) (simp add: policy_guarded_def policy_page_initial_def ob_idle_def)
  then show ?thesis by (auto simp: list_all_iff policy_allowed_def accepts_policy)
qed


definition wit_tenants :: tenants_page where
  "wit_tenants = \<lparr>tz_tenants = \<lparr>qr_data = Some [], qr_isLoading = False, qr_error = None\<rparr>,
     tz_create = \<lparr>dl_opened = True, dl_values = ''acme'', dl_call = ob_idle\<rparr>\<rparr>"


end
