(* ===== verification/Analytics.thy ===== *)
theory Analytics
  imports Dialog Widgets
begin

text \<open>
  \<open>pages/AnalyticsPage.tsx\<close>: the telemetry page. The three queries have one result per time window, as the query cache keeps them;
  the page shows those of the window selected. \<open>encodeURIComponent\<close> is the function the drill-down links use.
\<close>

section \<open>Percent encodings\<close>

text \<open>An encoder of texts that the query-string parser reads back: a character stays as it is unless it has a meaning in a query
  string, becomes \<open>+\<close> when it is a blank, or becomes its two hexadecimal digits.\<close>

definition percent :: "char \<Rightarrow> string" where
  "percent c = [CHR ''%'', hex_upper (code c div 16), hex_upper (code c mod 16)]"

definition plain_char :: "char \<Rightarrow> bool" where
  "plain_char c \<longleftrightarrow> c \<notin> {CHR ''%'', CHR ''+'', CHR ''='', CHR ''&''}"

locale url_encoding =
  fixes enc :: "char \<Rightarrow> string"
  assumes enc_cases: "enc c = [c] \<and> plain_char c \<or> c = CHR '' '' \<and> enc c = ''+'' \<or> enc c = percent c"
begin

lemma decode_enc: "form_decode (concat (map enc s)) = s"
proof (induction s)
  case (Cons c s)
  consider "enc c = [c]" "plain_char c" | "c = CHR '' ''" "enc c = ''+''" | "enc c = percent c" using enc_cases [of c] by blast
  then show ?case
    by cases (use Cons form_decode_percent [of c] in \<open>auto simp: plain_char_def percent_def form_decode_plain\<close>)
qed simp

lemma enc_no_sep: "CHR ''='' \<notin> set (concat (map enc s))" "CHR ''&'' \<notin> set (concat (map enc s))"
proof -
  have "CHR ''='' \<notin> set (enc c) \<and> CHR ''&'' \<notin> set (enc c)" for c
    using enc_cases [of c] hex_upper_neq [OF nibbles(1), of c] hex_upper_neq [OF nibbles(2), of c]
    by (auto simp: plain_char_def percent_def)
  then show "CHR ''='' \<notin> set (concat (map enc s))" "CHR ''&'' \<notin> set (concat (map enc s))" by auto
qed

end

interpretation fe: url_encoding encode_char
  by unfold_locales (use safe_neq in \<open>auto simp: encode_char_def plain_char_def percent_def dest: code_space\<close>)

definition uri_safe :: "char \<Rightarrow> bool" where
  "uri_safe c \<longleftrightarrow> is_alnum c \<or> code c \<in> {33, 39, 40, 41, 42, 45, 46, 95, 126}"

definition uri_char :: "char \<Rightarrow> string" where
  "uri_char c = (if uri_safe c then [c] else percent c)"

definition encodeURIComponent :: "string \<Rightarrow> string" where
  "encodeURIComponent s = concat (map uri_char s)"

lemma uri_safe_plain: "uri_safe c \<Longrightarrow> plain_char c"
  by (rule ccontr) (auto simp: uri_safe_def plain_char_def is_alnum_def is_digit_def is_upper_def is_lower_def code_of_literals)

interpretation ue: url_encoding uri_char
  by unfold_locales (use uri_safe_plain in \<open>auto simp: uri_char_def\<close>)

section \<open>The page\<close>

definition TIME_RANGES :: "(string \<times> nat) list" where
  "TIME_RANGES = [(''1h'', 1), (''6h'', 6), (''24h'', 24), (''7d'', 168), (''30d'', 720)]"

record analytics_page =
  an_hours :: nat
  an_summary :: "nat \<Rightarrow> dashboard_summary query_result"
  an_timeseries :: "nat \<Rightarrow> timeseries_point list query_result"
  an_byGroup :: "nat \<Rightarrow> group_breakdown list query_result"

datatype analytics_event =
    AnHours nat | AnRefresh | AnDomain string string
  | AnSummary nat "thrown + dashboard_summary" | AnSeries nat "thrown + timeseries_point list" | AnGroups nat "thrown + group_breakdown list"

fun analytics_answer :: "analytics_event \<Rightarrow> bool" where
  "analytics_answer (AnSummary _ _) = True"
| "analytics_answer (AnSeries _ _) = True"
| "analytics_answer (AnGroups _ _) = True"
| "analytics_answer _ = False"

definition analytics_initial :: analytics_page where
  "analytics_initial = \<lparr>an_hours = 24, an_summary = (\<lambda>_. qr_start True), an_timeseries = (\<lambda>_. qr_start True), an_byGroup = (\<lambda>_. qr_start True)\<rparr>"

text \<open>\<open>refetch()\<close> of the three queries of the window.\<close>

definition analytics_refresh :: "nat \<Rightarrow> cmd list" where
  "analytics_refresh hours = [Send (qh_call (useAnalyticsSummary hours)), Send (qh_call (useAnalyticsTimeseries hours)),
     Send (qh_call (useAnalyticsByGroup hours))]"

definition analytics_href :: "nat \<Rightarrow> string \<Rightarrow> string \<Rightarrow> string" where
  "analytics_href hours qname decision =
     ''/query-log?hours='' @ nat_str hours @ ''&qname='' @ encodeURIComponent qname @ ''&decision='' @ decision"

fun analytics_step :: "analytics_event \<Rightarrow> analytics_page \<Rightarrow> analytics_page \<times> cmd list" where
  "analytics_step (AnHours h) s = (s\<lparr>an_hours := h\<rparr>, [])"
| "analytics_step AnRefresh s = (s, analytics_refresh (an_hours s))"
| "analytics_step (AnDomain q d) s = (s, [Goto (analytics_href (an_hours s) q d)])"
| "analytics_step (AnSummary h r) s = (s\<lparr>an_summary := (an_summary s)(h := qr_answer r (an_summary s h))\<rparr>, [])"
| "analytics_step (AnSeries h r) s = (s\<lparr>an_timeseries := (an_timeseries s)(h := qr_answer r (an_timeseries s h))\<rparr>, [])"
| "analytics_step (AnGroups h r) s = (s\<lparr>an_byGroup := (an_byGroup s)(h := qr_answer r (an_byGroup s h))\<rparr>, [])"

section \<open>Derived values\<close>

definition qpm :: "timeseries_point list option \<Rightarrow> nat \<Rightarrow> dashboard_summary \<Rightarrow> string" where
  "qpm series hours d = (if nullish series [] \<noteq> [] \<and> hours > 0 then toFixed 2 (dbl_div (sm_total_queries d) (hours * 60)) else em_dash)"

definition chartData :: "ui_env \<Rightarrow> timeseries_point list option \<Rightarrow> string list list" where
  "chartData w series = map (\<lambda>p. [ue_time w (ts_bucket p), nat_str (ts_allowed p), nat_str (ts_blocked p)]) (nullish series [])"

definition hasChart :: "timeseries_point list option \<Rightarrow> bool" where
  "hasChart series = list_ex (\<lambda>p. ts_allowed p > 0 \<or> ts_blocked p > 0) (nullish series [])"

definition donutData :: "dashboard_summary \<Rightarrow> (string \<times> nat \<times> string) list" where
  "donutData d = filter (\<lambda>(_, v, _). v > 0) [(''Allowed'', sm_allowed_queries d, ''teal''), (''Blocked'', sm_blocked_queries d, ''red'')]"

definition topDomains :: "dashboard_summary \<Rightarrow> (string \<times> string \<times> nat) list" where
  "topDomains d = take 10 (js_sort (descending (\<lambda>(_, _, n). int n)) (sm_top_blocked_domains d))"

definition sortedGroups :: "group_breakdown list option \<Rightarrow> group_breakdown list" where
  "sortedGroups gs = js_sort (descending (\<lambda>g. int (gb_total g))) (nullish gs [])"

definition domain_share :: "nat \<Rightarrow> nat \<Rightarrow> dbl" where
  "domain_share totalBlocked n = (if totalBlocked > 0 then times100 (dbl_div n totalBlocked) else (0, 0))"

definition rate_color :: "dbl \<Rightarrow> string" where
  "rate_color pct = (if dbl_less (50, 0) pct then ''red'' else if dbl_less (20, 0) pct then ''orange'' else ''teal'')"

definition windowLabel :: "nat \<Rightarrow> string" where
  "windowLabel hours = (case find (\<lambda>(_, h). h = hours) TIME_RANGES of Some (l, _) \<Rightarrow> l | None \<Rightarrow> nat_str hours @ ''h'')"

section \<open>Views\<close>

definition analytics_kpis :: "ui_env \<Rightarrow> timeseries_point list option \<Rightarrow> nat \<Rightarrow> dashboard_summary \<Rightarrow> analytics_event view" where
  "analytics_kpis w series hours d = (let pct = times100 (sm_block_ratio d) in Box
    [KpiCard ''Total queries'' (ue_loc w (int (sm_total_queries d)))
       (plural (sm_tenant_count d) ''tenant'' @ '' '' @ mid_dot @ '' '' @ plural (sm_group_count d) ''group'') None,
     KpiCard ''Blocked'' (ue_loc w (int (sm_blocked_queries d))) (ue_loc w (int (sm_allowed_queries d)) @ '' allowed'') None,
     KpiCard ''Block rate'' (toFixed 1 pct @ ''%'')
       (if dbl_less (30, 0) pct then ''Elevated '' @ em_dash @ '' review policies'' else ''Within normal range'') (Some (pct, rate_color pct)),
     KpiCard ''Queries / min'' (qpm series hours d) (''over last '' @ windowLabel hours) None])"

definition analytics_charts :: "ui_env \<Rightarrow> timeseries_point list option \<Rightarrow> nat \<Rightarrow> dashboard_summary \<Rightarrow> analytics_event view" where
  "analytics_charts w series hours d = (let donut = donutData d in Box
    [Text (''Query volume '' @ em_dash @ '' '' @ windowLabel hours), Badge ''teal'' ''Allowed'', Badge ''red'' ''Blocked'',
     (if \<not> hasChart series then Text ''No query telemetry in this time window.'' else Chart (chartData w series)),
     Text ''Decision breakdown'',
     (if donut = [] then Text ''No data yet.'' else Chart (map (\<lambda>(n, v, _). [n, nat_str v]) donut)),
     Box (map (\<lambda>(n, v, c). Box [Badge c n, Text (ue_loc w (int v))]) donut)])"

definition domain_row :: "ui_env \<Rightarrow> nat \<Rightarrow> nat \<times> string \<times> string \<times> nat \<Rightarrow> analytics_event view" where
  "domain_row w totalBlocked r = (case r of (i, qname, decision, n) \<Rightarrow>
     Clickable (AnDomain qname decision)
      [Text (nat_str (i + 1)), Text qname, Badge ''red'' decision, Text (ue_loc w (int n)),
       Box [Progress (domain_share totalBlocked n) ''red'', Text (toFixed 1 (domain_share totalBlocked n) @ ''%'')]])"

definition group_perf_row :: "ui_env \<Rightarrow> group_breakdown \<Rightarrow> analytics_event view" where
  "group_perf_row w g = (let pct = times100 (gb_block_ratio g) in
     Row [Text (gb_tenant_name g), Text (gb_group_name g), Text (ue_loc w (int (gb_total g))), Text (ue_loc w (int (gb_blocked g))),
          Box [Progress pct (rate_color pct), Text (toFixed 0 pct @ ''%'')]])"

definition analytics_body :: "ui_env \<Rightarrow> analytics_page \<Rightarrow> dashboard_summary \<Rightarrow> analytics_event view" where
  "analytics_body w s d = (let hours = an_hours s; series = qr_data (an_timeseries s hours); top = topDomains d;
       groups = sortedGroups (qr_data (an_byGroup s hours)) in Box
    ([Text ''Analytics'', Text ''DNS query telemetry across all tenants and groups'']
     @ map (\<lambda>(l, h). Button l False (AnHours h)) TIME_RANGES
     @ [Tooltip ''Refresh now'' (Button ''Refresh'' False AnRefresh), Text ''Auto-refresh 15s'',
        analytics_kpis w series hours d, analytics_charts w series hours d, Text ''Top blocked domains'',
        (if top = [] then Text ''No blocked queries recorded yet.''
         else Table [''#'', ''Domain'', ''Decision'', ''Count'', ''Share of total blocks'']
           (map (domain_row w (sm_blocked_queries d)) (enumerate 0 top))),
        Text ''Performance by group'',
        (if groups = [] then Text ''No query telemetry recorded for any group yet.''
         else Table [''Tenant'', ''Group'', ''Total'', ''Blocked'', ''Block rate''] (map (group_perf_row w) groups))]))"

definition AnalyticsPage :: "ui_env \<Rightarrow> analytics_page \<Rightarrow> analytics_event view" where
  "AnalyticsPage w s = (let q = an_summary s (an_hours s) in
     if qr_isLoading q then Loader
     else case (qr_error q, qr_data q) of
       (Some e, _) \<Rightarrow> Text (formatError e)
     | (None, None) \<Rightarrow> Text ''No data available''
     | (None, Some d) \<Rightarrow> analytics_body w s d)"

interpretation anr: read_only_page "AnalyticsPage w" analytics_answer analytics_step "\<lambda>_. True" for w
proof unfold_locales
  fix s e
  show "writes (snd (analytics_step e s)) = []"
    by (cases e) (simp_all add: analytics_refresh_def useAnalyticsSummary_def useAnalyticsTimeseries_def useAnalyticsByGroup_def useQuery_def)
  then show "writes (snd (analytics_step e s)) = []" .
qed simp_all

section \<open>Drilling down\<close>

lemma encodeURIComponent_back [simp]: "form_decode (encodeURIComponent s) = s"
  by (simp add: encodeURIComponent_def ue.decode_enc)

lemma encode_plain: "list_all uri_safe s \<Longrightarrow> encodeURIComponent s = s"
  by (induction s) (simp_all add: encodeURIComponent_def uri_char_def)

lemma split_pair_uri:
  assumes "list_all uri_safe k"
  shows "split_pair (k @ CHR ''='' # encodeURIComponent v) = (k, v)"
proof -
  have ne: "c \<in> set k \<Longrightarrow> c \<noteq> CHR ''=''" for c
    using assms uri_safe_plain by (auto simp: list_all_iff plain_char_def)
  then have "takeWhile (\<lambda>c. c \<noteq> CHR ''='') (k @ CHR ''='' # encodeURIComponent v) = k"
    "dropWhile (\<lambda>c. c \<noteq> CHR ''='') (k @ CHR ''='' # encodeURIComponent v) = CHR ''='' # encodeURIComponent v"
    by (simp_all add: takeWhile_append2 dropWhile_append2)
  moreover have "form_decode k = k" using encodeURIComponent_back [of k] encode_plain [OF assms] by simp
  ultimately show ?thesis by (simp add: split_pair_def)
qed

lemma uri_safe_digits: "list_all uri_safe (nat_str n)"
  using nat_str_digits [of n] by (auto simp: list_all_iff uri_safe_def is_alnum_def)

lemma analytics_pairs:
  assumes "list_all uri_safe decision"
  shows "sp_parse (drop 11 (analytics_href h q decision)) = [(''hours'', nat_str h), (''qname'', q), (''decision'', decision)]"
proof -
  let ?p = "\<lambda>k v. k @ CHR ''='' # encodeURIComponent v"
  have amp: "CHR ''&'' \<notin> set (encodeURIComponent x)" for x
    using ue.enc_no_sep(2) [of x] by (simp add: encodeURIComponent_def)
  define ts where "ts = [?p ''hours'' (nat_str h), ?p ''qname'' q, ?p ''decision'' decision]"
  have "drop 11 (analytics_href h q decision) = js_join [CHR ''&''] ts"
    using encode_plain [OF uri_safe_digits, of h] encode_plain [OF assms] by (simp add: analytics_href_def ts_def)
  moreover have "js_split CHR ''&'' (js_join [CHR ''&''] ts) = ts"
    by (rule js_split_join) (use amp in \<open>auto simp: ts_def\<close>)
  moreover have "filter (\<lambda>t. t \<noteq> []) ts = ts" by (simp add: ts_def)
  moreover have "list_all uri_safe ''hours''" "list_all uri_safe ''qname''" "list_all uri_safe ''decision''" by code_simp+
  then have "map split_pair ts = [(''hours'', nat_str h), (''qname'', q), (''decision'', decision)]"
    using split_pair_uri [of "''hours''" "nat_str h"] split_pair_uri [of "''qname''" q] split_pair_uri [of "''decision''" decision]
    by (simp add: ts_def)
  ultimately show ?thesis by (simp only: sp_parse_def)
qed

lemma offers_AnDomain:
  assumes "offers (AnDomain q dec) (AnalyticsPage w s)"
  shows "\<exists>d n. qr_data (an_summary s (an_hours s)) = Some d \<and> (q, dec, n) \<in> set (topDomains d)"
proof -
  obtain d where d: "qr_data (an_summary s (an_hours s)) = Some d" "offers (AnDomain q dec) (analytics_body w s d)"
    using assms by (auto simp: AnalyticsPage_def Let_def split: if_splits option.splits)
  then obtain i q' dec' n where "(i, q', dec', n) \<in> set (enumerate 0 (topDomains d))"
      "offers (AnDomain q dec) (domain_row w (sm_blocked_queries d) (i, q', dec', n))"
    by (auto simp: analytics_body_def analytics_kpis_def analytics_charts_def group_perf_row_def Let_def split: if_splits prod.splits)
  then have "topDomains d ! i = (q, dec, n)" "i < length (topDomains d)" by (auto simp: domain_row_def in_set_enumerate_eq)
  then show ?thesis using d(1) nth_mem by metis
qed

text \<open>Fewer than ten entries are more frequent than one that is shown.\<close>

lemma take_sorted_frequent:
  assumes "(x :: 'a) \<in> set (take k (js_sort (descending f) xs))"
  shows "x \<in> set xs \<and> length (filter (\<lambda>y. f x < f y) xs) < k"
proof -
  let ?ys = "js_sort (descending f) xs"
  note srt = comparator.sorted_sort [OF comparator_descending, of f xs] and ms = comparator.mset_sort [OF comparator_descending, of f xs]
  obtain i where i: "i < k" "i < length ?ys" "?ys ! i = x" using assms by (auto simp: in_set_conv_nth)
  have "\<not> f x < f y" if "y \<in> set (drop i ?ys)" for y
  proof -
    obtain j where "j < length ?ys - i \<and> y = ?ys ! (i + j)" using \<open>y \<in> set (drop i ?ys)\<close> by (auto simp: in_set_conv_nth)
    then have "i + j < length ?ys" "y = ?ys ! (i + j)" using less_diff_conv2 [of i "length ?ys" j] i by (auto simp: less_diff_conv)
    moreover have "0 < j \<Longrightarrow> i + j < length ?ys \<Longrightarrow> f (?ys ! (i + j)) \<le> f (?ys ! i)"
      using sorted_wrt_nth_less [OF srt, of i "i + j"] by (simp add: descending_def)
    ultimately show ?thesis using i by (cases "j = 0") auto
  qed
  then have "filter (\<lambda>y. f x < f y) (drop i ?ys) = []" by (simp add: filter_empty_conv)
  then have "length (filter (\<lambda>y. f x < f y) ?ys) = length (filter (\<lambda>y. f x < f y) (take i ?ys))"
    by (metis append_Nil2 append_take_drop_id filter_append)
  also have "\<dots> \<le> i" using length_filter_le [of "\<lambda>y. f x < f y" "take i ?ys"] by simp
  finally have "length (filter (\<lambda>y. f x < f y) ?ys) < k" using i by simp
  moreover have "length (filter (\<lambda>y. f x < f y) ?ys) = length (filter (\<lambda>y. f x < f y) xs)"
    using ms by (metis mset_filter size_mset)
  moreover have "x \<in> set xs" using ms i by (metis mset_eq_setD nth_mem)
  ultimately show ?thesis by simp
qed

text \<open>C13. Every row of the top-domains table is a blocked domain of the summary with fewer than ten more frequent ones, and a click on it opens
  the query log on exactly that domain and decision over the time window of the page, from the first page of results, whatever
  characters the domain has, as long as the decision is a plain word (it alone is put into the address as it is).\<close>

theorem analytics_drill_down:
  assumes "offers (AnDomain q dec) (AnalyticsPage w s)" and "list_all uri_safe dec"
  shows "(\<exists>d n. qr_data (an_summary s (an_hours s)) = Some d \<and> (q, dec, n) \<in> set (sm_top_blocked_domains d)
        \<and> length (filter (\<lambda>(_, _, m). n < m) (sm_top_blocked_domains d)) < 10)
    \<and> (\<exists>h. snd (analytics_step (AnDomain q dec) s) = [Goto h] \<and> take 11 h = ''/query-log?''
        \<and> qlog_query (qlog_mount (sp_parse (drop 11 h))) =
          \<lparr>qp_offset = Some 0, qp_decision = or_null dec, qp_group_id = None, qp_qname = or_null q, qp_client_ip = None, qp_qtype = None,
           qp_matched_category = None, qp_hours = Some (an_hours s)\<rparr>)"
proof -
  obtain d n where d: "qr_data (an_summary s (an_hours s)) = Some d" "(q, dec, n) \<in> set (topDomains d)"
    using offers_AnDomain [OF assms(1)] by blast
  have "(q, dec, n) \<in> set (sm_top_blocked_domains d) \<and> length (filter (\<lambda>(_, _, m). n < m) (sm_top_blocked_domains d)) < 10"
    using take_sorted_frequent [of "(q, dec, n)" 10 "\<lambda>(_, _, m). int m" "sm_top_blocked_domains d"] d(2)
    by (simp add: topDomains_def split_def)
  moreover let ?h = "analytics_href (an_hours s) q dec"
  let ?ps = "[(''hours'', nat_str (an_hours s)), (''qname'', q), (''decision'', dec)]"
  have get: "qlog_filter ?ps k = nullish (sp_get k ?ps) v" if "map_of QLOG_FILTERS k = Some v" for k v
    using that by (auto simp: qlog_filter_def map_of_filter_values nullish_def split: option.split)
  have "qlog_query (qlog_mount (sp_parse (drop 11 ?h))) =
      \<lparr>qp_offset = Some 0, qp_decision = or_null dec, qp_group_id = None, qp_qname = or_null q, qp_client_ip = None, qp_qtype = None,
       qp_matched_category = None, qp_hours = Some (an_hours s)\<rparr>"
    unfolding analytics_pairs [OF assms(2)]
    by (simp add: qlog_query_def qlog_offset_def qlog_hours_def Let_def mount_debounced qlog_defaults [THEN filter_mount] qlog_defaults [THEN get]
        sp_get_def nullish_def or_null_def)
  ultimately show ?thesis using d(1) by (auto simp: analytics_href_def)
qed

definition wit_analytics :: analytics_page where
  "wit_analytics = fst (analytics_step (AnSummary 24 (Inr wit_summary)) analytics_initial)"

theorem analytics_drill_down_witness:
  "offers (AnDomain ''ads.example'' ''block'') (AnalyticsPage wit_env wit_analytics)
   \<and> qlog_query (qlog_mount (sp_parse ''hours=24&qname=ads.example&decision=block'')) =
     \<lparr>qp_offset = Some 0, qp_decision = Some ''block'', qp_group_id = None, qp_qname = Some ''ads.example'', qp_client_ip = None, qp_qtype = None,
      qp_matched_category = None, qp_hours = Some 24\<rparr>"
proof -
  have off: "offers (AnDomain ''ads.example'' ''block'') (AnalyticsPage wit_env wit_analytics)"
    by (simp add: wit_analytics_def analytics_initial_def AnalyticsPage_def analytics_body_def qr_answer_def wit_summary_def topDomains_def js_sort_def
        domain_row_def Let_def)
  have safe: "list_all uri_safe ''block''" by code_simp
  have href: "analytics_href 24 ''ads.example'' ''block'' = ''/query-log?hours=24&qname=ads.example&decision=block''" by code_simp
  have "an_hours wit_analytics = 24" by (simp add: wit_analytics_def analytics_initial_def)
  then show ?thesis using analytics_drill_down [OF off safe] off href by (simp add: or_null_def)
qed

end
