(* ===== verification/SchemaTypes.thy ===== *)
theory SchemaTypes
  imports Json
begin

text \<open>
  The data types of \<open>api/schema.ts\<close>, one definition per entry of \<open>components.schemas\<close>, under its name. A member of an object type is
  required, optional (\<open>?\<close>), or required by the generated type but marked \<open>@default\<close>, in which case a request may leave it
  out. A body has an object type when every member it has is declared with the type of its value and no required one is
  missing: a member that is not declared is dropped by the service without a word.
\<close>

section \<open>Types\<close>

datatype presence = Required | Defaulted | Optional

datatype jtype =
    TString
  | TNumber
  | TBoolean
  | TLiteral "string list"
  | TNullable jtype
  | TArray jtype
  | TUnion jtype jtype
  | TUnknown
  | TObject "(string \<times> presence \<times> jtype) list"

text \<open>A declared member: its check is applied when the object has it.\<close>

definition member_ok :: "(string \<times> json) list \<Rightarrow> string \<times> presence \<times> (json \<Rightarrow> bool) \<Rightarrow> bool" where
  "member_ok kvs m = (case m of (k, p, chk) \<Rightarrow> (case map_of kvs k of None \<Rightarrow> p \<noteq> Required | Some j \<Rightarrow> chk j))"

definition object_ok :: "(string \<times> presence \<times> (json \<Rightarrow> bool)) list \<Rightarrow> json \<Rightarrow> bool" where
  "object_ok ms j = (case j of
     JObj kvs \<Rightarrow> list_all (member_ok kvs) ms \<and> list_all (\<lambda>k. k \<in> set (map fst ms)) (map fst kvs)
   | _ \<Rightarrow> False)"

primrec has_type :: "jtype \<Rightarrow> json \<Rightarrow> bool" where
  "has_type TString = (\<lambda>j. case j of JStr _ \<Rightarrow> True | _ \<Rightarrow> False)"
| "has_type TNumber = (\<lambda>j. case j of JNum _ \<Rightarrow> True | _ \<Rightarrow> False)"
| "has_type TBoolean = (\<lambda>j. case j of JBool _ \<Rightarrow> True | _ \<Rightarrow> False)"
| "has_type (TLiteral ls) = (\<lambda>j. case j of JStr s \<Rightarrow> s \<in> set ls | _ \<Rightarrow> False)"
| "has_type (TNullable t) = (\<lambda>j. j = JNull \<or> has_type t j)"
| "has_type (TArray t) = (\<lambda>j. case j of JArr js \<Rightarrow> list_all (has_type t) js | _ \<Rightarrow> False)"
| "has_type (TUnion t u) = (\<lambda>j. has_type t j \<or> has_type u j)"
| "has_type TUnknown = (\<lambda>_. True)"
| "has_type (TObject ms) = object_ok (map (map_prod id (map_prod id has_type)) ms)"

section \<open>Components (schema.ts)\<close>

definition TopDomain :: jtype where
  "TopDomain = TObject
    [(''qname'', Required, TString), (''decision'', Required, TString), (''count'', Required, TNumber)]"

definition AnalyticsSummary :: jtype where
  "AnalyticsSummary = TObject
    [(''total_queries'', Required, TNumber), (''blocked_queries'', Required, TNumber), (''allowed_queries'', Required, TNumber),
     (''block_ratio'', Required, TNumber), (''cache_hit_ratio'', Defaulted, TNumber), (''unique_clients'', Defaulted, TNumber),
     (''tenant_count'', Required, TNumber), (''group_count'', Required, TNumber), (''feed_count'', Required, TNumber),
     (''top_blocked_domains'', Required, TArray TopDomain)]"

definition AuditLogEntry :: jtype where
  "AuditLogEntry = TObject
    [(''id'', Required, TString), (''occurred_at'', Required, TString), (''actor'', Required, TString), (''action'', Required, TString),
     (''resource_type'', Required, TString), (''resource_id'', Required, TString), (''detail'', Required, TString),
     (''tenant_id'', Optional, TNullable TString)]"

definition BlockPageTemplateOut :: jtype where
  "BlockPageTemplateOut = TObject
    [(''id'', Required, TString), (''tenant_id'', Required, TString), (''group_id'', Required, TNullable TString),
     (''block_mode'', Required, TString), (''redirect_ipv4'', Required, TNullable TString),
     (''redirect_ipv6'', Required, TNullable TString), (''ttl_seconds'', Required, TNumber), (''title'', Required, TNullable TString),
     (''message'', Required, TNullable TString), (''logo_url'', Required, TNullable TString),
     (''brand_color'', Required, TNullable TString), (''contact_url'', Required, TNullable TString), (''show_domain'', Required, TBoolean),
     (''show_category'', Required, TBoolean)]"

definition BlockPageTemplateUpsert :: jtype where
  "BlockPageTemplateUpsert = TObject
    [(''block_mode'', Defaulted, TLiteral [''BLOCK_MODE_NXDOMAIN'', ''BLOCK_MODE_ZERO_IP'', ''BLOCK_MODE_REDIRECT'']),
     (''redirect_ipv4'', Optional, TNullable TString), (''redirect_ipv6'', Optional, TNullable TString),
     (''ttl_seconds'', Defaulted, TNumber), (''title'', Optional, TNullable TString), (''message'', Optional, TNullable TString),
     (''logo_url'', Optional, TNullable TString), (''brand_color'', Optional, TNullable TString),
     (''contact_url'', Optional, TNullable TString), (''show_domain'', Defaulted, TBoolean), (''show_category'', Defaulted, TBoolean)]"

definition CategoryBreakdown :: jtype where
  "CategoryBreakdown = TObject
    [(''category'', Required, TString), (''count'', Required, TNumber), (''pct'', Required, TNumber)]"

definition CategoryOut :: jtype where
  "CategoryOut = TObject
    [(''id'', Required, TString), (''label'', Required, TString), (''description'', Required, TString), (''group'', Required, TString),
     (''color'', Required, TString), (''icon'', Required, TString), (''default_action'', Required, TString),
     (''has_bundled_feed'', Required, TBoolean)]"

definition CategoryToggleIn :: jtype where
  "CategoryToggleIn = TObject
    [(''category_id'', Required, TString), (''action'', Defaulted, TLiteral [''ACTION_BLOCK'', ''ACTION_LOG_ONLY'', ''ACTION_ALLOW''])]"

definition CategoryToggleOut :: jtype where
  "CategoryToggleOut = TObject
    [(''category_id'', Required, TString), (''action'', Required, TString)]"

definition ChangePasswordRequest :: jtype where
  "ChangePasswordRequest = TObject
    [(''current_password'', Required, TString), (''new_password'', Required, TString)]"

definition ClientOut :: jtype where
  "ClientOut = TObject
    [(''id'', Required, TString), (''tenant_id'', Required, TString), (''group_id'', Required, TNullable TString),
     (''ip'', Required, TString), (''hostname'', Required, TNullable TString), (''owner'', Required, TNullable TString),
     (''device_type'', Required, TNullable TString), (''tags'', Required, TArray TString), (''last_seen'', Required, TString),
     (''registered_at'', Required, TNullable TString), (''registered_by'', Required, TNullable TString)]"

definition ClientUpsert :: jtype where
  "ClientUpsert = TObject
    [(''hostname'', Optional, TNullable TString), (''owner'', Optional, TNullable TString), (''device_type'', Optional, TNullable TString),
     (''tags'', Optional, TArray TString)]"

definition DaemonHeartbeatOut :: jtype where
  "DaemonHeartbeatOut = TObject
    [(''instance_id'', Required, TString), (''family'', Required, TString), (''hostname'', Required, TNullable TString),
     (''started_at'', Required, TString), (''last_seen_at'', Required, TString), (''stale'', Required, TBoolean)]"

definition DhcpEvent :: jtype where
  "DhcpEvent = TObject
    [(''event'', Required, TString), (''ip'', Required, TString), (''hostname'', Required, TString), (''family'', Defaulted, TString),
     (''mac'', Defaulted, TString), (''duid'', Defaulted, TString), (''scope_id'', Defaulted, TString)]"

definition FeedCreate :: jtype where
  "FeedCreate = TObject
    [(''id'', Required, TString), (''category_id'', Required, TString), (''url'', Required, TString), (''format'', Required, TString),
     (''interval_seconds'', Defaulted, TNumber), (''license'', Defaulted, TString), (''provider'', Defaulted, TString),
     (''enabled'', Defaulted, TBoolean)]"

definition FeedOut :: jtype where
  "FeedOut = TObject
    [(''id'', Required, TString), (''category_id'', Required, TString), (''url'', Required, TString), (''format'', Required, TString),
     (''interval_seconds'', Required, TNumber), (''license'', Required, TString), (''provider'', Required, TString),
     (''from_catalog'', Required, TBoolean), (''enabled'', Required, TBoolean), (''last_domain_count'', Required, TNullable TNumber),
     (''last_version'', Required, TNullable TString), (''last_fetched_at'', Required, TNullable TString)]"

definition FeedUpdate :: jtype where
  "FeedUpdate = TObject
    [(''category_id'', Optional, TNullable TString), (''url'', Optional, TNullable TString), (''format'', Optional, TNullable TString),
     (''interval_seconds'', Optional, TNullable TNumber), (''license'', Optional, TNullable TString),
     (''provider'', Optional, TNullable TString), (''enabled'', Optional, TNullable TBoolean)]"

definition GroupBreakdown :: jtype where
  "GroupBreakdown = TObject
    [(''group_id'', Required, TString), (''group_name'', Required, TString), (''tenant_name'', Required, TString),
     (''total'', Required, TNumber), (''blocked'', Required, TNumber), (''block_ratio'', Required, TNumber)]"

definition GroupCreate :: jtype where
  "GroupCreate = TObject
    [(''name'', Required, TString), (''vpn_subnet'', Optional, TNullable TString)]"

definition GroupOut :: jtype where
  "GroupOut = TObject
    [(''id'', Required, TString), (''tenant_id'', Required, TString), (''name'', Required, TString),
     (''vpn_subnet'', Required, TNullable TString), (''created_at'', Required, TString)]"

definition GroupSubnetUpdate :: jtype where
  "GroupSubnetUpdate = TObject
    [(''vpn_subnet'', Required, TString)]"

definition GroupUpdate :: jtype where
  "GroupUpdate = TObject
    [(''name'', Required, TString)]"

definition ValidationError :: jtype where
  "ValidationError = TObject
    [(''loc'', Required, TArray (TUnion TString TNumber)), (''msg'', Required, TString), (''type'', Required, TString),
     (''input'', Optional, TUnknown), (''ctx'', Optional, TObject [])]"

definition HTTPValidationError :: jtype where
  "HTTPValidationError = TObject
    [(''detail'', Optional, TArray ValidationError)]"

definition IngestOut :: jtype where
  "IngestOut = TObject
    [(''status'', Required, TString), (''domain_count'', Required, TNumber), (''reason'', Required, TString)]"

definition LatencyStats :: jtype where
  "LatencyStats = TObject
    [(''p50_us'', Required, TNullable TNumber), (''p95_us'', Required, TNullable TNumber), (''p99_us'', Required, TNullable TNumber),
     (''sample_count'', Required, TNumber)]"

definition Lease6Out :: jtype where
  "Lease6Out = TObject
    [(''ip_address'', Required, TString), (''duid'', Required, TString), (''hostname'', Required, TNullable TString),
     (''scope_id'', Required, TString), (''expires_at'', Required, TString), (''state'', Required, TNumber),
     (''lease_type'', Required, TNumber)]"

definition LeaseOut :: jtype where
  "LeaseOut = TObject
    [(''ip_address'', Required, TString), (''mac_address'', Required, TString), (''hostname'', Required, TNullable TString),
     (''scope_id'', Required, TString), (''expires_at'', Required, TString), (''state'', Required, TNumber)]"

definition LocalZoneRecord :: jtype where
  "LocalZoneRecord = TObject
    [(''name'', Required, TString), (''zone'', Required, TString), (''record_type'', Required, TString), (''ttl'', Required, TNumber),
     (''data'', Required, TString), (''priority'', Optional, TNullable TNumber)]"

definition LoginRequest :: jtype where
  "LoginRequest = TObject
    [(''email'', Required, TString), (''password'', Required, TString)]"

definition UserOut :: jtype where
  "UserOut = TObject
    [(''id'', Required, TString), (''email'', Required, TString), (''role'', Required, TString),
     (''tenant_id'', Optional, TNullable TString)]"

definition LoginResponse :: jtype where
  "LoginResponse = TObject
    [(''user'', Required, UserOut), (''csrf_token'', Required, TString)]"

definition MixSlice :: jtype where
  "MixSlice = TObject
    [(''label'', Required, TString), (''count'', Required, TNumber), (''pct'', Required, TNumber)]"

definition NodeCredentialCreate :: jtype where
  "NodeCredentialCreate = TObject
    [(''node_name'', Required, TString), (''allow_all'', Defaulted, TBoolean), (''allowed_tenant_ids'', Optional, TArray TString),
     (''allowed_group_ids'', Optional, TArray TString)]"

definition NodeCredentialIssued :: jtype where
  "NodeCredentialIssued = TObject
    [(''node_name'', Required, TString), (''created_at'', Required, TString), (''created_by'', Required, TString),
     (''revoked_at'', Required, TNullable TString), (''last_seen_at'', Required, TString), (''allow_all'', Required, TBoolean),
     (''allowed_tenant_ids'', Required, TArray TString), (''allowed_group_ids'', Required, TArray TString), (''token'', Required, TString)]"

definition NodeCredentialOut :: jtype where
  "NodeCredentialOut = TObject
    [(''node_name'', Required, TString), (''created_at'', Required, TString), (''created_by'', Required, TString),
     (''revoked_at'', Required, TNullable TString), (''last_seen_at'', Required, TString), (''allow_all'', Required, TBoolean),
     (''allowed_tenant_ids'', Required, TArray TString), (''allowed_group_ids'', Required, TArray TString)]"

definition OptionCreate :: jtype where
  "OptionCreate = TObject
    [(''option_code'', Required, TNumber), (''option_space'', Defaulted, TString), (''value'', Required, TString),
     (''always_send'', Defaulted, TBoolean)]"

definition OptionOut :: jtype where
  "OptionOut = TObject
    [(''id'', Required, TString), (''scope_id'', Required, TNullable TString), (''static_lease_id'', Required, TNullable TString),
     (''option_code'', Required, TNumber), (''option_space'', Required, TString), (''value'', Required, TString),
     (''always_send'', Required, TBoolean)]"

definition OverrideIn :: jtype where
  "OverrideIn = TObject
    [(''domain'', Required, TString), (''kind'', Required, TLiteral [''allow'', ''deny''])]"

definition OverrideOut :: jtype where
  "OverrideOut = TObject
    [(''domain'', Required, TString), (''kind'', Required, TString)]"

definition PolicyOut :: jtype where
  "PolicyOut = TObject
    [(''id'', Required, TString), (''group_id'', Required, TString), (''on_load_failure'', Required, TString),
     (''category_toggles'', Required, TArray CategoryToggleOut), (''overrides'', Required, TArray OverrideOut)]"

definition PolicyTestRequest :: jtype where
  "PolicyTestRequest = TObject
    [(''domain'', Required, TString)]"

definition PolicyTestResult :: jtype where
  "PolicyTestResult = TObject
    [(''domain'', Required, TString), (''decision'', Required, TString), (''matched'', Required, TString),
     (''matched_category'', Optional, TNullable TString), (''matched_feed_id'', Optional, TNullable TString)]"

definition PolicyUpsert :: jtype where
  "PolicyUpsert = TObject
    [(''on_load_failure'', Defaulted, TLiteral [''FAIL_OPEN'', ''FAIL_CLOSED'']),
     (''category_toggles'', Defaulted, TArray CategoryToggleIn), (''overrides'', Defaulted, TArray OverrideIn)]"

definition PoolMemberIn :: jtype where
  "PoolMemberIn = TObject
    [(''resolver_id'', Required, TString), (''weight'', Defaulted, TNumber), (''priority'', Defaulted, TNumber)]"

definition PoolCreate :: jtype where
  "PoolCreate = TObject
    [(''name'', Required, TString),
     (''strategy'', Defaulted, TLiteral [''round_robin'', ''weighted_round_robin'', ''failover'', ''latency'']),
     (''health_check_interval_s'', Defaulted, TNumber), (''health_check_timeout_ms'', Defaulted, TNumber),
     (''health_check_query'', Defaulted, TString), (''health_check_type'', Defaulted, TLiteral [''soa'', ''a'', ''txt'']),
     (''unhealthy_threshold'', Defaulted, TNumber), (''healthy_threshold'', Defaulted, TNumber),
     (''min_healthy_members'', Defaulted, TNumber), (''fallback_pool_id'', Optional, TNullable TString),
     (''members'', Defaulted, TArray PoolMemberIn)]"

definition PoolMemberOut :: jtype where
  "PoolMemberOut = TObject
    [(''id'', Required, TString), (''pool_id'', Required, TString), (''resolver_id'', Required, TString), (''weight'', Required, TNumber),
     (''priority'', Required, TNumber)]"

definition PoolOut :: jtype where
  "PoolOut = TObject
    [(''id'', Required, TString), (''name'', Required, TString), (''strategy'', Required, TString),
     (''health_check_interval_s'', Required, TNumber), (''health_check_timeout_ms'', Required, TNumber),
     (''health_check_query'', Required, TString), (''health_check_type'', Required, TString), (''unhealthy_threshold'', Required, TNumber),
     (''healthy_threshold'', Required, TNumber), (''min_healthy_members'', Required, TNumber),
     (''fallback_pool_id'', Required, TNullable TString), (''members'', Required, TArray PoolMemberOut),
     (''created_at'', Required, TString), (''updated_at'', Required, TString)]"

definition PoolUpdate :: jtype where
  "PoolUpdate = TObject
    [(''name'', Optional, TNullable TString),
     (''strategy'', Optional, TNullable (TLiteral [''round_robin'', ''weighted_round_robin'', ''failover'', ''latency''])),
     (''health_check_interval_s'', Optional, TNullable TNumber), (''health_check_timeout_ms'', Optional, TNullable TNumber),
     (''health_check_query'', Optional, TNullable TString),
     (''health_check_type'', Optional, TNullable (TLiteral [''soa'', ''a'', ''txt''])),
     (''unhealthy_threshold'', Optional, TNullable TNumber), (''healthy_threshold'', Optional, TNullable TNumber),
     (''min_healthy_members'', Optional, TNullable TNumber), (''fallback_pool_id'', Optional, TNullable TString)]"

definition ProbeResult :: jtype where
  "ProbeResult = TObject
    [(''ok'', Required, TBoolean), (''latency_ms'', Required, TNullable TNumber), (''response_code'', Required, TNullable TString),
     (''dnssec_ad'', Required, TBoolean), (''tls_subject'', Required, TNullable TString), (''error'', Required, TNullable TString)]"

definition QueryEventIn :: jtype where
  "QueryEventIn = TObject
    [(''group_id'', Required, TString), (''qname'', Required, TString), (''decision'', Required, TString),
     (''client_ip'', Optional, TNullable TString), (''qtype'', Optional, TNullable TString),
     (''matched_rule'', Optional, TNullable TString), (''matched_category'', Optional, TNullable TString),
     (''matched_feed_id'', Optional, TNullable TString), (''response_code'', Optional, TNullable TString),
     (''cache_hit'', Optional, TNullable TBoolean), (''latency_us'', Optional, TNullable TNumber),
     (''occurred_at_ms'', Optional, TNullable TNumber)]"

definition QueryEventBatch :: jtype where
  "QueryEventBatch = TObject
    [(''events'', Optional, TArray QueryEventIn)]"

definition QueryLogEntry :: jtype where
  "QueryLogEntry = TObject
    [(''id'', Required, TString), (''occurred_at'', Required, TString), (''group_id'', Required, TString),
     (''group_name'', Optional, TNullable TString), (''tenant_id'', Optional, TNullable TString),
     (''client_ip'', Optional, TNullable TString), (''client_name'', Optional, TNullable TString), (''qname'', Required, TString),
     (''qtype'', Optional, TNullable TString), (''decision'', Required, TString), (''matched_rule'', Optional, TNullable TString),
     (''matched_category'', Optional, TNullable TString), (''matched_feed_id'', Optional, TNullable TString),
     (''response_code'', Optional, TNullable TString), (''cache_hit'', Optional, TNullable TBoolean),
     (''latency_us'', Optional, TNullable TNumber)]"

definition QueryMix :: jtype where
  "QueryMix = TObject
    [(''qtype'', Required, TArray MixSlice), (''response_code'', Required, TArray MixSlice), (''matched_rule'', Required, TArray MixSlice)]"

definition RecentEvent :: jtype where
  "RecentEvent = TObject
    [(''id'', Required, TString), (''occurred_at'', Required, TString), (''client_ip'', Required, TNullable TString),
     (''client_name'', Required, TNullable TString), (''qname'', Required, TString), (''decision'', Required, TString),
     (''matched_category'', Required, TNullable TString), (''matched_feed_id'', Required, TNullable TString),
     (''group_name'', Required, TNullable TString), (''latency_us'', Required, TNullable TNumber)]"

definition RecordIn :: jtype where
  "RecordIn = TObject
    [(''name'', Required, TString), (''record_type'', Required, TString), (''data'', Required, TString),
     (''ttl'', Optional, TNullable TNumber), (''priority'', Optional, TNullable TNumber), (''enabled'', Defaulted, TBoolean)]"

definition RecordOut :: jtype where
  "RecordOut = TObject
    [(''id'', Required, TString), (''zone_id'', Required, TString), (''name'', Required, TString), (''record_type'', Required, TString),
     (''data'', Required, TString), (''ttl'', Required, TNullable TNumber), (''priority'', Required, TNullable TNumber),
     (''enabled'', Required, TBoolean), (''created_at'', Required, TString), (''updated_at'', Required, TString)]"

definition RecordUpdate :: jtype where
  "RecordUpdate = TObject
    [(''name'', Optional, TNullable TString), (''record_type'', Optional, TNullable TString), (''data'', Optional, TNullable TString),
     (''ttl'', Optional, TNullable TNumber), (''priority'', Optional, TNullable TNumber), (''enabled'', Optional, TNullable TBoolean)]"

definition RelayCreate :: jtype where
  "RelayCreate = TObject
    [(''relay_ip'', Required, TString), (''description'', Optional, TNullable TString), (''circuit_id_hex'', Optional, TNullable TString),
     (''remote_id_hex'', Optional, TNullable TString)]"

definition RelayOut :: jtype where
  "RelayOut = TObject
    [(''id'', Required, TString), (''scope_id'', Required, TString), (''relay_ip'', Required, TString),
     (''description'', Required, TNullable TString), (''circuit_id_hex'', Required, TNullable TString),
     (''remote_id_hex'', Required, TNullable TString)]"

definition Reservation6Create :: jtype where
  "Reservation6Create = TObject
    [(''duid'', Required, TString), (''ip_address'', Required, TString), (''hostname'', Optional, TNullable TString),
     (''description'', Optional, TNullable TString), (''enabled'', Defaulted, TBoolean)]"

definition Reservation6Out :: jtype where
  "Reservation6Out = TObject
    [(''id'', Required, TString), (''scope_id'', Required, TString), (''tenant_id'', Required, TString), (''duid'', Required, TString),
     (''ip_address'', Required, TString), (''hostname'', Required, TNullable TString), (''description'', Required, TNullable TString),
     (''enabled'', Required, TBoolean), (''created_at'', Required, TString), (''updated_at'', Required, TString)]"

definition Reservation6Update :: jtype where
  "Reservation6Update = TObject
    [(''duid'', Optional, TNullable TString), (''ip_address'', Optional, TNullable TString), (''hostname'', Optional, TNullable TString),
     (''description'', Optional, TNullable TString), (''enabled'', Optional, TNullable TBoolean)]"

definition ReservationCreate :: jtype where
  "ReservationCreate = TObject
    [(''mac_address'', Required, TString), (''ip_address'', Required, TString), (''hostname'', Optional, TNullable TString),
     (''description'', Optional, TNullable TString), (''client_id'', Optional, TNullable TString),
     (''next_server'', Optional, TNullable TString), (''boot_filename'', Optional, TNullable TString),
     (''uefi_boot_filename'', Optional, TNullable TString), (''enabled'', Defaulted, TBoolean)]"

definition ReservationOut :: jtype where
  "ReservationOut = TObject
    [(''id'', Required, TString), (''scope_id'', Required, TString), (''tenant_id'', Required, TString),
     (''mac_address'', Required, TString), (''ip_address'', Required, TString), (''hostname'', Required, TNullable TString),
     (''description'', Required, TNullable TString), (''client_id'', Required, TNullable TString),
     (''next_server'', Required, TNullable TString), (''boot_filename'', Required, TNullable TString),
     (''uefi_boot_filename'', Required, TNullable TString), (''enabled'', Required, TBoolean), (''created_at'', Required, TString),
     (''updated_at'', Required, TString)]"

definition ReservationUpdate :: jtype where
  "ReservationUpdate = TObject
    [(''mac_address'', Optional, TNullable TString), (''ip_address'', Optional, TNullable TString),
     (''hostname'', Optional, TNullable TString), (''description'', Optional, TNullable TString),
     (''client_id'', Optional, TNullable TString), (''next_server'', Optional, TNullable TString),
     (''boot_filename'', Optional, TNullable TString), (''uefi_boot_filename'', Optional, TNullable TString),
     (''enabled'', Optional, TNullable TBoolean)]"

definition ResolverCreate :: jtype where
  "ResolverCreate = TObject
    [(''name'', Required, TString), (''protocol'', Required, TLiteral [''dot'', ''doh'', ''do53'']), (''address'', Required, TString),
     (''port'', Defaulted, TNumber), (''tls_hostname'', Optional, TNullable TString), (''tls_pin_sha256'', Defaulted, TArray TString),
     (''doh_path'', Defaulted, TString), (''dnssec_validation'', Defaulted, TLiteral [''strict'', ''opportunistic'', ''disabled'']),
     (''timeout_ms'', Defaulted, TNumber), (''max_retries'', Defaulted, TNumber), (''tags'', Defaulted, TArray TString),
     (''enabled'', Defaulted, TBoolean)]"

definition ResolverOut :: jtype where
  "ResolverOut = TObject
    [(''id'', Required, TString), (''name'', Required, TString), (''protocol'', Required, TString), (''address'', Required, TString),
     (''port'', Required, TNumber), (''tls_hostname'', Required, TNullable TString), (''tls_pin_sha256'', Required, TArray TString),
     (''doh_path'', Required, TString), (''dnssec_validation'', Required, TString), (''timeout_ms'', Required, TNumber),
     (''max_retries'', Required, TNumber), (''tags'', Required, TArray TString), (''enabled'', Required, TBoolean),
     (''created_at'', Required, TString), (''updated_at'', Required, TString)]"

definition ResolverUpdate :: jtype where
  "ResolverUpdate = TObject
    [(''name'', Optional, TNullable TString), (''protocol'', Optional, TNullable (TLiteral [''dot'', ''doh'', ''do53''])),
     (''address'', Optional, TNullable TString), (''port'', Optional, TNullable TNumber), (''tls_hostname'', Optional, TNullable TString),
     (''tls_pin_sha256'', Optional, TNullable (TArray TString)), (''doh_path'', Optional, TNullable TString),
     (''dnssec_validation'', Optional, TNullable (TLiteral [''strict'', ''opportunistic'', ''disabled''])),
     (''timeout_ms'', Optional, TNullable TNumber), (''max_retries'', Optional, TNullable TNumber),
     (''tags'', Optional, TNullable (TArray TString)), (''enabled'', Optional, TNullable TBoolean)]"

definition RouteCreate :: jtype where
  "RouteCreate = TObject
    [(''name'', Required, TString), (''group_id'', Optional, TNullable TString),
     (''match_type'', Required, TLiteral [''domain_suffix'', ''domain_exact'', ''qtype'', ''category'', ''default'']),
     (''match_value'', Optional, TNullable TString), (''pool_id'', Required, TString),
     (''nxdomain_ttl_override'', Optional, TNullable TNumber), (''require_dnssec'', Optional, TNullable TBoolean),
     (''priority'', Defaulted, TNumber), (''enabled'', Defaulted, TBoolean)]"

definition RouteOut :: jtype where
  "RouteOut = TObject
    [(''id'', Required, TString), (''name'', Required, TString), (''tenant_id'', Required, TNullable TString),
     (''group_id'', Required, TNullable TString), (''match_type'', Required, TString), (''match_value'', Required, TNullable TString),
     (''pool_id'', Required, TString), (''nxdomain_ttl_override'', Required, TNullable TNumber),
     (''require_dnssec'', Required, TNullable TBoolean), (''priority'', Required, TNumber), (''enabled'', Required, TBoolean),
     (''created_at'', Required, TString), (''updated_at'', Required, TString)]"

definition RouteUpdate :: jtype where
  "RouteUpdate = TObject
    [(''name'', Optional, TNullable TString), (''group_id'', Optional, TNullable TString),
     (''match_type'', Optional, TNullable (TLiteral [''domain_suffix'', ''domain_exact'', ''qtype'', ''category'', ''default''])),
     (''match_value'', Optional, TNullable TString), (''pool_id'', Optional, TNullable TString),
     (''nxdomain_ttl_override'', Optional, TNullable TNumber), (''require_dnssec'', Optional, TNullable TBoolean),
     (''priority'', Optional, TNullable TNumber), (''enabled'', Optional, TNullable TBoolean)]"

definition RoutingTableEntry :: jtype where
  "RoutingTableEntry = TObject
    [(''cidr'', Required, TString), (''group_id'', Required, TString), (''tenant_id'', Required, TString)]"

definition Scope6Create :: jtype where
  "Scope6Create = TObject
    [(''tenant_id'', Required, TString), (''name'', Required, TString), (''description'', Optional, TNullable TString),
     (''subnet'', Required, TString), (''pool_start'', Required, TString), (''pool_end'', Required, TString),
     (''pd_prefix'', Optional, TNullable TString), (''pd_prefix_len'', Optional, TNullable TNumber),
     (''dns_servers'', Defaulted, TArray TString), (''domain_name'', Optional, TNullable TString),
     (''interface'', Optional, TNullable TString), (''preferred_lifetime_s'', Defaulted, TNumber),
     (''valid_lifetime_s'', Defaulted, TNumber), (''renew_time_s'', Optional, TNullable TNumber),
     (''rebind_time_s'', Optional, TNullable TNumber), (''ddns_enabled'', Defaulted, TBoolean),
     (''ddns_zone_id'', Optional, TNullable TString), (''ddns_ttl_s'', Defaulted, TNumber), (''enabled'', Defaulted, TBoolean)]"

definition Scope6Out :: jtype where
  "Scope6Out = TObject
    [(''id'', Required, TString), (''tenant_id'', Required, TString), (''name'', Required, TString),
     (''description'', Required, TNullable TString), (''subnet'', Required, TString), (''pool_start'', Required, TString),
     (''pool_end'', Required, TString), (''pd_prefix'', Required, TNullable TString), (''pd_prefix_len'', Required, TNullable TNumber),
     (''dns_servers'', Required, TArray TString), (''domain_name'', Required, TNullable TString),
     (''interface'', Required, TNullable TString), (''preferred_lifetime_s'', Required, TNumber),
     (''valid_lifetime_s'', Required, TNumber), (''renew_time_s'', Required, TNullable TNumber),
     (''rebind_time_s'', Required, TNullable TNumber), (''ddns_enabled'', Required, TBoolean),
     (''ddns_zone_id'', Required, TNullable TString), (''ddns_ttl_s'', Required, TNumber), (''enabled'', Required, TBoolean),
     (''created_at'', Required, TString), (''updated_at'', Required, TString)]"

definition Scope6Update :: jtype where
  "Scope6Update = TObject
    [(''name'', Optional, TNullable TString), (''description'', Optional, TNullable TString),
     (''pool_start'', Optional, TNullable TString), (''pool_end'', Optional, TNullable TString),
     (''pd_prefix'', Optional, TNullable TString), (''pd_prefix_len'', Optional, TNullable TNumber),
     (''dns_servers'', Optional, TNullable (TArray TString)), (''domain_name'', Optional, TNullable TString),
     (''interface'', Optional, TNullable TString), (''preferred_lifetime_s'', Optional, TNullable TNumber),
     (''valid_lifetime_s'', Optional, TNullable TNumber), (''renew_time_s'', Optional, TNullable TNumber),
     (''rebind_time_s'', Optional, TNullable TNumber), (''ddns_enabled'', Optional, TNullable TBoolean),
     (''ddns_zone_id'', Optional, TNullable TString), (''ddns_ttl_s'', Optional, TNullable TNumber),
     (''enabled'', Optional, TNullable TBoolean)]"

definition ScopeCreate :: jtype where
  "ScopeCreate = TObject
    [(''tenant_id'', Required, TString), (''name'', Required, TString), (''description'', Optional, TNullable TString),
     (''subnet'', Required, TString), (''range_start'', Required, TString), (''range_end'', Required, TString),
     (''router_ip'', Optional, TNullable TString), (''dns_servers'', Defaulted, TArray TString),
     (''ntp_server'', Optional, TNullable TString), (''domain_name'', Optional, TNullable TString),
     (''interface'', Optional, TNullable TString), (''vlan_id'', Optional, TNullable TNumber), (''lease_time_s'', Defaulted, TNumber),
     (''max_lease_time_s'', Defaulted, TNumber), (''renew_time_s'', Optional, TNullable TNumber),
     (''rebind_time_s'', Optional, TNullable TNumber), (''ddns_enabled'', Defaulted, TBoolean),
     (''ddns_zone_id'', Optional, TNullable TString), (''ddns_ttl_s'', Defaulted, TNumber),
     (''pxe_next_server'', Optional, TNullable TString), (''pxe_boot_filename'', Optional, TNullable TString),
     (''pxe_uefi_boot_filename'', Optional, TNullable TString), (''enabled'', Defaulted, TBoolean)]"

definition ScopeOut :: jtype where
  "ScopeOut = TObject
    [(''id'', Required, TString), (''tenant_id'', Required, TString), (''name'', Required, TString),
     (''description'', Required, TNullable TString), (''subnet'', Required, TString), (''range_start'', Required, TString),
     (''range_end'', Required, TString), (''router_ip'', Required, TNullable TString), (''dns_servers'', Required, TArray TString),
     (''ntp_server'', Required, TNullable TString), (''domain_name'', Required, TNullable TString),
     (''interface'', Required, TNullable TString), (''vlan_id'', Required, TNullable TNumber), (''lease_time_s'', Required, TNumber),
     (''max_lease_time_s'', Required, TNumber), (''renew_time_s'', Required, TNullable TNumber),
     (''rebind_time_s'', Required, TNullable TNumber), (''ddns_enabled'', Required, TBoolean),
     (''ddns_zone_id'', Required, TNullable TString), (''ddns_ttl_s'', Required, TNumber),
     (''pxe_next_server'', Required, TNullable TString), (''pxe_boot_filename'', Required, TNullable TString),
     (''pxe_uefi_boot_filename'', Required, TNullable TString), (''enabled'', Required, TBoolean), (''created_at'', Required, TString),
     (''updated_at'', Required, TString)]"

definition ScopeUpdate :: jtype where
  "ScopeUpdate = TObject
    [(''name'', Optional, TNullable TString), (''description'', Optional, TNullable TString),
     (''range_start'', Optional, TNullable TString), (''range_end'', Optional, TNullable TString),
     (''router_ip'', Optional, TNullable TString), (''dns_servers'', Optional, TNullable (TArray TString)),
     (''ntp_server'', Optional, TNullable TString), (''domain_name'', Optional, TNullable TString),
     (''interface'', Optional, TNullable TString), (''vlan_id'', Optional, TNullable TNumber),
     (''lease_time_s'', Optional, TNullable TNumber), (''max_lease_time_s'', Optional, TNullable TNumber),
     (''renew_time_s'', Optional, TNullable TNumber), (''rebind_time_s'', Optional, TNullable TNumber),
     (''ddns_enabled'', Optional, TNullable TBoolean), (''ddns_zone_id'', Optional, TNullable TString),
     (''ddns_ttl_s'', Optional, TNullable TNumber), (''pxe_next_server'', Optional, TNullable TString),
     (''pxe_boot_filename'', Optional, TNullable TString), (''pxe_uefi_boot_filename'', Optional, TNullable TString),
     (''enabled'', Optional, TNullable TBoolean)]"

definition SiemSyslogCreate :: jtype where
  "SiemSyslogCreate = TObject
    [(''tenant_id'', Optional, TNullable TString), (''name'', Required, TString), (''host'', Required, TString),
     (''port'', Defaulted, TNumber), (''transport'', Defaulted, TLiteral [''tcp'', ''tls'', ''udp'']),
     (''format'', Defaulted, TLiteral [''json'', ''cef'']), (''facility'', Defaulted, TNumber), (''app_name'', Defaulted, TString),
     (''batch_size'', Defaulted, TNumber), (''flush_interval_s'', Defaulted, TNumber),
     (''filter_decision'', Defaulted, TLiteral [''all'', ''block'', ''allow'']), (''ca_cert_pem'', Optional, TNullable TString),
     (''enabled'', Defaulted, TBoolean)]"

definition SiemSyslogOut :: jtype where
  "SiemSyslogOut = TObject
    [(''id'', Required, TString), (''tenant_id'', Required, TNullable TString), (''name'', Required, TString),
     (''host'', Required, TString), (''port'', Required, TNumber), (''transport'', Required, TString), (''format'', Required, TString),
     (''facility'', Required, TNumber), (''app_name'', Required, TString), (''batch_size'', Required, TNumber),
     (''flush_interval_s'', Required, TNumber), (''filter_decision'', Required, TString), (''ca_cert_pem'', Required, TNullable TString),
     (''enabled'', Required, TBoolean), (''last_delivered_at'', Required, TNullable TString),
     (''last_error'', Required, TNullable TString), (''consecutive_failures'', Required, TNumber), (''created_at'', Required, TString)]"

definition SiemSyslogUpdate :: jtype where
  "SiemSyslogUpdate = TObject
    [(''name'', Optional, TNullable TString), (''host'', Optional, TNullable TString), (''port'', Optional, TNullable TNumber),
     (''transport'', Optional, TNullable (TLiteral [''tcp'', ''tls'', ''udp''])),
     (''format'', Optional, TNullable (TLiteral [''json'', ''cef''])), (''facility'', Optional, TNullable TNumber),
     (''app_name'', Optional, TNullable TString), (''batch_size'', Optional, TNullable TNumber),
     (''flush_interval_s'', Optional, TNullable TNumber),
     (''filter_decision'', Optional, TNullable (TLiteral [''all'', ''block'', ''allow''])), (''ca_cert_pem'', Optional, TNullable TString),
     (''enabled'', Optional, TNullable TBoolean)]"

definition SubnetStatOut :: jtype where
  "SubnetStatOut = TObject
    [(''scope_id'', Required, TString), (''scope_name'', Required, TString), (''subnet'', Required, TString),
     (''total_addresses'', Required, TNumber), (''assigned_addresses'', Required, TNumber), (''declined_addresses'', Required, TNumber)]"

definition SyslogTestResult :: jtype where
  "SyslogTestResult = TObject
    [(''success'', Required, TBoolean), (''error'', Required, TNullable TString)]"

definition TenantCreate :: jtype where
  "TenantCreate = TObject
    [(''name'', Required, TString)]"

definition TenantOut :: jtype where
  "TenantOut = TObject
    [(''id'', Required, TString), (''name'', Required, TString), (''created_at'', Required, TString)]"

definition TenantPolicyIn :: jtype where
  "TenantPolicyIn = TObject
    [(''require_encrypted'', Defaulted, TBoolean),
     (''dnssec_validation'', Defaulted, TLiteral [''strict'', ''opportunistic'', ''disabled'']), (''min_ttl_s'', Defaulted, TNumber),
     (''max_ttl_s'', Defaulted, TNumber), (''negative_ttl_s'', Defaulted, TNumber)]"

definition TenantPolicyOut :: jtype where
  "TenantPolicyOut = TObject
    [(''tenant_id'', Required, TString), (''require_encrypted'', Required, TBoolean), (''dnssec_validation'', Required, TString),
     (''min_ttl_s'', Required, TNumber), (''max_ttl_s'', Required, TNumber), (''negative_ttl_s'', Required, TNumber)]"

definition TimeseriesPoint :: jtype where
  "TimeseriesPoint = TObject
    [(''bucket'', Required, TString), (''total'', Required, TNumber), (''blocked'', Required, TNumber), (''allowed'', Required, TNumber)]"

definition TopClient :: jtype where
  "TopClient = TObject
    [(''client_ip'', Required, TString), (''hostname'', Required, TNullable TString), (''owner'', Required, TNullable TString),
     (''group_name'', Required, TNullable TString), (''total'', Required, TNumber), (''blocked'', Required, TNumber),
     (''block_ratio'', Required, TNumber)]"

definition UserCreate :: jtype where
  "UserCreate = TObject
    [(''email'', Required, TString), (''password'', Required, TString), (''role'', Defaulted, TString),
     (''tenant_id'', Optional, TNullable TString)]"

definition UserUpdate :: jtype where
  "UserUpdate = TObject
    [(''role'', Required, TString), (''tenant_id'', Optional, TNullable TString)]"

definition ZoneCreate :: jtype where
  "ZoneCreate = TObject
    [(''tenant_id'', Required, TString), (''name'', Required, TString), (''zone_type'', Required, TString),
     (''description'', Defaulted, TString), (''enabled'', Defaulted, TBoolean), (''ttl_default'', Defaulted, TNumber),
     (''forwarder'', Optional, TNullable TString)]"

definition ZoneOut :: jtype where
  "ZoneOut = TObject
    [(''id'', Required, TString), (''tenant_id'', Required, TNullable TString), (''name'', Required, TString),
     (''zone_type'', Required, TString), (''description'', Required, TString), (''enabled'', Required, TBoolean),
     (''ttl_default'', Required, TNumber), (''forwarder'', Required, TNullable TString), (''record_count'', Required, TNumber),
     (''created_at'', Required, TString), (''updated_at'', Required, TString)]"

definition ZoneUpdate :: jtype where
  "ZoneUpdate = TObject
    [(''name'', Optional, TNullable TString), (''zone_type'', Optional, TNullable TString), (''description'', Optional, TNullable TString),
     (''enabled'', Optional, TNullable TBoolean), (''ttl_default'', Optional, TNullable TNumber),
     (''forwarder'', Optional, TNullable TString)]"

end
