(* ===== verification/Frame.thy ===== *)
theory Frame
  imports Shell View "HOL-Library.While_Combinator"
begin

text \<open>
  The running application frame: \<open>App.tsx\<close> with its redirects, the login form of \<open>pages/LoginPage.tsx\<close>, the header, sidebar
  and error boundary of \<open>app/Shell.tsx\<close> and \<open>app/ErrorBoundary.tsx\<close>, over the session of \<open>auth/AuthContext.tsx\<close>. The router
  library decides which element of the route table a path selects (\<open>pick\<close>); a \<open>Navigate\<close> element that is rendered
  navigates, and rendering goes on until nothing navigates any more. The pages below the frame only raise or clear the
  unsaved-changes flag and may throw while they render.
\<close>

section \<open>Redirects\<close>

text \<open>The element the router picks for a path; a path of the table without parameters picks its own element.\<close>

type_synonym router = "string \<Rightarrow> string"

definition static_path :: "string \<Rightarrow> bool" where
  "static_path p \<longleftrightarrow> CHR '':'' \<notin> set p \<and> CHR ''*'' \<notin> set p"

definition picks_static :: "router \<Rightarrow> bool" where
  "picks_static pick \<longleftrightarrow> list_all (\<lambda>(p, ws). static_path p \<longrightarrow> pick p = last ws) (route_paths [] App_routes)"

definition app_view :: "router \<Rightarrow> session \<Rightarrow> route_view" where
  "app_view pick s = (let el = pick (se_path s) in
     if el = ''LoginPage'' then LoginPage s
     else case RequireAuth s of
       Outlet \<Rightarrow> if el = ''Navigate /dashboard'' then NavigateTo ''/dashboard'' None
         else if el = ''Navigate /tenants'' then NavigateTo ''/tenants'' None else Outlet
     | v \<Rightarrow> v)"

definition app_render :: "router \<Rightarrow> session \<Rightarrow> session" where
  "app_render pick s = (case app_view pick s of NavigateTo p from \<Rightarrow> navigate p from s | _ \<Rightarrow> s)"

definition app_loop :: "router \<Rightarrow> session \<Rightarrow> session option" where
  "app_loop pick = while_option (\<lambda>s. app_render pick s \<noteq> s) (app_render pick)"

section \<open>State and events\<close>

record frame =
  fr_session :: session
  fr_opened :: bool                 \<comment> \<open>the sidebar on small screens\<close>
  fr_colorScheme :: string
  fr_boundary :: boundary
  fr_isBlocked :: bool              \<comment> \<open>\<open>isBlocked\<close> of \<open>useUnsavedChangesGuard.ts\<close>\<close>
  fr_confirm :: "(string \<times> string \<times> (session \<Rightarrow> session) \<times> api_call list) option"  \<comment> \<open>the open confirmation, with what it runs\<close>
  fr_email :: string
  fr_password :: string

datatype frame_event =
    ToggleNavbar | ToggleColorScheme string
  | NavClick nav_item | SignOutClick | ConfirmLeave | StayHere
  | ToggleDetails | RetryRender
  | EditEmail string | EditLoginPassword string | SubmitLogin
  | LoginUser auth_user | LoginContinue | LoginError thrown
  | LogoutResponse nat | LogoutFailed | ApiResponse nat
  | MeResponse nat "json option" "auth_user option" | MeFailed
  | GuardDirty bool bool | RenderThrows string "string option"

text \<open>The answers of the service, and what the mounted page does.\<close>

fun frame_answer :: "frame_event \<Rightarrow> bool" where
  "frame_answer (LoginUser _) = True"
| "frame_answer LoginContinue = True"
| "frame_answer (LoginError _) = True"
| "frame_answer (LogoutResponse _) = True"
| "frame_answer LogoutFailed = True"
| "frame_answer (ApiResponse _) = True"
| "frame_answer (MeResponse _ _ _) = True"
| "frame_answer MeFailed = True"
| "frame_answer (GuardDirty _ _) = True"
| "frame_answer (RenderThrows _ _) = True"
| "frame_answer _ = False"

definition frame_mount :: "string \<Rightarrow> frame" where
  "frame_mount p = \<lparr>fr_session = mount_provider (session_initial p), fr_opened = False, fr_colorScheme = ''auto'', fr_boundary = eb_initial,
     fr_isBlocked = False, fr_confirm = None, fr_email = [], fr_password = []\<rparr>"

section \<open>Operations\<close>

definition me_call :: api_call where
  "me_call = Typed GET ''/api/v1/auth/me'' [] [] None"

definition login_call :: "string \<Rightarrow> string \<Rightarrow> api_call" where
  "login_call email password = Typed POST ''/api/v1/auth/login'' [] [] (Some (JObj [(''email'', JStr email), (''password'', JStr password)]))"

definition logout_call :: api_call where
  "logout_call = Typed POST ''/api/v1/auth/logout'' [] [] None"

text \<open>The state after the session changed and the redirects have settled. The boundary is keyed on the path, so a new path
  mounts the page anew: a caught error and the unsaved-changes flag are gone. Away from the login page its state is gone.\<close>

definition frame_commit :: "router \<Rightarrow> (session \<Rightarrow> session) \<Rightarrow> frame \<Rightarrow> frame" where
  "frame_commit pick f s =
    (let t = f (fr_session s); t' = nullish (app_loop pick t) t; moved = (se_path t' \<noteq> se_path (fr_session s));
       login = (app_view pick t' = LoginForm) in
     s\<lparr>fr_session := (if login then t' else t'\<lparr>se_login_error := None, se_submitting := False\<rparr>),
       fr_boundary := (if moved then eb_initial else fr_boundary s),
       fr_isBlocked := (if moved then guard_cleanup (fr_isBlocked s) else fr_isBlocked s),
       fr_email := (if login then fr_email s else []), fr_password := (if login then fr_password s else [])\<rparr>)"

definition frame_navigate :: "router \<Rightarrow> (session \<Rightarrow> session) nav_outcome \<Rightarrow> api_call list \<Rightarrow> frame \<Rightarrow> frame \<times> cmd list" where
  "frame_navigate pick outcome calls s = (case outcome of
     Proceeded f \<Rightarrow> (frame_commit pick f s, map Send calls)
   | ConfirmModal title txt f \<Rightarrow> (s\<lparr>fr_confirm := Some (title, txt, f, calls)\<rparr>, []))"

definition confirm_leave :: "router \<Rightarrow> frame \<Rightarrow> frame \<times> cmd list" where
  "confirm_leave pick s = (case fr_confirm s of
     None \<Rightarrow> (s, [])
   | Some (_, _, f, calls) \<Rightarrow> (frame_commit pick f (s\<lparr>fr_confirm := None\<rparr>), map Send calls))"

definition frame_logged_in :: "router \<Rightarrow> auth_user \<Rightarrow> frame \<Rightarrow> frame" where
  "frame_logged_in pick u s = (if se_logins (fr_session s) = [] then s else frame_commit pick (login_setUser u) s)"

fun frame_step :: "router \<Rightarrow> frame_event \<Rightarrow> frame \<Rightarrow> frame \<times> cmd list" where
  "frame_step pick ToggleNavbar s = (s\<lparr>fr_opened := \<not> fr_opened s\<rparr>, [])"
| "frame_step pick (ToggleColorScheme c) s = (s\<lparr>fr_colorScheme := c\<rparr>, [])"
| "frame_step pick (NavClick i) s = frame_navigate pick (nav_click (fr_isBlocked s) i) [] s"
| "frame_step pick SignOutClick s = frame_navigate pick (signOut (fr_isBlocked s)) [logout_call] s"
| "frame_step pick ConfirmLeave s = confirm_leave pick s"
| "frame_step pick StayHere s = (s\<lparr>fr_confirm := None\<rparr>, [])"
| "frame_step pick ToggleDetails s = (s\<lparr>fr_boundary := eb_toggle (fr_boundary s)\<rparr>, [])"
| "frame_step pick RetryRender s = (s\<lparr>fr_boundary := eb_retry (fr_boundary s)\<rparr>, [])"
| "frame_step pick (EditEmail t) s = (s\<lparr>fr_email := t\<rparr>, [])"
| "frame_step pick (EditLoginPassword t) s = (s\<lparr>fr_password := t\<rparr>, [])"
| "frame_step pick SubmitLogin s = (frame_commit pick handleSubmit s, [Send (login_call (fr_email s) (fr_password s))])"
| "frame_step pick (LoginUser u) s = (frame_logged_in pick u s, [])"
| "frame_step pick LoginContinue s = (frame_commit pick login_continue s, [])"
| "frame_step pick (LoginError e) s = (if se_logins (fr_session s) = [] then s else frame_commit pick (login_failed e) s, [])"
| "frame_step pick (LogoutResponse st) s = (if se_logouts (fr_session s) = 0 then s else frame_commit pick (logout_response st) s, [])"
| "frame_step pick LogoutFailed s = (frame_commit pick logout_failure s, [])"
| "frame_step pick (ApiResponse st) s = (frame_commit pick (api_response st) s, [])"
| "frame_step pick (MeResponse st err dat) s = (if se_me_inflight (fr_session s) = 0 then s else frame_commit pick (me_response st err dat) s, [])"
| "frame_step pick MeFailed s = (if se_me_inflight (fr_session s) = 0 then s else frame_commit pick me_failure s, [])"
| "frame_step pick (GuardDirty old new) s =
     (if app_view pick (fr_session s) = Outlet then s\<lparr>fr_isBlocked := guard_rerender old new (fr_isBlocked s)\<rparr> else s, [])"
| "frame_step pick (RenderThrows m stack) s =
     (if app_view pick (fr_session s) = Outlet then s\<lparr>fr_isBlocked := guard_cleanup (fr_isBlocked s), fr_boundary := getDerivedStateFromError (m, stack)\<rparr> else s, [])"

section \<open>Views\<close>

definition LoginView :: "frame \<Rightarrow> frame_event view" where
  "LoginView s = Box [Text ''Mantis-DNS'', Text ''Sign in to the control plane'',
     Form SubmitLogin
      (show_if (truthy (se_login_error (fr_session s))) [Box [Text ''Sign-in failed'', Text (the (se_login_error (fr_session s)))]]
       @ [TextInput ''Email'' (fr_email s) True False EditEmail, TextInput ''Password'' (fr_password s) True False EditLoginPassword,
          Submit ''Sign in'' (se_submitting (fr_session s))])]"

fun role_name :: "role \<Rightarrow> string" where
  "role_name Admin = ''admin''"
| "role_name Operator = ''operator''"
| "role_name Viewer = ''viewer''"

definition user_menu :: "ui_env \<Rightarrow> auth_user \<Rightarrow> frame_event view" where
  "user_menu w u = Box [Text (avatar_letter u), Text (au_email u), Badge (role_name (au_role u)) ''light'',
     Button (ue_t w ''common.signOut'' []) False SignOutClick]"

text \<open>The toggle selects the scheme \<open>other\<close>, which the library computes from the current one and the system's preference.\<close>

definition shell_header :: "ui_env \<Rightarrow> string \<Rightarrow> frame \<Rightarrow> frame_event view" where
  "shell_header w other s = Box ([Button ''Menu'' False ToggleNavbar, Text ''Mantis-DNS'',
     Tooltip (if fr_colorScheme s = ''dark'' then ''sun'' else ''moon'') (Button (ue_t w ''common.toggleColorScheme'' []) False (ToggleColorScheme other))]
     @ (case se_user (fr_session s) of None \<Rightarrow> [] | Some u \<Rightarrow> [user_menu w u]))"

definition shell_navbar :: "ui_env \<Rightarrow> frame \<Rightarrow> frame_event view" where
  "shell_navbar w s = Box (map (\<lambda>i. Clickable (NavClick i)
       [Badge (ue_t w (ni_labelKey i) []) (if nav_active (se_path (fr_session s)) i then ''active'' else ''default'')])
     (visibleNavItems (se_user (fr_session s))))"

definition boundary_view :: "boundary \<Rightarrow> frame_event view" where
  "boundary_view b = (case eb_render b of
     Children \<Rightarrow> Box []
   | BrokenAlert m stack details \<Rightarrow> Box ([Text ''Something broke'', Text m]
       @ show_if details [Button ((if eb_showDetails b then ''Hide'' else ''Show'') @ '' technical details'') False ToggleDetails]
       @ (case stack of None \<Rightarrow> [] | Some t \<Rightarrow> [Text t]) @ [Button ''Try again'' False RetryRender]))"

definition ShellView :: "ui_env \<Rightarrow> string \<Rightarrow> frame \<Rightarrow> frame_event view" where
  "ShellView w other s = Box [Anchor ''#main-content'' [Text ''Skip to main content''], shell_header w other s, shell_navbar w s, boundary_view (fr_boundary s)]"

definition confirm_view :: "frame \<Rightarrow> frame_event view list" where
  "confirm_view s = (case fr_confirm s of
     None \<Rightarrow> []
   | Some (title, txt, _) \<Rightarrow> [Modal title StayHere [Text txt, Button ''Stay'' False StayHere, Button ''Discard changes'' False ConfirmLeave]])"

definition FrameView :: "router \<Rightarrow> ui_env \<Rightarrow> string \<Rightarrow> frame \<Rightarrow> frame_event view" where
  "FrameView pick w other s = Box ((case app_view pick (fr_session s) of
       LoaderView \<Rightarrow> [Loader]
     | LoginForm \<Rightarrow> [LoginView s]
     | Outlet \<Rightarrow> [ShellView w other s]
     | NavigateTo _ _ \<Rightarrow> []) @ confirm_view s)"

section \<open>Redirects end\<close>

lemma static_picks:
  assumes "picks_static pick"
  shows "pick ''/login'' = ''LoginPage''" and "pick ''/dashboard'' = ''DashboardPage''" and "pick ''/tenants'' = ''TenantsPage''"
  using assms by (simp_all add: picks_static_def App_routes_def static_path_def)

text \<open>Where the render does not navigate, the loop is over.\<close>

definition settled :: "router \<Rightarrow> session \<Rightarrow> bool" where
  "settled pick s \<longleftrightarrow> (\<forall>p from. app_view pick s \<noteq> NavigateTo p from)"

lemma settled_render: "settled pick s \<Longrightarrow> app_render pick s = s"
  by (simp add: settled_def app_render_def split: route_view.split)

lemma app_loop_settled: "settled pick s \<Longrightarrow> app_loop pick s = Some s"
  using settled_render [of pick s] by (simp add: app_loop_def while_option_unfold)

lemma app_loop_step: "app_render pick s \<noteq> s \<Longrightarrow> app_loop pick s = app_loop pick (app_render pick s)"
  unfolding app_loop_def by (subst while_option_unfold) simp

text \<open>Every navigation of a render changes the state: the loop stops only when nothing navigates.\<close>

lemma unsettled_moves:
  assumes pick: "picks_static pick" and "\<not> settled pick s"
  shows "app_render pick s \<noteq> s"
proof -
  obtain p q where v: "app_view pick s = NavigateTo p q" using assms(2) by (auto simp: settled_def)
  then have r: "app_render pick s = s\<lparr>se_path := p, se_nav_from := q\<rparr>" by (simp add: app_render_def navigate_def)
  have "se_path s \<noteq> p \<or> se_nav_from s \<noteq> q"
    using v static_picks [OF pick]
    by (auto simp: app_view_def LoginPage_def RequireAuth_def safeFrom_def Let_def split: if_splits option.splits)
  then have "se_path (app_render pick s) \<noteq> se_path s \<or> se_nav_from (app_render pick s) \<noteq> se_nav_from s" unfolding r by auto
  then show ?thesis by auto
qed

lemma app_loop_next:
  assumes "picks_static pick" and "\<exists>t. app_loop pick (app_render pick s) = Some t \<and> settled pick t"
  shows "\<exists>t. app_loop pick s = Some t \<and> settled pick t"
  using assms app_loop_settled [of pick s] app_loop_step [OF unsettled_moves, of pick s] by (cases "settled pick s") auto

lemma app_loop_guarded:
  assumes pick: "picks_static pick" and "pick (se_path s) \<noteq> ''LoginPage''"
  shows "\<exists>t. app_loop pick s = Some t \<and> settled pick t"
proof -
  have "settled pick (app_render pick s)"
    using assms(2) static_picks [OF pick]
    by (auto simp: settled_def app_render_def app_view_def RequireAuth_def LoginPage_def navigate_def Let_def)
  then show ?thesis using app_loop_next [OF pick] app_loop_settled by blast
qed

lemma app_loop_no_from:
  assumes pick: "picks_static pick" and "se_nav_from s = None"
  shows "\<exists>t. app_loop pick s = Some t \<and> settled pick t"
proof (cases "pick (se_path s) = ''LoginPage'' \<and> \<not> settled pick s")
  case True
  then have "pick (se_path (app_render pick s)) = ''TenantsPage''"
    using assms(2) static_picks [OF pick]
    by (auto simp: settled_def app_render_def app_view_def LoginPage_def navigate_def safeFrom_def Let_def split: if_splits)
  then show ?thesis using app_loop_guarded [OF pick, of "app_render pick s"] app_loop_next [OF pick] by simp
next
  case False
  then show ?thesis using app_loop_guarded [OF pick] app_loop_settled by blast
qed

lemma app_loop_ends:
  assumes pick: "picks_static pick"
  shows "\<exists>t. app_loop pick s = Some t \<and> settled pick t"
proof (cases "pick (se_path s) = ''LoginPage'' \<and> \<not> settled pick s")
  case True
  then have "se_nav_from (app_render pick s) = None"
    by (auto simp: settled_def app_render_def app_view_def LoginPage_def navigate_def Let_def split: if_splits)
  then show ?thesis using app_loop_no_from [OF pick] app_loop_next [OF pick] by blast
next
  case False
  then show ?thesis using app_loop_guarded [OF pick] app_loop_settled by blast
qed

text \<open>What redirects leave alone.\<close>

definition same_user :: "session \<Rightarrow> session \<Rightarrow> bool" where
  "same_user s t \<longleftrightarrow> se_user t = se_user s \<and> se_loading t = se_loading s \<and> se_listener t = se_listener s \<and> se_provider_cb t = se_provider_cb s
     \<and> se_logins t = se_logins s"

lemma same_user_loop: "app_loop pick s = Some t \<Longrightarrow> same_user s t"
  unfolding app_loop_def
  by (erule while_option_rule [rotated]) (auto simp: same_user_def app_render_def navigate_def split: route_view.split)

lemma settled_view:
  "settled pick t \<Longrightarrow> \<not> se_loading t \<Longrightarrow> app_view pick t = (if se_user t = None then LoginForm else Outlet)"
  by (auto simp: settled_def app_view_def LoginPage_def RequireAuth_def Let_def split: if_splits)

text \<open>C8. Redirects end. Whatever the path and the place the login page was entered from, rendering the routes comes to a render
  that navigates nowhere. The user is the one before; while the session is being asked for, no redirect happens;
  afterwards the login form is shown without a user, and a page of the shell with one.\<close>

theorem redirects_end:
  assumes "picks_static pick"
  shows "\<exists>t. app_loop pick s = Some t \<and> app_render pick t = t \<and> se_user t = se_user s
    \<and> (if se_loading s then t = s \<and> app_view pick t \<in> {LoaderView, LoginForm}
       else app_view pick t = (if se_user s = None then LoginForm else Outlet))"
proof -
  obtain t where t: "app_loop pick s = Some t" "settled pick t" using app_loop_ends [OF assms] by blast
  have u: "same_user s t" using same_user_loop [OF t(1)] .
  have v: "app_view pick s \<in> {LoaderView, LoginForm}" if "se_loading s"
    using that by (simp add: app_view_def LoginPage_def RequireAuth_def Let_def)
  then have "t = s" if "se_loading s" using that t(1) app_loop_settled [of pick s] by (auto simp: settled_def)
  then show ?thesis using t u v settled_render settled_view by (auto simp: same_user_def)
qed

text \<open>A router that picks exact paths only.\<close>

definition wit_router :: router where
  "wit_router p = nullish (map_of (map (\<lambda>(q, ws). (q, last ws)) (route_paths [] App_routes)) p) ''Navigate /tenants''"

lemma wit_picks_static: "picks_static wit_router"
  by code_simp

theorem redirects_end_witness:
  "\<exists>t. app_loop wit_router (wit_session\<lparr>se_path := ''/login'', se_nav_from := Some ''/nowhere''\<rparr>) = Some t \<and> app_view wit_router t = Outlet"
proof -
  have "\<not> se_loading wit_session" "se_user wit_session \<noteq> None" by code_simp+
  then show ?thesis using redirects_end [OF wit_picks_static, of "wit_session\<lparr>se_path := ''/login'', se_nav_from := Some ''/nowhere''\<rparr>"] by auto
qed

section \<open>Unsaved changes\<close>

definition keeps_listener :: "(session \<Rightarrow> session) \<Rightarrow> bool" where
  "keeps_listener f \<longleftrightarrow> (\<forall>s. se_listener (f s) = se_listener s \<and> se_provider_cb (f s) = se_provider_cb s \<and> (se_loading (f s) \<longrightarrow> se_loading s))"

text \<open>In every run nothing is left to redirect, the provider's expiry callback is registered, and only a page of the shell has unsaved changes.\<close>

definition shell_ok :: "router \<Rightarrow> frame \<Rightarrow> bool" where
  "shell_ok pick s \<longleftrightarrow> settled pick (fr_session s) \<and> se_listener (fr_session s) \<noteq> None
     \<and> se_listener (fr_session s) = se_provider_cb (fr_session s)
     \<and> (fr_isBlocked s \<longrightarrow> app_view pick (fr_session s) = Outlet)
     \<and> (\<forall>x y f cs. fr_confirm s = Some (x, y, f, cs) \<longrightarrow> keeps_listener f)"

lemma keeps_listeners [simp]:
  "keeps_listener (navigate p q)" "keeps_listener signOut_proceed" "keeps_listener handleSubmit" "keeps_listener (login_setUser u)"
  "keeps_listener login_continue" "keeps_listener (login_failed e)" "keeps_listener (logout_response st)" "keeps_listener logout_failure"
  "keeps_listener (api_response st)" "keeps_listener (me_response st err dat)" "keeps_listener me_failure"
  by (simp_all add: keeps_listener_def navigate_def signOut_proceed_def logout_request_def handleSubmit_def login_setUser_def login_continue_def
      login_failed_def logout_response_def logout_failure_def api_response_def run_listener_def me_response_def me_failure_def Let_def
      split: option.split list.split)

lemma app_view_fields [simp]:
  "app_view pick (s\<lparr>se_login_error := x\<rparr>) = app_view pick s" "app_view pick (s\<lparr>se_submitting := b\<rparr>) = app_view pick s"
  by (simp_all add: app_view_def LoginPage_def RequireAuth_def Let_def)

lemma settled_fields [simp]:
  "settled pick (s\<lparr>se_login_error := x\<rparr>) = settled pick s" "settled pick (s\<lparr>se_submitting := b\<rparr>) = settled pick s"
  by (simp_all add: settled_def)

text \<open>Without a move, a shown page stays shown.\<close>

lemma outlet_stays:
  assumes "app_view pick s = Outlet" and "settled pick t" and "se_path t = se_path s" and "se_loading t \<longrightarrow> se_loading s"
  shows "app_view pick t = Outlet"
  using assms by (auto simp: app_view_def settled_def LoginPage_def RequireAuth_def Let_def split: if_splits)

lemma commit_ok:
  assumes pick: "picks_static pick" and ok: "shell_ok pick s" and f: "keeps_listener f"
  shows "shell_ok pick (frame_commit pick f s)"
proof -
  obtain t where t: "app_loop pick (f (fr_session s)) = Some t" "settled pick t" using app_loop_ends [OF pick] by blast
  then have "same_user (f (fr_session s)) t" using same_user_loop by blast
  then have l: "se_listener t = se_listener (fr_session s)" "se_provider_cb t = se_provider_cb (fr_session s)" "se_loading t \<longrightarrow> se_loading (fr_session s)"
    using f by (auto simp: same_user_def keeps_listener_def)
  have "app_view pick t = Outlet" if "fr_isBlocked s" "se_path t = se_path (fr_session s)"
    using outlet_stays [OF _ t(2) that(2) l(3)] that(1) ok by (simp add: shell_ok_def)
  then show ?thesis using ok l t by (auto simp: shell_ok_def frame_commit_def guard_cleanup_def nullish_def Let_def)
qed

lemma shell_ok_fields [simp]:
  "shell_ok pick (s\<lparr>fr_opened := b\<rparr>) = shell_ok pick s" "shell_ok pick (s\<lparr>fr_colorScheme := c\<rparr>) = shell_ok pick s"
  "shell_ok pick (s\<lparr>fr_boundary := x\<rparr>) = shell_ok pick s" "shell_ok pick (s\<lparr>fr_email := e\<rparr>) = shell_ok pick s"
  "shell_ok pick (s\<lparr>fr_password := e\<rparr>) = shell_ok pick s"
  by (simp_all add: shell_ok_def)

lemma shell_ok_updates:
  "shell_ok pick s \<Longrightarrow> shell_ok pick (s\<lparr>fr_confirm := None\<rparr>)"
  "shell_ok pick s \<Longrightarrow> keeps_listener f \<Longrightarrow> shell_ok pick (s\<lparr>fr_confirm := Some (x, y, f, cs)\<rparr>)"
  "shell_ok pick s \<Longrightarrow> app_view pick (fr_session s) = Outlet \<Longrightarrow> shell_ok pick (s\<lparr>fr_isBlocked := b\<rparr>)"
  "shell_ok pick s \<Longrightarrow> fr_confirm s = Some (x, y, f, cs) \<Longrightarrow> keeps_listener f"
  by (auto simp: shell_ok_def)

lemma navigate_ok:
  assumes "picks_static pick" and "shell_ok pick s"
  shows "shell_ok pick (fst (frame_navigate pick (nav_click b i) cs s))" and "shell_ok pick (fst (frame_navigate pick (signOut b) cs s))"
    and "shell_ok pick (fst (confirm_leave pick s))"
  using assms commit_ok [OF assms(1)] shell_ok_updates
  by (simp_all add: frame_navigate_def nav_click_def signOut_def confirmNavigation_def isNavigationBlocked_def confirm_leave_def split: option.split)

lemma frame_step_ok:
  assumes "picks_static pick" and "shell_ok pick s"
  shows "shell_ok pick (fst (frame_step pick e s))"
  using assms navigate_ok [OF assms] commit_ok [OF assms] shell_ok_updates [OF assms(2)]
  by (cases e) (simp_all add: frame_logged_in_def)

lemma mount_ok: "shell_ok pick (frame_mount p)"
  by (auto simp: shell_ok_def frame_mount_def mount_provider_def session_initial_def settled_def app_view_def LoginPage_def RequireAuth_def
      onSessionExpired_def Let_def)

interpretation frp: page "FrameView pick w other" frame_answer "frame_step pick" "\<lambda>s. picks_static pick \<and> shell_ok pick s" for pick w other
  by unfold_locales (simp_all add: frame_step_ok)

lemma offers_shell:
  assumes "app_view pick (fr_session s) = Outlet" and "offers e (FrameView pick w other s)"
  shows "e \<in> {ToggleNavbar, ToggleColorScheme other, SignOutClick, StayHere, ConfirmLeave, ToggleDetails, RetryRender} \<or> (\<exists>i. e = NavClick i)"
  using assms by (auto simp: FrameView_def ShellView_def shell_header_def user_menu_def shell_navbar_def boundary_view_def confirm_view_def
      split: option.splits eb_view.splits)

lemma commit_moved:
  "se_path (fr_session (frame_commit pick f s)) \<noteq> se_path (fr_session s)
     \<Longrightarrow> fr_boundary (frame_commit pick f s) = eb_initial \<and> \<not> fr_isBlocked (frame_commit pick f s)"
  by (simp add: frame_commit_def guard_cleanup_def Let_def split: if_splits)

lemma step_moved:
  assumes "se_path (fr_session (fst (frame_step pick e s))) \<noteq> se_path (fr_session s)"
  shows "fr_boundary (fst (frame_step pick e s)) = eb_initial \<and> \<not> fr_isBlocked (fst (frame_step pick e s))"
  using assms commit_moved [of pick _ s] commit_moved [of pick _ "s\<lparr>fr_confirm := None\<rparr>"]
  by (cases e) (auto simp: frame_navigate_def confirm_leave_def frame_logged_in_def split: nav_outcome.splits option.splits if_splits)

text \<open>An expired session: the user is cleared and the redirect leads to the login form.\<close>

lemma expiry_leaves:
  assumes pick: "picks_static pick" and ok: "shell_ok pick s" and shown: "app_view pick (fr_session s) = Outlet"
    and path: "\<not> starts_with (se_path (fr_session s)) ''/login''"
  shows "se_path (fr_session (frame_commit pick (api_response 401) s)) = ''/login''"
proof -
  let ?t = "(fr_session s)\<lparr>se_user := None\<rparr>"
  have p: "pick (se_path (fr_session s)) \<noteq> ''LoginPage''" and l: "\<not> se_loading (fr_session s)"
    using shown by (auto simp: app_view_def LoginPage_def RequireAuth_def Let_def split: if_splits)
  then have "se_path (fr_session s) \<noteq> ''/login''" using static_picks [OF pick] by auto
  then have t: "api_response 401 (fr_session s) = ?t"
    using ok path by (auto simp: api_response_def handleUnauthorized_def run_listener_def notifySessionExpired_def shell_ok_def)
  have r: "app_render pick ?t = navigate ''/login'' (Some (se_path (fr_session s))) ?t"
    using p l by (simp add: app_render_def app_view_def RequireAuth_def Let_def)
  moreover have "settled pick (app_render pick ?t)"
    unfolding r using l static_picks [OF pick] by (simp add: settled_def app_view_def LoginPage_def navigate_def Let_def)
  moreover have "se_path (app_render pick ?t) \<noteq> se_path ?t" unfolding r using \<open>se_path (fr_session s) \<noteq> ''/login''\<close> by (simp add: navigate_def)
  then have "app_render pick ?t \<noteq> ?t" by auto
  ultimately have "app_loop pick ?t = Some (navigate ''/login'' (Some (se_path (fr_session s))) ?t)"
    using app_loop_step [of pick ?t] app_loop_settled by simp
  then show ?thesis by (simp add: frame_commit_def t navigate_def nullish_def Let_def)
qed

text \<open>C11. Unsaved changes. In every run of the frame, while a page has unsaved changes, no click in the header, the sidebar or the error
  alert leaves the page, signs out or drops the changes, except confirming the question that a navigation asks first. A
  path that changes, by whatever event, leaves neither a caught error nor the unsaved-changes flag behind. An expired
  session is not asked about: the answer 401 leaves for the login form at once.\<close>

theorem unsaved_changes_guarded:
  assumes "picks_static pick" and "page_run (FrameView pick w other) frame_answer (frame_step pick) (frame_mount p) s cs"
  shows "(fr_isBlocked s \<longrightarrow> offers e (FrameView pick w other s) \<longrightarrow> e \<noteq> ConfirmLeave \<longrightarrow>
      fr_session (fst (frame_step pick e s)) = fr_session s \<and> fr_isBlocked (fst (frame_step pick e s)) \<and> snd (frame_step pick e s) = [])
    \<and> (se_path (fr_session (fst (frame_step pick d s))) \<noteq> se_path (fr_session s) \<longrightarrow>
      eb_render (fr_boundary (fst (frame_step pick d s))) = Children \<and> \<not> fr_isBlocked (fst (frame_step pick d s)))
    \<and> (fr_isBlocked s \<and> \<not> starts_with (se_path (fr_session s)) ''/login'' \<longrightarrow>
      se_path (fr_session (fst (frame_step pick (ApiResponse 401) s))) = ''/login'')"
proof (intro conjI impI)
  have ok: "shell_ok pick s" using frp.run_keeps [OF assms(2)] assms(1) mount_ok by blast
  then have shown: "app_view pick (fr_session s) = Outlet" if "fr_isBlocked s" using that by (simp add: shell_ok_def)
  {
    assume b: "fr_isBlocked s" and e: "offers e (FrameView pick w other s)" "e \<noteq> ConfirmLeave"
    have "fr_session (fst (frame_step pick e s)) = fr_session s \<and> fr_isBlocked (fst (frame_step pick e s)) \<and> snd (frame_step pick e s) = []"
      using offers_shell [OF shown [OF b] e(1)] e(2) b
      by (auto simp: frame_navigate_def nav_click_def signOut_def confirmNavigation_def isNavigationBlocked_def)
    then show "fr_session (fst (frame_step pick e s)) = fr_session s" "fr_isBlocked (fst (frame_step pick e s))" "snd (frame_step pick e s) = []"
      by simp_all
  }
  show "eb_render (fr_boundary (fst (frame_step pick d s))) = Children" "\<not> fr_isBlocked (fst (frame_step pick d s))"
    if "se_path (fr_session (fst (frame_step pick d s))) \<noteq> se_path (fr_session s)"
    using step_moved [OF that] by (simp_all add: eb_render_def eb_initial_def)
  show "se_path (fr_session (fst (frame_step pick (ApiResponse 401) s))) = ''/login''"
    if "fr_isBlocked s \<and> \<not> starts_with (se_path (fr_session s)) ''/login''"
    using that expiry_leaves [OF assms(1) ok] shown by simp
qed

text \<open>A signed-in administrator on a policy page with unsaved changes.\<close>

definition wit_frame_user :: auth_user where
  "wit_frame_user = \<lparr>au_id = ''u1'', au_email = ''admin@x'', au_role = Admin, au_tenant_id = None\<rparr>"

definition wit_signed_in :: session where
  "wit_signed_in = (mount_provider (session_initial ''/settings''))\<lparr>se_user := Some wit_frame_user, se_loading := False, se_me_inflight := 0\<rparr>"

definition wit_frame :: frame where
  "wit_frame = (frame_mount ''/settings'')\<lparr>fr_session := wit_signed_in, fr_isBlocked := True\<rparr>"

lemma wit_shown: "app_view wit_router wit_signed_in = Outlet"
proof -
  have "wit_router ''/settings'' = ''SettingsPage''" by code_simp
  then show ?thesis by (simp add: wit_signed_in_def app_view_def RequireAuth_def mount_provider_def session_initial_def Let_def)
qed

lemma wit_me:
  "frame_step wit_router (MeResponse 200 None (Some wit_frame_user)) (frame_mount ''/settings'') = ((frame_mount ''/settings'')\<lparr>fr_session := wit_signed_in\<rparr>, [])"
proof -
  have "me_response 200 None (Some wit_frame_user) (fr_session (frame_mount ''/settings'')) = wit_signed_in"
    by (simp add: me_response_def api_response_def handleUnauthorized_def frame_mount_def wit_signed_in_def mount_provider_def session_initial_def Let_def)
  moreover have "app_loop wit_router wit_signed_in = Some wit_signed_in"
    by (rule app_loop_settled) (simp add: settled_def wit_shown)
  ultimately show ?thesis
    by (simp add: frame_commit_def wit_shown nullish_def Let_def) (simp add: frame_mount_def wit_signed_in_def mount_provider_def session_initial_def)
qed

theorem unsaved_changes_guarded_witness:
  "fr_isBlocked wit_frame \<and> fr_isBlocked (fst (frame_step wit_router ToggleNavbar wit_frame))
   \<and> se_path (fr_session (fst (frame_step wit_router (ApiResponse 401) wit_frame))) = ''/login''"
proof -
  have me: "page_run (FrameView wit_router wit_env ''dark'') frame_answer (frame_step wit_router) (frame_mount ''/settings'')
      ((frame_mount ''/settings'')\<lparr>fr_session := wit_signed_in\<rparr>) ([] @ [])"
    by (rule page_run.run_event [OF page_run.run_start, where e = "MeResponse 200 None (Some wit_frame_user)"]) (simp_all add: wit_me del: frame_step.simps)
  have run: "page_run (FrameView wit_router wit_env ''dark'') frame_answer (frame_step wit_router) (frame_mount ''/settings'') wit_frame (([] @ []) @ [])"
    by (rule page_run.run_event [OF me, where e = "GuardDirty False True"]) (simp_all add: wit_shown wit_frame_def guard_rerender_def guard_effect_def)
  have b: "fr_isBlocked wit_frame" "\<not> starts_with (se_path (fr_session wit_frame)) ''/login''"
    by (simp_all add: wit_frame_def wit_signed_in_def mount_provider_def session_initial_def starts_with_def)
  have "offers ToggleNavbar (FrameView wit_router wit_env ''dark'' wit_frame)"
    by (simp add: FrameView_def wit_shown wit_frame_def ShellView_def shell_header_def)
  then show ?thesis using unsaved_changes_guarded [OF wit_picks_static run, of ToggleNavbar] b by blast
qed

end
