(* ===== verification/Contracts.thy ===== *)
theory Contracts
  imports SchemaTypes PolicyView Feeds ZoneDetail DhcpPage Upstream Tenancy Users Settings Frame
begin

text \<open>
  Whether the bodies the forms send have the request types of \<open>api/schema.ts\<close>.
\<close>

section \<open>Values of the inputs\<close>

lemma has_type_json [simp]:
  "has_type TString (JStr s)" "has_type TNumber (JNum n)" "has_type TBoolean (JBool b)"
  "has_type (TLiteral ls) (JStr s) \<longleftrightarrow> s \<in> set ls" "has_type (TNullable t) JNull" "has_type (TArray t) (JArr js) \<longleftrightarrow> list_all (has_type t) js"
  "\<not> has_type TString JNull" "\<not> has_type (TLiteral ls) JNull"
  by simp_all

lemma has_type_number [simp]:
  "has_type TNumber (jnum n) \<longleftrightarrow> n \<noteq> Blank" "has_type TNumber (jint i)" "has_type (TNullable TNumber) (jnum n) \<longleftrightarrow> n \<noteq> Blank"
  "has_type (TNullable TNumber) (jnum_or_null x) \<longleftrightarrow> x \<noteq> Some Blank"
proof -
  show n: "has_type TNumber (jnum n) \<longleftrightarrow> n \<noteq> Blank" "has_type (TNullable TNumber) (jnum n) \<longleftrightarrow> n \<noteq> Blank" for n
    by (cases n; simp add: jint_def)+
  show "has_type TNumber (jint i)" by (simp add: jint_def)
  show "has_type (TNullable TNumber) (jnum_or_null x) \<longleftrightarrow> x \<noteq> Some Blank"
    using n(2) by (simp add: jnum_or_null_def del: has_type.simps split: option.split)
qed

lemma has_type_text [simp]:
  "has_type TString (jopt s) \<longleftrightarrow> s \<noteq> None" "has_type (TNullable TString) (jopt s)" "has_type (TLiteral ls) (jopt s) \<longleftrightarrow> s \<in> Some ` set ls"
  "has_type (TNullable (TLiteral ls)) (jopt s) \<longleftrightarrow> s \<in> insert None (Some ` set ls)"
  by (simp_all add: jopt_def image_iff split: option.split)

lemma has_type_values [simp]:
  "has_type (TArray TString) (jstrs xs)" "has_type (TNullable (TArray TString)) (jstrs xs)"
  "has_type (TNullable TString) (JStr t)" "has_type (TNullable TBoolean) (JBool b)" "has_type (TNullable (TLiteral ls)) (JStr t) \<longleftrightarrow> t \<in> set ls"
  by (simp_all add: jstrs_def list_all_iff)

declare has_type.simps(1-8) [simp del]

lemmas typed = object_ok_def member_ok_def

lemma truthy_not_None: "truthy s \<Longrightarrow> s \<noteq> None"
  by (auto simp: truthy_def split: option.splits)

section \<open>Forms whose valid values are well typed\<close>

lemma user_typed: "form_valid (AddUser_validate v) \<Longrightarrow> has_type UserCreate (AddUser_body v)"
  using truthy_not_None [of "af_role v"] by (simp add: AddUser_validate_def AddUser_body_def UserCreate_def typed split: if_splits)

lemma user_update_typed: "has_type UserUpdate (EditUser_body v) \<longleftrightarrow> ef_role v \<noteq> None"
  by (simp add: EditUser_body_def UserUpdate_def typed)

lemma tenancy_typed:
  "do_vars CreateTenant_ops n = Some b \<Longrightarrow> has_type TenantCreate b"
  "do_vars (CreateGroup_ops t) g = Some b \<Longrightarrow> has_type GroupCreate b"
  "do_vars (RenameGroup_ops t i) n = Some (j, b) \<Longrightarrow> has_type GroupUpdate b"
  "EditClient_body c = Some b \<Longrightarrow> has_type ClientUpsert b"
  by (auto simp: CreateTenant_ops_def CreateGroup_ops_def RenameGroup_ops_def EditClient_body_def TenantCreate_def GroupCreate_def
      GroupUpdate_def ClientUpsert_def typed split: option.splits)

lemma password_typed: "do_vars ChangePassword_ops v = Some b \<Longrightarrow> has_type ChangePasswordRequest b"
  by (auto simp: ChangePassword_ops_def ChangePasswordRequest_def typed)

lemma reservation_typed:
  "has_type ReservationCreate (ReservationForm_payload v)" "has_type ReservationUpdate (ReservationForm_payload v)"
  by (simp_all add: ReservationForm_payload_def ReservationCreate_def ReservationUpdate_def typed)

lemma reservation6_typed:
  "has_type Reservation6Create (Reservation6Form_payload v)" "has_type Reservation6Update (Reservation6Form_payload v)"
  by (simp_all add: Reservation6Form_payload_def Reservation6Create_def Reservation6Update_def typed)

section \<open>Forms with number inputs and selects\<close>

text \<open>What a valid form lacks for its body to be well typed: a number input left blank, a select cleared or, where the schema
  lists the values, set to none of them.\<close>

definition syslog_filled :: "syslog_form \<Rightarrow> bool" where
  "syslog_filled v \<longleftrightarrow> Blank \<notin> {yf_facility v, yf_batch_size v, yf_flush_interval_s v} \<and> yf_transport v \<in> Some ` {''tcp'', ''tls'', ''udp''}
     \<and> yf_format v \<in> Some ` {''json'', ''cef''} \<and> yf_filter_decision v \<in> Some ` {''all'', ''block'', ''allow''}"

lemma syslog_typed: "form_valid (AddSyslog_validate v) \<Longrightarrow> has_type SiemSyslogCreate (AddSyslog_body v) \<longleftrightarrow> syslog_filled v"
  by (auto simp: AddSyslog_validate_def AddSyslog_body_def SiemSyslogCreate_def typed syslog_filled_def syslog_port_ok_def split: if_splits num_input.splits)

lemma sink_toggle_typed: "has_type SiemSyslogUpdate (snd (toggle_sink_vars x))"
  by (simp add: toggle_sink_vars_def SiemSyslogUpdate_def typed)

lemma feed_typed: "has_type FeedCreate (feed_body v) \<longleftrightarrow> ff_interval_seconds v \<noteq> Blank \<and> ff_format v \<noteq> None"
  "has_type FeedUpdate (edit_feed_body v) \<longleftrightarrow> ff_interval_seconds v \<noteq> Blank"
  "has_type FeedUpdate (toggle_body b)"
  by (auto simp: feed_body_def FeedCreate_def edit_feed_body_def FeedUpdate_def toggle_body_def typed)

lemma zone_typed: "form_valid (AddZone_validate v) \<Longrightarrow> has_type ZoneCreate (zone_create_body v) \<longleftrightarrow> zf_ttl_default v \<noteq> Blank"
  "has_type ZoneUpdate (zone_update_body e) \<longleftrightarrow> ze_ttl_default e \<noteq> Blank"
  using truthy_not_None [of "zf_tenant_id v"] truthy_not_None [of "zf_zone_type v"]
  by (auto simp: AddZone_validate_def zone_create_body_def ZoneCreate_def zone_update_body_def ZoneUpdate_def typed split: if_splits)

lemma record_typed:
  "has_type RecordIn (record_body v) \<longleftrightarrow> rf_ttl v \<noteq> Some Blank \<and> (hasPriority (rf_record_type v) \<longrightarrow> rf_priority v \<noteq> Some Blank) \<and> rf_record_type v \<noteq> None"
  "has_type RecordUpdate (record_body v) \<longleftrightarrow> rf_ttl v \<noteq> Some Blank \<and> (hasPriority (rf_record_type v) \<longrightarrow> rf_priority v \<noteq> Some Blank)"
  by (auto simp: record_body_def RecordIn_def RecordUpdate_def typed)

definition DNSSEC_MODES :: "string list" where
  "DNSSEC_MODES = [''strict'', ''opportunistic'', ''disabled'']"

definition resolver_filled :: "resolver_form \<Rightarrow> bool" where
  "resolver_filled v \<longleftrightarrow> Blank \<notin> {vf_timeout_ms v, vf_max_retries v} \<and> vf_protocol v \<in> {''dot'', ''doh'', ''do53''}"

lemma resolver_typed:
  assumes "form_valid (ResolverForm_validate i v)"
  shows "has_type ResolverCreate (ResolverForm_submit v) \<longleftrightarrow> resolver_filled v \<and> vf_dnssec_validation v \<in> Some ` set DNSSEC_MODES"
    and "has_type ResolverUpdate (ResolverForm_submit v) \<longleftrightarrow> resolver_filled v \<and> vf_dnssec_validation v \<in> insert None (Some ` set DNSSEC_MODES)"
proof -
  have "vf_port v \<noteq> Blank" using assms by (auto simp: ResolverForm_validate_def port_error_def)
  then show "has_type ResolverCreate (ResolverForm_submit v) \<longleftrightarrow> resolver_filled v \<and> vf_dnssec_validation v \<in> Some ` set DNSSEC_MODES"
    "has_type ResolverUpdate (ResolverForm_submit v) \<longleftrightarrow> resolver_filled v \<and> vf_dnssec_validation v \<in> insert None (Some ` set DNSSEC_MODES)"
    by (auto simp: ResolverForm_submit_def ResolverCreate_def ResolverUpdate_def defined_def typed resolver_filled_def DNSSEC_MODES_def split: if_splits)
qed

definition pool_filled :: "pool_form \<Rightarrow> bool" where
  "pool_filled v \<longleftrightarrow> Blank \<notin> {pf_health_check_interval_s v, pf_health_check_timeout_ms v, pf_unhealthy_threshold v, pf_healthy_threshold v, pf_min_healthy_members v}"

definition POOL_STRATEGIES :: "string list" where
  "POOL_STRATEGIES = [''round_robin'', ''weighted_round_robin'', ''failover'', ''latency'']"

lemma pool_typed:
  "has_type PoolCreate (PoolForm_values v) \<longleftrightarrow> pool_filled v \<and> pf_strategy v \<in> Some ` set POOL_STRATEGIES \<and> pf_health_check_type v \<in> Some ` {''soa'', ''a'', ''txt''}"
  "has_type PoolUpdate (PoolForm_values v) \<longleftrightarrow> pool_filled v \<and> pf_strategy v \<in> insert None (Some ` set POOL_STRATEGIES)
     \<and> pf_health_check_type v \<in> insert None (Some ` {''soa'', ''a'', ''txt''})"
  by (auto simp: PoolForm_values_def PoolCreate_def PoolUpdate_def typed pool_filled_def POOL_STRATEGIES_def)

definition MATCH_KINDS :: "string list" where
  "MATCH_KINDS = [''domain_suffix'', ''domain_exact'', ''qtype'', ''category'', ''default'']"

lemma route_typed:
  assumes "form_valid (RouteForm_validate i v)"
  shows "has_type RouteCreate (RouteForm_submit v) \<longleftrightarrow> uf_priority v \<noteq> Blank \<and> uf_match_type v \<in> Some ` set MATCH_KINDS"
    and "has_type RouteUpdate (RouteForm_submit v) \<longleftrightarrow> uf_priority v \<noteq> Blank \<and> uf_match_type v \<in> insert None (Some ` set MATCH_KINDS)"
proof -
  have "uf_pool_id v \<noteq> None" using assms truthy_not_None by (auto simp: RouteForm_validate_def split: if_splits)
  then show "has_type RouteCreate (RouteForm_submit v) \<longleftrightarrow> uf_priority v \<noteq> Blank \<and> uf_match_type v \<in> Some ` set MATCH_KINDS"
    "has_type RouteUpdate (RouteForm_submit v) \<longleftrightarrow> uf_priority v \<noteq> Blank \<and> uf_match_type v \<in> insert None (Some ` set MATCH_KINDS)"
    by (auto simp: RouteForm_submit_def RouteCreate_def RouteUpdate_def typed MATCH_KINDS_def)
qed

lemma policy_typed:
  "has_type TenantPolicyIn (policy_body v) \<longleftrightarrow> Blank \<notin> {of_min_ttl_s v, of_max_ttl_s v, of_negative_ttl_s v}
     \<and> of_dnssec_validation v \<in> Some ` set DNSSEC_MODES"
  by (auto simp: policy_body_def TenantPolicyIn_def typed DNSSEC_MODES_def)

definition scope_filled :: "scope_form \<Rightarrow> bool" where
  "scope_filled v \<longleftrightarrow> Blank \<notin> {sf_lease_time_s v, sf_max_lease_time_s v, sf_ddns_ttl_s v}"

lemma scope_typed: "form_valid (ScopeForm_validate None v) \<Longrightarrow> has_type ScopeCreate (ScopeForm_payload v) \<longleftrightarrow> scope_filled v"
  using truthy_not_None [of "sf_tenant_id v"]
  by (auto simp: ScopeForm_validate_def ScopeForm_payload_def ScopeCreate_def typed scope_filled_def truthy_def [of None] split: if_splits)

lemma scope_update_untyped: "\<not> has_type ScopeUpdate (ScopeForm_payload v)"
  by (simp add: ScopeForm_payload_def ScopeUpdate_def typed)

definition scope6_filled :: "scope6_form \<Rightarrow> bool" where
  "scope6_filled v \<longleftrightarrow> Blank \<notin> {s6_preferred_lifetime_s v, s6_valid_lifetime_s v} \<and> s6_pd_prefix_len v \<noteq> Some Blank"

lemma scope6_typed: "form_valid (Scope6Form_validate None v) \<Longrightarrow> has_type Scope6Create (Scope6Form_payload v) \<longleftrightarrow> scope6_filled v"
  using truthy_not_None [of "s6_tenant_id v"]
  by (auto simp: Scope6Form_validate_def Scope6Form_payload_def jnum_or_null_def [symmetric] Scope6Create_def typed scope6_filled_def
      truthy_def [of None] split: if_splits)

lemma scope6_update_untyped: "\<not> has_type Scope6Update (Scope6Form_payload v)"
  by (simp add: Scope6Form_payload_def Scope6Update_def typed)

text \<open>The policy and the block page.\<close>

lemma toggles_typed: "has_type (TArray CategoryToggleIn) (JArr (map toggle_json ts)) \<longleftrightarrow>
    list_all (\<lambda>t. tg_action t \<in> {''ACTION_BLOCK'', ''ACTION_LOG_ONLY'', ''ACTION_ALLOW''}) ts"
  by (simp add: has_type.simps(6) list_all_iff toggle_json_def CategoryToggleIn_def typed)

lemma overrides_typed: "has_type (TArray OverrideIn) (JArr (map override_json os)) \<longleftrightarrow> list_all (\<lambda>x. ov_kind x \<in> Some ` {''allow'', ''deny''}) os"
  by (auto simp: has_type.simps(6) list_all_iff override_json_def OverrideIn_def typed)

lemma policy_upsert_typed: "has_type PolicyUpsert (save_body (ts, os, f)) \<longleftrightarrow> f \<in> {''FAIL_OPEN'', ''FAIL_CLOSED''}
    \<and> list_all (\<lambda>t. tg_action t \<in> {''ACTION_BLOCK'', ''ACTION_LOG_ONLY'', ''ACTION_ALLOW''}) ts
    \<and> list_all (\<lambda>x. ov_kind x \<in> Some ` {''allow'', ''deny''}) os"
  by (simp add: save_body_def PolicyUpsert_def typed toggles_typed overrides_typed del: has_type_json(6))

lemma block_page_typed: "has_type BlockPageTemplateUpsert (block_body f) \<longleftrightarrow>
    bf_block_mode f \<in> {''BLOCK_MODE_NXDOMAIN'', ''BLOCK_MODE_ZERO_IP'', ''BLOCK_MODE_REDIRECT''}"
  by (simp add: block_body_def BlockPageTemplateUpsert_def typed)

lemma login_typed: "login_call e p = Typed POST q xs ys (Some b) \<Longrightarrow> has_type LoginRequest b"
  by (auto simp: login_call_def LoginRequest_def typed)

section \<open>The property\<close>

text \<open>C10. Request bodies and the declared request types. The bodies of the login, password, user, tenant, group, client and reservation forms
  always have the type of their endpoint. Those of the SIEM, feed, zone, record, resolver, pool, route, upstream policy,
  filter policy and DHCP scope creation forms have it exactly when no number input was left blank and no select is cleared or off the declared
  values, which validation does not ask for. The body of a scope edit never has it, of either family: it carries the
  tenant and the subnet, which an update does not take.\<close>

theorem request_bodies_typed:
  "(form_valid (AddUser_validate au) \<longrightarrow> has_type UserCreate (AddUser_body au))
   \<and> (\<forall>b. do_vars CreateTenant_ops n = Some b \<longrightarrow> has_type TenantCreate b)
   \<and> (\<forall>b. do_vars (CreateGroup_ops t) g = Some b \<longrightarrow> has_type GroupCreate b)
   \<and> (\<forall>b. EditClient_body c = Some b \<longrightarrow> has_type ClientUpsert b)
   \<and> (\<forall>b. do_vars ChangePassword_ops pw = Some b \<longrightarrow> has_type ChangePasswordRequest b)
   \<and> has_type ReservationCreate (ReservationForm_payload r) \<and> has_type ReservationUpdate (ReservationForm_payload r)
   \<and> has_type Reservation6Create (Reservation6Form_payload r6) \<and> has_type Reservation6Update (Reservation6Form_payload r6)
   \<and> (form_valid (AddSyslog_validate sy) \<longrightarrow> has_type SiemSyslogCreate (AddSyslog_body sy) = syslog_filled sy)
   \<and> has_type FeedCreate (feed_body fd) = (ff_interval_seconds fd \<noteq> Blank \<and> ff_format fd \<noteq> None)
   \<and> (form_valid (AddZone_validate z) \<longrightarrow> has_type ZoneCreate (zone_create_body z) = (zf_ttl_default z \<noteq> Blank))
   \<and> has_type RecordIn (record_body rc) =
       (rf_ttl rc \<noteq> Some Blank \<and> (hasPriority (rf_record_type rc) \<longrightarrow> rf_priority rc \<noteq> Some Blank) \<and> rf_record_type rc \<noteq> None)
   \<and> (form_valid (ResolverForm_validate i v) \<longrightarrow>
       has_type ResolverCreate (ResolverForm_submit v) = (resolver_filled v \<and> vf_dnssec_validation v \<in> Some ` set DNSSEC_MODES))
   \<and> has_type PoolCreate (PoolForm_values p) =
       (pool_filled p \<and> pf_strategy p \<in> Some ` set POOL_STRATEGIES \<and> pf_health_check_type p \<in> Some ` {''soa'', ''a'', ''txt''})
   \<and> (form_valid (RouteForm_validate j u) \<longrightarrow>
       has_type RouteCreate (RouteForm_submit u) = (uf_priority u \<noteq> Blank \<and> uf_match_type u \<in> Some ` set MATCH_KINDS))
   \<and> has_type TenantPolicyIn (policy_body tp) =
       (Blank \<notin> {of_min_ttl_s tp, of_max_ttl_s tp, of_negative_ttl_s tp} \<and> of_dnssec_validation tp \<in> Some ` set DNSSEC_MODES)
   \<and> has_type PolicyUpsert (save_body (ts, os, f)) =
       (f \<in> {''FAIL_OPEN'', ''FAIL_CLOSED''} \<and> list_all (\<lambda>t. tg_action t \<in> {''ACTION_BLOCK'', ''ACTION_LOG_ONLY'', ''ACTION_ALLOW''}) ts
        \<and> list_all (\<lambda>x. ov_kind x \<in> Some ` {''allow'', ''deny''}) os)
   \<and> (form_valid (ScopeForm_validate None s) \<longrightarrow> has_type ScopeCreate (ScopeForm_payload s) = scope_filled s)
   \<and> (form_valid (Scope6Form_validate None s6) \<longrightarrow> has_type Scope6Create (Scope6Form_payload s6) = scope6_filled s6)
   \<and> \<not> has_type ScopeUpdate (ScopeForm_payload s) \<and> \<not> has_type Scope6Update (Scope6Form_payload s6)"
  by (intro conjI impI allI user_typed tenancy_typed password_typed reservation_typed reservation6_typed syslog_typed feed_typed zone_typed
      record_typed resolver_typed pool_typed route_typed policy_typed policy_upsert_typed
      scope_typed scope6_typed scope_update_untyped scope6_update_untyped)

text \<open>A named SIEM sink with the defaults is well typed; with the batch size cleared it is still valid and no longer well typed.\<close>

definition wit_syslog :: syslog_form where
  "wit_syslog = AddSyslog_initial\<lparr>yf_name := ''siem'', yf_host := ''10.0.0.9''\<rparr>"

theorem request_bodies_typed_witness:
  "has_type SiemSyslogCreate (AddSyslog_body wit_syslog)
   \<and> form_valid (AddSyslog_validate (wit_syslog\<lparr>yf_batch_size := Blank\<rparr>))
   \<and> \<not> has_type SiemSyslogCreate (AddSyslog_body (wit_syslog\<lparr>yf_batch_size := Blank\<rparr>))"
proof -
  have v: "form_valid (AddSyslog_validate wit_syslog)" "form_valid (AddSyslog_validate (wit_syslog\<lparr>yf_batch_size := Blank\<rparr>))" by code_simp+
  have "syslog_filled wit_syslog" "\<not> syslog_filled (wit_syslog\<lparr>yf_batch_size := Blank\<rparr>)"
    by (simp_all add: syslog_filled_def wit_syslog_def AddSyslog_initial_def)
  moreover have "form_valid (AddSyslog_validate x) \<longrightarrow> has_type SiemSyslogCreate (AddSyslog_body x) = syslog_filled x" for x
    by (rule request_bodies_typed [THEN conjunct2, THEN conjunct2, THEN conjunct2, THEN conjunct2, THEN conjunct2, THEN conjunct2,
          THEN conjunct2, THEN conjunct2, THEN conjunct2, THEN conjunct1])
  ultimately show ?thesis using v by simp
qed

end
