(* ===== verification/LateAnswers.thy ===== *)
theory LateAnswers
  imports Users Tenancy Settings
begin

text \<open>
  Answers that arrive after their dialog was closed. The create forms of the tenants, groups and settings pages are
  children of their modals: closing unmounts them, and no later answer of their call runs a callback. The form that adds
  a user encloses its modal (\<open>pages/UsersPage.tsx\<close>, \<open>AddUserModal\<close>): its callbacks still run, and reset whatever has been typed since.
\<close>

section \<open>Calls only grow\<close>

lemma calls_kept:
  "n < ob_calls (dl_call d) \<Longrightarrow> n < ob_calls (dl_call (dialog_remount i d))"
  "n < ob_calls (dl_call d) \<Longrightarrow> n < ob_calls (dl_call (fst (dialog_submit ops d)))"
  "n < ob_calls (dl_call d) \<Longrightarrow> n < ob_calls (dl_call (fst (dialog_answer ops dialog_unmount m f r d)))"
  by (simp_all add: dialog_remount_def ob_fresh_def dialog_submit_def ob_call_def dialog_answer_def ob_settle_def dialog_unmount_def Let_def
      split: option.split)

interpretation tnl: page "TenantsPage w u" tenants_answer tenants_step "\<lambda>s. n < ob_calls (dl_call (tz_create s))" for w u n
proof -
  have "n < ob_calls (dl_call (tz_create (fst (tenants_step e s))))" if "n < ob_calls (dl_call (tz_create s))" for e s
    using that calls_kept [of n "tz_create s"] by (cases e) (simp_all add: split_def Let_def split: sum.split)
  then show "page (TenantsPage w u) tenants_answer tenants_step (\<lambda>s. n < ob_calls (dl_call (tz_create s)))" by unfold_locales
qed

interpretation grl: page "GroupsPage w u" groups_answer groups_step "\<lambda>s. n < ob_calls (dl_call (gz_create s)) \<and> gz_tenantId s = t" for w u n t
proof -
  have "n < ob_calls (dl_call (gz_create (fst (groups_step e s)))) \<and> gz_tenantId (fst (groups_step e s)) = t"
    if "n < ob_calls (dl_call (gz_create s)) \<and> gz_tenantId s = t" for e s
    using that calls_kept [of n "gz_create s"]
    by (cases e) (auto simp: split_def setEditingGroup_def RenameGroup_submit_def RenameGroup_answer_def Let_def split: sum.split option.split)
  then show "page (GroupsPage w u) groups_answer groups_step (\<lambda>s. n < ob_calls (dl_call (gz_create s)) \<and> gz_tenantId s = t)" by unfold_locales
qed

interpretation sgl: page "SettingsPage w br u" settings_page_answer settings_step "\<lambda>s. n < ob_calls (dl_call (tg_add s))" for w br u n
proof -
  have "n < ob_calls (dl_call (tg_add (fst (settings_step e s))))" if "n < ob_calls (dl_call (tg_add s))" for e s
    using that calls_kept [of n "tg_add s"]
    by (cases e) (simp_all add: split_def settings_setTab_def toggleSink_def toggleSink_answer_def testSink_def testSink_answer_def Let_def)
  then show "page (SettingsPage w br u) settings_page_answer settings_step (\<lambda>s. n < ob_calls (dl_call (tg_add s)))" by unfold_locales
qed

section \<open>The property\<close>

text \<open>C40. Late answers. Once the create dialog of the tenants, groups or SIEM page has been closed, an answer to a call it made before changes
  nothing on the page in any later state, a reopened and refilled dialog included, and shows no message; a success only refreshes the
  queries. On the users page the late success of a closed dialog closes the dialog that has been opened since and throws
  away what was typed into it.\<close>

theorem late_answers:
  assumes t: "page_run (TenantsPage w u) tenants_answer tenants_step (fst (tenants_step CloseCreateTenant t0)) t cs" "k \<le> ob_calls (dl_call (tz_create t0))"
    and g: "page_run (GroupsPage w u) groups_answer groups_step (fst (groups_step CloseCreateGroup g0)) g ds" "m \<le> ob_calls (dl_call (gz_create g0))"
    and s: "page_run (SettingsPage w br u) settings_page_answer settings_step (fst (settings_step CloseAddSyslog s0)) s es" "n \<le> ob_calls (dl_call (tg_add s0))"
  shows "tenants_step (CreateTenantAnswer k tv r) t =
      (t, if r = None then settled_ok useCreateTenant (JObj [(''name'', JStr tv)]) [] else [])
    \<and> fst (groups_step (CreateGroupAnswer m gv r) g) = g
    \<and> snd (groups_step (CreateGroupAnswer m gv r) g) = (if r = None then settled_ok (useCreateGroup (gz_tenantId g0)) (the (do_vars (CreateGroup_ops (gz_tenantId g0)) gv)) [] else [])
    \<and> settings_step (AddSyslogAnswer n sv r) s =
      (s, if r = None then settled_ok useCreateSiemSyslogSink (AddSyslog_body sv) [] else [])
    \<and> (form_valid (AddUser_validate (dl_values (uz_add x))) \<longrightarrow> (let x1 = fst (users_step me SubmitAddUser x);
           x2 = fst (users_step me (EditAddUser h) (fst (users_step me OpenAddUser (fst (users_step me CloseAddUser x1)))));
           x3 = fst (users_step me (AddUserAnswer (ob_calls (dl_call (uz_add x1))) uv None) x2) in
       requests (snd (users_step me SubmitAddUser x)) = [mu_fn useCreateUser (AddUser_body (dl_values (uz_add x)))]
       \<and> dl_opened (uz_add x2) \<and> dl_values (uz_add x2) = h AddUser_initial
       \<and> \<not> dl_opened (uz_add x3) \<and> dl_values (uz_add x3) = AddUser_initial))"
proof (intro conjI)
  have "k < ob_calls (dl_call (tz_create t))" by (rule tnl.run_keeps [OF t(1)]) (use t(2) in simp)
  note late = dialog_answer_late [OF this, of CreateTenant_ops dialog_unmount tv r]
  show "tenants_step (CreateTenantAnswer k tv r) t = (t, if r = None then settled_ok useCreateTenant (JObj [(''name'', JStr tv)]) [] else [])"
    using late by (simp add: split_def Let_def) (simp add: CreateTenant_ops_def)
  have gi: "m < ob_calls (dl_call (gz_create g)) \<and> gz_tenantId g = gz_tenantId g0" by (rule grl.run_keeps [OF g(1)]) (use g(2) in simp)
  note late = dialog_answer_late [OF conjunct1 [OF gi], of "CreateGroup_ops (gz_tenantId g0)" dialog_unmount gv r]
  show "fst (groups_step (CreateGroupAnswer m gv r) g) = g" using late gi by (simp add: split_def Let_def)
  show "snd (groups_step (CreateGroupAnswer m gv r) g) = (if r = None then settled_ok (useCreateGroup (gz_tenantId g0)) (the (do_vars (CreateGroup_ops (gz_tenantId g0)) gv)) [] else [])"
    using late gi by (simp add: split_def Let_def) (simp add: CreateGroup_ops_def)
  have "n < ob_calls (dl_call (tg_add s))" by (rule sgl.run_keeps [OF s(1)]) (use s(2) in simp)
  note late = dialog_answer_late [OF this, of AddSyslog_ops dialog_unmount sv r]
  show "settings_step (AddSyslogAnswer n sv r) s = (s, if r = None then settled_ok useCreateSiemSyslogSink (AddSyslog_body sv) [] else [])"
    using late by (simp add: split_def Let_def) (simp add: AddSyslog_ops_def)
qed (simp add: split_def AddUser_handleClose_def dialog_submit_def AddUser_ops_def mutate_def dialog_edit_def dialog_answer_def ob_latest_def ob_settle_def Let_def)

text \<open>A tenant dialog with a call in flight, and a filled user dialog.\<close>

definition wit_pending :: tenants_page where
  "wit_pending = tenants_initial\<lparr>tz_create := \<lparr>dl_opened = True, dl_values = ''acme'', dl_call = ob_call ob_idle\<rparr>\<rparr>"

definition wit_add_user :: users_page where
  "wit_add_user = users_initial\<lparr>uz_add := \<lparr>dl_opened = True,
     dl_values = \<lparr>af_email = ''a@x'', af_password = ''long password'', af_role = Some ''viewer'', af_tenant_id = Some []\<rparr>, dl_call = ob_idle\<rparr>\<rparr>"

theorem late_answers_witness:
  "tenants_step (CreateTenantAnswer 1 ''acme'' None) (fst (tenants_step CloseCreateTenant wit_pending))
     = (fst (tenants_step CloseCreateTenant wit_pending), [Cache (Invalidate [KStr ''tenants''])])
   \<and> dl_values (uz_add (fst (users_step None (AddUserAnswer 1 AddUser_initial None)
       (fst (users_step None (EditAddUser (af_email_update (\<lambda>_. ''b@x''))) (fst (users_step None OpenAddUser
         (fst (users_step None CloseAddUser (fst (users_step None SubmitAddUser wit_add_user)))))))))))
     = AddUser_initial"
proof -
  have k: "1 \<le> ob_calls (dl_call (tz_create wit_pending))" by code_simp
  have v: "form_valid (AddUser_validate (dl_values (uz_add wit_add_user)))" by code_simp
  have n: "ob_calls (dl_call (uz_add (fst (users_step None SubmitAddUser wit_add_user)))) = 1" by code_simp
  show ?thesis
    using late_answers [OF page_run.run_start k page_run.run_start order.refl page_run.run_start order.refl, where tv = "''acme''" and r = None]
      late_answers [OF page_run.run_start k page_run.run_start order.refl page_run.run_start order.refl,
        where x = wit_add_user and me = None and h = "af_email_update (\<lambda>_. ''b@x'')" and uv = AddUser_initial] v n
    by (simp add: Let_def settled_ok_def useCreateTenant_def del: users_step.simps tenants_step.simps groups_step.simps settings_step.simps)
qed

end
