(* ===== verification/ApiPaths.thy ===== *)
theory ApiPaths
  imports SchemaTypes Hooks
begin

text \<open>
  The interface of the control service as \<open>api/schema.ts\<close> declares it: one definition per operation (its query, header and path
  parameters, its body and its answers) under its name, the table of paths, and when a call of the client conforms to it. A
  typed call names its path template; a raw call has its final path, which selects the first template whose literal
  segments agree and whose parameters are not empty, among the paths that have the method.
\<close>

section \<open>Operations (schema.ts)\<close>

record operation =
  op_query :: "(string \<times> presence \<times> jtype) list"
  op_header :: "(string \<times> presence \<times> jtype) list"
  op_path :: "(string \<times> presence \<times> jtype) list"
  op_body :: "jtype option"
  op_responses :: "(nat \<times> jtype option) list"

definition list_categories_api_v1_categories_get :: operation where
  "list_categories_api_v1_categories_get =
    \<lparr>op_query = [],
     op_header = [], op_path = [],
     op_body = None, op_responses = [(200, Some (TArray CategoryOut))]\<rparr>"

definition list_tenants_api_v1_tenants_get :: operation where
  "list_tenants_api_v1_tenants_get =
    \<lparr>op_query = [],
     op_header = [], op_path = [],
     op_body = None, op_responses = [(200, Some (TArray TenantOut))]\<rparr>"

definition create_tenant_api_v1_tenants_post :: operation where
  "create_tenant_api_v1_tenants_post =
    \<lparr>op_query = [],
     op_header = [], op_path = [],
     op_body = Some TenantCreate, op_responses = [(201, Some TenantOut), (422, Some HTTPValidationError)]\<rparr>"

definition get_tenant_api_v1_tenants__tenant_id__get :: operation where
  "get_tenant_api_v1_tenants__tenant_id__get =
    \<lparr>op_query = [],
     op_header = [], op_path = [(''tenant_id'', Required, TString)],
     op_body = None, op_responses = [(200, Some TenantOut), (422, Some HTTPValidationError)]\<rparr>"

definition delete_tenant_api_v1_tenants__tenant_id__delete :: operation where
  "delete_tenant_api_v1_tenants__tenant_id__delete =
    \<lparr>op_query = [],
     op_header = [], op_path = [(''tenant_id'', Required, TString)],
     op_body = None, op_responses = [(204, None), (422, Some HTTPValidationError)]\<rparr>"

definition list_groups_api_v1_tenants__tenant_id__groups_get :: operation where
  "list_groups_api_v1_tenants__tenant_id__groups_get =
    \<lparr>op_query = [],
     op_header = [], op_path = [(''tenant_id'', Required, TString)],
     op_body = None, op_responses = [(200, Some (TArray GroupOut)), (422, Some HTTPValidationError)]\<rparr>"

definition create_group_api_v1_tenants__tenant_id__groups_post :: operation where
  "create_group_api_v1_tenants__tenant_id__groups_post =
    \<lparr>op_query = [],
     op_header = [], op_path = [(''tenant_id'', Required, TString)],
     op_body = Some GroupCreate, op_responses = [(201, Some GroupOut), (422, Some HTTPValidationError)]\<rparr>"

definition set_group_subnet_api_v1_groups__group_id__subnet_put :: operation where
  "set_group_subnet_api_v1_groups__group_id__subnet_put =
    \<lparr>op_query = [],
     op_header = [], op_path = [(''group_id'', Required, TString)],
     op_body = Some GroupSubnetUpdate, op_responses = [(200, Some GroupOut), (422, Some HTTPValidationError)]\<rparr>"

definition rename_group_api_v1_groups__group_id__put :: operation where
  "rename_group_api_v1_groups__group_id__put =
    \<lparr>op_query = [],
     op_header = [], op_path = [(''group_id'', Required, TString)],
     op_body = Some GroupUpdate, op_responses = [(200, Some GroupOut), (422, Some HTTPValidationError)]\<rparr>"

definition delete_group_api_v1_groups__group_id__delete :: operation where
  "delete_group_api_v1_groups__group_id__delete =
    \<lparr>op_query = [],
     op_header = [], op_path = [(''group_id'', Required, TString)],
     op_body = None, op_responses = [(204, None), (422, Some HTTPValidationError)]\<rparr>"

definition get_routing_table_api_v1_routing_table_get :: operation where
  "get_routing_table_api_v1_routing_table_get =
    \<lparr>op_query = [],
     op_header = [(''authorization'', Optional, TNullable TString), (''X-Mantis-Node'', Optional, TNullable TString)], op_path = [],
     op_body = None, op_responses = [(200, Some (TArray RoutingTableEntry)), (422, Some HTTPValidationError)]\<rparr>"

definition get_local_zone_records_api_v1_local_zones_get :: operation where
  "get_local_zone_records_api_v1_local_zones_get =
    \<lparr>op_query = [(''group_id'', Required, TString)],
     op_header = [(''authorization'', Optional, TNullable TString), (''X-Mantis-Node'', Optional, TNullable TString)], op_path = [],
     op_body = None, op_responses = [(200, Some (TArray LocalZoneRecord)), (422, Some HTTPValidationError)]\<rparr>"

definition get_policy_api_v1_groups__group_id__policy_get :: operation where
  "get_policy_api_v1_groups__group_id__policy_get =
    \<lparr>op_query = [],
     op_header = [], op_path = [(''group_id'', Required, TString)],
     op_body = None, op_responses = [(200, Some PolicyOut), (422, Some HTTPValidationError)]\<rparr>"

definition upsert_policy_api_v1_groups__group_id__policy_put :: operation where
  "upsert_policy_api_v1_groups__group_id__policy_put =
    \<lparr>op_query = [],
     op_header = [], op_path = [(''group_id'', Required, TString)],
     op_body = Some PolicyUpsert, op_responses = [(200, Some PolicyOut), (422, Some HTTPValidationError)]\<rparr>"

definition get_public_key_api_v1_public_key_get :: operation where
  "get_public_key_api_v1_public_key_get =
    \<lparr>op_query = [],
     op_header = [(''authorization'', Optional, TNullable TString), (''X-Mantis-Node'', Optional, TNullable TString)], op_path = [],
     op_body = None, op_responses = [(200, Some TUnknown), (422, Some HTTPValidationError)]\<rparr>"

definition get_latest_bundle_api_v1_groups__group_id__bundle_get :: operation where
  "get_latest_bundle_api_v1_groups__group_id__bundle_get =
    \<lparr>op_query = [],
     op_header = [(''authorization'', Optional, TNullable TString),
       (''X-Mantis-Node'', Optional, TNullable TString)], op_path = [(''group_id'', Required, TString)],
     op_body = None, op_responses = [(200, Some TUnknown), (422, Some HTTPValidationError)]\<rparr>"

definition compile_bundle_api_v1_groups__group_id__bundle_post :: operation where
  "compile_bundle_api_v1_groups__group_id__bundle_post =
    \<lparr>op_query = [],
     op_header = [], op_path = [(''group_id'', Required, TString)],
     op_body = None, op_responses = [(201, None), (422, Some HTTPValidationError)]\<rparr>"

definition test_domain_api_v1_groups__group_id__policy_test_post :: operation where
  "test_domain_api_v1_groups__group_id__policy_test_post =
    \<lparr>op_query = [],
     op_header = [], op_path = [(''group_id'', Required, TString)],
     op_body = Some PolicyTestRequest, op_responses = [(200, Some PolicyTestResult), (422, Some HTTPValidationError)]\<rparr>"

definition get_group_block_template_api_v1_groups__group_id__block_page_template_get :: operation where
  "get_group_block_template_api_v1_groups__group_id__block_page_template_get =
    \<lparr>op_query = [],
     op_header = [], op_path = [(''group_id'', Required, TString)],
     op_body = None, op_responses = [(200, Some BlockPageTemplateOut), (422, Some HTTPValidationError)]\<rparr>"

definition upsert_group_block_template_api_v1_groups__group_id__block_page_template_put :: operation where
  "upsert_group_block_template_api_v1_groups__group_id__block_page_template_put =
    \<lparr>op_query = [],
     op_header = [], op_path = [(''group_id'', Required, TString)],
     op_body = Some BlockPageTemplateUpsert, op_responses = [(200, Some BlockPageTemplateOut), (422, Some HTTPValidationError)]\<rparr>"

definition upsert_tenant_block_template_api_v1_tenants__tenant_id__block_page_template_put :: operation where
  "upsert_tenant_block_template_api_v1_tenants__tenant_id__block_page_template_put =
    \<lparr>op_query = [],
     op_header = [], op_path = [(''tenant_id'', Required, TString)],
     op_body = Some BlockPageTemplateUpsert, op_responses = [(200, Some BlockPageTemplateOut), (422, Some HTTPValidationError)]\<rparr>"

definition get_effective_block_template_api_v1_groups__group_id__block_template_get :: operation where
  "get_effective_block_template_api_v1_groups__group_id__block_template_get =
    \<lparr>op_query = [],
     op_header = [(''authorization'', Optional, TNullable TString),
       (''X-Mantis-Node'', Optional, TNullable TString)], op_path = [(''group_id'', Required, TString)],
     op_body = None, op_responses = [(200, Some BlockPageTemplateOut), (422, Some HTTPValidationError)]\<rparr>"

definition list_feeds_api_v1_feeds_get :: operation where
  "list_feeds_api_v1_feeds_get =
    \<lparr>op_query = [],
     op_header = [], op_path = [],
     op_body = None, op_responses = [(200, Some (TArray FeedOut))]\<rparr>"

definition create_feed_api_v1_feeds_post :: operation where
  "create_feed_api_v1_feeds_post =
    \<lparr>op_query = [],
     op_header = [], op_path = [],
     op_body = Some FeedCreate, op_responses = [(201, Some FeedOut), (422, Some HTTPValidationError)]\<rparr>"

definition delete_feed_api_v1_feeds__feed_id__delete :: operation where
  "delete_feed_api_v1_feeds__feed_id__delete =
    \<lparr>op_query = [],
     op_header = [], op_path = [(''feed_id'', Required, TString)],
     op_body = None, op_responses = [(204, None), (422, Some HTTPValidationError)]\<rparr>"

definition update_feed_api_v1_feeds__feed_id__patch :: operation where
  "update_feed_api_v1_feeds__feed_id__patch =
    \<lparr>op_query = [],
     op_header = [], op_path = [(''feed_id'', Required, TString)],
     op_body = Some FeedUpdate, op_responses = [(200, Some FeedOut), (422, Some HTTPValidationError)]\<rparr>"

definition ingest_feed_api_v1_feeds__feed_id__ingest_post :: operation where
  "ingest_feed_api_v1_feeds__feed_id__ingest_post =
    \<lparr>op_query = [],
     op_header = [], op_path = [(''feed_id'', Required, TString)],
     op_body = None, op_responses = [(200, Some IngestOut), (422, Some HTTPValidationError)]\<rparr>"

definition query_log_api_v1_query_log_get :: operation where
  "query_log_api_v1_query_log_get =
    \<lparr>op_query = [(''limit'', Optional, TNumber), (''offset'', Optional, TNumber),
      (''decision'', Optional, TNullable (TLiteral [''allow'', ''block''])), (''group_id'', Optional, TNullable TString),
      (''qname'', Optional, TNullable TString), (''client_ip'', Optional, TNullable TString), (''qtype'', Optional, TNullable TString),
      (''matched_category'', Optional, TNullable TString), (''hours'', Optional, TNullable TNumber)],
     op_header = [], op_path = [],
     op_body = None, op_responses = [(200, Some (TArray QueryLogEntry)), (422, Some HTTPValidationError)]\<rparr>"

definition ingest_query_events_api_v1_query_events_post :: operation where
  "ingest_query_events_api_v1_query_events_post =
    \<lparr>op_query = [],
     op_header = [(''authorization'', Optional, TNullable TString), (''X-Mantis-Node'', Optional, TNullable TString)], op_path = [],
     op_body = Some QueryEventBatch, op_responses = [(202, None), (422, Some HTTPValidationError)]\<rparr>"

definition top_domains_api_v1_groups__group_id__top_domains_get :: operation where
  "top_domains_api_v1_groups__group_id__top_domains_get =
    \<lparr>op_query = [(''limit'', Optional, TNumber)],
     op_header = [], op_path = [(''group_id'', Required, TString)],
     op_body = None, op_responses = [(200, Some (TArray TopDomain)), (422, Some HTTPValidationError)]\<rparr>"

definition analytics_summary_api_v1_analytics_summary_get :: operation where
  "analytics_summary_api_v1_analytics_summary_get =
    \<lparr>op_query = [(''hours'', Optional, TNullable TNumber), (''offset_hours'', Optional, TNumber), (''group_id'', Optional, TNullable TString)],
     op_header = [], op_path = [],
     op_body = None, op_responses = [(200, Some AnalyticsSummary), (422, Some HTTPValidationError)]\<rparr>"

definition analytics_timeseries_api_v1_analytics_timeseries_get :: operation where
  "analytics_timeseries_api_v1_analytics_timeseries_get =
    \<lparr>op_query = [(''hours'', Optional, TNumber), (''group_id'', Optional, TNullable TString)],
     op_header = [], op_path = [],
     op_body = None, op_responses = [(200, Some (TArray TimeseriesPoint)), (422, Some HTTPValidationError)]\<rparr>"

definition analytics_by_group_api_v1_analytics_by_group_get :: operation where
  "analytics_by_group_api_v1_analytics_by_group_get =
    \<lparr>op_query = [(''hours'', Optional, TNullable TNumber)],
     op_header = [], op_path = [],
     op_body = None, op_responses = [(200, Some (TArray GroupBreakdown)), (422, Some HTTPValidationError)]\<rparr>"

definition top_clients_analytics_api_v1_analytics_top_clients_get :: operation where
  "top_clients_analytics_api_v1_analytics_top_clients_get =
    \<lparr>op_query = [(''hours'', Optional, TNumber), (''limit'', Optional, TNumber), (''group_id'', Optional, TNullable TString)],
     op_header = [], op_path = [],
     op_body = None, op_responses = [(200, Some (TArray TopClient)), (422, Some HTTPValidationError)]\<rparr>"

definition top_categories_analytics_api_v1_analytics_top_categories_get :: operation where
  "top_categories_analytics_api_v1_analytics_top_categories_get =
    \<lparr>op_query = [(''hours'', Optional, TNumber), (''limit'', Optional, TNumber), (''group_id'', Optional, TNullable TString)],
     op_header = [], op_path = [],
     op_body = None, op_responses = [(200, Some (TArray CategoryBreakdown)), (422, Some HTTPValidationError)]\<rparr>"

definition latency_analytics_api_v1_analytics_latency_get :: operation where
  "latency_analytics_api_v1_analytics_latency_get =
    \<lparr>op_query = [(''hours'', Optional, TNumber), (''group_id'', Optional, TNullable TString)],
     op_header = [], op_path = [],
     op_body = None, op_responses = [(200, Some LatencyStats), (422, Some HTTPValidationError)]\<rparr>"

definition query_mix_analytics_api_v1_analytics_query_mix_get :: operation where
  "query_mix_analytics_api_v1_analytics_query_mix_get =
    \<lparr>op_query = [(''hours'', Optional, TNumber), (''group_id'', Optional, TNullable TString)],
     op_header = [], op_path = [],
     op_body = None, op_responses = [(200, Some QueryMix), (422, Some HTTPValidationError)]\<rparr>"

definition recent_events_analytics_api_v1_analytics_recent_events_get :: operation where
  "recent_events_analytics_api_v1_analytics_recent_events_get =
    \<lparr>op_query = [(''limit'', Optional, TNumber), (''decision'', Optional, TNullable (TLiteral [''allow'', ''block''])),
      (''hours'', Optional, TNullable TNumber), (''group_id'', Optional, TNullable TString)],
     op_header = [], op_path = [],
     op_body = None, op_responses = [(200, Some (TArray RecentEvent)), (422, Some HTTPValidationError)]\<rparr>"

definition list_audit_log_api_v1_audit_log_get :: operation where
  "list_audit_log_api_v1_audit_log_get =
    \<lparr>op_query = [(''limit'', Optional, TNumber), (''offset'', Optional, TNumber), (''resource_type'', Optional, TNullable TString)],
     op_header = [], op_path = [],
     op_body = None, op_responses = [(200, Some (TArray AuditLogEntry)), (422, Some HTTPValidationError)]\<rparr>"

definition login_api_v1_auth_login_post :: operation where
  "login_api_v1_auth_login_post =
    \<lparr>op_query = [],
     op_header = [], op_path = [],
     op_body = Some LoginRequest, op_responses = [(200, Some LoginResponse), (422, Some HTTPValidationError)]\<rparr>"

definition logout_api_v1_auth_logout_post :: operation where
  "logout_api_v1_auth_logout_post =
    \<lparr>op_query = [],
     op_header = [], op_path = [],
     op_body = None, op_responses = [(204, None)]\<rparr>"

definition me_api_v1_auth_me_get :: operation where
  "me_api_v1_auth_me_get =
    \<lparr>op_query = [],
     op_header = [], op_path = [],
     op_body = None, op_responses = [(200, Some UserOut)]\<rparr>"

definition change_password_api_v1_auth_change_password_post :: operation where
  "change_password_api_v1_auth_change_password_post =
    \<lparr>op_query = [],
     op_header = [], op_path = [],
     op_body = Some ChangePasswordRequest, op_responses = [(200, Some LoginResponse), (422, Some HTTPValidationError)]\<rparr>"

definition list_users_api_v1_users_get :: operation where
  "list_users_api_v1_users_get =
    \<lparr>op_query = [],
     op_header = [], op_path = [],
     op_body = None, op_responses = [(200, Some (TArray UserOut))]\<rparr>"

definition create_user_api_v1_users_post :: operation where
  "create_user_api_v1_users_post =
    \<lparr>op_query = [],
     op_header = [], op_path = [],
     op_body = Some UserCreate, op_responses = [(201, Some UserOut), (422, Some HTTPValidationError)]\<rparr>"

definition delete_user_api_v1_users__user_id__delete :: operation where
  "delete_user_api_v1_users__user_id__delete =
    \<lparr>op_query = [],
     op_header = [], op_path = [(''user_id'', Required, TString)],
     op_body = None, op_responses = [(204, None), (422, Some HTTPValidationError)]\<rparr>"

definition update_user_api_v1_users__user_id__patch :: operation where
  "update_user_api_v1_users__user_id__patch =
    \<lparr>op_query = [],
     op_header = [], op_path = [(''user_id'', Required, TString)],
     op_body = Some UserUpdate, op_responses = [(200, Some UserOut), (422, Some HTTPValidationError)]\<rparr>"

definition list_siem_events_api_v1_siem_events_get :: operation where
  "list_siem_events_api_v1_siem_events_get =
    \<lparr>op_query = [(''after_id'', Optional, TNullable TString), (''limit'', Optional, TNumber),
      (''tenant_id'', Optional, TNullable TString), (''group_id'', Optional, TNullable TString),
      (''decision'', Optional, TNullable (TLiteral [''allow'', ''block''])), (''since'', Optional, TNullable TString),
      (''until'', Optional, TNullable TString), (''format'', Optional, TLiteral [''json'', ''cef''])],
     op_header = [], op_path = [],
     op_body = None, op_responses = [(200, Some TUnknown), (422, Some HTTPValidationError)]\<rparr>"

definition list_syslog_api_v1_siem_syslog_get :: operation where
  "list_syslog_api_v1_siem_syslog_get =
    \<lparr>op_query = [],
     op_header = [], op_path = [],
     op_body = None, op_responses = [(200, Some (TArray SiemSyslogOut))]\<rparr>"

definition create_syslog_api_v1_siem_syslog_post :: operation where
  "create_syslog_api_v1_siem_syslog_post =
    \<lparr>op_query = [],
     op_header = [], op_path = [],
     op_body = Some SiemSyslogCreate, op_responses = [(201, Some SiemSyslogOut), (422, Some HTTPValidationError)]\<rparr>"

definition delete_syslog_api_v1_siem_syslog__syslog_id__delete :: operation where
  "delete_syslog_api_v1_siem_syslog__syslog_id__delete =
    \<lparr>op_query = [],
     op_header = [], op_path = [(''syslog_id'', Required, TString)],
     op_body = None, op_responses = [(204, None), (422, Some HTTPValidationError)]\<rparr>"

definition update_syslog_api_v1_siem_syslog__syslog_id__patch :: operation where
  "update_syslog_api_v1_siem_syslog__syslog_id__patch =
    \<lparr>op_query = [],
     op_header = [], op_path = [(''syslog_id'', Required, TString)],
     op_body = Some SiemSyslogUpdate, op_responses = [(200, Some SiemSyslogOut), (422, Some HTTPValidationError)]\<rparr>"

definition test_syslog_api_v1_siem_syslog__syslog_id__test_post :: operation where
  "test_syslog_api_v1_siem_syslog__syslog_id__test_post =
    \<lparr>op_query = [],
     op_header = [], op_path = [(''syslog_id'', Required, TString)],
     op_body = None, op_responses = [(200, Some SyslogTestResult), (422, Some HTTPValidationError)]\<rparr>"

definition list_clients_api_v1_tenants__tenant_id__clients_get :: operation where
  "list_clients_api_v1_tenants__tenant_id__clients_get =
    \<lparr>op_query = [(''unregistered_only'', Optional, TBoolean)],
     op_header = [], op_path = [(''tenant_id'', Required, TString)],
     op_body = None, op_responses = [(200, Some (TArray ClientOut)), (422, Some HTTPValidationError)]\<rparr>"

definition register_client_api_v1_tenants__tenant_id__clients__ip__put :: operation where
  "register_client_api_v1_tenants__tenant_id__clients__ip__put =
    \<lparr>op_query = [],
     op_header = [], op_path = [(''tenant_id'', Required, TString), (''ip'', Required, TString)],
     op_body = Some ClientUpsert, op_responses = [(200, Some ClientOut), (422, Some HTTPValidationError)]\<rparr>"

definition delete_client_api_v1_tenants__tenant_id__clients__ip__delete :: operation where
  "delete_client_api_v1_tenants__tenant_id__clients__ip__delete =
    \<lparr>op_query = [],
     op_header = [], op_path = [(''tenant_id'', Required, TString), (''ip'', Required, TString)],
     op_body = None, op_responses = [(204, None), (422, Some HTTPValidationError)]\<rparr>"

definition list_zones_api_v1_dns_zones_get :: operation where
  "list_zones_api_v1_dns_zones_get =
    \<lparr>op_query = [],
     op_header = [], op_path = [],
     op_body = None, op_responses = [(200, Some (TArray ZoneOut))]\<rparr>"

definition create_zone_api_v1_dns_zones_post :: operation where
  "create_zone_api_v1_dns_zones_post =
    \<lparr>op_query = [],
     op_header = [], op_path = [],
     op_body = Some ZoneCreate, op_responses = [(201, Some ZoneOut), (422, Some HTTPValidationError)]\<rparr>"

definition get_zone_api_v1_dns_zones__zone_id__get :: operation where
  "get_zone_api_v1_dns_zones__zone_id__get =
    \<lparr>op_query = [],
     op_header = [], op_path = [(''zone_id'', Required, TString)],
     op_body = None, op_responses = [(200, Some ZoneOut), (422, Some HTTPValidationError)]\<rparr>"

definition delete_zone_api_v1_dns_zones__zone_id__delete :: operation where
  "delete_zone_api_v1_dns_zones__zone_id__delete =
    \<lparr>op_query = [],
     op_header = [], op_path = [(''zone_id'', Required, TString)],
     op_body = None, op_responses = [(204, None), (422, Some HTTPValidationError)]\<rparr>"

definition update_zone_api_v1_dns_zones__zone_id__patch :: operation where
  "update_zone_api_v1_dns_zones__zone_id__patch =
    \<lparr>op_query = [],
     op_header = [], op_path = [(''zone_id'', Required, TString)],
     op_body = Some ZoneUpdate, op_responses = [(200, Some ZoneOut), (422, Some HTTPValidationError)]\<rparr>"

definition export_zone_api_v1_dns_zones__zone_id__export_get :: operation where
  "export_zone_api_v1_dns_zones__zone_id__export_get =
    \<lparr>op_query = [],
     op_header = [], op_path = [(''zone_id'', Required, TString)],
     op_body = None, op_responses = [(200, Some TUnknown), (422, Some HTTPValidationError)]\<rparr>"

definition list_records_api_v1_dns_zones__zone_id__records_get :: operation where
  "list_records_api_v1_dns_zones__zone_id__records_get =
    \<lparr>op_query = [],
     op_header = [], op_path = [(''zone_id'', Required, TString)],
     op_body = None, op_responses = [(200, Some (TArray RecordOut)), (422, Some HTTPValidationError)]\<rparr>"

definition create_record_api_v1_dns_zones__zone_id__records_post :: operation where
  "create_record_api_v1_dns_zones__zone_id__records_post =
    \<lparr>op_query = [],
     op_header = [], op_path = [(''zone_id'', Required, TString)],
     op_body = Some RecordIn, op_responses = [(201, Some RecordOut), (422, Some HTTPValidationError)]\<rparr>"

definition delete_record_api_v1_dns_zones__zone_id__records__record_id__delete :: operation where
  "delete_record_api_v1_dns_zones__zone_id__records__record_id__delete =
    \<lparr>op_query = [],
     op_header = [], op_path = [(''zone_id'', Required, TString), (''record_id'', Required, TString)],
     op_body = None, op_responses = [(204, None), (422, Some HTTPValidationError)]\<rparr>"

definition update_record_api_v1_dns_zones__zone_id__records__record_id__patch :: operation where
  "update_record_api_v1_dns_zones__zone_id__records__record_id__patch =
    \<lparr>op_query = [],
     op_header = [], op_path = [(''zone_id'', Required, TString), (''record_id'', Required, TString)],
     op_body = Some RecordUpdate, op_responses = [(200, Some RecordOut), (422, Some HTTPValidationError)]\<rparr>"

definition list_resolvers_api_v1_upstream_resolvers_get :: operation where
  "list_resolvers_api_v1_upstream_resolvers_get =
    \<lparr>op_query = [],
     op_header = [], op_path = [],
     op_body = None, op_responses = [(200, Some (TArray ResolverOut))]\<rparr>"

definition create_resolver_api_v1_upstream_resolvers_post :: operation where
  "create_resolver_api_v1_upstream_resolvers_post =
    \<lparr>op_query = [],
     op_header = [], op_path = [],
     op_body = Some ResolverCreate, op_responses = [(201, Some ResolverOut), (422, Some HTTPValidationError)]\<rparr>"

definition delete_resolver_api_v1_upstream_resolvers__resolver_id__delete :: operation where
  "delete_resolver_api_v1_upstream_resolvers__resolver_id__delete =
    \<lparr>op_query = [],
     op_header = [], op_path = [(''resolver_id'', Required, TString)],
     op_body = None, op_responses = [(204, None), (422, Some HTTPValidationError)]\<rparr>"

definition update_resolver_api_v1_upstream_resolvers__resolver_id__patch :: operation where
  "update_resolver_api_v1_upstream_resolvers__resolver_id__patch =
    \<lparr>op_query = [],
     op_header = [], op_path = [(''resolver_id'', Required, TString)],
     op_body = Some ResolverUpdate, op_responses = [(200, Some ResolverOut), (422, Some HTTPValidationError)]\<rparr>"

definition probe_resolver_api_v1_upstream_resolvers__resolver_id__probe_post :: operation where
  "probe_resolver_api_v1_upstream_resolvers__resolver_id__probe_post =
    \<lparr>op_query = [],
     op_header = [], op_path = [(''resolver_id'', Required, TString)],
     op_body = None, op_responses = [(200, Some ProbeResult), (422, Some HTTPValidationError)]\<rparr>"

definition list_pools_api_v1_upstream_pools_get :: operation where
  "list_pools_api_v1_upstream_pools_get =
    \<lparr>op_query = [],
     op_header = [], op_path = [],
     op_body = None, op_responses = [(200, Some (TArray PoolOut))]\<rparr>"

definition create_pool_api_v1_upstream_pools_post :: operation where
  "create_pool_api_v1_upstream_pools_post =
    \<lparr>op_query = [],
     op_header = [], op_path = [],
     op_body = Some PoolCreate, op_responses = [(201, Some PoolOut), (422, Some HTTPValidationError)]\<rparr>"

definition delete_pool_api_v1_upstream_pools__pool_id__delete :: operation where
  "delete_pool_api_v1_upstream_pools__pool_id__delete =
    \<lparr>op_query = [],
     op_header = [], op_path = [(''pool_id'', Required, TString)],
     op_body = None, op_responses = [(204, None), (422, Some HTTPValidationError)]\<rparr>"

definition update_pool_api_v1_upstream_pools__pool_id__patch :: operation where
  "update_pool_api_v1_upstream_pools__pool_id__patch =
    \<lparr>op_query = [],
     op_header = [], op_path = [(''pool_id'', Required, TString)],
     op_body = Some PoolUpdate, op_responses = [(200, Some PoolOut), (422, Some HTTPValidationError)]\<rparr>"

definition upsert_pool_member_api_v1_upstream_pools__pool_id__members__resolver_id__put :: operation where
  "upsert_pool_member_api_v1_upstream_pools__pool_id__members__resolver_id__put =
    \<lparr>op_query = [],
     op_header = [], op_path = [(''pool_id'', Required, TString), (''resolver_id'', Required, TString)],
     op_body = Some PoolMemberIn, op_responses = [(200, Some PoolMemberOut), (422, Some HTTPValidationError)]\<rparr>"

definition remove_pool_member_api_v1_upstream_pools__pool_id__members__resolver_id__delete :: operation where
  "remove_pool_member_api_v1_upstream_pools__pool_id__members__resolver_id__delete =
    \<lparr>op_query = [],
     op_header = [], op_path = [(''pool_id'', Required, TString), (''resolver_id'', Required, TString)],
     op_body = None, op_responses = [(204, None), (422, Some HTTPValidationError)]\<rparr>"

definition list_routes_api_v1_tenants__tenant_id__upstream_routes_get :: operation where
  "list_routes_api_v1_tenants__tenant_id__upstream_routes_get =
    \<lparr>op_query = [],
     op_header = [], op_path = [(''tenant_id'', Required, TString)],
     op_body = None, op_responses = [(200, Some (TArray RouteOut)), (422, Some HTTPValidationError)]\<rparr>"

definition create_route_api_v1_tenants__tenant_id__upstream_routes_post :: operation where
  "create_route_api_v1_tenants__tenant_id__upstream_routes_post =
    \<lparr>op_query = [],
     op_header = [], op_path = [(''tenant_id'', Required, TString)],
     op_body = Some RouteCreate, op_responses = [(201, Some RouteOut), (422, Some HTTPValidationError)]\<rparr>"

definition delete_route_api_v1_tenants__tenant_id__upstream_routes__route_id__delete :: operation where
  "delete_route_api_v1_tenants__tenant_id__upstream_routes__route_id__delete =
    \<lparr>op_query = [],
     op_header = [], op_path = [(''tenant_id'', Required, TString), (''route_id'', Required, TString)],
     op_body = None, op_responses = [(204, None), (422, Some HTTPValidationError)]\<rparr>"

definition update_route_api_v1_tenants__tenant_id__upstream_routes__route_id__patch :: operation where
  "update_route_api_v1_tenants__tenant_id__upstream_routes__route_id__patch =
    \<lparr>op_query = [],
     op_header = [], op_path = [(''tenant_id'', Required, TString), (''route_id'', Required, TString)],
     op_body = Some RouteUpdate, op_responses = [(200, Some RouteOut), (422, Some HTTPValidationError)]\<rparr>"

definition get_tenant_policy_api_v1_tenants__tenant_id__upstream_policy_get :: operation where
  "get_tenant_policy_api_v1_tenants__tenant_id__upstream_policy_get =
    \<lparr>op_query = [],
     op_header = [], op_path = [(''tenant_id'', Required, TString)],
     op_body = None, op_responses = [(200, Some TenantPolicyOut), (422, Some HTTPValidationError)]\<rparr>"

definition upsert_tenant_policy_api_v1_tenants__tenant_id__upstream_policy_put :: operation where
  "upsert_tenant_policy_api_v1_tenants__tenant_id__upstream_policy_put =
    \<lparr>op_query = [],
     op_header = [], op_path = [(''tenant_id'', Required, TString)],
     op_body = Some TenantPolicyIn, op_responses = [(200, Some TenantPolicyOut), (422, Some HTTPValidationError)]\<rparr>"

definition get_upstream_bundle_api_v1_upstream_bundle__tenant_id__get :: operation where
  "get_upstream_bundle_api_v1_upstream_bundle__tenant_id__get =
    \<lparr>op_query = [],
     op_header = [(''authorization'', Optional, TNullable TString),
       (''X-Mantis-Node'', Optional, TNullable TString)], op_path = [(''tenant_id'', Required, TString)],
     op_body = None, op_responses = [(200, Some TUnknown), (422, Some HTTPValidationError)]\<rparr>"

definition list_scopes_api_v1_dhcp_scopes_get :: operation where
  "list_scopes_api_v1_dhcp_scopes_get =
    \<lparr>op_query = [(''tenant_id'', Optional, TNullable TString)],
     op_header = [], op_path = [],
     op_body = None, op_responses = [(200, Some (TArray ScopeOut)), (422, Some HTTPValidationError)]\<rparr>"

definition create_scope_api_v1_dhcp_scopes_post :: operation where
  "create_scope_api_v1_dhcp_scopes_post =
    \<lparr>op_query = [],
     op_header = [], op_path = [],
     op_body = Some ScopeCreate, op_responses = [(201, Some ScopeOut), (422, Some HTTPValidationError)]\<rparr>"

definition get_scope_api_v1_dhcp_scopes__scope_id__get :: operation where
  "get_scope_api_v1_dhcp_scopes__scope_id__get =
    \<lparr>op_query = [],
     op_header = [], op_path = [(''scope_id'', Required, TString)],
     op_body = None, op_responses = [(200, Some ScopeOut), (422, Some HTTPValidationError)]\<rparr>"

definition delete_scope_api_v1_dhcp_scopes__scope_id__delete :: operation where
  "delete_scope_api_v1_dhcp_scopes__scope_id__delete =
    \<lparr>op_query = [],
     op_header = [], op_path = [(''scope_id'', Required, TString)],
     op_body = None, op_responses = [(204, None), (422, Some HTTPValidationError)]\<rparr>"

definition update_scope_api_v1_dhcp_scopes__scope_id__patch :: operation where
  "update_scope_api_v1_dhcp_scopes__scope_id__patch =
    \<lparr>op_query = [],
     op_header = [], op_path = [(''scope_id'', Required, TString)],
     op_body = Some ScopeUpdate, op_responses = [(200, Some ScopeOut), (422, Some HTTPValidationError)]\<rparr>"

definition list_reservations_api_v1_dhcp_scopes__scope_id__reservations_get :: operation where
  "list_reservations_api_v1_dhcp_scopes__scope_id__reservations_get =
    \<lparr>op_query = [],
     op_header = [], op_path = [(''scope_id'', Required, TString)],
     op_body = None, op_responses = [(200, Some (TArray ReservationOut)), (422, Some HTTPValidationError)]\<rparr>"

definition create_reservation_api_v1_dhcp_scopes__scope_id__reservations_post :: operation where
  "create_reservation_api_v1_dhcp_scopes__scope_id__reservations_post =
    \<lparr>op_query = [],
     op_header = [], op_path = [(''scope_id'', Required, TString)],
     op_body = Some ReservationCreate, op_responses = [(201, Some ReservationOut), (422, Some HTTPValidationError)]\<rparr>"

definition delete_reservation_api_v1_dhcp_scopes__scope_id__reservations__reservation_id__delete :: operation where
  "delete_reservation_api_v1_dhcp_scopes__scope_id__reservations__reservation_id__delete =
    \<lparr>op_query = [],
     op_header = [], op_path = [(''scope_id'', Required, TString), (''reservation_id'', Required, TString)],
     op_body = None, op_responses = [(204, None), (422, Some HTTPValidationError)]\<rparr>"

definition update_reservation_api_v1_dhcp_scopes__scope_id__reservations__reservation_id__patch :: operation where
  "update_reservation_api_v1_dhcp_scopes__scope_id__reservations__reservation_id__patch =
    \<lparr>op_query = [],
     op_header = [], op_path = [(''scope_id'', Required, TString), (''reservation_id'', Required, TString)],
     op_body = Some ReservationUpdate, op_responses = [(200, Some ReservationOut), (422, Some HTTPValidationError)]\<rparr>"

definition list_options_api_v1_dhcp_scopes__scope_id__options_get :: operation where
  "list_options_api_v1_dhcp_scopes__scope_id__options_get =
    \<lparr>op_query = [],
     op_header = [], op_path = [(''scope_id'', Required, TString)],
     op_body = None, op_responses = [(200, Some (TArray OptionOut)), (422, Some HTTPValidationError)]\<rparr>"

definition create_option_api_v1_dhcp_scopes__scope_id__options_post :: operation where
  "create_option_api_v1_dhcp_scopes__scope_id__options_post =
    \<lparr>op_query = [],
     op_header = [], op_path = [(''scope_id'', Required, TString)],
     op_body = Some OptionCreate, op_responses = [(201, Some OptionOut), (422, Some HTTPValidationError)]\<rparr>"

definition delete_option_api_v1_dhcp_scopes__scope_id__options__option_id__delete :: operation where
  "delete_option_api_v1_dhcp_scopes__scope_id__options__option_id__delete =
    \<lparr>op_query = [],
     op_header = [], op_path = [(''scope_id'', Required, TString), (''option_id'', Required, TString)],
     op_body = None, op_responses = [(204, None), (422, Some HTTPValidationError)]\<rparr>"

definition list_relays_api_v1_dhcp_scopes__scope_id__relays_get :: operation where
  "list_relays_api_v1_dhcp_scopes__scope_id__relays_get =
    \<lparr>op_query = [],
     op_header = [], op_path = [(''scope_id'', Required, TString)],
     op_body = None, op_responses = [(200, Some (TArray RelayOut)), (422, Some HTTPValidationError)]\<rparr>"

definition create_relay_api_v1_dhcp_scopes__scope_id__relays_post :: operation where
  "create_relay_api_v1_dhcp_scopes__scope_id__relays_post =
    \<lparr>op_query = [],
     op_header = [], op_path = [(''scope_id'', Required, TString)],
     op_body = Some RelayCreate, op_responses = [(201, Some RelayOut), (422, Some HTTPValidationError)]\<rparr>"

definition delete_relay_api_v1_dhcp_scopes__scope_id__relays__relay_id__delete :: operation where
  "delete_relay_api_v1_dhcp_scopes__scope_id__relays__relay_id__delete =
    \<lparr>op_query = [],
     op_header = [], op_path = [(''scope_id'', Required, TString), (''relay_id'', Required, TString)],
     op_body = None, op_responses = [(204, None), (422, Some HTTPValidationError)]\<rparr>"

definition list_leases_api_v1_dhcp_leases_get :: operation where
  "list_leases_api_v1_dhcp_leases_get =
    \<lparr>op_query = [(''scope_id'', Optional, TNullable TString), (''tenant_id'', Optional, TNullable TString), (''state'', Optional, TNumber)],
     op_header = [], op_path = [],
     op_body = None, op_responses = [(200, Some (TArray LeaseOut)), (422, Some HTTPValidationError)]\<rparr>"

definition dhcp_stats_api_v1_dhcp_stats_get :: operation where
  "dhcp_stats_api_v1_dhcp_stats_get =
    \<lparr>op_query = [],
     op_header = [], op_path = [],
     op_body = None, op_responses = [(200, Some (TArray SubnetStatOut))]\<rparr>"

definition list_interfaces_api_v1_dhcp_interfaces_get :: operation where
  "list_interfaces_api_v1_dhcp_interfaces_get =
    \<lparr>op_query = [],
     op_header = [], op_path = [],
     op_body = None, op_responses = [(200, Some (TArray TString))]\<rparr>"

definition dhcp_health_api_v1_dhcp_health_get :: operation where
  "dhcp_health_api_v1_dhcp_health_get =
    \<lparr>op_query = [],
     op_header = [], op_path = [],
     op_body = None, op_responses = [(200, Some (TArray DaemonHeartbeatOut))]\<rparr>"

definition dhcp_event_api_v1_internal_dhcp_event_post :: operation where
  "dhcp_event_api_v1_internal_dhcp_event_post =
    \<lparr>op_query = [],
     op_header = [(''x-internal-token'', Optional, TNullable TString)], op_path = [],
     op_body = Some DhcpEvent, op_responses = [(204, None), (422, Some HTTPValidationError)]\<rparr>"

definition list_scopes6_api_v1_dhcp6_scopes_get :: operation where
  "list_scopes6_api_v1_dhcp6_scopes_get =
    \<lparr>op_query = [(''tenant_id'', Optional, TNullable TString)],
     op_header = [], op_path = [],
     op_body = None, op_responses = [(200, Some (TArray Scope6Out)), (422, Some HTTPValidationError)]\<rparr>"

definition create_scope6_api_v1_dhcp6_scopes_post :: operation where
  "create_scope6_api_v1_dhcp6_scopes_post =
    \<lparr>op_query = [],
     op_header = [], op_path = [],
     op_body = Some Scope6Create, op_responses = [(201, Some Scope6Out), (422, Some HTTPValidationError)]\<rparr>"

definition get_scope6_api_v1_dhcp6_scopes__scope_id__get :: operation where
  "get_scope6_api_v1_dhcp6_scopes__scope_id__get =
    \<lparr>op_query = [],
     op_header = [], op_path = [(''scope_id'', Required, TString)],
     op_body = None, op_responses = [(200, Some Scope6Out), (422, Some HTTPValidationError)]\<rparr>"

definition delete_scope6_api_v1_dhcp6_scopes__scope_id__delete :: operation where
  "delete_scope6_api_v1_dhcp6_scopes__scope_id__delete =
    \<lparr>op_query = [],
     op_header = [], op_path = [(''scope_id'', Required, TString)],
     op_body = None, op_responses = [(204, None), (422, Some HTTPValidationError)]\<rparr>"

definition update_scope6_api_v1_dhcp6_scopes__scope_id__patch :: operation where
  "update_scope6_api_v1_dhcp6_scopes__scope_id__patch =
    \<lparr>op_query = [],
     op_header = [], op_path = [(''scope_id'', Required, TString)],
     op_body = Some Scope6Update, op_responses = [(200, Some Scope6Out), (422, Some HTTPValidationError)]\<rparr>"

definition list_reservations6_api_v1_dhcp6_scopes__scope_id__reservations_get :: operation where
  "list_reservations6_api_v1_dhcp6_scopes__scope_id__reservations_get =
    \<lparr>op_query = [],
     op_header = [], op_path = [(''scope_id'', Required, TString)],
     op_body = None, op_responses = [(200, Some (TArray Reservation6Out)), (422, Some HTTPValidationError)]\<rparr>"

definition create_reservation6_api_v1_dhcp6_scopes__scope_id__reservations_post :: operation where
  "create_reservation6_api_v1_dhcp6_scopes__scope_id__reservations_post =
    \<lparr>op_query = [],
     op_header = [], op_path = [(''scope_id'', Required, TString)],
     op_body = Some Reservation6Create, op_responses = [(201, Some Reservation6Out), (422, Some HTTPValidationError)]\<rparr>"

definition delete_reservation6_api_v1_dhcp6_scopes__scope_id__reservations__reservation_id__delete :: operation where
  "delete_reservation6_api_v1_dhcp6_scopes__scope_id__reservations__reservation_id__delete =
    \<lparr>op_query = [],
     op_header = [], op_path = [(''scope_id'', Required, TString), (''reservation_id'', Required, TString)],
     op_body = None, op_responses = [(204, None), (422, Some HTTPValidationError)]\<rparr>"

definition update_reservation6_api_v1_dhcp6_scopes__scope_id__reservations__reservation_id__patch :: operation where
  "update_reservation6_api_v1_dhcp6_scopes__scope_id__reservations__reservation_id__patch =
    \<lparr>op_query = [],
     op_header = [], op_path = [(''scope_id'', Required, TString), (''reservation_id'', Required, TString)],
     op_body = Some Reservation6Update, op_responses = [(200, Some Reservation6Out), (422, Some HTTPValidationError)]\<rparr>"

definition list_leases6_api_v1_dhcp6_leases_get :: operation where
  "list_leases6_api_v1_dhcp6_leases_get =
    \<lparr>op_query = [(''scope_id'', Optional, TNullable TString), (''tenant_id'', Optional, TNullable TString), (''state'', Optional, TNumber)],
     op_header = [], op_path = [],
     op_body = None, op_responses = [(200, Some (TArray Lease6Out)), (422, Some HTTPValidationError)]\<rparr>"

definition list_node_credentials_api_v1_nodes_credentials_get :: operation where
  "list_node_credentials_api_v1_nodes_credentials_get =
    \<lparr>op_query = [],
     op_header = [], op_path = [],
     op_body = None, op_responses = [(200, Some (TArray NodeCredentialOut))]\<rparr>"

definition create_node_credential_api_v1_nodes_credentials_post :: operation where
  "create_node_credential_api_v1_nodes_credentials_post =
    \<lparr>op_query = [],
     op_header = [], op_path = [],
     op_body = Some NodeCredentialCreate, op_responses = [(201, Some NodeCredentialIssued), (422, Some HTTPValidationError)]\<rparr>"

definition rotate_node_credential_api_v1_nodes_credentials__node_name__rotate_post :: operation where
  "rotate_node_credential_api_v1_nodes_credentials__node_name__rotate_post =
    \<lparr>op_query = [],
     op_header = [], op_path = [(''node_name'', Required, TString)],
     op_body = None, op_responses = [(200, Some NodeCredentialIssued), (422, Some HTTPValidationError)]\<rparr>"

definition revoke_node_credential_api_v1_nodes_credentials__node_name__revoke_post :: operation where
  "revoke_node_credential_api_v1_nodes_credentials__node_name__revoke_post =
    \<lparr>op_query = [],
     op_header = [], op_path = [(''node_name'', Required, TString)],
     op_body = None, op_responses = [(200, Some NodeCredentialOut), (422, Some HTTPValidationError)]\<rparr>"

definition health_health_get :: operation where
  "health_health_get =
    \<lparr>op_query = [],
     op_header = [], op_path = [],
     op_body = None, op_responses = [(200, None)]\<rparr>"

section \<open>Paths (schema.ts)\<close>

type_synonym path_item = "(verb \<times> operation) list"

definition tenant_paths :: "(string \<times> path_item) list" where
  "tenant_paths =
    [(''/api/v1/categories'',
       [(GET, list_categories_api_v1_categories_get)]),
     (''/api/v1/tenants'',
       [(GET, list_tenants_api_v1_tenants_get),
        (POST, create_tenant_api_v1_tenants_post)]),
     (''/api/v1/tenants/{tenant_id}'',
       [(GET, get_tenant_api_v1_tenants__tenant_id__get),
        (DELETE, delete_tenant_api_v1_tenants__tenant_id__delete)]),
     (''/api/v1/tenants/{tenant_id}/groups'',
       [(GET, list_groups_api_v1_tenants__tenant_id__groups_get),
        (POST, create_group_api_v1_tenants__tenant_id__groups_post)]),
     (''/api/v1/groups/{group_id}/subnet'',
       [(PUT, set_group_subnet_api_v1_groups__group_id__subnet_put)]),
     (''/api/v1/groups/{group_id}'',
       [(PUT, rename_group_api_v1_groups__group_id__put),
        (DELETE, delete_group_api_v1_groups__group_id__delete)])]"

definition policy_paths :: "(string \<times> path_item) list" where
  "policy_paths =
    [(''/api/v1/routing-table'',
       [(GET, get_routing_table_api_v1_routing_table_get)]),
     (''/api/v1/local-zones'',
       [(GET, get_local_zone_records_api_v1_local_zones_get)]),
     (''/api/v1/groups/{group_id}/policy'',
       [(GET, get_policy_api_v1_groups__group_id__policy_get),
        (PUT, upsert_policy_api_v1_groups__group_id__policy_put)]),
     (''/api/v1/public-key'',
       [(GET, get_public_key_api_v1_public_key_get)]),
     (''/api/v1/groups/{group_id}/bundle'',
       [(GET, get_latest_bundle_api_v1_groups__group_id__bundle_get),
        (POST, compile_bundle_api_v1_groups__group_id__bundle_post)]),
     (''/api/v1/groups/{group_id}/policy/test'',
       [(POST, test_domain_api_v1_groups__group_id__policy_test_post)])]"

definition block_page_feed_paths :: "(string \<times> path_item) list" where
  "block_page_feed_paths =
    [(''/api/v1/groups/{group_id}/block-page-template'',
       [(GET, get_group_block_template_api_v1_groups__group_id__block_page_template_get),
        (PUT, upsert_group_block_template_api_v1_groups__group_id__block_page_template_put)]),
     (''/api/v1/tenants/{tenant_id}/block-page-template'',
       [(PUT, upsert_tenant_block_template_api_v1_tenants__tenant_id__block_page_template_put)]),
     (''/api/v1/groups/{group_id}/block-template'',
       [(GET, get_effective_block_template_api_v1_groups__group_id__block_template_get)]),
     (''/api/v1/feeds'',
       [(GET, list_feeds_api_v1_feeds_get),
        (POST, create_feed_api_v1_feeds_post)]),
     (''/api/v1/feeds/{feed_id}'',
       [(DELETE, delete_feed_api_v1_feeds__feed_id__delete),
        (PATCH, update_feed_api_v1_feeds__feed_id__patch)]),
     (''/api/v1/feeds/{feed_id}/ingest'',
       [(POST, ingest_feed_api_v1_feeds__feed_id__ingest_post)])]"

definition log_analytics_paths :: "(string \<times> path_item) list" where
  "log_analytics_paths =
    [(''/api/v1/query-log'',
       [(GET, query_log_api_v1_query_log_get)]),
     (''/api/v1/query-events'',
       [(POST, ingest_query_events_api_v1_query_events_post)]),
     (''/api/v1/groups/{group_id}/top-domains'',
       [(GET, top_domains_api_v1_groups__group_id__top_domains_get)]),
     (''/api/v1/analytics/summary'',
       [(GET, analytics_summary_api_v1_analytics_summary_get)]),
     (''/api/v1/analytics/timeseries'',
       [(GET, analytics_timeseries_api_v1_analytics_timeseries_get)]),
     (''/api/v1/analytics/by-group'',
       [(GET, analytics_by_group_api_v1_analytics_by_group_get)])]"

definition widget_audit_paths :: "(string \<times> path_item) list" where
  "widget_audit_paths =
    [(''/api/v1/analytics/top-clients'',
       [(GET, top_clients_analytics_api_v1_analytics_top_clients_get)]),
     (''/api/v1/analytics/top-categories'',
       [(GET, top_categories_analytics_api_v1_analytics_top_categories_get)]),
     (''/api/v1/analytics/latency'',
       [(GET, latency_analytics_api_v1_analytics_latency_get)]),
     (''/api/v1/analytics/query-mix'',
       [(GET, query_mix_analytics_api_v1_analytics_query_mix_get)]),
     (''/api/v1/analytics/recent-events'',
       [(GET, recent_events_analytics_api_v1_analytics_recent_events_get)]),
     (''/api/v1/audit-log'',
       [(GET, list_audit_log_api_v1_audit_log_get)])]"

definition account_paths :: "(string \<times> path_item) list" where
  "account_paths =
    [(''/api/v1/auth/login'',
       [(POST, login_api_v1_auth_login_post)]),
     (''/api/v1/auth/logout'',
       [(POST, logout_api_v1_auth_logout_post)]),
     (''/api/v1/auth/me'',
       [(GET, me_api_v1_auth_me_get)]),
     (''/api/v1/auth/change-password'',
       [(POST, change_password_api_v1_auth_change_password_post)]),
     (''/api/v1/users'',
       [(GET, list_users_api_v1_users_get),
        (POST, create_user_api_v1_users_post)]),
     (''/api/v1/users/{user_id}'',
       [(DELETE, delete_user_api_v1_users__user_id__delete),
        (PATCH, update_user_api_v1_users__user_id__patch)]),
     (''/api/v1/siem/events'',
       [(GET, list_siem_events_api_v1_siem_events_get)])]"

definition siem_client_paths :: "(string \<times> path_item) list" where
  "siem_client_paths =
    [(''/api/v1/siem/syslog'',
       [(GET, list_syslog_api_v1_siem_syslog_get),
        (POST, create_syslog_api_v1_siem_syslog_post)]),
     (''/api/v1/siem/syslog/{syslog_id}'',
       [(DELETE, delete_syslog_api_v1_siem_syslog__syslog_id__delete),
        (PATCH, update_syslog_api_v1_siem_syslog__syslog_id__patch)]),
     (''/api/v1/siem/syslog/{syslog_id}/test'',
       [(POST, test_syslog_api_v1_siem_syslog__syslog_id__test_post)]),
     (''/api/v1/tenants/{tenant_id}/clients'',
       [(GET, list_clients_api_v1_tenants__tenant_id__clients_get)]),
     (''/api/v1/tenants/{tenant_id}/clients/{ip}'',
       [(PUT, register_client_api_v1_tenants__tenant_id__clients__ip__put),
        (DELETE, delete_client_api_v1_tenants__tenant_id__clients__ip__delete)])]"

definition zone_paths :: "(string \<times> path_item) list" where
  "zone_paths =
    [(''/api/v1/dns-zones'',
       [(GET, list_zones_api_v1_dns_zones_get),
        (POST, create_zone_api_v1_dns_zones_post)]),
     (''/api/v1/dns-zones/{zone_id}'',
       [(GET, get_zone_api_v1_dns_zones__zone_id__get),
        (DELETE, delete_zone_api_v1_dns_zones__zone_id__delete),
        (PATCH, update_zone_api_v1_dns_zones__zone_id__patch)]),
     (''/api/v1/dns-zones/{zone_id}/export'',
       [(GET, export_zone_api_v1_dns_zones__zone_id__export_get)]),
     (''/api/v1/dns-zones/{zone_id}/records'',
       [(GET, list_records_api_v1_dns_zones__zone_id__records_get),
        (POST, create_record_api_v1_dns_zones__zone_id__records_post)]),
     (''/api/v1/dns-zones/{zone_id}/records/{record_id}'',
       [(DELETE, delete_record_api_v1_dns_zones__zone_id__records__record_id__delete),
        (PATCH, update_record_api_v1_dns_zones__zone_id__records__record_id__patch)])]"

definition resolver_pool_paths :: "(string \<times> path_item) list" where
  "resolver_pool_paths =
    [(''/api/v1/upstream/resolvers'',
       [(GET, list_resolvers_api_v1_upstream_resolvers_get),
        (POST, create_resolver_api_v1_upstream_resolvers_post)]),
     (''/api/v1/upstream/resolvers/{resolver_id}'',
       [(DELETE, delete_resolver_api_v1_upstream_resolvers__resolver_id__delete),
        (PATCH, update_resolver_api_v1_upstream_resolvers__resolver_id__patch)]),
     (''/api/v1/upstream/resolvers/{resolver_id}/probe'',
       [(POST, probe_resolver_api_v1_upstream_resolvers__resolver_id__probe_post)]),
     (''/api/v1/upstream/pools'',
       [(GET, list_pools_api_v1_upstream_pools_get),
        (POST, create_pool_api_v1_upstream_pools_post)]),
     (''/api/v1/upstream/pools/{pool_id}'',
       [(DELETE, delete_pool_api_v1_upstream_pools__pool_id__delete),
        (PATCH, update_pool_api_v1_upstream_pools__pool_id__patch)]),
     (''/api/v1/upstream/pools/{pool_id}/members/{resolver_id}'',
       [(PUT, upsert_pool_member_api_v1_upstream_pools__pool_id__members__resolver_id__put),
        (DELETE, remove_pool_member_api_v1_upstream_pools__pool_id__members__resolver_id__delete)])]"

definition upstream_route_paths :: "(string \<times> path_item) list" where
  "upstream_route_paths =
    [(''/api/v1/tenants/{tenant_id}/upstream/routes'',
       [(GET, list_routes_api_v1_tenants__tenant_id__upstream_routes_get),
        (POST, create_route_api_v1_tenants__tenant_id__upstream_routes_post)]),
     (''/api/v1/tenants/{tenant_id}/upstream/routes/{route_id}'',
       [(DELETE, delete_route_api_v1_tenants__tenant_id__upstream_routes__route_id__delete),
        (PATCH, update_route_api_v1_tenants__tenant_id__upstream_routes__route_id__patch)]),
     (''/api/v1/tenants/{tenant_id}/upstream/policy'',
       [(GET, get_tenant_policy_api_v1_tenants__tenant_id__upstream_policy_get),
        (PUT, upsert_tenant_policy_api_v1_tenants__tenant_id__upstream_policy_put)]),
     (''/api/v1/upstream-bundle/{tenant_id}'',
       [(GET, get_upstream_bundle_api_v1_upstream_bundle__tenant_id__get)])]"

definition dhcp_scope_paths :: "(string \<times> path_item) list" where
  "dhcp_scope_paths =
    [(''/api/v1/dhcp/scopes'',
       [(GET, list_scopes_api_v1_dhcp_scopes_get),
        (POST, create_scope_api_v1_dhcp_scopes_post)]),
     (''/api/v1/dhcp/scopes/{scope_id}'',
       [(GET, get_scope_api_v1_dhcp_scopes__scope_id__get),
        (DELETE, delete_scope_api_v1_dhcp_scopes__scope_id__delete),
        (PATCH, update_scope_api_v1_dhcp_scopes__scope_id__patch)]),
     (''/api/v1/dhcp/scopes/{scope_id}/reservations'',
       [(GET, list_reservations_api_v1_dhcp_scopes__scope_id__reservations_get),
        (POST, create_reservation_api_v1_dhcp_scopes__scope_id__reservations_post)]),
     (''/api/v1/dhcp/scopes/{scope_id}/reservations/{reservation_id}'',
       [(DELETE, delete_reservation_api_v1_dhcp_scopes__scope_id__reservations__reservation_id__delete),
        (PATCH, update_reservation_api_v1_dhcp_scopes__scope_id__reservations__reservation_id__patch)]),
     (''/api/v1/dhcp/scopes/{scope_id}/options'',
       [(GET, list_options_api_v1_dhcp_scopes__scope_id__options_get),
        (POST, create_option_api_v1_dhcp_scopes__scope_id__options_post)]),
     (''/api/v1/dhcp/scopes/{scope_id}/options/{option_id}'',
       [(DELETE, delete_option_api_v1_dhcp_scopes__scope_id__options__option_id__delete)])]"

definition dhcp_lease_paths :: "(string \<times> path_item) list" where
  "dhcp_lease_paths =
    [(''/api/v1/dhcp/scopes/{scope_id}/relays'',
       [(GET, list_relays_api_v1_dhcp_scopes__scope_id__relays_get),
        (POST, create_relay_api_v1_dhcp_scopes__scope_id__relays_post)]),
     (''/api/v1/dhcp/scopes/{scope_id}/relays/{relay_id}'',
       [(DELETE, delete_relay_api_v1_dhcp_scopes__scope_id__relays__relay_id__delete)]),
     (''/api/v1/dhcp/leases'',
       [(GET, list_leases_api_v1_dhcp_leases_get)]),
     (''/api/v1/dhcp/stats'',
       [(GET, dhcp_stats_api_v1_dhcp_stats_get)]),
     (''/api/v1/dhcp/interfaces'',
       [(GET, list_interfaces_api_v1_dhcp_interfaces_get)]),
     (''/api/v1/dhcp/health'',
       [(GET, dhcp_health_api_v1_dhcp_health_get)])]"

definition dhcp6_paths :: "(string \<times> path_item) list" where
  "dhcp6_paths =
    [(''/api/v1/internal/dhcp-event'',
       [(POST, dhcp_event_api_v1_internal_dhcp_event_post)]),
     (''/api/v1/dhcp6/scopes'',
       [(GET, list_scopes6_api_v1_dhcp6_scopes_get),
        (POST, create_scope6_api_v1_dhcp6_scopes_post)]),
     (''/api/v1/dhcp6/scopes/{scope_id}'',
       [(GET, get_scope6_api_v1_dhcp6_scopes__scope_id__get),
        (DELETE, delete_scope6_api_v1_dhcp6_scopes__scope_id__delete),
        (PATCH, update_scope6_api_v1_dhcp6_scopes__scope_id__patch)]),
     (''/api/v1/dhcp6/scopes/{scope_id}/reservations'',
       [(GET, list_reservations6_api_v1_dhcp6_scopes__scope_id__reservations_get),
        (POST, create_reservation6_api_v1_dhcp6_scopes__scope_id__reservations_post)]),
     (''/api/v1/dhcp6/scopes/{scope_id}/reservations/{reservation_id}'',
       [(DELETE, delete_reservation6_api_v1_dhcp6_scopes__scope_id__reservations__reservation_id__delete),
        (PATCH, update_reservation6_api_v1_dhcp6_scopes__scope_id__reservations__reservation_id__patch)]),
     (''/api/v1/dhcp6/leases'',
       [(GET, list_leases6_api_v1_dhcp6_leases_get)])]"

definition node_paths :: "(string \<times> path_item) list" where
  "node_paths =
    [(''/api/v1/nodes/credentials'',
       [(GET, list_node_credentials_api_v1_nodes_credentials_get),
        (POST, create_node_credential_api_v1_nodes_credentials_post)]),
     (''/api/v1/nodes/credentials/{node_name}/rotate'',
       [(POST, rotate_node_credential_api_v1_nodes_credentials__node_name__rotate_post)]),
     (''/api/v1/nodes/credentials/{node_name}/revoke'',
       [(POST, revoke_node_credential_api_v1_nodes_credentials__node_name__revoke_post)]),
     (''/health'',
       [(GET, health_health_get)])]"

definition paths :: "(string \<times> path_item) list" where
  "paths = tenant_paths @ policy_paths @ block_page_feed_paths @ log_analytics_paths @ widget_audit_paths @ account_paths @ siem_client_paths @ zone_paths @ resolver_pool_paths @ upstream_route_paths @ dhcp_scope_paths @ dhcp_lease_paths @ dhcp6_paths @ node_paths"

section \<open>Conforming calls\<close>

datatype seg = Lit string | Par

definition seg_of :: "string \<Rightarrow> seg" where
  "seg_of t = (if starts_with t ''{'' then Par else Lit t)"

fun template_match :: "seg list \<Rightarrow> string list \<Rightarrow> bool" where
  "template_match [] [] = True"
| "template_match (Par # ts) (s # ss) = (if s = [] then False else template_match ts ss)"
| "template_match (Lit t # ts) (s # ss) = (if s = t then template_match ts ss else False)"
| "template_match _ _ = False"

fun first_route :: "verb \<Rightarrow> string list \<Rightarrow> (seg list \<times> path_item) list \<Rightarrow> operation option" where
  "first_route v ss [] = None"
| "first_route v ss ((ts, it) # rest) =
     (if template_match ts ss then case map_of it v of Some op \<Rightarrow> Some op | None \<Rightarrow> first_route v ss rest else first_route v ss rest)"

definition template :: "string \<Rightarrow> seg list" where
  "template p = map seg_of (js_split CHR ''/'' p)"

definition path_table :: "(seg list \<times> path_item) list" where
  "path_table = map (\<lambda>(p, it). (template p, it)) paths"

definition raw_operation :: "verb \<Rightarrow> string \<Rightarrow> operation option" where
  "raw_operation v p = first_route v (js_split CHR ''/'' p) path_table"

definition typed_operation :: "verb \<Rightarrow> string \<Rightarrow> operation option" where
  "typed_operation v p = Option.bind (map_of paths p) (\<lambda>it. map_of it v)"

text \<open>A query text as the service reads it: digits for a number.\<close>

primrec text_ok :: "jtype \<Rightarrow> string \<Rightarrow> bool" where
  "text_ok TString = (\<lambda>_. True)"
| "text_ok TNumber = (\<lambda>s. s \<noteq> [] \<and> list_all is_digit s)"
| "text_ok TBoolean = (\<lambda>s. s = ''true'' \<or> s = ''false'')"
| "text_ok (TLiteral ls) = (\<lambda>s. s \<in> set ls)"
| "text_ok (TNullable t) = text_ok t"
| "text_ok (TArray t) = (\<lambda>_. False)"
| "text_ok (TUnion t u) = (\<lambda>s. text_ok t s \<or> text_ok u s)"
| "text_ok TUnknown = (\<lambda>_. True)"
| "text_ok (TObject ms) = (\<lambda>_. False)"

text \<open>A raw query leaves out its undefined values.\<close>

definition text_query_ok :: "(string \<times> presence \<times> jtype) list \<Rightarrow> (string \<times> string option) list \<Rightarrow> bool" where
  "text_query_ok ds q \<longleftrightarrow>
     list_all (\<lambda>(k, v). case v of None \<Rightarrow> True
       | Some s \<Rightarrow> (case map_of ds k of None \<Rightarrow> False | Some (_, t) \<Rightarrow> text_ok t s)) q
     \<and> list_all (\<lambda>(k, p, t). p = Required \<longrightarrow> list_ex (\<lambda>(k', v). k' = k \<and> v \<noteq> None) q) ds"

definition path_params_ok :: "(string \<times> presence \<times> jtype) list \<Rightarrow> (string \<times> string option) list \<Rightarrow> bool" where
  "path_params_ok ds ps \<longleftrightarrow> map fst ps = map fst ds \<and> list_all (\<lambda>(_, v). truthy v) ps"

definition body_ok :: "jtype option \<Rightarrow> json option \<Rightarrow> bool" where
  "body_ok t b = (case (t, b) of (None, None) \<Rightarrow> True | (Some t, Some b) \<Rightarrow> has_type t b | _ \<Rightarrow> False)"

text \<open>A raw request always has a body; one that is not declared has to be the empty object.\<close>

definition raw_body_ok :: "jtype option \<Rightarrow> json \<Rightarrow> bool" where
  "raw_body_ok t b = (case t of None \<Rightarrow> b = JObj [] | Some t \<Rightarrow> has_type t b)"

definition raw_write_ok :: "verb \<Rightarrow> string \<Rightarrow> json \<Rightarrow> bool" where
  "raw_write_ok v p b = (case raw_operation v p of None \<Rightarrow> False | Some op \<Rightarrow> text_query_ok (op_query op) [] \<and> raw_body_ok (op_body op) b)"

fun conforms :: "api_call \<Rightarrow> bool" where
  "conforms (Typed v p ps q b) = (case typed_operation v p of
     None \<Rightarrow> False
   | Some op \<Rightarrow> path_params_ok (op_path op) ps \<and> has_type (TObject (op_query op)) (JObj q) \<and> body_ok (op_body op) b)"
| "conforms (RawGet p q) = (case raw_operation GET p of
     None \<Rightarrow> False | Some op \<Rightarrow> text_query_ok (op_query op) q \<and> op_body op = None)"
| "conforms (RawPost p b) = raw_write_ok POST p b"
| "conforms (RawPatch p b) = raw_write_ok PATCH p b"
| "conforms (RawPut p b) = raw_write_ok PUT p b"
| "conforms (RawDelete p) = (case raw_operation DELETE p of None \<Rightarrow> False | Some op \<Rightarrow> text_query_ok (op_query op) [] \<and> op_body op = None)"

end
