(* ===== verification/ApiRoutes.thy ===== *)
theory ApiRoutes
  imports ApiPaths
begin

text \<open>
  Which operation of the declared interface each path of the UI selects: the table of \<open>ApiPaths\<close> by segments, and the operation
  of every raw and every typed path the hooks use.
\<close>

section \<open>The table by segments\<close>

lemma split_tenant_paths:
  "map (\<lambda>(p, it). (template p, it)) tenant_paths =
    [([Lit [], Lit ''api'', Lit ''v1'', Lit ''categories''],
       [(GET, list_categories_api_v1_categories_get)]),
     ([Lit [], Lit ''api'', Lit ''v1'', Lit ''tenants''],
       [(GET, list_tenants_api_v1_tenants_get),
        (POST, create_tenant_api_v1_tenants_post)]),
     ([Lit [], Lit ''api'', Lit ''v1'', Lit ''tenants'', Par],
       [(GET, get_tenant_api_v1_tenants__tenant_id__get),
        (DELETE, delete_tenant_api_v1_tenants__tenant_id__delete)]),
     ([Lit [], Lit ''api'', Lit ''v1'', Lit ''tenants'', Par, Lit ''groups''],
       [(GET, list_groups_api_v1_tenants__tenant_id__groups_get),
        (POST, create_group_api_v1_tenants__tenant_id__groups_post)]),
     ([Lit [], Lit ''api'', Lit ''v1'', Lit ''groups'', Par, Lit ''subnet''],
       [(PUT, set_group_subnet_api_v1_groups__group_id__subnet_put)]),
     ([Lit [], Lit ''api'', Lit ''v1'', Lit ''groups'', Par],
       [(PUT, rename_group_api_v1_groups__group_id__put),
        (DELETE, delete_group_api_v1_groups__group_id__delete)])]"
  by (simp add: tenant_paths_def template_def seg_of_def starts_with_def)

lemma split_policy_paths:
  "map (\<lambda>(p, it). (template p, it)) policy_paths =
    [([Lit [], Lit ''api'', Lit ''v1'', Lit ''routing-table''],
       [(GET, get_routing_table_api_v1_routing_table_get)]),
     ([Lit [], Lit ''api'', Lit ''v1'', Lit ''local-zones''],
       [(GET, get_local_zone_records_api_v1_local_zones_get)]),
     ([Lit [], Lit ''api'', Lit ''v1'', Lit ''groups'', Par, Lit ''policy''],
       [(GET, get_policy_api_v1_groups__group_id__policy_get),
        (PUT, upsert_policy_api_v1_groups__group_id__policy_put)]),
     ([Lit [], Lit ''api'', Lit ''v1'', Lit ''public-key''],
       [(GET, get_public_key_api_v1_public_key_get)]),
     ([Lit [], Lit ''api'', Lit ''v1'', Lit ''groups'', Par, Lit ''bundle''],
       [(GET, get_latest_bundle_api_v1_groups__group_id__bundle_get),
        (POST, compile_bundle_api_v1_groups__group_id__bundle_post)]),
     ([Lit [], Lit ''api'', Lit ''v1'', Lit ''groups'', Par, Lit ''policy'', Lit ''test''],
       [(POST, test_domain_api_v1_groups__group_id__policy_test_post)])]"
  by (simp add: policy_paths_def template_def seg_of_def starts_with_def)

lemma split_block_page_feed_paths:
  "map (\<lambda>(p, it). (template p, it)) block_page_feed_paths =
    [([Lit [], Lit ''api'', Lit ''v1'', Lit ''groups'', Par, Lit ''block-page-template''],
       [(GET, get_group_block_template_api_v1_groups__group_id__block_page_template_get),
        (PUT, upsert_group_block_template_api_v1_groups__group_id__block_page_template_put)]),
     ([Lit [], Lit ''api'', Lit ''v1'', Lit ''tenants'', Par, Lit ''block-page-template''],
       [(PUT, upsert_tenant_block_template_api_v1_tenants__tenant_id__block_page_template_put)]),
     ([Lit [], Lit ''api'', Lit ''v1'', Lit ''groups'', Par, Lit ''block-template''],
       [(GET, get_effective_block_template_api_v1_groups__group_id__block_template_get)]),
     ([Lit [], Lit ''api'', Lit ''v1'', Lit ''feeds''],
       [(GET, list_feeds_api_v1_feeds_get),
        (POST, create_feed_api_v1_feeds_post)]),
     ([Lit [], Lit ''api'', Lit ''v1'', Lit ''feeds'', Par],
       [(DELETE, delete_feed_api_v1_feeds__feed_id__delete),
        (PATCH, update_feed_api_v1_feeds__feed_id__patch)]),
     ([Lit [], Lit ''api'', Lit ''v1'', Lit ''feeds'', Par, Lit ''ingest''],
       [(POST, ingest_feed_api_v1_feeds__feed_id__ingest_post)])]"
  by (simp add: block_page_feed_paths_def template_def seg_of_def starts_with_def)

lemma split_log_analytics_paths:
  "map (\<lambda>(p, it). (template p, it)) log_analytics_paths =
    [([Lit [], Lit ''api'', Lit ''v1'', Lit ''query-log''],
       [(GET, query_log_api_v1_query_log_get)]),
     ([Lit [], Lit ''api'', Lit ''v1'', Lit ''query-events''],
       [(POST, ingest_query_events_api_v1_query_events_post)]),
     ([Lit [], Lit ''api'', Lit ''v1'', Lit ''groups'', Par, Lit ''top-domains''],
       [(GET, top_domains_api_v1_groups__group_id__top_domains_get)]),
     ([Lit [], Lit ''api'', Lit ''v1'', Lit ''analytics'', Lit ''summary''],
       [(GET, analytics_summary_api_v1_analytics_summary_get)]),
     ([Lit [], Lit ''api'', Lit ''v1'', Lit ''analytics'', Lit ''timeseries''],
       [(GET, analytics_timeseries_api_v1_analytics_timeseries_get)]),
     ([Lit [], Lit ''api'', Lit ''v1'', Lit ''analytics'', Lit ''by-group''],
       [(GET, analytics_by_group_api_v1_analytics_by_group_get)])]"
  by (simp add: log_analytics_paths_def template_def seg_of_def starts_with_def)

lemma split_widget_audit_paths:
  "map (\<lambda>(p, it). (template p, it)) widget_audit_paths =
    [([Lit [], Lit ''api'', Lit ''v1'', Lit ''analytics'', Lit ''top-clients''],
       [(GET, top_clients_analytics_api_v1_analytics_top_clients_get)]),
     ([Lit [], Lit ''api'', Lit ''v1'', Lit ''analytics'', Lit ''top-categories''],
       [(GET, top_categories_analytics_api_v1_analytics_top_categories_get)]),
     ([Lit [], Lit ''api'', Lit ''v1'', Lit ''analytics'', Lit ''latency''],
       [(GET, latency_analytics_api_v1_analytics_latency_get)]),
     ([Lit [], Lit ''api'', Lit ''v1'', Lit ''analytics'', Lit ''query-mix''],
       [(GET, query_mix_analytics_api_v1_analytics_query_mix_get)]),
     ([Lit [], Lit ''api'', Lit ''v1'', Lit ''analytics'', Lit ''recent-events''],
       [(GET, recent_events_analytics_api_v1_analytics_recent_events_get)]),
     ([Lit [], Lit ''api'', Lit ''v1'', Lit ''audit-log''],
       [(GET, list_audit_log_api_v1_audit_log_get)])]"
  by (simp add: widget_audit_paths_def template_def seg_of_def starts_with_def)

lemma split_account_paths:
  "map (\<lambda>(p, it). (template p, it)) account_paths =
    [([Lit [], Lit ''api'', Lit ''v1'', Lit ''auth'', Lit ''login''],
       [(POST, login_api_v1_auth_login_post)]),
     ([Lit [], Lit ''api'', Lit ''v1'', Lit ''auth'', Lit ''logout''],
       [(POST, logout_api_v1_auth_logout_post)]),
     ([Lit [], Lit ''api'', Lit ''v1'', Lit ''auth'', Lit ''me''],
       [(GET, me_api_v1_auth_me_get)]),
     ([Lit [], Lit ''api'', Lit ''v1'', Lit ''auth'', Lit ''change-password''],
       [(POST, change_password_api_v1_auth_change_password_post)]),
     ([Lit [], Lit ''api'', Lit ''v1'', Lit ''users''],
       [(GET, list_users_api_v1_users_get),
        (POST, create_user_api_v1_users_post)]),
     ([Lit [], Lit ''api'', Lit ''v1'', Lit ''users'', Par],
       [(DELETE, delete_user_api_v1_users__user_id__delete),
        (PATCH, update_user_api_v1_users__user_id__patch)]),
     ([Lit [], Lit ''api'', Lit ''v1'', Lit ''siem'', Lit ''events''],
       [(GET, list_siem_events_api_v1_siem_events_get)])]"
  by (simp add: account_paths_def template_def seg_of_def starts_with_def)

lemma split_siem_client_paths:
  "map (\<lambda>(p, it). (template p, it)) siem_client_paths =
    [([Lit [], Lit ''api'', Lit ''v1'', Lit ''siem'', Lit ''syslog''],
       [(GET, list_syslog_api_v1_siem_syslog_get),
        (POST, create_syslog_api_v1_siem_syslog_post)]),
     ([Lit [], Lit ''api'', Lit ''v1'', Lit ''siem'', Lit ''syslog'', Par],
       [(DELETE, delete_syslog_api_v1_siem_syslog__syslog_id__delete),
        (PATCH, update_syslog_api_v1_siem_syslog__syslog_id__patch)]),
     ([Lit [], Lit ''api'', Lit ''v1'', Lit ''siem'', Lit ''syslog'', Par, Lit ''test''],
       [(POST, test_syslog_api_v1_siem_syslog__syslog_id__test_post)]),
     ([Lit [], Lit ''api'', Lit ''v1'', Lit ''tenants'', Par, Lit ''clients''],
       [(GET, list_clients_api_v1_tenants__tenant_id__clients_get)]),
     ([Lit [], Lit ''api'', Lit ''v1'', Lit ''tenants'', Par, Lit ''clients'', Par],
       [(PUT, register_client_api_v1_tenants__tenant_id__clients__ip__put),
        (DELETE, delete_client_api_v1_tenants__tenant_id__clients__ip__delete)])]"
  by (simp add: siem_client_paths_def template_def seg_of_def starts_with_def)

lemma split_zone_paths:
  "map (\<lambda>(p, it). (template p, it)) zone_paths =
    [([Lit [], Lit ''api'', Lit ''v1'', Lit ''dns-zones''],
       [(GET, list_zones_api_v1_dns_zones_get),
        (POST, create_zone_api_v1_dns_zones_post)]),
     ([Lit [], Lit ''api'', Lit ''v1'', Lit ''dns-zones'', Par],
       [(GET, get_zone_api_v1_dns_zones__zone_id__get),
        (DELETE, delete_zone_api_v1_dns_zones__zone_id__delete),
        (PATCH, update_zone_api_v1_dns_zones__zone_id__patch)]),
     ([Lit [], Lit ''api'', Lit ''v1'', Lit ''dns-zones'', Par, Lit ''export''],
       [(GET, export_zone_api_v1_dns_zones__zone_id__export_get)]),
     ([Lit [], Lit ''api'', Lit ''v1'', Lit ''dns-zones'', Par, Lit ''records''],
       [(GET, list_records_api_v1_dns_zones__zone_id__records_get),
        (POST, create_record_api_v1_dns_zones__zone_id__records_post)]),
     ([Lit [], Lit ''api'', Lit ''v1'', Lit ''dns-zones'', Par, Lit ''records'', Par],
       [(DELETE, delete_record_api_v1_dns_zones__zone_id__records__record_id__delete),
        (PATCH, update_record_api_v1_dns_zones__zone_id__records__record_id__patch)])]"
  by (simp add: zone_paths_def template_def seg_of_def starts_with_def)

lemma split_resolver_pool_paths:
  "map (\<lambda>(p, it). (template p, it)) resolver_pool_paths =
    [([Lit [], Lit ''api'', Lit ''v1'', Lit ''upstream'', Lit ''resolvers''],
       [(GET, list_resolvers_api_v1_upstream_resolvers_get),
        (POST, create_resolver_api_v1_upstream_resolvers_post)]),
     ([Lit [], Lit ''api'', Lit ''v1'', Lit ''upstream'', Lit ''resolvers'', Par],
       [(DELETE, delete_resolver_api_v1_upstream_resolvers__resolver_id__delete),
        (PATCH, update_resolver_api_v1_upstream_resolvers__resolver_id__patch)]),
     ([Lit [], Lit ''api'', Lit ''v1'', Lit ''upstream'', Lit ''resolvers'', Par, Lit ''probe''],
       [(POST, probe_resolver_api_v1_upstream_resolvers__resolver_id__probe_post)]),
     ([Lit [], Lit ''api'', Lit ''v1'', Lit ''upstream'', Lit ''pools''],
       [(GET, list_pools_api_v1_upstream_pools_get),
        (POST, create_pool_api_v1_upstream_pools_post)]),
     ([Lit [], Lit ''api'', Lit ''v1'', Lit ''upstream'', Lit ''pools'', Par],
       [(DELETE, delete_pool_api_v1_upstream_pools__pool_id__delete),
        (PATCH, update_pool_api_v1_upstream_pools__pool_id__patch)]),
     ([Lit [], Lit ''api'', Lit ''v1'', Lit ''upstream'', Lit ''pools'', Par, Lit ''members'', Par],
       [(PUT, upsert_pool_member_api_v1_upstream_pools__pool_id__members__resolver_id__put),
        (DELETE, remove_pool_member_api_v1_upstream_pools__pool_id__members__resolver_id__delete)])]"
  by (simp add: resolver_pool_paths_def template_def seg_of_def starts_with_def)

lemma split_upstream_route_paths:
  "map (\<lambda>(p, it). (template p, it)) upstream_route_paths =
    [([Lit [], Lit ''api'', Lit ''v1'', Lit ''tenants'', Par, Lit ''upstream'', Lit ''routes''],
       [(GET, list_routes_api_v1_tenants__tenant_id__upstream_routes_get),
        (POST, create_route_api_v1_tenants__tenant_id__upstream_routes_post)]),
     ([Lit [], Lit ''api'', Lit ''v1'', Lit ''tenants'', Par, Lit ''upstream'', Lit ''routes'', Par],
       [(DELETE, delete_route_api_v1_tenants__tenant_id__upstream_routes__route_id__delete),
        (PATCH, update_route_api_v1_tenants__tenant_id__upstream_routes__route_id__patch)]),
     ([Lit [], Lit ''api'', Lit ''v1'', Lit ''tenants'', Par, Lit ''upstream'', Lit ''policy''],
       [(GET, get_tenant_policy_api_v1_tenants__tenant_id__upstream_policy_get),
        (PUT, upsert_tenant_policy_api_v1_tenants__tenant_id__upstream_policy_put)]),
     ([Lit [], Lit ''api'', Lit ''v1'', Lit ''upstream-bundle'', Par],
       [(GET, get_upstream_bundle_api_v1_upstream_bundle__tenant_id__get)])]"
  by (simp add: upstream_route_paths_def template_def seg_of_def starts_with_def)

lemma split_dhcp_scope_paths:
  "map (\<lambda>(p, it). (template p, it)) dhcp_scope_paths =
    [([Lit [], Lit ''api'', Lit ''v1'', Lit ''dhcp'', Lit ''scopes''],
       [(GET, list_scopes_api_v1_dhcp_scopes_get),
        (POST, create_scope_api_v1_dhcp_scopes_post)]),
     ([Lit [], Lit ''api'', Lit ''v1'', Lit ''dhcp'', Lit ''scopes'', Par],
       [(GET, get_scope_api_v1_dhcp_scopes__scope_id__get),
        (DELETE, delete_scope_api_v1_dhcp_scopes__scope_id__delete),
        (PATCH, update_scope_api_v1_dhcp_scopes__scope_id__patch)]),
     ([Lit [], Lit ''api'', Lit ''v1'', Lit ''dhcp'', Lit ''scopes'', Par, Lit ''reservations''],
       [(GET, list_reservations_api_v1_dhcp_scopes__scope_id__reservations_get),
        (POST, create_reservation_api_v1_dhcp_scopes__scope_id__reservations_post)]),
     ([Lit [], Lit ''api'', Lit ''v1'', Lit ''dhcp'', Lit ''scopes'', Par, Lit ''reservations'', Par],
       [(DELETE, delete_reservation_api_v1_dhcp_scopes__scope_id__reservations__reservation_id__delete),
        (PATCH, update_reservation_api_v1_dhcp_scopes__scope_id__reservations__reservation_id__patch)]),
     ([Lit [], Lit ''api'', Lit ''v1'', Lit ''dhcp'', Lit ''scopes'', Par, Lit ''options''],
       [(GET, list_options_api_v1_dhcp_scopes__scope_id__options_get),
        (POST, create_option_api_v1_dhcp_scopes__scope_id__options_post)]),
     ([Lit [], Lit ''api'', Lit ''v1'', Lit ''dhcp'', Lit ''scopes'', Par, Lit ''options'', Par],
       [(DELETE, delete_option_api_v1_dhcp_scopes__scope_id__options__option_id__delete)])]"
  by (simp add: dhcp_scope_paths_def template_def seg_of_def starts_with_def)

lemma split_dhcp_lease_paths:
  "map (\<lambda>(p, it). (template p, it)) dhcp_lease_paths =
    [([Lit [], Lit ''api'', Lit ''v1'', Lit ''dhcp'', Lit ''scopes'', Par, Lit ''relays''],
       [(GET, list_relays_api_v1_dhcp_scopes__scope_id__relays_get),
        (POST, create_relay_api_v1_dhcp_scopes__scope_id__relays_post)]),
     ([Lit [], Lit ''api'', Lit ''v1'', Lit ''dhcp'', Lit ''scopes'', Par, Lit ''relays'', Par],
       [(DELETE, delete_relay_api_v1_dhcp_scopes__scope_id__relays__relay_id__delete)]),
     ([Lit [], Lit ''api'', Lit ''v1'', Lit ''dhcp'', Lit ''leases''],
       [(GET, list_leases_api_v1_dhcp_leases_get)]),
     ([Lit [], Lit ''api'', Lit ''v1'', Lit ''dhcp'', Lit ''stats''],
       [(GET, dhcp_stats_api_v1_dhcp_stats_get)]),
     ([Lit [], Lit ''api'', Lit ''v1'', Lit ''dhcp'', Lit ''interfaces''],
       [(GET, list_interfaces_api_v1_dhcp_interfaces_get)]),
     ([Lit [], Lit ''api'', Lit ''v1'', Lit ''dhcp'', Lit ''health''],
       [(GET, dhcp_health_api_v1_dhcp_health_get)])]"
  by (simp add: dhcp_lease_paths_def template_def seg_of_def starts_with_def)

lemma split_dhcp6_paths:
  "map (\<lambda>(p, it). (template p, it)) dhcp6_paths =
    [([Lit [], Lit ''api'', Lit ''v1'', Lit ''internal'', Lit ''dhcp-event''],
       [(POST, dhcp_event_api_v1_internal_dhcp_event_post)]),
     ([Lit [], Lit ''api'', Lit ''v1'', Lit ''dhcp6'', Lit ''scopes''],
       [(GET, list_scopes6_api_v1_dhcp6_scopes_get),
        (POST, create_scope6_api_v1_dhcp6_scopes_post)]),
     ([Lit [], Lit ''api'', Lit ''v1'', Lit ''dhcp6'', Lit ''scopes'', Par],
       [(GET, get_scope6_api_v1_dhcp6_scopes__scope_id__get),
        (DELETE, delete_scope6_api_v1_dhcp6_scopes__scope_id__delete),
        (PATCH, update_scope6_api_v1_dhcp6_scopes__scope_id__patch)]),
     ([Lit [], Lit ''api'', Lit ''v1'', Lit ''dhcp6'', Lit ''scopes'', Par, Lit ''reservations''],
       [(GET, list_reservations6_api_v1_dhcp6_scopes__scope_id__reservations_get),
        (POST, create_reservation6_api_v1_dhcp6_scopes__scope_id__reservations_post)]),
     ([Lit [], Lit ''api'', Lit ''v1'', Lit ''dhcp6'', Lit ''scopes'', Par, Lit ''reservations'', Par],
       [(DELETE, delete_reservation6_api_v1_dhcp6_scopes__scope_id__reservations__reservation_id__delete),
        (PATCH, update_reservation6_api_v1_dhcp6_scopes__scope_id__reservations__reservation_id__patch)]),
     ([Lit [], Lit ''api'', Lit ''v1'', Lit ''dhcp6'', Lit ''leases''],
       [(GET, list_leases6_api_v1_dhcp6_leases_get)])]"
  by (simp add: dhcp6_paths_def template_def seg_of_def starts_with_def)

lemma split_node_paths:
  "map (\<lambda>(p, it). (template p, it)) node_paths =
    [([Lit [], Lit ''api'', Lit ''v1'', Lit ''nodes'', Lit ''credentials''],
       [(GET, list_node_credentials_api_v1_nodes_credentials_get),
        (POST, create_node_credential_api_v1_nodes_credentials_post)]),
     ([Lit [], Lit ''api'', Lit ''v1'', Lit ''nodes'', Lit ''credentials'', Par, Lit ''rotate''],
       [(POST, rotate_node_credential_api_v1_nodes_credentials__node_name__rotate_post)]),
     ([Lit [], Lit ''api'', Lit ''v1'', Lit ''nodes'', Lit ''credentials'', Par, Lit ''revoke''],
       [(POST, revoke_node_credential_api_v1_nodes_credentials__node_name__revoke_post)]),
     ([Lit [], Lit ''health''],
       [(GET, health_health_get)])]"
  by (simp add: node_paths_def template_def seg_of_def starts_with_def)

lemmas path_table_list = path_table_def [unfolded paths_def map_append split_tenant_paths split_policy_paths split_block_page_feed_paths split_log_analytics_paths split_widget_audit_paths split_account_paths split_siem_client_paths split_zone_paths split_resolver_pool_paths split_upstream_route_paths split_dhcp_scope_paths split_dhcp_lease_paths split_dhcp6_paths split_node_paths append_Cons append_Nil]

text \<open>The table is not rewritten while it is searched.\<close>

lemma first_route_cong: "v = v' \<Longrightarrow> ss = ss' \<Longrightarrow> first_route v ss xs = first_route v' ss' xs"
  by simp

text \<open>An identifier that is one segment of a path.\<close>

definition segment :: "string \<Rightarrow> bool" where
  "segment x \<longleftrightarrow> x \<noteq> [] \<and> CHR ''/'' \<notin> set x \<and> CHR ''?'' \<notin> set x \<and> CHR ''#'' \<notin> set x"

section \<open>Raw paths\<close>

lemma raw_fixed:
  shows "raw_operation GET (''/api/v1/categories'') = Some list_categories_api_v1_categories_get"
    and "raw_operation GET (''/api/v1/audit-log'') = Some list_audit_log_api_v1_audit_log_get"
    and "raw_operation GET (''/api/v1/query-log'') = Some query_log_api_v1_query_log_get"
    and "raw_operation GET (''/api/v1/analytics/summary'') = Some analytics_summary_api_v1_analytics_summary_get"
    and "raw_operation GET (''/api/v1/analytics/timeseries'') = Some analytics_timeseries_api_v1_analytics_timeseries_get"
    and "raw_operation GET (''/api/v1/analytics/by-group'') = Some analytics_by_group_api_v1_analytics_by_group_get"
    and "raw_operation GET (''/api/v1/analytics/top-clients'') = Some top_clients_analytics_api_v1_analytics_top_clients_get"
    and "raw_operation GET (''/api/v1/analytics/top-categories'') = Some top_categories_analytics_api_v1_analytics_top_categories_get"
    and "raw_operation GET (''/api/v1/analytics/recent-events'') = Some recent_events_analytics_api_v1_analytics_recent_events_get"
    and "raw_operation GET (''/api/v1/analytics/latency'') = Some latency_analytics_api_v1_analytics_latency_get"
    and "raw_operation GET (''/api/v1/analytics/query-mix'') = Some query_mix_analytics_api_v1_analytics_query_mix_get"
    and "raw_operation GET (''/api/v1/upstream/resolvers'') = Some list_resolvers_api_v1_upstream_resolvers_get"
    and "raw_operation POST (''/api/v1/upstream/resolvers'') = Some create_resolver_api_v1_upstream_resolvers_post"
    and "raw_operation GET (''/api/v1/upstream/pools'') = Some list_pools_api_v1_upstream_pools_get"
    and "raw_operation POST (''/api/v1/upstream/pools'') = Some create_pool_api_v1_upstream_pools_post"
    and "raw_operation GET (''/api/v1/dhcp/scopes'') = Some list_scopes_api_v1_dhcp_scopes_get"
    and "raw_operation POST (''/api/v1/dhcp/scopes'') = Some create_scope_api_v1_dhcp_scopes_post"
    and "raw_operation GET (''/api/v1/dhcp/leases'') = Some list_leases_api_v1_dhcp_leases_get"
    and "raw_operation GET (''/api/v1/dhcp/stats'') = Some dhcp_stats_api_v1_dhcp_stats_get"
    and "raw_operation GET (''/api/v1/dhcp/interfaces'') = Some list_interfaces_api_v1_dhcp_interfaces_get"
    and "raw_operation GET (''/api/v1/dhcp/health'') = Some dhcp_health_api_v1_dhcp_health_get"
    and "raw_operation GET (''/api/v1/dhcp6/scopes'') = Some list_scopes6_api_v1_dhcp6_scopes_get"
    and "raw_operation POST (''/api/v1/dhcp6/scopes'') = Some create_scope6_api_v1_dhcp6_scopes_post"
    and "raw_operation GET (''/api/v1/dhcp6/leases'') = Some list_leases6_api_v1_dhcp6_leases_get"
  unfolding raw_operation_def path_table_list by (simp_all cong: first_route_cong)

lemma raw_one:
  assumes "segment x"
  shows "raw_operation GET (''/api/v1/dns-zones/'' @ x @ ''/export'') = Some export_zone_api_v1_dns_zones__zone_id__export_get"
    and "raw_operation POST (''/api/v1/groups/'' @ x @ ''/policy/test'') = Some test_domain_api_v1_groups__group_id__policy_test_post"
    and "raw_operation PATCH (''/api/v1/upstream/resolvers/'' @ x) = Some update_resolver_api_v1_upstream_resolvers__resolver_id__patch"
    and "raw_operation DELETE (''/api/v1/upstream/resolvers/'' @ x) = Some delete_resolver_api_v1_upstream_resolvers__resolver_id__delete"
    and "raw_operation POST (''/api/v1/upstream/resolvers/'' @ x @ ''/probe'') = Some probe_resolver_api_v1_upstream_resolvers__resolver_id__probe_post"
    and "raw_operation PATCH (''/api/v1/upstream/pools/'' @ x) = Some update_pool_api_v1_upstream_pools__pool_id__patch"
    and "raw_operation DELETE (''/api/v1/upstream/pools/'' @ x) = Some delete_pool_api_v1_upstream_pools__pool_id__delete"
    and "raw_operation GET (''/api/v1/tenants/'' @ x @ ''/upstream/routes'') = Some list_routes_api_v1_tenants__tenant_id__upstream_routes_get"
    and "raw_operation POST (''/api/v1/tenants/'' @ x @ ''/upstream/routes'') = Some create_route_api_v1_tenants__tenant_id__upstream_routes_post"
    and "raw_operation GET (''/api/v1/tenants/'' @ x @ ''/upstream/policy'') = Some get_tenant_policy_api_v1_tenants__tenant_id__upstream_policy_get"
    and "raw_operation PUT (''/api/v1/tenants/'' @ x @ ''/upstream/policy'') = Some upsert_tenant_policy_api_v1_tenants__tenant_id__upstream_policy_put"
    and "raw_operation PATCH (''/api/v1/dhcp/scopes/'' @ x) = Some update_scope_api_v1_dhcp_scopes__scope_id__patch"
    and "raw_operation DELETE (''/api/v1/dhcp/scopes/'' @ x) = Some delete_scope_api_v1_dhcp_scopes__scope_id__delete"
    and "raw_operation GET (''/api/v1/dhcp/scopes/'' @ x @ ''/reservations'') = Some list_reservations_api_v1_dhcp_scopes__scope_id__reservations_get"
    and "raw_operation POST (''/api/v1/dhcp/scopes/'' @ x @ ''/reservations'') = Some create_reservation_api_v1_dhcp_scopes__scope_id__reservations_post"
    and "raw_operation PATCH (''/api/v1/dhcp6/scopes/'' @ x) = Some update_scope6_api_v1_dhcp6_scopes__scope_id__patch"
    and "raw_operation DELETE (''/api/v1/dhcp6/scopes/'' @ x) = Some delete_scope6_api_v1_dhcp6_scopes__scope_id__delete"
    and "raw_operation GET (''/api/v1/dhcp6/scopes/'' @ x @ ''/reservations'') = Some list_reservations6_api_v1_dhcp6_scopes__scope_id__reservations_get"
    and "raw_operation POST (''/api/v1/dhcp6/scopes/'' @ x @ ''/reservations'') = Some create_reservation6_api_v1_dhcp6_scopes__scope_id__reservations_post"
  unfolding raw_operation_def path_table_list
  using assms by (simp_all add: segment_def js_split_append_sep js_split_no_sep cong: first_route_cong)

lemma raw_two:
  assumes "segment x" and "segment y"
  shows "raw_operation PUT (''/api/v1/upstream/pools/'' @ x @ ''/members/'' @ y) = Some upsert_pool_member_api_v1_upstream_pools__pool_id__members__resolver_id__put"
    and "raw_operation DELETE (''/api/v1/upstream/pools/'' @ x @ ''/members/'' @ y) = Some remove_pool_member_api_v1_upstream_pools__pool_id__members__resolver_id__delete"
    and "raw_operation PATCH (''/api/v1/tenants/'' @ x @ ''/upstream/routes/'' @ y) = Some update_route_api_v1_tenants__tenant_id__upstream_routes__route_id__patch"
    and "raw_operation DELETE (''/api/v1/tenants/'' @ x @ ''/upstream/routes/'' @ y) = Some delete_route_api_v1_tenants__tenant_id__upstream_routes__route_id__delete"
    and "raw_operation PATCH (''/api/v1/dhcp/scopes/'' @ x @ ''/reservations/'' @ y) = Some update_reservation_api_v1_dhcp_scopes__scope_id__reservations__reservation_id__patch"
    and "raw_operation DELETE (''/api/v1/dhcp/scopes/'' @ x @ ''/reservations/'' @ y) = Some delete_reservation_api_v1_dhcp_scopes__scope_id__reservations__reservation_id__delete"
    and "raw_operation PATCH (''/api/v1/dhcp6/scopes/'' @ x @ ''/reservations/'' @ y) = Some update_reservation6_api_v1_dhcp6_scopes__scope_id__reservations__reservation_id__patch"
    and "raw_operation DELETE (''/api/v1/dhcp6/scopes/'' @ x @ ''/reservations/'' @ y) = Some delete_reservation6_api_v1_dhcp6_scopes__scope_id__reservations__reservation_id__delete"
  unfolding raw_operation_def path_table_list
  using assms by (simp_all add: segment_def js_split_append_sep js_split_no_sep cong: first_route_cong)

text \<open>In the form the paths take under the simplifier.\<close>

lemmas raw_ops = raw_fixed raw_one [simplified append_Cons append_Nil] raw_two [simplified append_Cons append_Nil]

section \<open>Typed paths\<close>

text \<open>The table is not rewritten while it is searched.\<close>

lemma map_of_cong: "k = k' \<Longrightarrow> map_of xs k = map_of xs k'"
  by simp

lemmas paths_list = paths_def [unfolded tenant_paths_def policy_paths_def block_page_feed_paths_def log_analytics_paths_def widget_audit_paths_def account_paths_def siem_client_paths_def zone_paths_def resolver_pool_paths_def upstream_route_paths_def dhcp_scope_paths_def dhcp_lease_paths_def dhcp6_paths_def node_paths_def append_Cons append_Nil]

lemma typed_paths_1:
  "typed_operation GET ''/api/v1/users'' = Some list_users_api_v1_users_get"
  "typed_operation POST ''/api/v1/users'' = Some create_user_api_v1_users_post"
  "typed_operation PATCH ''/api/v1/users/{user_id}'' = Some update_user_api_v1_users__user_id__patch"
  "typed_operation DELETE ''/api/v1/users/{user_id}'' = Some delete_user_api_v1_users__user_id__delete"
  "typed_operation POST ''/api/v1/auth/change-password'' = Some change_password_api_v1_auth_change_password_post"
  "typed_operation GET ''/api/v1/tenants'' = Some list_tenants_api_v1_tenants_get"
  "typed_operation POST ''/api/v1/tenants'' = Some create_tenant_api_v1_tenants_post"
  "typed_operation DELETE ''/api/v1/tenants/{tenant_id}'' = Some delete_tenant_api_v1_tenants__tenant_id__delete"
  "typed_operation GET ''/api/v1/tenants/{tenant_id}/groups'' = Some list_groups_api_v1_tenants__tenant_id__groups_get"
  "typed_operation POST ''/api/v1/tenants/{tenant_id}/groups'' = Some create_group_api_v1_tenants__tenant_id__groups_post"
  "typed_operation PUT ''/api/v1/groups/{group_id}/subnet'' = Some set_group_subnet_api_v1_groups__group_id__subnet_put"
  "typed_operation PUT ''/api/v1/groups/{group_id}'' = Some rename_group_api_v1_groups__group_id__put"
  unfolding typed_operation_def paths_list by (simp_all add: map_of_Cons_code del: map_of.simps cong: map_of_cong)

lemma typed_paths_2:
  "typed_operation DELETE ''/api/v1/groups/{group_id}'' = Some delete_group_api_v1_groups__group_id__delete"
  "typed_operation GET ''/api/v1/groups/{group_id}/policy'' = Some get_policy_api_v1_groups__group_id__policy_get"
  "typed_operation PUT ''/api/v1/groups/{group_id}/policy'' = Some upsert_policy_api_v1_groups__group_id__policy_put"
  "typed_operation POST ''/api/v1/groups/{group_id}/bundle'' = Some compile_bundle_api_v1_groups__group_id__bundle_post"
  "typed_operation GET ''/api/v1/groups/{group_id}/block-page-template'' = Some get_group_block_template_api_v1_groups__group_id__block_page_template_get"
  "typed_operation PUT ''/api/v1/groups/{group_id}/block-page-template'' = Some upsert_group_block_template_api_v1_groups__group_id__block_page_template_put"
  "typed_operation GET ''/api/v1/groups/{group_id}/top-domains'' = Some top_domains_api_v1_groups__group_id__top_domains_get"
  "typed_operation GET ''/api/v1/feeds'' = Some list_feeds_api_v1_feeds_get"
  "typed_operation POST ''/api/v1/feeds'' = Some create_feed_api_v1_feeds_post"
  "typed_operation PATCH ''/api/v1/feeds/{feed_id}'' = Some update_feed_api_v1_feeds__feed_id__patch"
  "typed_operation DELETE ''/api/v1/feeds/{feed_id}'' = Some delete_feed_api_v1_feeds__feed_id__delete"
  "typed_operation POST ''/api/v1/feeds/{feed_id}/ingest'' = Some ingest_feed_api_v1_feeds__feed_id__ingest_post"
  unfolding typed_operation_def paths_list by (simp_all add: map_of_Cons_code del: map_of.simps cong: map_of_cong)

lemma typed_paths_3:
  "typed_operation GET ''/api/v1/analytics/summary'' = Some analytics_summary_api_v1_analytics_summary_get"
  "typed_operation GET ''/api/v1/analytics/timeseries'' = Some analytics_timeseries_api_v1_analytics_timeseries_get"
  "typed_operation GET ''/api/v1/analytics/by-group'' = Some analytics_by_group_api_v1_analytics_by_group_get"
  "typed_operation GET ''/api/v1/siem/syslog'' = Some list_syslog_api_v1_siem_syslog_get"
  "typed_operation POST ''/api/v1/siem/syslog'' = Some create_syslog_api_v1_siem_syslog_post"
  "typed_operation PATCH ''/api/v1/siem/syslog/{syslog_id}'' = Some update_syslog_api_v1_siem_syslog__syslog_id__patch"
  "typed_operation DELETE ''/api/v1/siem/syslog/{syslog_id}'' = Some delete_syslog_api_v1_siem_syslog__syslog_id__delete"
  "typed_operation POST ''/api/v1/siem/syslog/{syslog_id}/test'' = Some test_syslog_api_v1_siem_syslog__syslog_id__test_post"
  "typed_operation GET ''/api/v1/tenants/{tenant_id}/clients'' = Some list_clients_api_v1_tenants__tenant_id__clients_get"
  "typed_operation PUT ''/api/v1/tenants/{tenant_id}/clients/{ip}'' = Some register_client_api_v1_tenants__tenant_id__clients__ip__put"
  "typed_operation DELETE ''/api/v1/tenants/{tenant_id}/clients/{ip}'' = Some delete_client_api_v1_tenants__tenant_id__clients__ip__delete"
  "typed_operation GET ''/api/v1/dns-zones'' = Some list_zones_api_v1_dns_zones_get"
  unfolding typed_operation_def paths_list by (simp_all add: map_of_Cons_code del: map_of.simps cong: map_of_cong)

lemma typed_paths_4:
  "typed_operation GET ''/api/v1/dns-zones/{zone_id}'' = Some get_zone_api_v1_dns_zones__zone_id__get"
  "typed_operation POST ''/api/v1/dns-zones'' = Some create_zone_api_v1_dns_zones_post"
  "typed_operation PATCH ''/api/v1/dns-zones/{zone_id}'' = Some update_zone_api_v1_dns_zones__zone_id__patch"
  "typed_operation DELETE ''/api/v1/dns-zones/{zone_id}'' = Some delete_zone_api_v1_dns_zones__zone_id__delete"
  "typed_operation GET ''/api/v1/dns-zones/{zone_id}/records'' = Some list_records_api_v1_dns_zones__zone_id__records_get"
  "typed_operation POST ''/api/v1/dns-zones/{zone_id}/records'' = Some create_record_api_v1_dns_zones__zone_id__records_post"
  "typed_operation PATCH ''/api/v1/dns-zones/{zone_id}/records/{record_id}'' = Some update_record_api_v1_dns_zones__zone_id__records__record_id__patch"
  "typed_operation DELETE ''/api/v1/dns-zones/{zone_id}/records/{record_id}'' = Some delete_record_api_v1_dns_zones__zone_id__records__record_id__delete"
  "typed_operation GET ''/api/v1/auth/me'' = Some me_api_v1_auth_me_get"
  "typed_operation POST ''/api/v1/auth/login'' = Some login_api_v1_auth_login_post"
  "typed_operation POST ''/api/v1/auth/logout'' = Some logout_api_v1_auth_logout_post"
  unfolding typed_operation_def paths_list by (simp_all add: map_of_Cons_code del: map_of.simps cong: map_of_cong)

lemmas typed_paths = typed_paths_1 typed_paths_2 typed_paths_3 typed_paths_4

lemmas typed_op_defs =
  analytics_by_group_api_v1_analytics_by_group_get_def analytics_summary_api_v1_analytics_summary_get_def
  analytics_timeseries_api_v1_analytics_timeseries_get_def change_password_api_v1_auth_change_password_post_def
  compile_bundle_api_v1_groups__group_id__bundle_post_def create_feed_api_v1_feeds_post_def
  create_group_api_v1_tenants__tenant_id__groups_post_def create_record_api_v1_dns_zones__zone_id__records_post_def
  create_syslog_api_v1_siem_syslog_post_def create_tenant_api_v1_tenants_post_def create_user_api_v1_users_post_def
  create_zone_api_v1_dns_zones_post_def delete_client_api_v1_tenants__tenant_id__clients__ip__delete_def
  delete_feed_api_v1_feeds__feed_id__delete_def delete_group_api_v1_groups__group_id__delete_def
  delete_record_api_v1_dns_zones__zone_id__records__record_id__delete_def delete_syslog_api_v1_siem_syslog__syslog_id__delete_def
  delete_tenant_api_v1_tenants__tenant_id__delete_def delete_user_api_v1_users__user_id__delete_def
  delete_zone_api_v1_dns_zones__zone_id__delete_def get_group_block_template_api_v1_groups__group_id__block_page_template_get_def
  get_policy_api_v1_groups__group_id__policy_get_def get_zone_api_v1_dns_zones__zone_id__get_def
  ingest_feed_api_v1_feeds__feed_id__ingest_post_def list_clients_api_v1_tenants__tenant_id__clients_get_def
  list_feeds_api_v1_feeds_get_def list_groups_api_v1_tenants__tenant_id__groups_get_def
  list_records_api_v1_dns_zones__zone_id__records_get_def list_syslog_api_v1_siem_syslog_get_def
  list_tenants_api_v1_tenants_get_def list_users_api_v1_users_get_def list_zones_api_v1_dns_zones_get_def
  login_api_v1_auth_login_post_def logout_api_v1_auth_logout_post_def me_api_v1_auth_me_get_def
  register_client_api_v1_tenants__tenant_id__clients__ip__put_def rename_group_api_v1_groups__group_id__put_def
  set_group_subnet_api_v1_groups__group_id__subnet_put_def test_syslog_api_v1_siem_syslog__syslog_id__test_post_def
  top_domains_api_v1_groups__group_id__top_domains_get_def update_feed_api_v1_feeds__feed_id__patch_def
  update_record_api_v1_dns_zones__zone_id__records__record_id__patch_def update_syslog_api_v1_siem_syslog__syslog_id__patch_def
  update_user_api_v1_users__user_id__patch_def update_zone_api_v1_dns_zones__zone_id__patch_def
  upsert_group_block_template_api_v1_groups__group_id__block_page_template_put_def
  upsert_policy_api_v1_groups__group_id__policy_put_def

lemmas raw_op_defs =
  analytics_by_group_api_v1_analytics_by_group_get_def analytics_summary_api_v1_analytics_summary_get_def
  analytics_timeseries_api_v1_analytics_timeseries_get_def create_pool_api_v1_upstream_pools_post_def
  create_reservation6_api_v1_dhcp6_scopes__scope_id__reservations_post_def
  create_reservation_api_v1_dhcp_scopes__scope_id__reservations_post_def create_resolver_api_v1_upstream_resolvers_post_def
  create_route_api_v1_tenants__tenant_id__upstream_routes_post_def create_scope6_api_v1_dhcp6_scopes_post_def
  create_scope_api_v1_dhcp_scopes_post_def delete_pool_api_v1_upstream_pools__pool_id__delete_def
  delete_reservation6_api_v1_dhcp6_scopes__scope_id__reservations__reservation_id__delete_def
  delete_reservation_api_v1_dhcp_scopes__scope_id__reservations__reservation_id__delete_def
  delete_resolver_api_v1_upstream_resolvers__resolver_id__delete_def
  delete_route_api_v1_tenants__tenant_id__upstream_routes__route_id__delete_def
  delete_scope6_api_v1_dhcp6_scopes__scope_id__delete_def delete_scope_api_v1_dhcp_scopes__scope_id__delete_def
  dhcp_health_api_v1_dhcp_health_get_def dhcp_stats_api_v1_dhcp_stats_get_def export_zone_api_v1_dns_zones__zone_id__export_get_def
  get_tenant_policy_api_v1_tenants__tenant_id__upstream_policy_get_def latency_analytics_api_v1_analytics_latency_get_def
  list_audit_log_api_v1_audit_log_get_def list_categories_api_v1_categories_get_def list_interfaces_api_v1_dhcp_interfaces_get_def
  list_leases6_api_v1_dhcp6_leases_get_def list_leases_api_v1_dhcp_leases_get_def list_pools_api_v1_upstream_pools_get_def
  list_reservations6_api_v1_dhcp6_scopes__scope_id__reservations_get_def
  list_reservations_api_v1_dhcp_scopes__scope_id__reservations_get_def list_resolvers_api_v1_upstream_resolvers_get_def
  list_routes_api_v1_tenants__tenant_id__upstream_routes_get_def list_scopes6_api_v1_dhcp6_scopes_get_def
  list_scopes_api_v1_dhcp_scopes_get_def probe_resolver_api_v1_upstream_resolvers__resolver_id__probe_post_def
  query_log_api_v1_query_log_get_def query_mix_analytics_api_v1_analytics_query_mix_get_def
  recent_events_analytics_api_v1_analytics_recent_events_get_def
  remove_pool_member_api_v1_upstream_pools__pool_id__members__resolver_id__delete_def
  test_domain_api_v1_groups__group_id__policy_test_post_def top_categories_analytics_api_v1_analytics_top_categories_get_def
  top_clients_analytics_api_v1_analytics_top_clients_get_def update_pool_api_v1_upstream_pools__pool_id__patch_def
  update_reservation6_api_v1_dhcp6_scopes__scope_id__reservations__reservation_id__patch_def
  update_reservation_api_v1_dhcp_scopes__scope_id__reservations__reservation_id__patch_def
  update_resolver_api_v1_upstream_resolvers__resolver_id__patch_def
  update_route_api_v1_tenants__tenant_id__upstream_routes__route_id__patch_def
  update_scope6_api_v1_dhcp6_scopes__scope_id__patch_def update_scope_api_v1_dhcp_scopes__scope_id__patch_def
  upsert_pool_member_api_v1_upstream_pools__pool_id__members__resolver_id__put_def
  upsert_tenant_policy_api_v1_tenants__tenant_id__upstream_policy_put_def

end
