(* ===== verification/Conformance.thy ===== *)
theory Conformance
  imports ApiRoutes Contracts Dashboard
begin

text \<open>
  Every request of the UI against the declared interface of the control service (\<open>api/hooks.ts\<close> and the pages against the paths
  and operations of \<open>api/schema.ts\<close>).
\<close>

section \<open>The requests of the UI\<close>

text \<open>Every query of the hooks and of the dashboard.\<close>

definition ui_reads ::
    "string option \<Rightarrow> string option \<Rightarrow> string option \<Rightarrow> string \<Rightarrow> string option \<Rightarrow> nat \<Rightarrow> nat \<Rightarrow> bool \<Rightarrow> query_log_params \<Rightarrow> query_hook list" where
  "ui_reads t g sc z flt n hours un qp =
    [useUsers, useTenants, useGroups t, usePolicy g, useBlockPageTemplate g, useTopDomains g, useCategories, useFeeds,
     useAnalyticsSummary hours, useAnalyticsTimeseries hours, useAnalyticsByGroup hours, useAuditLog flt n, useQueryLog qp,
     useSiemSyslogSinks, useClients t un, useZones, useZone z, useRecords z,
     useUpstreamResolvers, useUpstreamPools, useUpstreamRoutes t, useUpstreamTenantPolicy t,
     useDhcpScopes flt, useDhcpReservations sc, useDhcpLeases flt, useDhcpStats, useDhcpInterfaces, useDhcpHealth,
     useDhcpScopes6 flt, useDhcpReservations6 sc, useDhcpLeases6 flt] @ dashboard_queries hours flt"

text \<open>The writes without a body of their own, with the requests of the session and the export of a zone.\<close>

definition ui_plain_calls :: "string option \<Rightarrow> string option \<Rightarrow> string \<Rightarrow> string \<Rightarrow> api_call list" where
  "ui_plain_calls t sc x y =
    [me_call, logout_call, RawGet (''/api/v1/dns-zones/'' @ x @ ''/export'') [],
     mu_fn useDeleteUser x, mu_fn useDeleteTenant x, mu_fn (useDeleteGroup t) x, mu_fn useCompileBundle x, mu_fn useDeleteFeed x,
     mu_fn useIngestFeedNow x, mu_fn useDeleteSiemSyslogSink x, mu_fn useTestSiemSyslogSink x, mu_fn (useDeleteClient t) x,
     mu_fn useDeleteZone x, mu_fn (useDeleteRecord x) y, mu_fn useDeleteUpstreamResolver x, mu_fn useProbeUpstreamResolver x,
     mu_fn useDeleteUpstreamPool x, mu_fn useRemovePoolMember (x, y), mu_fn (useDeleteUpstreamRoute t) y,
     mu_fn useDeleteDhcpScope x, mu_fn (useDeleteDhcpReservation sc) y, mu_fn useDeleteDhcpScope6 x, mu_fn (useDeleteDhcpReservation6 sc) y]"

text \<open>The writes with a body, each with the type its endpoint declares.\<close>

definition ui_body_calls :: "string option \<Rightarrow> string option \<Rightarrow> string option \<Rightarrow> string \<Rightarrow> string \<Rightarrow> json \<Rightarrow> (api_call \<times> jtype) list" where
  "ui_body_calls t g sc x y b =
    [(mu_fn useCreateUser b, UserCreate), (mu_fn useUpdateUser (x, b), UserUpdate), (mu_fn useChangePassword b, ChangePasswordRequest),
     (mu_fn useCreateTenant b, TenantCreate), (mu_fn (useCreateGroup t) b, GroupCreate), (mu_fn (useSetGroupSubnet t) (x, b), GroupSubnetUpdate),
     (mu_fn (useRenameGroup t) (x, b), GroupUpdate), (mu_fn (useUpsertPolicy g) b, PolicyUpsert),
     (mu_fn (useUpsertBlockPageTemplate g) b, BlockPageTemplateUpsert), (mu_fn useCreateFeed b, FeedCreate), (mu_fn useUpdateFeed (x, b), FeedUpdate),
     (mu_fn useCreateSiemSyslogSink b, SiemSyslogCreate), (mu_fn useUpdateSiemSyslogSink (x, b), SiemSyslogUpdate),
     (mu_fn (useRegisterClient t) (x, b), ClientUpsert), (mu_fn useCreateZone b, ZoneCreate), (mu_fn useUpdateZone (x, b), ZoneUpdate),
     (mu_fn (useCreateRecord x) b, RecordIn), (mu_fn (useUpdateRecord x) (y, b), RecordUpdate),
     (mu_fn useCreateUpstreamResolver b, ResolverCreate), (mu_fn useUpdateUpstreamResolver (x, b), ResolverUpdate),
     (mu_fn useCreateUpstreamPool b, PoolCreate), (mu_fn useUpdateUpstreamPool (x, b), PoolUpdate),
     (mu_fn (useCreateUpstreamRoute t) b, RouteCreate), (mu_fn (useUpdateUpstreamRoute t) (y, b), RouteUpdate),
     (mu_fn (useUpsertUpstreamTenantPolicy t) b, TenantPolicyIn),
     (mu_fn useCreateDhcpScope b, ScopeCreate), (mu_fn useUpdateDhcpScope (x, b), ScopeUpdate),
     (mu_fn (useCreateDhcpReservation sc) b, ReservationCreate), (mu_fn (useUpdateDhcpReservation sc) (y, b), ReservationUpdate),
     (mu_fn useCreateDhcpScope6 b, Scope6Create), (mu_fn useUpdateDhcpScope6 (x, b), Scope6Update),
     (mu_fn (useCreateDhcpReservation6 sc) b, Reservation6Create), (mu_fn (useUpdateDhcpReservation6 sc) (y, b), Reservation6Update)]"

text \<open>An optional identifier that is a segment whenever a request may be made with it.\<close>

definition segment_opt :: "string option \<Rightarrow> bool" where
  "segment_opt a \<longleftrightarrow> (\<forall>x. a = Some x \<longrightarrow> x \<noteq> [] \<longrightarrow> segment x)"

lemma segment_optD: "segment_opt a \<Longrightarrow> truthy a \<Longrightarrow> segment (tmpl_opt a)"
  by (cases a) (auto simp: segment_opt_def truthy_def tmpl_opt_def)

lemma segment_truthy: "segment x \<Longrightarrow> truthy (Some x)"
  by (simp add: segment_def truthy_def)

section \<open>Conformance by kind of call\<close>

lemmas conform_defs = path_params_ok_def body_ok_def raw_write_ok_def raw_body_ok_def text_query_ok_def object_ok_def member_ok_def

lemma digits_ok [simp]: "nat_str n \<noteq> [] \<and> list_all is_digit (nat_str n)"
  by (simp add: nat_str_digits list_all_iff)

lemma when_ok:
  "list_all P (when_truthy k v) \<longleftrightarrow> (\<forall>s. v = Some s \<and> s \<noteq> [] \<longrightarrow> P (k, Some s))"
  "list_all P (when_nonzero k m) \<longleftrightarrow> (\<forall>n. m = Some n \<and> n \<noteq> 0 \<longrightarrow> P (k, Some (nat_str n)))"
  by (auto simp: when_truthy_def when_nonzero_def truthy_def split: option.splits)

lemmas write_defs = mutation_defs useChangePassword_def useCompileBundle_def useTestSiemSyslogSink_def useProbeUpstreamResolver_def

lemma body_calls_conform:
  assumes ids: "truthy t" "truthy g" "truthy sc" "segment (tmpl_opt t)" "segment (tmpl_opt sc)" and x: "segment x" and y: "segment y"
  shows "list_all (\<lambda>(c, T). conforms c = has_type T b) (ui_body_calls t g sc x y b)"
  using assms segment_truthy [OF x] segment_truthy [OF y]
  by (simp add: ui_body_calls_def write_defs typed_paths typed_op_defs raw_ops raw_op_defs conform_defs)

lemma plain_calls_conform:
  assumes "truthy t" "truthy sc" "segment (tmpl_opt t)" "segment (tmpl_opt sc)" and x: "segment x" and y: "segment y"
  shows "list_all conforms (ui_plain_calls t sc x y)"
  using assms segment_truthy [OF x] segment_truthy [OF y]
  by (simp add: ui_plain_calls_def me_call_def logout_call_def write_defs typed_paths typed_op_defs raw_ops raw_op_defs conform_defs)

text \<open>The decisions the query log can be filtered by.\<close>

definition decision_ok :: "query_log_params \<Rightarrow> bool" where
  "decision_ok p \<longleftrightarrow> qp_decision p \<in> {None, Some [], Some ''allow'', Some ''block''}"

lemma decision_okD: "decision_ok p \<Longrightarrow> qp_decision p = Some s \<and> s \<noteq> [] \<longrightarrow> s = ''allow'' \<or> s = ''block''"
  by (auto simp: decision_ok_def)

lemma dashboard_conforms: "list_all (\<lambda>q. conforms (qh_call q)) (dashboard_queries hours flt)"
  by (cases flt) (simp_all add: dashboard_queries_def dash_query_def useQuery_def raw_ops raw_op_defs text_query_ok_def Let_def is_digit_def code_def)

lemma reads_conform:
  assumes "segment_opt t" "segment_opt sc" "decision_ok qp"
  shows "list_all (\<lambda>q. qh_enabled q \<longrightarrow> conforms (qh_call q)) (ui_reads t g sc z flt n hours un qp)"
proof -
  have "truthy t \<longrightarrow> segment (tmpl_opt t)" "truthy sc \<longrightarrow> segment (tmpl_opt sc)" using assms segment_optD by blast+
  moreover have "list_all (\<lambda>q. qh_enabled q \<longrightarrow> conforms (qh_call q)) (dashboard_queries hours flt)"
    using dashboard_conforms by (simp add: list_all_iff)
  moreover have "z \<noteq> [] \<longrightarrow> truthy (Some z)" by (simp add: truthy_def)
  ultimately show ?thesis using decision_okD [OF assms(3)] unfolding ui_reads_def list_all_append
    by (simp add: query_defs typed_paths typed_op_defs raw_ops raw_op_defs conform_defs when_ok)
qed

section \<open>The property\<close>

text \<open>C5. Every request of the UI is declared by the control service. Each query that is enabled, each write without a body and the requests
  of the session name an operation of the schema with all its path parameters, declared query parameters of the declared
  types, and no undeclared body; each write with a body does so exactly when its body has the declared type. This holds
  for the raw requests as well, whose paths are put together by hand, for identifiers that are single segments.\<close>

theorem calls_conform:
  assumes "segment_opt t" "segment_opt sc" "decision_ok qp"
  shows "list_all (\<lambda>q. qh_enabled q \<longrightarrow> conforms (qh_call q)) (ui_reads t g sc z flt n hours un qp)
    \<and> (truthy t \<and> truthy g \<and> truthy sc \<and> segment x \<and> segment y \<and> segment (tmpl_opt g) \<longrightarrow>
        list_all conforms (ui_plain_calls t sc x y)
        \<and> list_all (\<lambda>(c, T). conforms c = has_type T b) (ui_body_calls t g sc x y b)
        \<and> conforms (mu_fn (useTestPolicy g) domain) \<and> conforms (mu_fn useUpsertPoolMember (x, y, weight, priority)))
    \<and> conforms (login_call email password)"
proof (intro conjI impI)
  show "list_all (\<lambda>q. qh_enabled q \<longrightarrow> conforms (qh_call q)) (ui_reads t g sc z flt n hours un qp)" by (rule reads_conform [OF assms])
  show "conforms (login_call email password)"
    by (simp add: login_call_def typed_paths typed_op_defs conform_defs LoginRequest_def)
next
  assume ids: "truthy t \<and> truthy g \<and> truthy sc \<and> segment x \<and> segment y \<and> segment (tmpl_opt g)"
  then have "segment (tmpl_opt t)" "segment (tmpl_opt sc)" using assms segment_optD by blast+
  then show "list_all conforms (ui_plain_calls t sc x y)" "list_all (\<lambda>(c, T). conforms c = has_type T b) (ui_body_calls t g sc x y b)"
    using ids plain_calls_conform body_calls_conform by blast+
  show "conforms (mu_fn (useTestPolicy g) domain)" "conforms (mu_fn useUpsertPoolMember (x, y, weight, priority))"
    using ids by (simp_all add: useTestPolicy_def useUpsertPoolMember_def raw_ops raw_op_defs conform_defs PolicyTestRequest_def PoolMemberIn_def)
qed

text \<open>A tenant, a group, a scope and two identifiers.\<close>

definition wit_log_params :: query_log_params where
  "wit_log_params = \<lparr>qp_offset = Some 50, qp_decision = Some ''block'', qp_group_id = None, qp_qname = Some ''ads'', qp_client_ip = None,
     qp_qtype = None, qp_matched_category = None, qp_hours = Some 24\<rparr>"

theorem calls_conform_witness:
  "list_all conforms (ui_plain_calls (Some ''t1'') (Some ''s1'') ''a'' ''b'')
   \<and> list_all (\<lambda>q. qh_enabled q \<longrightarrow> conforms (qh_call q)) (ui_reads (Some ''t1'') (Some ''g1'') (Some ''s1'') ''z1'' None 50 24 True wit_log_params)"
proof -
  have ids: "segment_opt (Some ''t1'')" "segment_opt (Some ''s1'')" "decision_ok wit_log_params"
    "truthy (Some ''t1'') \<and> truthy (Some ''g1'') \<and> truthy (Some ''s1'') \<and> segment ''a'' \<and> segment ''b'' \<and> segment (tmpl_opt (Some ''g1''))"
    by (simp_all add: segment_opt_def segment_def decision_ok_def wit_log_params_def truthy_def tmpl_opt_def)
  show ?thesis
    using calls_conform [OF ids(1-3), where g = "Some ''g1''" and z = "''z1''" and flt = None and n = 50 and hours = 24 and un = True
        and x = "''a''" and y = "''b''"] ids(4) by blast
qed

end
