(* ===== verification/GenApi.thy ===== *)
theory GenApi
  imports Json
begin

text \<open>
  \<open>apps/ui/scripts/gen-api.mjs\<close>, which writes \<open>src/api/schema.ts\<close> from the description the control service dumps, or with \<open>--check\<close>
  compares the committed file with it. The dump is a child process: its result is an input. The translation of the
  description to TypeScript (\<open>openapiTS\<close> and \<open>astToString\<close>) is a parameter that may reject a description. An exception ends
  the script with status 1; writing the file is taken to succeed.
\<close>

definition lf :: char where "lf = CHR 0x0A"

definition LICENSE_HEADER :: string where
  "LICENSE_HEADER = js_join [lf]
    [''/*'',
     '' * Copyright (C) 2026 Blue Networks srl <support+github@bluenetworks.it>'',
     '' *'',
     '' * This program is free software: you can redistribute it and/or modify'',
     '' * it under the terms of the GNU Affero General Public License as published by'',
     '' * the Free Software Foundation, either version 3 of the License, or'',
     '' * (at your option) any later version.'',
     '' *'',
     '' * This program is distributed in the hope that it will be useful,'',
     '' * but WITHOUT ANY WARRANTY; without even the implied warranty of'',
     '' * MERCHANTABILITY or FITNESS FOR A PARTICULAR PURPOSE.  See the'',
     '' * GNU Affero General Public License for more details.'',
     '' *'',
     '' * You should have received a copy of the GNU Affero General Public License'',
     '' * along with this program.  If not, see <https://www.gnu.org/licenses/>.'',
     '' */'',
     [],
     ''/**'',
     '' * This file was auto-generated by openapi-typescript.'',
     '' * Do not make direct changes to the file.'',
     '' */'',
     [],
     []]"

record spawn_result =
  sp_status :: "int option"        \<comment> \<open>\<open>null\<close> when the process could not run to its end\<close>
  sp_stderr :: string
  sp_stdout :: string
  sp_error :: "string option"      \<comment> \<open>the message of \<open>error\<close>\<close>

record script_result =
  sr_status :: nat
  sr_out :: "string list"          \<comment> \<open>\<open>console.log\<close>\<close>
  sr_err :: "string list"          \<comment> \<open>what goes to the error stream, thrown messages left out\<close>
  sr_file :: "string option"       \<comment> \<open>\<open>schema.ts\<close>, if it exists\<close>

definition checkMode :: "string list \<Rightarrow> bool" where
  "checkMode argv \<longleftrightarrow> ''--check'' \<in> set argv"

definition python :: "string \<Rightarrow> string" where
  "python platform = (if platform = ''win32'' then ''python'' else ''python3'')"

definition dump_failure :: string where
  "dump_failure = [lf] @ ''Failed to dump the OpenAPI schema from the control plane. Is ''
     @ ''mantis_control installed in an active venv (`pip install -e '' @ [CHR 0x27] @ ''.[dev]'' @ [CHR 0x27] @ ''` '' @ ''in services/control)?''"

definition stale_message :: string where
  "stale_message = ''src/api/schema.ts is out of date with the control plane'' @ [CHR 0x27] @ ''s OpenAPI schema.'' @ [lf]
     @ ''Run `npm run gen:api` (with the control-plane venv active) and commit the result.''"

text \<open>The text generated from the dump; nothing when the dump is no JSON or the translation rejects it.\<close>

definition generated :: "(json \<Rightarrow> string option) \<Rightarrow> spawn_result \<Rightarrow> string option" where
  "generated openapiTS dump = map_option (\<lambda>ast. LICENSE_HEADER @ ast) (Option.bind (json_parse (sp_stdout dump)) openapiTS)"

definition gen_api :: "(json \<Rightarrow> string option) \<Rightarrow> string list \<Rightarrow> spawn_result \<Rightarrow> string option \<Rightarrow> script_result" where
  "gen_api openapiTS argv dump file =
    (if sp_status dump \<noteq> Some 0
     then \<lparr>sr_status = 1, sr_out = [],
       sr_err = (if sp_stderr dump \<noteq> [] then [sp_stderr dump] else []) @ (case sp_error dump of None \<Rightarrow> [] | Some m \<Rightarrow> [m]) @ [dump_failure],
       sr_file = file\<rparr>
     else case generated openapiTS dump of
       None \<Rightarrow> \<lparr>sr_status = 1, sr_out = [], sr_err = [], sr_file = file\<rparr>
     | Some text \<Rightarrow>
         if checkMode argv
         then (case file of
             None \<Rightarrow> \<lparr>sr_status = 1, sr_out = [], sr_err = [], sr_file = file\<rparr>
           | Some current \<Rightarrow>
               if current \<noteq> text then \<lparr>sr_status = 1, sr_out = [], sr_err = [stale_message], sr_file = file\<rparr>
               else \<lparr>sr_status = 0, sr_out = [''src/api/schema.ts is up to date.''], sr_err = [], sr_file = file\<rparr>)
         else \<lparr>sr_status = 0, sr_out = [''Wrote src/api/schema.ts''], sr_err = [], sr_file = Some text\<rparr>)"

section \<open>Properties\<close>

text \<open>A check never writes, and succeeds exactly when the file is what would be generated.\<close>

lemma check_writes_nothing: "checkMode argv \<Longrightarrow> sr_file (gen_api ts argv dump file) = file"
  by (simp add: gen_api_def split: option.split)

lemma check_succeeds_iff:
  "checkMode argv \<Longrightarrow> sr_status (gen_api ts argv dump file) = 0 \<longleftrightarrow> sp_status dump = Some 0 \<and> file \<noteq> None \<and> file = generated ts dump"
  by (auto simp: gen_api_def split: option.splits)

text \<open>A failed run leaves the file; after a successful one the check of the same description passes, whatever was there before.\<close>

lemma failed_run_keeps_file: "sr_status (gen_api ts argv dump file) \<noteq> 0 \<Longrightarrow> sr_file (gen_api ts argv dump file) = file"
  by (simp add: gen_api_def split: option.splits if_splits)

lemma check_after_generate:
  assumes "\<not> checkMode argv" and "sr_status (gen_api ts argv dump file) = 0" and "checkMode argv'"
  shows "sr_status (gen_api ts argv' dump (sr_file (gen_api ts argv dump file))) = 0"
  using assms by (auto simp: check_succeeds_iff) (auto simp: gen_api_def split: option.splits if_splits)

end
