(* ===== verification/Spec2Isabelle.thy ===== *)
theory Spec2Isabelle
  imports Shell PolicyEditor BlockPage Feeds ZoneDetail Widgets DhcpPage Upstream Access Analytics Contracts LateAnswers Conformance GenApi
begin

text \<open>
  This library verifies the management UI of mantis-dns (\<open>apps/ui/src\<close>, TypeScript and React), the script that generates its API
  types (\<open>apps/ui/scripts/gen-api.mjs\<close>), and the parts of the control service the UI relies on: its declared interface, the role
  guards of the endpoints the pages write to, and the limits of the block page.

  \<^bold>\<open>The program.\<close> The browser loads one application. \<open>App.tsx\<close> maps paths to pages; all but the login page sit inside
  \<open>RequireAuth\<close> and the frame of \<open>app/Shell.tsx\<close>. The session is state of \<open>AuthContext.tsx\<close>; a request answered with 401 raises a
  session event that clears it. Pages read and write through the hooks of \<open>api/hooks.ts\<close>, which call the client of
  \<open>api/client.ts\<close> (base address, CSRF header, error text), and turn errors into messages with \<open>api/errors.ts\<close>. Filters of a page
  live in the URL (\<open>useUrlFilters.ts\<close>); a page with unsaved changes raises a flag (\<open>useUnsavedChangesGuard.ts\<close>) that the frame asks about
  before it navigates.

  \<^bold>\<open>How code is represented.\<close> A JavaScript string is the list of its UTF-8 bytes. A thrown value is the left side of a sum. A
  query hook is a record of its key, request, enabled condition and refresh policy; a mutation hook is a record of its request and its
  operations on the query cache. A page is a state record (its \<open>useState\<close> cells, the forms that are mounted, the data
  of its queries, the calls in flight), a datatype of events, a step function from an event and a state to a state and
  the commands issued (notifications, requests, cache operations, navigation, downloads), and a view: a tree of controls that
  carry the events their handlers stand for. \<open>offers\<close> says which events a user can raise on a view, so a disabled or hidden
  control raises none. \<open>page_run\<close> are the runs of a page in which each event is offered by the current view or is an
  answer (of the server, a timer or the browser); answers may come in any order and any number.

  \<^bold>\<open>Foundations.\<close>
  \<^item> \<open>Mantis_Prelude\<close>: string operations, number printing, the shared simp collection \<open>js_simps\<close>.
  \<^item> \<open>JsSort\<close>: the stable sort under a comparator, as the locale \<open>comparator\<close>; grouping into a \<open>Map\<close>.
  \<^item> \<open>Json\<close>: values, printer and parser; parsing inverts printing.
  \<^item> \<open>Formatting\<close>: \<open>format.ts\<close>, \<open>pages/dhcp/helpers.ts\<close>, with ISO dates and rounding of doubles.
  \<^item> \<open>ApiErrors\<close>, \<open>ApiClient\<close>: \<open>api/errors.ts\<close> and \<open>api/client.ts\<close>; both error paths, the CSRF header, what validation errors become.
  \<^item> \<open>Hooks\<close>: \<open>api/hooks.ts\<close>, every hook; each mutation refreshes the queries that show what it changed.
  \<^item> \<open>UrlState\<close>, \<open>UrlText\<close>: search parameters as a list of pairs (locale \<open>search_params\<close>) and as text, and the two hooks above.
  \<^item> \<open>Effects\<close>, \<open>View\<close>: commands, view trees, \<open>offers\<close>, \<open>page_run\<close>, \<open>components/\<close>; the locales \<open>page\<close> (an invariant every
    event keeps holds in every run) and \<open>read_only_page\<close> (no run sends a write).
  \<^item> \<open>Schema\<close>: the response types the pages read, as records.

  \<^bold>\<open>Session and frame.\<close>
  \<^item> \<open>Auth\<close>: \<open>auth/\<close>; the expiry listener (locale \<open>listener_slot\<close>), the session as a step relation, the roles as a linear order.
  \<^item> \<open>Shell\<close>: the route table, navigation entries, sign-out; every route but the login page is guarded.
  \<^item> \<open>Frame\<close>: the whole frame as a page; redirects end (a \<open>while_option\<close> loop shown to return), and no click loses unsaved changes.

  \<^bold>\<open>Pages.\<close>
  \<^item> \<open>PolicyEditor\<close>, \<open>BlockPage\<close>, \<open>PolicyView\<close>: \<open>PolicyPage.tsx\<close>, \<open>DuplicatePolicyModal.tsx\<close>, \<open>BlockPageCard.tsx\<close>. The editor's
    dirty flag is exact in every reachable state; the preview cannot be injected; an accepted logo passes the server's limits.
  \<^item> \<open>Feeds\<close>: \<open>FeedsPage.tsx\<close>; the selection refines a set, rows partition the visible feeds, bulk lines round trip.
  \<^item> \<open>Zones\<close>, \<open>ZoneDetail\<close>: \<open>ZonesPage.tsx\<close>, \<open>ZoneDetailPage.tsx\<close>; what the edit forms send back.
  \<^item> \<open>Logs\<close>: \<open>QueryLogPage.tsx\<close>, \<open>AuditPage.tsx\<close>, two interpretations of the locale \<open>paged\<close>.
  \<^item> \<open>Dashboard\<close>, \<open>Widgets\<close>: \<open>DashboardPage.tsx\<close> and \<open>pages/dashboard\<close>; the stored layout and the drill-down addresses.
  \<^item> \<open>Analytics\<close>: \<open>AnalyticsPage.tsx\<close>; links through two encoders of the locale \<open>url_encoding\<close>.
  \<^item> \<open>Crud\<close>, \<open>Dhcp\<close>, \<open>Dhcp6\<close>, \<open>DhcpPage\<close>, \<open>Upstream\<close>: the add/edit/delete tabs of \<open>pages/dhcp\<close> and \<open>pages/upstream\<close>, described by one
    record of functions each. The locale \<open>edit_form\<close> gives the round trip of an untouched form; it is interpreted for every tab.
  \<^item> \<open>Dialog\<close>, \<open>Users\<close>, \<open>Tenancy\<close>, \<open>Settings\<close>: \<open>UsersPage.tsx\<close>, \<open>TenantsPage.tsx\<close>, \<open>GroupsPage.tsx\<close>, \<open>ClientsPage.tsx\<close>,
    \<open>SettingsPage.tsx\<close>. The locale \<open>guarded_page\<close> bounds the requests a page can send in any run.

  \<^bold>\<open>Across components.\<close>
  \<^item> \<open>Access\<close>: the writes the pages offer against \<open>require_role\<close> of the service; the three places that differ are part of the statement.
  \<^item> \<open>SchemaTypes\<close>, \<open>ApiPaths\<close>, \<open>ApiRoutes\<close>: \<open>api/schema.ts\<close> as data, every component type, operation and path; \<open>has_type\<close> checks a
    value, \<open>conforms\<close> a request. A raw request has its path put together by hand and selects the path template it matches.
  \<^item> \<open>Contracts\<close>: the bodies of the forms have the request types, with the conditions under which they do not.
  \<^item> \<open>Conformance\<close>: every request of the hooks, the dashboard and the login is declared by the schema.
  \<^item> \<open>LateAnswers\<close>: answers that arrive after their dialog was closed.
  \<^item> \<open>GenApi\<close>: \<open>gen-api.mjs\<close>; a check writes nothing and passes exactly on the file a run would write.

  \<^bold>\<open>Parameters.\<close> Code outside the repository is an argument of the definitions that use it. The record \<open>ui_env\<close> holds the clock, the
  time zone, \<open>localeCompare\<close>, the locale-dependent printers, the URL check and the translation function. \<open>lc\<close> is used with the
  hypothesis \<open>comparator lc\<close>; the witnesses take the comparison by code. The client takes the browser's origin, cookie and URL
  resolution. \<open>matches\<close> says which cached queries an invalidation reaches; the hypothesis is that a prefix of a key reaches it.
  \<open>pick\<close> is the choice of the router; the hypothesis is that a path of the table without parameters picks its own element. \<open>shared\<close>
  says whether the router hands two updates in one handler the same parameters; the results hold for both. \<open>openapiTS\<close> is
  the translation of the generator and may fail. The query library runs enabled queries and calls the callbacks of a mutation as
  documented: those of the hook always, those given to \<open>mutate\<close> only for the latest call of a mounted component.

  \<^bold>\<open>Bounds.\<close> No definition uses fuel: the JSON parser is a pair of automata that consume their input, all recursion is
  structural or has a termination proof, and the one loop, \<open>app_loop\<close>, is shown to return. Numbers of the UI are integers or
  quotients by powers of two where the code computes with doubles; JSON numbers keep their text. \<open>trim\<close> and
  \<open>toLowerCase\<close> act on ASCII. The paged logs are modelled for URLs whose \<open>hours\<close> and \<open>offset\<close> are decimal or absent. \<open>Conformance\<close> takes
  identifiers to be single path segments, as the raw requests do not encode them.

  \<^bold>\<open>Not modelled.\<close>
  \<^item> Styling, icons (\<open>categoryIcons.tsx\<close>, \<open>BrandMark.tsx\<close>), the theme, the translation tables and \<open>main.tsx\<close>: no behaviour of their own.
  \<^item> Tests: they call the code and are no part of it.
  \<^item> React, the router, the query, form and component libraries and the browser: third-party, represented by the parameters above
    and by what the steps say of mounting and callbacks.
  \<^item> The control service apart from its interface, its role guards and the block-page limits, the DNS filter, the DHCP daemon, the message
    definitions, integrations, test bench and deployment: other programs. What they answer is an event, so the
    results hold for every answer of the declared shape.
\<close>

end
